(* ===== verification/Prelude.thy ===== *)
theory Prelude
  imports Main
begin

text \<open>
  Shared vocabulary of the development: the theorem collections, the result type of Go code
  that may panic, 64-bit integer arithmetic, and generic lemmas on lists and options.
\<close>

subsection \<open>Theorem collections\<close>

named_theorems go_str \<open>facts on the model of the strings package\<close>
named_theorems hdr_simps \<open>reads after writes of HTTP headers\<close>

subsection \<open>Code that returns or panics\<close>

text \<open>
  \<open>Ret r s\<close> is a call that returned \<open>r\<close> in state \<open>s\<close>; \<open>Panic s\<close> is a call that
  panicked, with the effects it had before in \<open>s\<close>. \<open>deferO\<close> is Go's
  \<^verbatim>\<open>defer\<close> of a call whose results are dropped: it runs after a return and after a panic.
\<close>

datatype ('r, 's) outcome = Ret 'r 's | Panic 's

fun bindO :: "('r, 's) outcome \<Rightarrow> ('r \<Rightarrow> 's \<Rightarrow> ('q, 's) outcome) \<Rightarrow> ('q, 's) outcome" where
  "bindO (Ret r s) f = f r s"
| "bindO (Panic s) f = Panic s"

fun deferO :: "('r, 's) outcome \<Rightarrow> ('s \<Rightarrow> ('q, 's) outcome) \<Rightarrow> ('r, 's) outcome" where
  "deferO (Ret r s) f = (case f s of Ret _ s' \<Rightarrow> Ret r s' | Panic s' \<Rightarrow> Panic s')"
| "deferO (Panic s) f = (case f s of Ret _ s' \<Rightarrow> Panic s' | Panic s' \<Rightarrow> Panic s')"

fun mapO :: "('s \<Rightarrow> 't) \<Rightarrow> ('r, 's) outcome \<Rightarrow> ('r, 't) outcome" where
  "mapO g (Ret r s) = Ret r (g s)"
| "mapO g (Panic s) = Panic (g s)"

fun state_of :: "('r, 's) outcome \<Rightarrow> 's" where
  "state_of (Ret r s) = s"
| "state_of (Panic s) = s"

fun returns :: "('r, 's) outcome \<Rightarrow> bool" where
  "returns (Ret r s) = True"
| "returns (Panic s) = False"

lemma bindO_assoc: "bindO (bindO m f) g = bindO m (\<lambda>r s. bindO (f r s) g)"
  by (cases m) auto

lemma state_of_mapO [simp]: "state_of (mapO g m) = g (state_of m)"
  by (cases m) auto

lemma returns_mapO [simp]: "returns (mapO g m) = returns m"
  by (cases m) auto

lemma returns_iff: "returns m \<longleftrightarrow> (\<exists>r s. m = Ret r s)"
  by (cases m) auto

lemma bindO_Ret_iff:
  "bindO m f = Ret r s \<longleftrightarrow> (\<exists>r' s'. m = Ret r' s' \<and> f r' s' = Ret r s)"
  by (cases m) auto

lemma mapO_mapO [simp]: "mapO g (mapO h m) = mapO (\<lambda>s. g (h s)) m"
  by (cases m) auto

lemma mapO_Ret_iff: "mapO g m = Ret r t \<longleftrightarrow> (\<exists>s. m = Ret r s \<and> t = g s)"
  by (cases m) auto

subsection \<open>64-bit signed integers\<close>

text \<open>
  \<^verbatim>\<open>time.Duration\<close> is an \<open>int64\<close> of nanoseconds. \<open>wrap64\<close> is the two's complement
  wrap-around of its arithmetic; \<open>sat64\<close> is the saturation of \<^verbatim>\<open>time.Time.Sub\<close>.
\<close>

definition min_int64 :: int where
  "min_int64 = - (2 ^ 63)"

definition max_int64 :: int where
  "max_int64 = 2 ^ 63 - 1"

definition wrap64 :: "int \<Rightarrow> int" where
  "wrap64 x = (x + 2 ^ 63) mod 2 ^ 64 - 2 ^ 63"

definition sat64 :: "int \<Rightarrow> int" where
  "sat64 x = max min_int64 (min max_int64 x)"

definition in_int64 :: "int \<Rightarrow> bool" where
  "in_int64 x \<longleftrightarrow> min_int64 \<le> x \<and> x \<le> max_int64"

lemma wrap64_id [simp]: "in_int64 x \<Longrightarrow> wrap64 x = x"
  by (simp add: wrap64_def in_int64_def min_int64_def max_int64_def)

lemma wrap64_range: "in_int64 (wrap64 x)"
  by (simp add: wrap64_def in_int64_def min_int64_def max_int64_def)

lemma sat64_id [simp]: "in_int64 x \<Longrightarrow> sat64 x = x"
  by (simp add: sat64_def in_int64_def)

lemma sat64_mono: "x \<le> y \<Longrightarrow> sat64 x \<le> sat64 y"
  by (auto simp: sat64_def)

lemma sat64_le_iff: "in_int64 b \<Longrightarrow> b < max_int64 \<Longrightarrow> sat64 x > b \<longleftrightarrow> x > b"
  by (auto simp: sat64_def in_int64_def)

text \<open>Integer division of Go truncates towards zero.\<close>

definition quot :: "int \<Rightarrow> int \<Rightarrow> int" where
  "quot a b = sgn a * sgn b * (\<bar>a\<bar> div \<bar>b\<bar>)"

lemma quot_nonneg [simp]: "0 \<le> a \<Longrightarrow> 0 < b \<Longrightarrow> quot a b = a div b"
  by (cases "a = 0") (simp_all add: quot_def)

subsection \<open>Lists\<close>

lemma filter_distinct_map:
  "distinct (map f xs) \<Longrightarrow> distinct (map f (filter P xs))"
  by (induction xs) auto

end
