(* ===== verification/Go_Strings.thy ===== *)
theory Go_Strings
  imports Prelude "HOL-Library.Sublist"
begin

text \<open>
  The functions of Go's \<^verbatim>\<open>strings\<close>, \<^verbatim>\<open>strconv\<close>, \<^verbatim>\<open>path\<close>, \<^verbatim>\<open>encoding/hex\<close> and
  \<^verbatim>\<open>net/textproto\<close> packages that servion calls, on strings as byte lists. White space is
  what \<^verbatim>\<open>unicode.IsSpace\<close> accepts, in its UTF-8 encoding.
\<close>

subsection \<open>White space\<close>

definition byte :: "char \<Rightarrow> nat" where
  "byte c = of_char c"

definition ascii_space :: "char \<Rightarrow> bool" where
  "ascii_space c \<longleftrightarrow> byte c \<in> {9, 10, 11, 12, 13, 32}"

text \<open>
  \<open>space_width s\<close> is the number of bytes of the white-space rune at the head of \<open>s\<close>,
  0 if there is none: U+0085 and U+00A0 take two bytes, U+1680, U+2000 to U+200A, U+2028,
  U+2029, U+202F, U+205F and U+3000 take three. A lead byte of these encodings is never a
  continuation byte, so an occurrence always starts at a rune boundary.
\<close>

definition space2 :: "char \<Rightarrow> char \<Rightarrow> bool" where
  "space2 c d \<longleftrightarrow> byte c = 0xC2 \<and> (byte d = 0x85 \<or> byte d = 0xA0)"

definition space3 :: "char \<Rightarrow> char \<Rightarrow> char \<Rightarrow> bool" where
  "space3 c d e \<longleftrightarrow>
     byte c = 0xE1 \<and> byte d = 0x9A \<and> byte e = 0x80
   \<or> byte c = 0xE2 \<and> byte d = 0x80 \<and>
       (0x80 \<le> byte e \<and> byte e \<le> 0x8A \<or> byte e \<in> {0xA8, 0xA9, 0xAF})
   \<or> byte c = 0xE2 \<and> byte d = 0x81 \<and> byte e = 0x9F
   \<or> byte c = 0xE3 \<and> byte d = 0x80 \<and> byte e = 0x80"

fun space_width :: "string \<Rightarrow> nat" where
  "space_width [] = 0"
| "space_width [c] = (if ascii_space c then 1 else 0)"
| "space_width [c, d] = (if ascii_space c then 1 else if space2 c d then 2 else 0)"
| "space_width (c # d # e # r) =
     (if ascii_space c then 1 else if space2 c d then 2 else if space3 c d e then 3 else 0)"

lemma space_cont: "space2 c d \<Longrightarrow> 0x80 \<le> byte d" "space3 c d e \<Longrightarrow> 0x80 \<le> byte d"
  "space3 c d e \<Longrightarrow> 0x80 \<le> byte e"
  by (auto simp: space2_def space3_def)

lemma space_width_le: "space_width s \<le> length s"
  by (cases s rule: space_width.cases) auto

lemma space_width_ascii: "ascii_space c \<Longrightarrow> space_width (c # r) = 1"
  by (cases "c # r" rule: space_width.cases) auto

lemma space_width_append: "0 < space_width s \<Longrightarrow> space_width (s @ t) = space_width s"
  by (cases s rule: space_width.cases; cases t; cases "tl t") (auto split: if_splits)

text \<open>A byte that is no continuation byte never completes a white-space rune.\<close>

lemma space_width_append_ascii:
  "s \<noteq> [] \<Longrightarrow> byte c < 0x80 \<Longrightarrow> space_width (s @ c # t) = space_width s"
  by (cases s rule: space_width.cases; cases t) (auto dest: space_cont)

fun no_space :: "string \<Rightarrow> bool" where
  "no_space [] = True"
| "no_space (c # r) = (space_width (c # r) = 0 \<and> no_space r)"

lemma no_space_head: "no_space s \<Longrightarrow> space_width s = 0"
  by (cases s) auto

lemma no_space_append: "no_space (s @ t) \<Longrightarrow> no_space s \<and> no_space t"
proof (induction s)
  case Nil
  then show ?case by simp
next
  case (Cons c s)
  then have "space_width ((c # s) @ t) = 0" by simp
  then have "space_width (c # s) = 0"
    using space_width_append [of "c # s" t] by (cases "space_width (c # s)") auto
  with Cons show ?case by simp
qed

lemma no_space_drop: "no_space s \<Longrightarrow> no_space (drop n s)"
  by (metis append_take_drop_id no_space_append)

subsection \<open>strings.TrimSpace\<close>

definition space_suffix :: "string \<Rightarrow> nat" where
  "space_suffix s = (let n = length s in
     if 1 \<le> n \<and> space_width (drop (n - 1) s) = 1 then 1
     else if 2 \<le> n \<and> space_width (drop (n - 2) s) = 2 then 2
     else if 3 \<le> n \<and> space_width (drop (n - 3) s) = 3 then 3 else 0)"

lemma space_suffix_le: "space_suffix s \<le> length s"
  by (auto simp: space_suffix_def Let_def)

lemma drop_space_shorter: "0 < space_width s \<Longrightarrow> length s - space_width s < length s"
  using space_width_le [of s] by linarith

lemma take_space_shorter: "0 < space_suffix s \<Longrightarrow> length s - space_suffix s < length s"
  using space_suffix_le [of s] by linarith

function trim_left :: "string \<Rightarrow> string" where
  "trim_left s = (if space_width s = 0 then s else trim_left (drop (space_width s) s))"
  by pat_completeness auto
termination
  by (relation "measure length") (simp, simp add: drop_space_shorter)

function trim_right :: "string \<Rightarrow> string" where
  "trim_right s = (if space_suffix s = 0 then s
                   else trim_right (take (length s - space_suffix s) s))"
  by pat_completeness auto
termination
  by (relation "measure length") (simp, simp add: take_space_shorter)

declare trim_left.simps [simp del] trim_right.simps [simp del]

definition TrimSpace :: "string \<Rightarrow> string" where
  "TrimSpace s = trim_right (trim_left s)"

lemma trim_left_suffix: "\<exists>p. s = p @ trim_left s"
proof (induction s rule: trim_left.induct)
  case (1 s)
  show ?case
  proof (cases "space_width s = 0")
    case True
    then show ?thesis by (simp add: trim_left.simps)
  next
    case False
    with 1 obtain p where "drop (space_width s) s = p @ trim_left (drop (space_width s) s)"
      by blast
    then have "s = (take (space_width s) s @ p) @ trim_left (drop (space_width s) s)"
      by (metis append.assoc append_take_drop_id)
    with False show ?thesis by (metis trim_left.simps)
  qed
qed

lemma trim_right_prefix: "\<exists>q. s = trim_right s @ q"
proof (induction s rule: trim_right.induct)
  case (1 s)
  let ?t = "take (length s - space_suffix s) s"
  show ?case
  proof (cases "space_suffix s = 0")
    case True
    then show ?thesis by (simp add: trim_right.simps)
  next
    case False
    with 1 obtain q where "?t = trim_right ?t @ q" by blast
    then have "s = trim_right ?t @ q @ drop (length s - space_suffix s) s"
      by (metis append.assoc append_take_drop_id)
    with False show ?thesis by (metis trim_right.simps)
  qed
qed

lemma TrimSpace_infix: "\<exists>p q. s = p @ TrimSpace s @ q"
  unfolding TrimSpace_def using trim_left_suffix [of s] trim_right_prefix [of "trim_left s"]
  by metis

lemma trim_left_head: "space_width (trim_left s) = 0"
  by (induction s rule: trim_left.induct) (subst trim_left.simps, simp)

lemma trim_right_last: "space_suffix (trim_right s) = 0"
  by (induction s rule: trim_right.induct) (subst trim_right.simps, simp)

lemma TrimSpace_head: "space_width (TrimSpace s) = 0"
proof (rule ccontr)
  assume "space_width (TrimSpace s) \<noteq> 0"
  moreover obtain q where "trim_left s = TrimSpace s @ q"
    using trim_right_prefix [of "trim_left s"] by (auto simp: TrimSpace_def)
  ultimately have "space_width (trim_left s) \<noteq> 0"
    using space_width_append [of "TrimSpace s" q] by simp
  then show False by (simp add: trim_left_head)
qed

lemma TrimSpace_last: "space_suffix (TrimSpace s) = 0"
  by (simp add: TrimSpace_def trim_right_last)

lemma TrimSpace_idem [simp]: "TrimSpace (TrimSpace s) = TrimSpace s"
  by (subst (1) TrimSpace_def, subst trim_left.simps)
    (simp add: TrimSpace_head trim_right.simps TrimSpace_last)

lemma no_space_suffix: "no_space s \<Longrightarrow> space_suffix s = 0"
  using no_space_drop no_space_head by (fastforce simp: space_suffix_def Let_def)

lemma TrimSpace_no_space [go_str]: "no_space s \<Longrightarrow> TrimSpace s = s"
  by (simp add: TrimSpace_def trim_left.simps trim_right.simps no_space_head no_space_suffix)

lemma TrimSpace_Nil [simp]: "TrimSpace [] = []"
  by (simp add: TrimSpace_no_space)

lemma TrimSpace_set: "set (TrimSpace s) \<subseteq> set s"
  using TrimSpace_infix [of s] by (metis set_append sup.cobounded1 sup.cobounded2 sup.coboundedI2)

subsection \<open>strings.Fields and strings.FieldsFunc\<close>

function fields_acc :: "string \<Rightarrow> string \<Rightarrow> string list" where
  "fields_acc cur [] = (if cur = [] then [] else [cur])"
| "fields_acc cur (c # r) =
     (let w = space_width (c # r) in
      if w = 0 then fields_acc (cur @ [c]) r
      else (if cur = [] then [] else [cur]) @ fields_acc [] (drop w (c # r)))"
  by pat_completeness auto
termination
  by (relation "measure (\<lambda>(cur, s). length s)") auto

definition Fields :: "string \<Rightarrow> string list" where
  "Fields s = fields_acc [] s"

fun fields_func_acc :: "(char \<Rightarrow> bool) \<Rightarrow> string \<Rightarrow> string \<Rightarrow> string list" where
  "fields_func_acc p cur [] = (if cur = [] then [] else [cur])"
| "fields_func_acc p cur (c # r) =
     (if p c then (if cur = [] then [] else [cur]) @ fields_func_acc p [] r
      else fields_func_acc p (cur @ [c]) r)"

text \<open>\<^verbatim>\<open>strings.FieldsFunc\<close> for a predicate that holds of ASCII runes only.\<close>

definition FieldsFunc :: "(char \<Rightarrow> bool) \<Rightarrow> string \<Rightarrow> string list" where
  "FieldsFunc p s = fields_func_acc p [] s"

text \<open>
  \<open>pending cur r\<close>: no white-space rune starts inside the collected bytes \<open>cur\<close>, even when
  it would end in the rest \<open>r\<close>. It is the invariant of the scanning loop.
\<close>

fun pending :: "string \<Rightarrow> string \<Rightarrow> bool" where
  "pending [] r = True"
| "pending (c # cur) r = (space_width (c # cur @ r) = 0 \<and> pending cur r)"

lemma pending_snoc: "pending cur (c # r) \<Longrightarrow> space_width (c # r) = 0 \<Longrightarrow> pending (cur @ [c]) r"
  by (induction cur) auto

lemma pending_no_space: "pending cur r \<Longrightarrow> no_space cur"
proof (induction cur)
  case (Cons c cur)
  then have "space_width ((c # cur) @ r) = 0" by simp
  then have "space_width (c # cur) = 0"
    using space_width_append [of "c # cur" r] by (cases "space_width (c # cur)") auto
  with Cons show ?case by simp
qed simp

lemma fields_acc_ok:
  "pending cur s \<Longrightarrow> f \<in> set (fields_acc cur s) \<Longrightarrow> f \<noteq> [] \<and> no_space f"
proof (induction cur s rule: fields_acc.induct)
  case (1 cur)
  then show ?case by (auto dest: pending_no_space split: if_splits)
next
  case (2 cur c r)
  then show ?case
    by (auto simp: Let_def dest: pending_no_space pending_snoc split: if_splits)
qed

lemma Fields_ok: "f \<in> set (Fields s) \<Longrightarrow> f \<noteq> [] \<and> no_space f"
  unfolding Fields_def by (rule fields_acc_ok [of "[]"]) auto

lemma ascii_space_blank [simp]: "ascii_space CHR '' ''" "byte CHR '' '' < 128"
  by (simp_all add: ascii_space_def byte_def)

lemma fields_acc_word:
  "no_space a \<Longrightarrow> fields_acc cur (a @ CHR '' '' # t) =
     (if cur @ a = [] then [] else [cur @ a]) @ fields_acc [] t"
proof (induction a arbitrary: cur)
  case Nil
  then show ?case by (simp add: space_width_ascii)
next
  case (Cons c a)
  then have "space_width (c # a @ CHR '' '' # t) = 0"
    using space_width_append_ascii [of "c # a" "CHR '' ''" t] by simp
  with Cons show ?case by simp
qed

lemma fields_acc_last: "no_space a \<Longrightarrow> fields_acc cur a = (if cur @ a = [] then [] else [cur @ a])"
  by (induction a arbitrary: cur) auto

lemma Fields_pair [go_str]:
  "no_space a \<Longrightarrow> no_space b \<Longrightarrow> a \<noteq> [] \<Longrightarrow> b \<noteq> [] \<Longrightarrow> Fields (a @ '' '' @ b) = [a, b]"
  by (simp add: Fields_def fields_acc_word fields_acc_last)

lemma fields_func_acc_ok:
  "list_all (\<lambda>c. \<not> p c) cur \<Longrightarrow> f \<in> set (fields_func_acc p cur s) \<Longrightarrow>
     f \<noteq> [] \<and> list_all (\<lambda>c. \<not> p c) f"
proof (induction s arbitrary: cur)
  case Nil
  then show ?case by (simp split: if_splits)
next
  case (Cons c s)
  show ?case
  proof (cases "p c")
    case True
    with Cons.prems have "cur \<noteq> [] \<and> f = cur \<or> f \<in> set (fields_func_acc p [] s)"
      by (simp split: if_splits)
    with Cons.prems Cons.IH [of "[]"] show ?thesis by auto
  next
    case False
    with Cons.prems Cons.IH [of "cur @ [c]"] show ?thesis by simp
  qed
qed

lemma FieldsFunc_ok:
  "f \<in> set (FieldsFunc p s) \<Longrightarrow> f \<noteq> [] \<and> list_all (\<lambda>c. \<not> p c) f"
  unfolding FieldsFunc_def by (rule fields_func_acc_ok [of _ "[]"]) auto

lemma fields_func_acc_word:
  "list_all (\<lambda>c. \<not> p c) a \<Longrightarrow> p x \<Longrightarrow> fields_func_acc p cur (a @ x # t) =
     (if cur @ a = [] then [] else [cur @ a]) @ fields_func_acc p [] t"
  by (induction a arbitrary: cur) auto

lemma fields_func_acc_last:
  "list_all (\<lambda>c. \<not> p c) a \<Longrightarrow> fields_func_acc p cur a = (if cur @ a = [] then [] else [cur @ a])"
  by (induction a arbitrary: cur) auto

subsection \<open>strings.Split, strings.Join\<close>

text \<open>\<^verbatim>\<open>strings.Split\<close> for a separator of one byte.\<close>

fun Split :: "char \<Rightarrow> string \<Rightarrow> string list" where
  "Split c [] = [[]]"
| "Split c (x # xs) =
     (if x = c then [] # Split c xs
      else (case Split c xs of [] \<Rightarrow> [[x]] | p # ps \<Rightarrow> (x # p) # ps))"

fun Join :: "string list \<Rightarrow> string \<Rightarrow> string" where
  "Join [] sep = []"
| "Join [p] sep = p"
| "Join (p # q # ps) sep = p @ sep @ Join (q # ps) sep"

lemma Split_nonempty [simp]: "Split c s \<noteq> []"
  by (induction s) (auto split: list.splits)

lemma Split_no_sep: "p \<in> set (Split c s) \<Longrightarrow> c \<notin> set p"
  by (induction s arbitrary: p) (auto split: list.splits if_splits)

lemma Split_atom [go_str]: "c \<notin> set p \<Longrightarrow> Split c p = [p]"
  by (induction p) auto

lemma Split_append [go_str]: "c \<notin> set p \<Longrightarrow> Split c (p @ c # t) = p # Split c t"
  by (induction p) auto

lemma Split_Join [go_str]: "ps \<noteq> [] \<Longrightarrow> \<forall>p \<in> set ps. c \<notin> set p \<Longrightarrow> Split c (Join ps [c]) = ps"
  by (induction ps "[c]" rule: Join.induct) (auto simp: Split_atom Split_append)

lemma Join_Split: "Join (Split c s) [c] = s"
proof (induction s)
  case (Cons x s)
  then show ?case by (cases "Split c s"; cases "tl (Split c s)") auto
qed simp

lemma FieldsFunc_Join [go_str]:
  assumes "p CHR '' ''" and "\<forall>w \<in> set ws. w \<noteq> [] \<and> list_all (\<lambda>c. \<not> p c) w"
  shows "FieldsFunc p (Join ws '' '') = ws"
  unfolding FieldsFunc_def using assms
  by (induction ws "'' ''" rule: Join.induct)
    (auto simp: fields_func_acc_last fields_func_acc_word)

text \<open>The non-empty trimmed parts of a split string: the shape of every list parser here.\<close>

definition trimmed_parts :: "char \<Rightarrow> string \<Rightarrow> string list" where
  "trimmed_parts c s = filter (\<lambda>p. p \<noteq> []) (map TrimSpace (Split c s))"

lemma trimmed_parts_ok:
  "p \<in> set (trimmed_parts c s) \<Longrightarrow> p \<noteq> [] \<and> TrimSpace p = p \<and> c \<notin> set p"
  using TrimSpace_set Split_no_sep by (fastforce simp: trimmed_parts_def)

lemma trimmed_parts_Join:
  assumes "\<forall>p \<in> set ps. p \<noteq> [] \<and> TrimSpace p = p \<and> c \<notin> set p"
  shows "trimmed_parts c (Join ps [c]) = ps"
proof (cases "ps = []")
  case True
  then show ?thesis by (simp add: trimmed_parts_def)
next
  case False
  with assms have "Split c (Join ps [c]) = ps" by (simp add: Split_Join)
  moreover from assms have "map TrimSpace ps = ps" by (simp add: map_idI)
  moreover from assms have "filter (\<lambda>p. p \<noteq> []) ps = ps" by (simp add: filter_id_conv)
  ultimately show ?thesis by (simp add: trimmed_parts_def)
qed

subsection \<open>Other functions of the strings and path packages\<close>

abbreviation HasPrefix :: "string \<Rightarrow> string \<Rightarrow> bool" where
  "HasPrefix s p \<equiv> prefix p s"

abbreviation HasSuffix :: "string \<Rightarrow> string \<Rightarrow> bool" where
  "HasSuffix s p \<equiv> suffix p s"

abbreviation Contains :: "string \<Rightarrow> string \<Rightarrow> bool" where
  "Contains s p \<equiv> sublist p s"

definition lower :: "char \<Rightarrow> char" where
  "lower c = (if 65 \<le> byte c \<and> byte c \<le> 90 then char_of (byte c + 32) else c)"

definition upper :: "char \<Rightarrow> char" where
  "upper c = (if 97 \<le> byte c \<and> byte c \<le> 122 then char_of (byte c - 32) else c)"

text \<open>
  \<^verbatim>\<open>strings.EqualFold\<close> against an ASCII text without the letters k and s, the only ASCII
  letters with a simple case folding outside ASCII.
\<close>

definition EqualFold :: "string \<Rightarrow> string \<Rightarrow> bool" where
  "EqualFold s t \<longleftrightarrow> map lower s = map lower t"

text \<open>\<^verbatim>\<open>strings.ReplaceAll\<close> for a non-empty old text: leftmost occurrences, no overlap.\<close>

function ReplaceAll :: "string \<Rightarrow> string \<Rightarrow> string \<Rightarrow> string" where
  "ReplaceAll s old new =
     (if s = [] \<or> old = [] then s
      else if prefix old s then new @ ReplaceAll (drop (length old) s) old new
      else hd s # ReplaceAll (tl s) old new)"
  by pat_completeness auto
termination
  by (relation "measure (\<lambda>(s, old, new). length s)") auto

declare ReplaceAll.simps [simp del]

text \<open>
  \<^verbatim>\<open>path.Ext\<close>: from the last dot of the last path element, scanning backwards to the slash.
\<close>

fun ext_scan :: "string \<Rightarrow> string \<Rightarrow> string" where
  "ext_scan [] acc = []"
| "ext_scan (c # r) acc =
     (if c = CHR ''/'' then [] else if c = CHR ''.'' then c # acc else ext_scan r (c # acc))"

definition Ext :: "string \<Rightarrow> string" where
  "Ext p = ext_scan (rev p) []"

subsection \<open>strconv.Itoa and its inverse on decimal texts\<close>

definition digit :: "nat \<Rightarrow> char" where
  "digit n = char_of (48 + n)"

fun nat_digits :: "nat \<Rightarrow> string" where
  "nat_digits n = (if n < 10 then [digit n] else nat_digits (n div 10) @ [digit (n mod 10)])"

declare nat_digits.simps [simp del]

definition Itoa :: "int \<Rightarrow> string" where
  "Itoa i = (if i < 0 then CHR ''-'' # nat_digits (nat (- i)) else nat_digits (nat i))"

text \<open>
  \<open>parse_nat\<close> reads a text of decimal digits; it is what \<^verbatim>\<open>strconv.ParseInt(s, 10, 64)\<close>
  accepts without a sign, below the 64-bit bound.
\<close>

definition is_digit :: "char \<Rightarrow> bool" where
  "is_digit c \<longleftrightarrow> 48 \<le> byte c \<and> byte c \<le> 57"

definition parse_nat :: "string \<Rightarrow> nat option" where
  "parse_nat s = (if s = [] \<or> \<not> list_all is_digit s then None
                  else Some (foldl (\<lambda>n c. 10 * n + (byte c - 48)) 0 s))"

lemma byte_digit [simp]: "n < 10 \<Longrightarrow> byte (digit n) = 48 + n"
  by (simp add: byte_def digit_def)

lemma nat_digits_nonempty [simp]: "nat_digits n \<noteq> []"
  by (subst nat_digits.simps) simp

lemma nat_digits_digits: "list_all is_digit (nat_digits n)"
proof (induction n rule: nat_digits.induct)
  case (1 n)
  have "is_digit (digit k)" if "k < 10" for k
    using that by (simp add: is_digit_def)
  with 1 show ?case by (subst nat_digits.simps) auto
qed

lemma nat_digits_value: "foldl (\<lambda>n c. 10 * n + (byte c - 48)) 0 (nat_digits n) = n"
proof (induction n rule: nat_digits.induct)
  case (1 n)
  then show ?case by (subst nat_digits.simps) auto
qed

lemma parse_nat_digits: "parse_nat (nat_digits n) = Some n"
  by (simp add: parse_nat_def nat_digits_digits nat_digits_value)

lemma parse_nat_Itoa [simp]: "0 \<le> i \<Longrightarrow> parse_nat (Itoa i) = Some (nat i)"
  by (simp add: Itoa_def parse_nat_digits)

subsection \<open>hex.EncodeToString\<close>

definition hex_digit :: "nat \<Rightarrow> char" where
  "hex_digit n = (if n < 10 then char_of (48 + n) else char_of (87 + n))"

definition hex_byte :: "char \<Rightarrow> string" where
  "hex_byte c = [hex_digit (byte c div 16), hex_digit (byte c mod 16)]"

definition hex_EncodeToString :: "string \<Rightarrow> string" where
  "hex_EncodeToString b = concat (map hex_byte b)"

lemma byte_less [simp]: "byte c < 256"
  by (simp add: byte_def)

lemma byte_inj: "byte c = byte d \<longleftrightarrow> c = d"
  by (simp add: byte_def)

lemma hex_digit_inj: "m < 16 \<Longrightarrow> n < 16 \<Longrightarrow> hex_digit m = hex_digit n \<longleftrightarrow> m = n"
proof -
  assume mn: "m < 16" "n < 16"
  have v: "byte (hex_digit k) = (if k < 10 then 48 + k else 87 + k)" if "k < 16" for k
    using that by (simp add: hex_digit_def byte_def)
  show ?thesis
    unfolding byte_inj [symmetric] v [OF mn(1)] v [OF mn(2)] using mn by auto
qed

lemma hex_byte_inj: "hex_byte c = hex_byte d \<longleftrightarrow> c = d"
proof
  assume "hex_byte c = hex_byte d"
  then have "byte c div 16 = byte d div 16" and "byte c mod 16 = byte d mod 16"
    using byte_less [of c] byte_less [of d] by (auto simp: hex_byte_def hex_digit_inj)
  then have "byte c = byte d" by (metis div_mult_mod_eq)
  then show "c = d" by (simp add: byte_inj)
qed simp

lemma hex_byte_append: "hex_byte x @ s = hex_byte y @ t \<longleftrightarrow> x = y \<and> s = t"
  using hex_byte_inj [of x y] by (simp add: hex_byte_def) blast

lemma hex_length [simp]: "length (hex_EncodeToString b) = 2 * length b"
  by (induction b) (auto simp: hex_EncodeToString_def hex_byte_def)

lemma hex_inj: "hex_EncodeToString a = hex_EncodeToString b \<longleftrightarrow> a = b"
proof
  assume eq: "hex_EncodeToString a = hex_EncodeToString b"
  then have "length a = length b"
    using hex_length [of a] hex_length [of b] by simp
  then show "a = b" using eq
    by (induction a b rule: list_induct2)
      (simp_all add: hex_EncodeToString_def hex_byte_append)
qed simp

end
