(* ===== verification/Go_Errors.thy ===== *)
theory Go_Errors
  imports Go_Strings
begin

text \<open>
  Error values. A sentinel (\<^verbatim>\<open>xerrors.New\<close> in a package variable) is a constructor, since
  Go compares it by identity; \<open>ErrWrap m e\<close> is \<^verbatim>\<open>xerrors.Errorf("m: %w", e)\<close>;
  \<open>ErrJoin\<close> is \<^verbatim>\<open>errors.Join\<close>; every other error is its text.
\<close>

datatype go_error =
    ErrUnauthorized
  | ErrServiceUnavailable
  | ErrRepeatRun
  | EADDRINUSE
  | ErrNotExist
  | ErrText string
  | ErrWrap string go_error
  | ErrJoin "go_error list"

text \<open>\<^verbatim>\<open>errors.Is(err, target)\<close> for a sentinel target.\<close>

fun errors_Is :: "go_error \<Rightarrow> go_error \<Rightarrow> bool" where
  "errors_Is (ErrWrap m e) t = (ErrWrap m e = t \<or> errors_Is e t)"
| "errors_Is (ErrJoin es) t = (ErrJoin es = t \<or> list_ex (\<lambda>e. errors_Is e t) es)"
| "errors_Is e t = (e = t)"

text \<open>
  \<^verbatim>\<open>err.Error()\<close>. The text of \<^verbatim>\<open>cligo.ErrRepeatRun\<close> belongs to \<^verbatim>\<open>cligo\<close> and no code
  reads it; it is left empty.
\<close>

fun Error :: "go_error \<Rightarrow> string" where
  "Error ErrUnauthorized = ''invalid token''"
| "Error ErrServiceUnavailable = ''service unavailable''"
| "Error ErrRepeatRun = []"
| "Error EADDRINUSE = ''address already in use''"
| "Error ErrNotExist = ''file does not exist''"
| "Error (ErrText m) = m"
| "Error (ErrWrap m e) = m @ '': '' @ Error e"
| "Error (ErrJoin es) = Join (map Error es) [CHR 0x0A]"

lemma errors_Is_refl [simp]: "errors_Is e e"
  by (cases e) auto

end
