(* ===== verification/Http_Types.thy ===== *)
theory Http_Types
  imports Go_Errors
begin

text \<open>
  The data of the HTTP layer: headers with their canonical keys, requests and their contexts
  (with the identity of \<^verbatim>\<open>api.go\<close> and the request id of \<^verbatim>\<open>requestid_middleware.go\<close>),
  and the shared state that handlers act on besides the response.
\<close>

subsection \<open>Headers\<close>

text \<open>
  \<^verbatim>\<open>textproto.CanonicalMIMEHeaderKey\<close>: a key with a byte that is no token byte stays as it
  is; otherwise the first letter and every letter after a hyphen is upper case, the others
  are lower case.
\<close>

definition token_byte :: "char \<Rightarrow> bool" where
  "token_byte c \<longleftrightarrow> is_digit c \<or> 65 \<le> byte c \<and> byte c \<le> 90 \<or> 97 \<le> byte c \<and> byte c \<le> 122
     \<or> c \<in> set ''!#$%&*+-.^_|~'' \<or> byte c = 39 \<or> byte c = 96"

fun canon_from :: "bool \<Rightarrow> string \<Rightarrow> string" where
  "canon_from up [] = []"
| "canon_from up (c # r) = (if up then upper c else lower c) # canon_from (c = CHR ''-'') r"

definition CanonicalKey :: "string \<Rightarrow> string" where
  "CanonicalKey k = (if list_all token_byte k then canon_from True k else k)"

type_synonym header = "string \<rightharpoonup> string list"

definition hdr_Get :: "header \<Rightarrow> string \<Rightarrow> string" where
  "hdr_Get h k = (case h (CanonicalKey k) of Some (v # _) \<Rightarrow> v | _ \<Rightarrow> [])"

definition hdr_Set :: "header \<Rightarrow> string \<Rightarrow> string \<Rightarrow> header" where
  "hdr_Set h k v = h(CanonicalKey k \<mapsto> [v])"

definition hdr_Add :: "header \<Rightarrow> string \<Rightarrow> string \<Rightarrow> header" where
  "hdr_Add h k v = h(CanonicalKey k \<mapsto> (case h (CanonicalKey k) of None \<Rightarrow> [] | Some vs \<Rightarrow> vs) @ [v])"

definition hdr_Del :: "header \<Rightarrow> string \<Rightarrow> header" where
  "hdr_Del h k = h(CanonicalKey k := None)"

text \<open>The keys that servion's own code uses, in canonical form.\<close>

lemma canonical_keys [simp, code_unfold]:
  "CanonicalKey ''Content-Encoding'' = ''Content-Encoding''"
  "CanonicalKey ''Content-Length'' = ''Content-Length''"
  "CanonicalKey ''Content-Type'' = ''Content-Type''"
  "CanonicalKey ''Accept-Encoding'' = ''Accept-Encoding''"
  "CanonicalKey ''Vary'' = ''Vary''"
  "CanonicalKey ''X-Content-Type-Options'' = ''X-Content-Type-Options''"
  "CanonicalKey ''WWW-Authenticate'' = ''Www-Authenticate''"
  "CanonicalKey ''Authorization'' = ''Authorization''"
  "CanonicalKey ''Retry-After'' = ''Retry-After''"
  "CanonicalKey ''X-Request-ID'' = ''X-Request-Id''"
  "CanonicalKey ''User-Agent'' = ''User-Agent''"
  "CanonicalKey ''Origin'' = ''Origin''"
  "CanonicalKey ''X-Forwarded-For'' = ''X-Forwarded-For''"
  by code_simp+

lemma canonical_cors_keys [simp, code_unfold]:
  "CanonicalKey ''Access-Control-Allow-Origin'' = ''Access-Control-Allow-Origin''"
  "CanonicalKey ''Access-Control-Allow-Credentials'' = ''Access-Control-Allow-Credentials''"
  "CanonicalKey ''Access-Control-Expose-Headers'' = ''Access-Control-Expose-Headers''"
  "CanonicalKey ''Access-Control-Allow-Methods'' = ''Access-Control-Allow-Methods''"
  "CanonicalKey ''Access-Control-Allow-Headers'' = ''Access-Control-Allow-Headers''"
  "CanonicalKey ''Access-Control-Max-Age'' = ''Access-Control-Max-Age''"
  by code_simp+

lemma hdr_Get_Set [hdr_simps]:
  "hdr_Get (hdr_Set h k v) k' = (if CanonicalKey k' = CanonicalKey k then v else hdr_Get h k')"
  by (simp add: hdr_Get_def hdr_Set_def)

lemma hdr_Get_Del [hdr_simps]:
  "hdr_Get (hdr_Del h k) k' = (if CanonicalKey k' = CanonicalKey k then [] else hdr_Get h k')"
  by (simp add: hdr_Get_def hdr_Del_def)

lemma hdr_Get_Add [hdr_simps]:
  "CanonicalKey k' \<noteq> CanonicalKey k \<Longrightarrow> hdr_Get (hdr_Add h k v) k' = hdr_Get h k'"
  by (simp add: hdr_Get_def hdr_Add_def)

subsection \<open>Identity and request context\<close>

record AuthInfo =
  HashedToken :: string
  Subject :: string
  Scopes :: "string list"
  Roles :: "string list"
  Issuer :: string
  Attributes :: "string \<rightharpoonup> string"

definition empty_AuthInfo :: AuthInfo where
  "empty_AuthInfo = \<lparr>HashedToken = [], Subject = [], Scopes = [], Roles = [], Issuer = [],
     Attributes = Map.empty\<rparr>"

text \<open>
  A context is the chain of its \<^verbatim>\<open>context.WithValue\<close> layers, the newest first. The two key
  types are private to their packages, so no other code can build an equal key.
\<close>

datatype ctx_key = authContextKey | requestIDContextKey

datatype ctx_val = CtxAuth AuthInfo | CtxString string

type_synonym ctx = "(ctx_key \<times> ctx_val) list"

definition ctx_Value :: "ctx \<Rightarrow> ctx_key \<Rightarrow> ctx_val option" where
  "ctx_Value c k = map_of c k"

definition WithValue :: "ctx \<Rightarrow> ctx_key \<Rightarrow> ctx_val \<Rightarrow> ctx" where
  "WithValue c k v = (k, v) # c"

definition AuthFromContext :: "ctx \<Rightarrow> AuthInfo option" where
  "AuthFromContext c = (case ctx_Value c authContextKey of Some (CtxAuth i) \<Rightarrow> Some i | _ \<Rightarrow> None)"

definition ContextWithAuth :: "ctx \<Rightarrow> AuthInfo \<Rightarrow> ctx" where
  "ContextWithAuth c i = WithValue c authContextKey (CtxAuth i)"

definition RequestIDFromContext :: "ctx \<Rightarrow> string option" where
  "RequestIDFromContext c =
     (case ctx_Value c requestIDContextKey of Some (CtxString s) \<Rightarrow> Some s | _ \<Rightarrow> None)"

lemma AuthFromContext_With [simp]:
  "AuthFromContext (ContextWithAuth c i) = Some i"
  "AuthFromContext (WithValue c requestIDContextKey v) = AuthFromContext c"
  by (simp_all add: AuthFromContext_def ContextWithAuth_def ctx_Value_def WithValue_def)

lemma RequestIDFromContext_With [simp]:
  "RequestIDFromContext (WithValue c requestIDContextKey (CtxString s)) = Some s"
  "RequestIDFromContext (ContextWithAuth c i) = RequestIDFromContext c"
  by (simp_all add: RequestIDFromContext_def ContextWithAuth_def ctx_Value_def WithValue_def)

subsection \<open>Requests\<close>

text \<open>The body is the bytes that can be read from it and whether reading ends with an error.\<close>

record request =
  r_Method :: string
  r_Path :: string
  r_RawPath :: string
  r_RawQuery :: string
  r_RemoteAddr :: string
  r_Header :: header
  r_Body :: string
  r_BodyErr :: bool
  r_Ctx :: ctx

definition UserAgent :: "request \<Rightarrow> string" where
  "UserAgent r = hdr_Get (r_Header r) ''User-Agent''"

definition WithContext :: "request \<Rightarrow> ctx \<Rightarrow> request" where
  "WithContext r c = r\<lparr>r_Ctx := c\<rparr>"

subsection \<open>Shared state\<close>

text \<open>
  \<open>w_clock n\<close> is what the \<open>n\<close>-th call of \<^verbatim>\<open>time.Now()\<close> returns, \<open>w_rand n\<close> what the
  \<open>n\<close>-th call of \<^verbatim>\<open>rand.Read\<close> fills in; \<open>w_buckets\<close> is the heap of the rate limiters'
  bucket maps, by the limiter's address. Log calls and Prometheus calls are recorded in the
  order they are made.
\<close>

record rateBucket =
  b_count :: int
  b_lastReset :: int

datatype log_field =
    FStr string string
  | FInt string int
  | FDur string int
  | FBool string bool
  | FStrs string "string list"

datatype log_level = LInfo | LWarn | LError

type_synonym log_entry = "log_level \<times> string \<times> log_field list"

datatype metric_call =
    IncRequests "string list"
  | ObserveDuration "string list" int
  | ObserveSize "string list" int

record world =
  w_clock :: "nat \<Rightarrow> int"
  w_reads :: nat
  w_rand :: "nat \<Rightarrow> string"
  w_rands :: nat
  w_buckets :: "nat \<Rightarrow> (string \<rightharpoonup> rateBucket)"
  w_log :: "log_entry list"
  w_metrics :: "metric_call list"

definition time_Now :: "world \<Rightarrow> int \<times> world" where
  "time_Now w = (w_clock w (w_reads w), w\<lparr>w_reads := Suc (w_reads w)\<rparr>)"

definition rand_Read :: "world \<Rightarrow> string \<times> world" where
  "rand_Read w = (w_rand w (w_rands w), w\<lparr>w_rands := Suc (w_rands w)\<rparr>)"

definition log_write :: "log_level \<Rightarrow> string \<Rightarrow> log_field list \<Rightarrow> world \<Rightarrow> world" where
  "log_write l m fs w = w\<lparr>w_log := w_log w @ [(l, m, fs)]\<rparr>"

definition metric_write :: "metric_call list \<Rightarrow> world \<Rightarrow> world" where
  "metric_write cs w = w\<lparr>w_metrics := w_metrics w @ cs\<rparr>"

definition initial_world :: world where
  "initial_world = \<lparr>w_clock = (\<lambda>_. 0), w_reads = 0, w_rand = (\<lambda>_. replicate 16 CHR 0x00),
     w_rands = 0, w_buckets = (\<lambda>_. Map.empty), w_log = [], w_metrics = []\<rparr>"

end
