(* ===== verification/Response_Writer.thy ===== *)
theory Response_Writer
  imports Http_Types
begin

text \<open>
  Response writers. \<^verbatim>\<open>http.ResponseWriter\<close> is an interface that the middlewares implement by
  wrapping another value of it, so a writer is a tagged union of the implementations: the
  server's own response at the bottom, and the four wrappers of servion
  (\<^verbatim>\<open>gzipWriter\<close> of \<^verbatim>\<open>utils.go\<close>, \<^verbatim>\<open>adaptiveGzipWriter\<close> of
  \<^verbatim>\<open>gzip_middleware.go\<close>, \<^verbatim>\<open>statusWriter\<close> of \<^verbatim>\<open>accesslog_middleware.go\<close>,
  \<^verbatim>\<open>metricsStatusWriter\<close> of \<^verbatim>\<open>metrics_handler.go\<close>). A method call is a recursive
  function over the union: Go's dynamic dispatch.
\<close>

subsection \<open>The server's response\<close>

text \<open>
  \<open>rs_header\<close> is the map the handler edits; \<open>rs_sent_header\<close> and \<open>rs_status\<close> are what the
  first effective \<^verbatim>\<open>WriteHeader\<close> sent; \<open>rs_body\<close> are the bytes \<^verbatim>\<open>Write\<close> accepted;
  \<open>rs_info\<close> are the informational responses. The connection accepts every byte.
\<close>

record resp =
  rs_header :: header
  rs_wrote :: bool
  rs_status :: int
  rs_sent_header :: header
  rs_contentLength :: int
  rs_written :: int
  rs_body :: string
  rs_info :: "int list"

definition new_resp :: resp where
  "new_resp = \<lparr>rs_header = Map.empty, rs_wrote = False, rs_status = 0,
     rs_sent_header = Map.empty, rs_contentLength = -1, rs_written = 0, rs_body = [],
     rs_info = []\<rparr>"

text \<open>
  The value \<^verbatim>\<open>net/http\<close> takes from a Content-Length header: \<^verbatim>\<open>strconv.ParseInt(s, 10, 64)\<close>
  when it succeeds with a value that is not negative.
\<close>

definition parse_length :: "string \<Rightarrow> int option" where
  "parse_length s =
     (let sign = (case s of c # _ \<Rightarrow> if c = CHR ''-'' then -1 else 1 | [] \<Rightarrow> 1);
          ds = (case s of c # r \<Rightarrow> if c = CHR ''-'' \<or> c = CHR ''+'' then r else s | [] \<Rightarrow> [])
      in case parse_nat ds of None \<Rightarrow> None
         | Some n \<Rightarrow> let v = sign * int n in if 0 \<le> v \<and> v \<le> max_int64 then Some v else None)"

definition base_WriteHeader :: "int \<Rightarrow> resp \<Rightarrow> (unit, resp) outcome" where
  "base_WriteHeader code r =
     (if rs_wrote r then Ret () r
      else if code < 100 \<or> 999 < code then Panic r
      else if 100 \<le> code \<and> code \<le> 199 \<and> code \<noteq> 101 then Ret () (r\<lparr>rs_info := rs_info r @ [code]\<rparr>)
      else
        let r1 = r\<lparr>rs_wrote := True, rs_status := code, rs_sent_header := rs_header r\<rparr>;
            cl = hdr_Get (rs_header r) ''Content-Length''
        in if cl = [] then Ret () r1
           else (case parse_length cl of
                   Some v \<Rightarrow> Ret () (r1\<lparr>rs_contentLength := v\<rparr>)
                 | None \<Rightarrow> Ret () (r1\<lparr>rs_header := hdr_Del (rs_header r) ''Content-Length''\<rparr>)))"

definition bodyAllowed :: "int \<Rightarrow> bool" where
  "bodyAllowed code \<longleftrightarrow> \<not> (100 \<le> code \<and> code \<le> 199) \<and> code \<noteq> 204 \<and> code \<noteq> 304"

text \<open>The result of \<^verbatim>\<open>Write\<close> is the byte count and whether the error is not nil.\<close>

definition base_accept :: "string \<Rightarrow> resp \<Rightarrow> (nat \<times> bool, resp) outcome" where
  "base_accept p r =
     (if p = [] then Ret (0, False) r
      else if \<not> bodyAllowed (rs_status r) then Ret (0, True) r
      else let r1 = r\<lparr>rs_written := rs_written r + int (length p)\<rparr> in
        if rs_contentLength r \<noteq> -1 \<and> rs_written r1 > rs_contentLength r then Ret (0, True) r1
        else Ret (length p, False) (r1\<lparr>rs_body := rs_body r @ p\<rparr>))"

definition base_Write :: "string \<Rightarrow> resp \<Rightarrow> (nat \<times> bool, resp) outcome" where
  "base_Write p r =
     (if rs_wrote r then base_accept p r
      else bindO (base_WriteHeader 200 r) (\<lambda>_. base_accept p))"

subsection \<open>The compressor\<close>

text \<open>
  \<^verbatim>\<open>compress/gzip\<close> is a parameter: \<open>gz_emit G l cs p\<close> are the bytes that a gzip writer of
  level \<open>l\<close>, after the chunks \<open>cs\<close>, passes on when it is given \<open>p\<close>, and \<open>gz_final G l cs\<close>
  the bytes that closing it passes on. \<open>gz_read G s\<close> is what a gzip reader makes of a stream:
  \<open>None\<close> when \<^verbatim>\<open>gzip.NewReader\<close> refuses it, otherwise the bytes that can be read and
  whether reading ends with an error.
\<close>

record codec =
  gz_emit :: "int \<Rightarrow> string list \<Rightarrow> string \<Rightarrow> string"
  gz_final :: "int \<Rightarrow> string list \<Rightarrow> string"
  gz_read :: "string \<Rightarrow> (string \<times> bool) option"

definition gz_decode :: "codec \<Rightarrow> string \<Rightarrow> string option" where
  "gz_decode G s = (case gz_read G s of Some (d, False) \<Rightarrow> Some d | _ \<Rightarrow> None)"

text \<open>
  \<open>stored_codec\<close> is a codec for evaluating concrete runs: a marker byte, the data as it is
  and an end byte.
\<close>

definition stored_codec :: codec where
  "stored_codec = \<lparr>gz_emit = (\<lambda>l cs p. (if cs = [] then CHR 0x1F # p else p)),
     gz_final = (\<lambda>l cs. if cs = [] then [CHR 0x1F, CHR 0x03] else [CHR 0x03]),
     gz_read = (\<lambda>s. case s of c # r \<Rightarrow> if c = CHR 0x1F \<and> r \<noteq> [] then Some (butlast r, False) else None
                     | [] \<Rightarrow> None)\<rparr>"

record gzw =
  z_level :: int
  z_chunks :: "string list"
  z_err :: bool
  z_closed :: bool

definition gzip_level_ok :: "int \<Rightarrow> bool" where
  "gzip_level_ok l \<longleftrightarrow> -2 \<le> l \<and> l \<le> 9"

definition gzip_NewWriterLevel :: "int \<Rightarrow> gzw option" where
  "gzip_NewWriterLevel l =
     (if gzip_level_ok l then Some \<lparr>z_level = l, z_chunks = [], z_err = False, z_closed = False\<rparr>
      else None)"

definition gz_Write ::
  "codec \<Rightarrow> (string \<Rightarrow> (nat \<times> bool, 'w) outcome) \<Rightarrow> gzw \<Rightarrow> 'w \<Rightarrow> string
     \<Rightarrow> (nat \<times> bool \<times> gzw, 'w) outcome" where
  "gz_Write G wr z w p =
     (if z_err z then Ret (0, True, z) w
      else let out = gz_emit G (z_level z) (z_chunks z) p;
               z1 = z\<lparr>z_chunks := z_chunks z @ [p]\<rparr>
           in if out = [] then Ret (length p, False, z1) w
              else (case wr out of
                      Ret (n, e) w1 \<Rightarrow> Ret (if e then 0 else length p, e, z1\<lparr>z_err := e\<rparr>) w1
                    | Panic w1 \<Rightarrow> Panic w1))"

definition gz_Close ::
  "codec \<Rightarrow> (string \<Rightarrow> (nat \<times> bool, 'w) outcome) \<Rightarrow> gzw \<Rightarrow> 'w \<Rightarrow> (bool \<times> gzw, 'w) outcome" where
  "gz_Close G wr z w =
     (if z_err z then Ret (True, z) w
      else if z_closed z then Ret (False, z) w
      else let out = gz_final G (z_level z) (z_chunks z); z1 = z\<lparr>z_closed := True\<rparr>
           in if out = [] then Ret (False, z1) w
              else (case wr out of
                      Ret (n, e) w1 \<Rightarrow> Ret (e, z1\<lparr>z_err := e\<rparr>) w1
                    | Panic w1 \<Rightarrow> Panic w1))"

subsection \<open>The union of writers\<close>

record adaptiveGzipWriter =
  aw_level :: int
  aw_minSize :: int
  aw_buf :: string
  aw_size :: int
  aw_gw :: "gzw option"
  aw_started :: bool
  aw_status :: int

record statusWriter =
  sw_status :: int
  sw_written :: int

text \<open>The struct of the metrics middleware has the same fields.\<close>

type_synonym metricsStatusWriter = statusWriter

definition sw_WriteHeader :: "int \<Rightarrow> statusWriter \<Rightarrow> statusWriter" where
  [simp]: "sw_WriteHeader code s = s\<lparr>sw_status := code\<rparr>"

definition sw_Write :: "nat \<Rightarrow> statusWriter \<Rightarrow> statusWriter" where
  [simp]: "sw_Write n s = s\<lparr>sw_written := sw_written s + int n\<rparr>"

definition msw_WriteHeader :: "int \<Rightarrow> metricsStatusWriter \<Rightarrow> metricsStatusWriter" where
  [simp]: "msw_WriteHeader code s = s\<lparr>sw_status := code\<rparr>"

definition msw_Write :: "nat \<Rightarrow> metricsStatusWriter \<Rightarrow> metricsStatusWriter" where
  [simp]: "msw_Write n s = s\<lparr>sw_written := sw_written s + int n\<rparr>"

text \<open>The edit of the headers in \<^verbatim>\<open>gzipWriter.WriteHeader\<close>.\<close>

definition gzipWriter_mark :: "header \<Rightarrow> header" where
  [simp]: "gzipWriter_mark h = hdr_Set (hdr_Del h ''Content-Encoding'') ''Content-Encoding'' ''gzip''"

definition aw_WriteHeader :: "int \<Rightarrow> adaptiveGzipWriter \<Rightarrow> adaptiveGzipWriter" where
  [simp]: "aw_WriteHeader code a = (if aw_status a = 0 then a\<lparr>aw_status := code\<rparr> else a)"

datatype writer =
    BaseW resp
  | GzipHdrW writer
  | AdaptiveW adaptiveGzipWriter writer
  | StatusW statusWriter writer
  | MetricsW metricsStatusWriter writer

primrec wr_Header :: "writer \<Rightarrow> header" where
  "wr_Header (BaseW r) = rs_header r"
| "wr_Header (GzipHdrW w) = wr_Header w"
| "wr_Header (AdaptiveW a w) = wr_Header w"
| "wr_Header (StatusW s w) = wr_Header w"
| "wr_Header (MetricsW s w) = wr_Header w"

text \<open>An edit of the map that \<^verbatim>\<open>Header()\<close> returned.\<close>

primrec wr_editHeader :: "(header \<Rightarrow> header) \<Rightarrow> writer \<Rightarrow> writer" where
  "wr_editHeader f (BaseW r) = BaseW (r\<lparr>rs_header := f (rs_header r)\<rparr>)"
| "wr_editHeader f (GzipHdrW w) = GzipHdrW (wr_editHeader f w)"
| "wr_editHeader f (AdaptiveW a w) = AdaptiveW a (wr_editHeader f w)"
| "wr_editHeader f (StatusW s w) = StatusW s (wr_editHeader f w)"
| "wr_editHeader f (MetricsW s w) = MetricsW s (wr_editHeader f w)"

text \<open>The wrappers around a writer; no method changes them.\<close>

primrec skel :: "writer \<Rightarrow> nat list" where
  "skel (BaseW r) = []"
| "skel (GzipHdrW w) = 1 # skel w"
| "skel (AdaptiveW a w) = 2 # skel w"
| "skel (StatusW s w) = 3 # skel w"
| "skel (MetricsW s w) = 4 # skel w"

lemma skel_editHeader [simp]: "skel (wr_editHeader f w) = skel w"
  by (induction w) auto

function wr_WriteHeader :: "int \<Rightarrow> writer \<Rightarrow> (unit, writer) outcome" where
  "wr_WriteHeader code (BaseW r) = mapO BaseW (base_WriteHeader code r)"
| "wr_WriteHeader code (GzipHdrW w) =
     mapO GzipHdrW (wr_WriteHeader code
       (if code = 200 then wr_editHeader gzipWriter_mark w else w))"
| "wr_WriteHeader code (AdaptiveW a w) = Ret () (AdaptiveW (aw_WriteHeader code a) w)"
| "wr_WriteHeader code (StatusW s w) = mapO (StatusW (sw_WriteHeader code s)) (wr_WriteHeader code w)"
| "wr_WriteHeader code (MetricsW s w) = mapO (MetricsW (msw_WriteHeader code s)) (wr_WriteHeader code w)"
  by pat_completeness auto
termination
  by (relation "measure (\<lambda>(c, w). length (skel w))") auto

lemma skel_WriteHeader [simp]: "skel (state_of (wr_WriteHeader code w)) = skel w"
  by (induction code w rule: wr_WriteHeader.induct) auto

lemma skel_WriteHeader_Ret: "wr_WriteHeader code w = Ret u w1 \<Longrightarrow> skel w1 = skel w"
  using skel_WriteHeader [of code w] by simp

text \<open>
  \<open>startGzip_open\<close> is the first half of \<^verbatim>\<open>startGzip\<close>: the headers, the status line and
  the new compressor; it returns whether the level was refused. The second half passes the
  buffer to the compressor and empties it.
\<close>

definition gzip_headers :: "header \<Rightarrow> header" where
  "gzip_headers h = hdr_Del (hdr_Add (hdr_Set h ''Content-Encoding'' ''gzip'')
                                ''Vary'' ''Accept-Encoding'') ''Content-Length''"

definition aw_begin :: "adaptiveGzipWriter \<Rightarrow> adaptiveGzipWriter" where
  "aw_begin a = a\<lparr>aw_started := True, aw_status := (if aw_status a = 0 then 200 else aw_status a)\<rparr>"

definition startGzip_open ::
  "adaptiveGzipWriter \<Rightarrow> writer \<Rightarrow> (bool, adaptiveGzipWriter \<times> writer) outcome" where
  "startGzip_open a w =
     (case wr_WriteHeader (aw_status (aw_begin a)) (wr_editHeader gzip_headers w) of
        Panic w2 \<Rightarrow> Panic (aw_begin a, w2)
      | Ret _ w2 \<Rightarrow>
          (case gzip_NewWriterLevel (aw_level a) of
             None \<Rightarrow> Ret True (aw_begin a, w2)
           | Some z \<Rightarrow> Ret False ((aw_begin a)\<lparr>aw_gw := Some z\<rparr>, w2)))"

lemma startGzip_open_skel:
  "startGzip_open a w = Ret b (a1, w1) \<Longrightarrow> skel w1 = skel w"
  by (auto simp: startGzip_open_def Let_def dest!: skel_WriteHeader_Ret
      split: outcome.splits option.splits)

definition gw_Write ::
  "codec \<Rightarrow> (string \<Rightarrow> (nat \<times> bool, writer) outcome) \<Rightarrow> adaptiveGzipWriter \<Rightarrow> writer \<Rightarrow> string
     \<Rightarrow> (nat \<times> bool, adaptiveGzipWriter \<times> writer) outcome" where
  "gw_Write G wr a w p =
     (case aw_gw a of
        None \<Rightarrow> Panic (a, w)
      | Some z \<Rightarrow>
          (case gz_Write G wr z w p of
             Ret (n, e, z1) w1 \<Rightarrow> Ret (n, e) (a\<lparr>aw_gw := Some z1\<rparr>, w1)
           | Panic w1 \<Rightarrow> Panic (a, w1)))"

text \<open>\<^verbatim>\<open>io.Copy(w.gw, &w.buf); w.buf.Reset()\<close>: an empty buffer is not written at all.\<close>

definition copy_buf ::
  "codec \<Rightarrow> (string \<Rightarrow> (nat \<times> bool, writer) outcome) \<Rightarrow> adaptiveGzipWriter \<Rightarrow> writer
     \<Rightarrow> (bool, adaptiveGzipWriter \<times> writer) outcome" where
  "copy_buf G wr a w =
     (if aw_buf a = [] then Ret False (a, w)
      else (case gw_Write G wr a w (aw_buf a) of
              Ret (n, e) (a1, w1) \<Rightarrow> Ret e (a1\<lparr>aw_buf := []\<rparr>, w1)
            | Panic (a1, w1) \<Rightarrow> Panic (a1, w1)))"

definition pack_adaptive :: "adaptiveGzipWriter \<times> writer \<Rightarrow> writer" where
  "pack_adaptive = (\<lambda>(a, w). AdaptiveW a w)"

function wr_Write :: "codec \<Rightarrow> writer \<Rightarrow> string \<Rightarrow> (nat \<times> bool, writer) outcome" where
  "wr_Write G (BaseW r) p = mapO BaseW (base_Write p r)"
| "wr_Write G (GzipHdrW w) p = mapO GzipHdrW (wr_Write G w p)"
| "wr_Write G (StatusW s w) p =
     (case wr_Write G w p of
        Ret (n, e) w1 \<Rightarrow> Ret (n, e) (StatusW (sw_Write n s) w1)
      | Panic w1 \<Rightarrow> Panic (StatusW s w1))"
| "wr_Write G (MetricsW s w) p =
     (case wr_Write G w p of
        Ret (n, e) w1 \<Rightarrow> Ret (n, e) (MetricsW (msw_Write n s) w1)
      | Panic w1 \<Rightarrow> Panic (MetricsW s w1))"
| "wr_Write G (AdaptiveW a w) p =
     (let a1 = a\<lparr>aw_size := aw_size a + int (length p)\<rparr> in
      if \<not> aw_started a1 then
        let a2 = a1\<lparr>aw_buf := aw_buf a1 @ p\<rparr> in
        if aw_minSize a2 \<le> int (length (aw_buf a2)) then
          (case startGzip_open a2 w of
             Panic s \<Rightarrow> Panic (pack_adaptive s)
           | Ret True s \<Rightarrow> Ret (0, True) (pack_adaptive s)
           | Ret False (a3, w3) \<Rightarrow>
               (case copy_buf G (wr_Write G w3) a3 w3 of
                  Panic s \<Rightarrow> Panic (pack_adaptive s)
                | Ret e s \<Rightarrow> Ret (if e then 0 else length p, e) (pack_adaptive s)))
        else Ret (length p, False) (AdaptiveW a2 w)
      else mapO pack_adaptive (gw_Write G (wr_Write G w) a1 w p))"
  by pat_completeness auto
termination
  by (relation "measure (\<lambda>(G, w, p). length (skel w))")
    (auto dest: startGzip_open_skel)

declare wr_Write.simps(5) [simp del]

end
