(* ===== verification/Http_Handlers.thy ===== *)
theory Http_Handlers
  imports Response_Writer
begin

text \<open>
  Handlers. A handler acts on the writer it is given and on the shared state, and returns or
  panics. A handler at the end of a middleware chain is a list of calls on its writer; the
  middlewares wrap such handlers. The theory also holds what every handler relies on:
  \<^verbatim>\<open>http.Error\<close>, \<^verbatim>\<open>http.NotFound\<close>, the contract of the two counting writers, and
  the status and body that a list of calls leaves on the server's response.
\<close>

subsection \<open>Calls on a writer\<close>

datatype wop =
    OpSet string string
  | OpAdd string string
  | OpDel string
  | OpWriteHeader int
  | OpWrite string

fun run_op :: "codec \<Rightarrow> wop \<Rightarrow> writer \<Rightarrow> (unit, writer) outcome" where
  "run_op G (OpSet k v) w = Ret () (wr_editHeader (\<lambda>h. hdr_Set h k v) w)"
| "run_op G (OpAdd k v) w = Ret () (wr_editHeader (\<lambda>h. hdr_Add h k v) w)"
| "run_op G (OpDel k) w = Ret () (wr_editHeader (\<lambda>h. hdr_Del h k) w)"
| "run_op G (OpWriteHeader c) w = wr_WriteHeader c w"
| "run_op G (OpWrite p) w = bindO (wr_Write G w p) (\<lambda>_. Ret ())"

fun run_ops :: "codec \<Rightarrow> wop list \<Rightarrow> writer \<Rightarrow> (unit, writer) outcome" where
  "run_ops G [] w = Ret () w"
| "run_ops G (x # xs) w = bindO (run_op G x w) (\<lambda>_. run_ops G xs)"

lemma run_ops_append: "run_ops G (xs @ ys) w = bindO (run_ops G xs w) (\<lambda>_. run_ops G ys)"
proof (induction xs arbitrary: w)
  case (Cons x xs)
  then show ?case by (cases "run_op G x w") auto
qed simp

definition http_Error_ops :: "string \<Rightarrow> int \<Rightarrow> wop list" where
  "http_Error_ops msg code =
     [OpDel ''Content-Length'',
      OpSet ''Content-Type'' ''text/plain; charset=utf-8'',
      OpSet ''X-Content-Type-Options'' ''nosniff'',
      OpWriteHeader code,
      OpWrite (msg @ [CHR 0x0A])]"

definition http_NotFound_ops :: "wop list" where
  "http_NotFound_ops = http_Error_ops ''404 page not found'' 404"

subsection \<open>Handlers\<close>

type_synonym hstate = "writer \<times> world"

type_synonym handler = "request \<Rightarrow> hstate \<Rightarrow> (unit, hstate) outcome"

definition on_writer ::
  "(writer \<Rightarrow> (unit, writer) outcome) \<Rightarrow> hstate \<Rightarrow> (unit, hstate) outcome" where
  "on_writer f s = mapO (\<lambda>w. (w, snd s)) (f (fst s))"

definition ops_handler :: "codec \<Rightarrow> (request \<Rightarrow> world \<Rightarrow> wop list \<times> world) \<Rightarrow> handler" where
  "ops_handler G f r s =
     (let (ops, wd) = f r (snd s) in mapO (\<lambda>w. (w, wd)) (run_ops G ops (fst s)))"

definition http_Error :: "codec \<Rightarrow> string \<Rightarrow> int \<Rightarrow> hstate \<Rightarrow> (unit, hstate) outcome" where
  "http_Error G msg code = on_writer (run_ops G (http_Error_ops msg code))"

definition http_NotFound :: "codec \<Rightarrow> hstate \<Rightarrow> (unit, hstate) outcome" where
  "http_NotFound G = on_writer (run_ops G http_NotFound_ops)"

definition set_header :: "string \<Rightarrow> string \<Rightarrow> hstate \<Rightarrow> hstate" where
  "set_header k v s = (wr_editHeader (\<lambda>h. hdr_Set h k v) (fst s), snd s)"

text \<open>No handler replaces the wrappers of its writer.\<close>

definition keeps_shape :: "handler \<Rightarrow> bool" where
  "keeps_shape h \<longleftrightarrow> (\<forall>r s. skel (fst (state_of (h r s))) = skel (fst s))"

lemma gz_Write_skel:
  "(\<And>q. skel (state_of (wr q)) = skel w) \<Longrightarrow> skel (state_of (gz_Write G wr z w p)) = skel w"
  by (simp add: gz_Write_def Let_def split: outcome.split prod.split) (metis state_of.simps)

lemma gw_Write_skel:
  "(\<And>q. skel (state_of (wr q)) = skel w) \<Longrightarrow> skel (snd (state_of (gw_Write G wr a w p))) = skel w"
  using gz_Write_skel [of wr w G _ p]
  by (simp add: gw_Write_def split: option.split outcome.split prod.split) (metis state_of.simps)

lemma copy_buf_skel:
  "(\<And>q. skel (state_of (wr q)) = skel w) \<Longrightarrow> skel (snd (state_of (copy_buf G wr a w))) = skel w"
  using gw_Write_skel [of wr w G a "aw_buf a"]
  by (simp add: copy_buf_def split: outcome.split prod.split) (metis snd_conv state_of.simps)

lemma startGzip_open_skel_state: "skel (snd (state_of (startGzip_open a w))) = skel w"
proof -
  let ?x = "wr_WriteHeader (aw_status (aw_begin a)) (wr_editHeader gzip_headers w)"
  have h: "skel (state_of ?x) = skel w" by simp
  show ?thesis
  proof (cases ?x)
    case (Ret u w2)
    with h show ?thesis by (simp add: startGzip_open_def split: option.split)
  next
    case (Panic w2)
    with h show ?thesis by (simp add: startGzip_open_def)
  qed
qed

lemma skel_pack [simp]: "skel (pack_adaptive s) = 2 # skel (snd s)"
  by (simp add: pack_adaptive_def split: prod.split)

lemma skel_Write: "skel (state_of (wr_Write G w p)) = skel w"
proof (induction G w p rule: wr_Write.induct)
  case (5 G a w p)
  define a1 where "a1 = a\<lparr>aw_size := aw_size a + int (length p)\<rparr>"
  define a2 where "a2 = a1\<lparr>aw_buf := aw_buf a1 @ p\<rparr>"
  note w5 = wr_Write.simps(5) [of G a w p, unfolded Let_def, folded a1_def, folded a2_def]
  have op: "skel (snd (state_of (startGzip_open a2 w))) = skel w"
    by (rule startGzip_open_skel_state)
  show ?case
  proof (cases "aw_started a1")
    case True
    with 5(2) [OF a1_def] have "skel (snd (state_of (gw_Write G (wr_Write G w) a1 w p))) = skel w"
      by (intro gw_Write_skel) simp
    with True show ?thesis by (simp add: w5)
  next
    case ns: False
    show ?thesis
    proof (cases "aw_minSize a2 \<le> int (length (aw_buf a2))")
      case False
      with ns show ?thesis by (simp add: w5 a2_def)
    next
      case big: True
      have "skel (state_of (wr_Write G w3 q)) = skel w3"
        if "startGzip_open a2 w = Ret False (a3, w3)" for a3 w3 q
        using 5(1) [OF a1_def _ a2_def big that _ refl] ns by simp
      then have "skel (snd (state_of (copy_buf G (wr_Write G w3) a3 w3))) = skel w3"
        if "startGzip_open a2 w = Ret False (a3, w3)" for a3 w3
        using that by (intro copy_buf_skel)
      with ns big op show ?thesis
        by (auto simp: w5 split: outcome.split bool.split prod.split)
    qed
  qed
qed (auto split: outcome.split)

lemma skel_run_op: "skel (state_of (run_op G x w)) = skel w"
proof (cases x)
  case (OpWrite p)
  then show ?thesis using skel_Write [of G w p] by (cases "wr_Write G w p") auto
qed auto

lemma skel_run_ops: "skel (state_of (run_ops G xs w)) = skel w"
proof (induction xs arbitrary: w)
  case (Cons x xs)
  then show ?case using skel_run_op [of G x w] by (cases "run_op G x w") auto
qed simp

lemma on_writer_ops_shape: "skel (fst (state_of (on_writer (run_ops G xs) s))) = skel (fst s)"
  by (simp add: on_writer_def skel_run_ops)

lemma http_Error_shape [simp]: "skel (fst (state_of (http_Error G m c s))) = skel (fst s)"
  by (simp add: http_Error_def on_writer_ops_shape)

lemma http_NotFound_shape [simp]: "skel (fst (state_of (http_NotFound G s))) = skel (fst s)"
  by (simp add: http_NotFound_def on_writer_ops_shape)

lemma set_header_shape [simp]: "skel (fst (set_header k v s)) = skel (fst s)"
  by (simp add: set_header_def)

lemma keeps_shape_ops: "keeps_shape (ops_handler G f)"
  by (simp add: keeps_shape_def ops_handler_def skel_run_ops split: prod.split)

lemma keeps_shapeD: "keeps_shape h \<Longrightarrow> skel (fst (state_of (h r s))) = skel (fst s)"
  by (cases s) (simp add: keeps_shape_def)

subsection \<open>The contract of the counting writers\<close>

text \<open>
  \<^verbatim>\<open>statusWriter\<close> and \<^verbatim>\<open>metricsStatusWriter\<close> promise the same to the middlewares that
  use them: every call goes to the wrapped writer unchanged, the last status passed to
  \<^verbatim>\<open>WriteHeader\<close> is kept, and the accepted bytes are added up.
\<close>

fun last_code :: "wop list \<Rightarrow> int \<Rightarrow> int" where
  "last_code [] d = d"
| "last_code (OpWriteHeader c # xs) d = last_code xs c"
| "last_code (_ # xs) d = last_code xs d"

text \<open>The bytes the calls of a list get accepted by a writer.\<close>

fun accepted :: "codec \<Rightarrow> wop list \<Rightarrow> writer \<Rightarrow> nat" where
  "accepted G [] w = 0"
| "accepted G (OpWrite p # xs) w =
     (case wr_Write G w p of Ret (n, e) w1 \<Rightarrow> n + accepted G xs w1 | Panic w1 \<Rightarrow> 0)"
| "accepted G (x # xs) w =
     (case run_op G x w of Ret _ w1 \<Rightarrow> accepted G xs w1 | Panic w1 \<Rightarrow> 0)"

locale counting_writer =
  fixes wrap :: "statusWriter \<Rightarrow> writer \<Rightarrow> writer"
  assumes edit: "wr_editHeader f (wrap s w) = wrap s (wr_editHeader f w)"
    and write_header: "wr_WriteHeader c (wrap s w) = mapO (wrap (s\<lparr>sw_status := c\<rparr>)) (wr_WriteHeader c w)"
    and write_body: "wr_Write G (wrap s w) p =
      (case wr_Write G w p of
         Ret (n, e) w1 \<Rightarrow> Ret (n, e) (wrap (s\<lparr>sw_written := sw_written s + int n\<rparr>) w1)
       | Panic w1 \<Rightarrow> Panic (wrap s w1))"
begin

lemma run_op_wrap:
  "\<exists>s'. run_op G x (wrap s w) = mapO (wrap s') (run_op G x w) \<and>
      (\<forall>u w1. run_op G x w = Ret u w1 \<longrightarrow> sw_status s' = last_code [x] (sw_status s) \<and>
         sw_written s' = sw_written s + int (accepted G [x] w))"
proof (cases x)
  case (OpWriteHeader c)
  then show ?thesis
    by (intro exI [of _ "s\<lparr>sw_status := c\<rparr>"]) (auto simp: write_header)
next
  case (OpWrite p)
  show ?thesis
  proof (cases "wr_Write G w p")
    case (Ret ne w1)
    with OpWrite show ?thesis
      by (intro exI [of _ "s\<lparr>sw_written := sw_written s + int (fst ne)\<rparr>"])
        (auto simp: write_body split: prod.split)
  next
    case (Panic w1)
    with OpWrite show ?thesis by (intro exI [of _ s]) (auto simp: write_body)
  qed
qed (auto simp: edit intro: exI [of _ s])

lemma run_ops_wrap:
  "\<exists>s'. run_ops G xs (wrap s w) = mapO (wrap s') (run_ops G xs w) \<and>
      (\<forall>u w1. run_ops G xs w = Ret u w1 \<longrightarrow> sw_status s' = last_code xs (sw_status s) \<and>
         sw_written s' = sw_written s + int (accepted G xs w))"
proof (induction xs arbitrary: s w)
  case Nil
  then show ?case by (intro exI [of _ s]) simp
next
  case (Cons x xs)
  obtain t where t: "run_op G x (wrap s w) = mapO (wrap t) (run_op G x w)"
    and tr: "\<forall>u w1. run_op G x w = Ret u w1 \<longrightarrow> sw_status t = last_code [x] (sw_status s) \<and>
         sw_written t = sw_written s + int (accepted G [x] w)"
    using run_op_wrap [of G x s w] by blast
  show ?case
  proof (cases "run_op G x w")
    case (Panic w1)
    with t show ?thesis by (intro exI [of _ t]) simp
  next
    case (Ret u w1)
    obtain s' where s': "run_ops G xs (wrap t w1) = mapO (wrap s') (run_ops G xs w1)"
      and sr: "\<forall>u w2. run_ops G xs w1 = Ret u w2 \<longrightarrow> sw_status s' = last_code xs (sw_status t) \<and>
         sw_written s' = sw_written t + int (accepted G xs w1)"
      using Cons.IH [of t w1] by blast
    have "last_code xs (last_code [x] (sw_status s)) = last_code (x # xs) (sw_status s)"
      by (cases x) auto
    moreover have "accepted G (x # xs) w = accepted G [x] w + accepted G xs w1"
      using Ret by (cases x) (auto split: outcome.splits)
    ultimately show ?thesis
      using Ret t tr s' sr by (intro exI [of _ s']) auto
  qed
qed

end

interpretation status_writer: counting_writer StatusW
  by unfold_locales (auto split: outcome.splits)

interpretation metrics_writer: counting_writer MetricsW
  by unfold_locales (auto split: outcome.splits)

subsection \<open>What a list of calls leaves on the server's response\<close>

definition informational :: "int \<Rightarrow> bool" where
  "informational c \<longleftrightarrow> 100 \<le> c \<and> c \<le> 199 \<and> c \<noteq> 101"

fun sent_status :: "wop list \<Rightarrow> int option" where
  "sent_status [] = None"
| "sent_status (OpWriteHeader c # xs) = (if informational c then sent_status xs else Some c)"
| "sent_status (OpWrite p # xs) = Some 200"
| "sent_status (_ # xs) = sent_status xs"

text \<open>\<^verbatim>\<open>net/http\<close> sends the status 200 when a handler returns without having sent one.\<close>

definition finish :: "resp \<Rightarrow> resp" where
  "finish r = state_of (base_WriteHeader 200 r)"

fun ops_body :: "wop list \<Rightarrow> string" where
  "ops_body [] = []"
| "ops_body (OpWrite p # xs) = p @ ops_body xs"
| "ops_body (_ # xs) = ops_body xs"

lemma base_WriteHeader_wrote [simp]: "rs_wrote r \<Longrightarrow> base_WriteHeader c r = Ret () r"
  by (simp add: base_WriteHeader_def)

lemma base_accept_keeps:
  "rs_wrote (state_of (base_accept p r)) = rs_wrote r"
  "rs_status (state_of (base_accept p r)) = rs_status r"
  "rs_sent_header (state_of (base_accept p r)) = rs_sent_header r"
  by (simp_all add: base_accept_def Let_def)

lemma base_WriteHeader_sends:
  "\<not> rs_wrote r \<Longrightarrow> base_WriteHeader c r = Ret () r1 \<Longrightarrow> \<not> informational c \<Longrightarrow>
     rs_wrote r1 \<and> rs_status r1 = c \<and> rs_sent_header r1 = rs_header r"
  by (auto simp: base_WriteHeader_def informational_def Let_def split: if_splits option.splits)

lemma base_WriteHeader_fresh:
  assumes "\<not> rs_wrote r" and "200 \<le> c" and "c \<le> 999"
  shows "\<exists>r1. base_WriteHeader c r = Ret () r1 \<and> rs_wrote r1 \<and> rs_status r1 = c \<and>
     rs_sent_header r1 = rs_header r \<and> rs_body r1 = rs_body r \<and> rs_written r1 = rs_written r"
  using assms
  by (cases "parse_length (hdr_Get (rs_header r) ''Content-Length'')") (auto simp: base_WriteHeader_def Let_def)

lemma base_WriteHeader_info:
  "base_WriteHeader c r = Ret () r1 \<Longrightarrow> informational c \<Longrightarrow>
     rs_wrote r1 = rs_wrote r \<and> rs_status r1 = rs_status r"
  by (auto simp: base_WriteHeader_def informational_def Let_def split: if_splits option.splits)

lemma run_op_base: "\<exists>r1. state_of (run_op G x (BaseW r)) = BaseW r1"
  using skel_run_op [of G x "BaseW r"] by (cases "state_of (run_op G x (BaseW r))") auto

lemma run_op_base_status:
  assumes "run_op G x (BaseW r) = Ret u (BaseW r1)"
  shows "rs_wrote r \<Longrightarrow> rs_wrote r1 \<and> rs_status r1 = rs_status r"
    and "\<not> rs_wrote r \<Longrightarrow> sent_status [x] = Some c \<Longrightarrow> rs_wrote r1 \<and> rs_status r1 = c"
    and "\<not> rs_wrote r \<Longrightarrow> sent_status [x] = None \<Longrightarrow> \<not> rs_wrote r1 \<and> rs_status r1 = rs_status r"
proof -
  show "rs_wrote r1 \<and> rs_status r1 = rs_status r" if "rs_wrote r"
    using assms that base_accept_keeps [of _ r]
    by (cases x) (auto simp: base_Write_def bindO_Ret_iff mapO_Ret_iff, (metis state_of.simps(1))+)
  show "rs_wrote r1 \<and> rs_status r1 = c" if "\<not> rs_wrote r" "sent_status [x] = Some c"
  proof (cases x)
    case (OpWriteHeader d)
    with that assms base_WriteHeader_sends [of r d r1] show ?thesis
      by (auto simp: mapO_Ret_iff split: if_splits)
  next
    case (OpWrite p)
    with assms that obtain r2 ne where r2: "base_WriteHeader 200 r = Ret () r2"
      and ne: "base_accept p r2 = Ret ne r1"
      by (auto simp: base_Write_def bindO_Ret_iff mapO_Ret_iff)
    have "rs_wrote r2 \<and> rs_status r2 = 200"
      using base_WriteHeader_sends [OF that(1) r2] by (simp add: informational_def)
    with base_accept_keeps [of p r2] ne OpWrite that show ?thesis by simp
  qed (use that in auto)
  show "\<not> rs_wrote r1 \<and> rs_status r1 = rs_status r" if "\<not> rs_wrote r" "sent_status [x] = None"
    using assms that base_WriteHeader_info [of _ r r1]
    by (cases x) (auto simp: mapO_Ret_iff split: if_splits)
qed

lemma run_ops_base_status:
  assumes "run_ops G xs (BaseW r) = Ret u (BaseW r1)"
  shows "if rs_wrote r then rs_wrote r1 \<and> rs_status r1 = rs_status r
         else case sent_status xs of Some c \<Rightarrow> rs_wrote r1 \<and> rs_status r1 = c
            | None \<Rightarrow> \<not> rs_wrote r1"
  using assms
proof (induction xs arbitrary: r)
  case Nil
  then show ?case by simp
next
  case (Cons x xs)
  then obtain w2 where x: "run_op G x (BaseW r) = Ret () w2" and xs: "run_ops G xs w2 = Ret u (BaseW r1)"
    by (auto simp: bindO_Ret_iff)
  obtain r2 where r2: "w2 = BaseW r2" using run_op_base [of G x r] x by auto
  note st = run_op_base_status [OF x [unfolded r2]] and ih = Cons.IH [OF xs [unfolded r2]]
  show ?case
  proof (cases "rs_wrote r")
    case True
    with st(1) ih show ?thesis by simp
  next
    case False
    have split: "sent_status (x # xs) = (case sent_status [x] of Some c \<Rightarrow> Some c | None \<Rightarrow> sent_status xs)"
      by (cases x) auto
    show ?thesis
    proof (cases "sent_status [x]")
      case None
      with False st(3) ih split show ?thesis by simp
    next
      case (Some c)
      with False st(2) ih split show ?thesis by simp
    qed
  qed
qed

subsection \<open>Matching a route pattern against the configured prefixes\<close>

text \<open>
  The loop of every \<^verbatim>\<open>Match\<close> method: whether one of the prefixes is a prefix of the pattern.
\<close>

fun any_prefix :: "string list \<Rightarrow> string \<Rightarrow> bool" where
  "any_prefix [] pattern = False"
| "any_prefix (p # ps) pattern = (if HasPrefix pattern p then True else any_prefix ps pattern)"

lemma any_prefix_iff: "any_prefix ps pattern \<longleftrightarrow> (\<exists>p \<in> set ps. prefix p pattern)"
  by (induction ps) auto

subsection \<open>What a refusal leaves on a fresh response\<close>

definition status_sent :: "(unit, hstate) outcome \<Rightarrow> int option" where
  "status_sent o' = (case fst (state_of o') of BaseW q \<Rightarrow> if rs_wrote q then Some (rs_status q) else None | _ \<Rightarrow> None)"

definition header_sent :: "(unit, hstate) outcome \<Rightarrow> string \<Rightarrow> string" where
  "header_sent o' k = (case fst (state_of o') of BaseW q \<Rightarrow> hdr_Get (rs_sent_header q) k | _ \<Rightarrow> [])"

lemma http_Error_fresh:
  assumes "\<not> rs_wrote q" and "200 \<le> code" and "code \<le> 999" and "bodyAllowed code"
  shows "\<exists>q1. http_Error G msg code (BaseW q, wd) = Ret () (BaseW q1, wd) \<and> rs_wrote q1 \<and>
     rs_status q1 = code \<and>
     rs_sent_header q1 = hdr_Set (hdr_Set (hdr_Del (rs_header q) ''Content-Length'')
       ''Content-Type'' ''text/plain; charset=utf-8'') ''X-Content-Type-Options'' ''nosniff''"
  using assms
  by (auto simp: http_Error_def http_Error_ops_def on_writer_def base_WriteHeader_def base_Write_def
      base_accept_def hdr_simps Let_def)

lemma http_Error_status:
  assumes "\<not> rs_wrote q" and "200 \<le> code" and "code \<le> 999" and "bodyAllowed code"
  shows "status_sent (http_Error G msg code (BaseW q, wd)) = Some code"
    and "snd (state_of (http_Error G msg code (BaseW q, wd))) = wd"
    and "returns (http_Error G msg code (BaseW q, wd))"
  using http_Error_fresh [OF assms, of G msg wd] by (auto simp: status_sent_def)

end
