(* ===== verification/Rate_Limiter.thy ===== *)
theory Rate_Limiter
  imports Http_Handlers
begin

text \<open>
  \<^verbatim>\<open>ratelimit_middleware.go\<close>: the per-client limiter. The buckets of a limiter live in the
  shared state at its address and are only touched under its mutex, so every request and
  every cleaning pass is one atomic step; a history of the limiter is a sequence of such steps.
\<close>

subsection \<open>The limiter\<close>

record implRateLimiterMiddleware =
  rl_beanOrder :: int
  rl_Prefixes :: "string list"
  rl_Limit :: int
  rl_Interval :: int
  rl_ClientIDHeader :: string
  rl_addr :: nat

definition RateLimiterMiddleware :: "int \<Rightarrow> nat \<Rightarrow> implRateLimiterMiddleware" where
  "RateLimiterMiddleware beanOrder addr =
     \<lparr>rl_beanOrder = beanOrder, rl_Prefixes = [''/api''], rl_Limit = 10, rl_Interval = 10 ^ 9,
      rl_ClientIDHeader = ''X-Forwarded-For'', rl_addr = addr\<rparr>"

text \<open>The reset, the limit check and the count of one bucket at the time \<open>now\<close>.\<close>

definition bucket_step :: "int \<Rightarrow> int \<Rightarrow> rateBucket \<Rightarrow> int \<Rightarrow> bool \<times> rateBucket" where
  "bucket_step limit interval b now =
     (let b1 = (if sat64 (now - b_lastReset b) > interval then \<lparr>b_count = 0, b_lastReset = now\<rparr>
                else b)
      in if b_count b1 \<ge> limit then (False, b1) else (True, b1\<lparr>b_count := b_count b1 + 1\<rparr>))"

definition store_bucket :: "nat \<Rightarrow> string \<Rightarrow> rateBucket \<Rightarrow> world \<Rightarrow> world" where
  "store_bucket a cid b wd = wd\<lparr>w_buckets := (w_buckets wd)(a := (w_buckets wd a)(cid \<mapsto> b))\<rparr>"

text \<open>The critical section of \<^verbatim>\<open>Middleware\<close>: whether the request is admitted.\<close>

definition rl_admit :: "implRateLimiterMiddleware \<Rightarrow> string \<Rightarrow> world \<Rightarrow> bool \<times> world" where
  "rl_admit t cid wd =
     (let (bucket, wd1) =
            (case w_buckets wd (rl_addr t) cid of
               Some b \<Rightarrow> (b, wd)
             | None \<Rightarrow> let (t0, wd0) = time_Now wd in (\<lparr>b_count = 0, b_lastReset = t0\<rparr>, wd0));
          (now, wd2) = time_Now wd1;
          (ok, b1) = bucket_step (rl_Limit t) (rl_Interval t) bucket now
      in (ok, store_bucket (rl_addr t) cid b1 wd2))"

definition clientID :: "string \<Rightarrow> string" where
  "clientID xff = TrimSpace (hd (Split CHR '','' xff))"

text \<open>
  \<^verbatim>\<open>int(t.Interval.Seconds())\<close> is the whole seconds of the interval; the detour through
  \<^verbatim>\<open>float64\<close> is exact for every interval below a week.
\<close>

definition retry_after :: "implRateLimiterMiddleware \<Rightarrow> string" where
  "retry_after t = Itoa (quot (rl_Interval t) (10 ^ 9))"

definition rl_Middleware :: "codec \<Rightarrow> implRateLimiterMiddleware \<Rightarrow> handler \<Rightarrow> handler" where
  "rl_Middleware G t nxt r s =
     (if r_Method r = ''OPTIONS'' then nxt r s
      else let xff = hdr_Get (r_Header r) (rl_ClientIDHeader t) in
        if xff = [] then
          nxt r (fst s, log_write LWarn ''RateLimiterMissingXFF''
                   [FStr ''X-Forwarded-For'' (rl_ClientIDHeader t), FStr ''remoteAddr'' (r_RemoteAddr r),
                    FStr ''method'' (r_Method r), FStr ''path'' (r_Path r),
                    FStr ''query'' (r_RawQuery r), FStr ''user-agent'' (UserAgent r)] (snd s))
        else let (ok, wd) = rl_admit t (clientID xff) (snd s) in
          if ok then nxt r (fst s, wd)
          else http_Error G ''rate limit exceeded'' 429
                 (set_header ''Retry-After'' (retry_after t) (fst s, wd)))"

definition rl_Match :: "implRateLimiterMiddleware \<Rightarrow> string \<Rightarrow> bool" where
  "rl_Match t pattern = any_prefix (rl_Prefixes t) pattern"

subsection \<open>The cleaner\<close>

definition expired :: "int \<Rightarrow> int \<Rightarrow> rateBucket \<Rightarrow> bool" where
  "expired interval now b \<longleftrightarrow> sat64 (now - b_lastReset b) > wrap64 (interval * 5)"

definition clean_buckets :: "int \<Rightarrow> int \<Rightarrow> (string \<rightharpoonup> rateBucket) \<Rightarrow> (string \<rightharpoonup> rateBucket)" where
  "clean_buckets interval now m =
     (\<lambda>cid. case m cid of Some b \<Rightarrow> if expired interval now b then None else Some b | None \<Rightarrow> None)"

definition doCleanExpired :: "implRateLimiterMiddleware \<Rightarrow> world \<Rightarrow> world" where
  "doCleanExpired t wd =
     (let (now, wd1) = time_Now wd in
      wd1\<lparr>w_buckets := (w_buckets wd1)(rl_addr t :=
            clean_buckets (rl_Interval t) now (w_buckets wd1 (rl_addr t)))\<rparr>)"

text \<open>
  The loop of the cleaner goroutine over the events its \<^verbatim>\<open>select\<close> receives. It returns when
  the context is done; running out of events leaves it waiting. \<^verbatim>\<open>time.NewTicker\<close> panics
  when its period is not positive.
\<close>

datatype cleaner_event = CtxDone | Tick

datatype cleaner_result = CleanerReturned world | CleanerWaiting world | CleanerPanic world

fun cleaner_select ::
  "implRateLimiterMiddleware \<Rightarrow> cleaner_event list \<Rightarrow> world \<Rightarrow> cleaner_result" where
  "cleaner_select t [] wd = CleanerWaiting wd"
| "cleaner_select t (CtxDone # es) wd = CleanerReturned wd"
| "cleaner_select t (Tick # es) wd = cleaner_select t es (doCleanExpired t wd)"

definition cleanerLoop ::
  "implRateLimiterMiddleware \<Rightarrow> cleaner_event list \<Rightarrow> world \<Rightarrow> cleaner_result" where
  "cleanerLoop t es wd =
     (if wrap64 (rl_Interval t * 10) \<le> 0 then CleanerPanic wd else cleaner_select t es wd)"

text \<open>
  The goroutine's bookkeeping: whether \<^verbatim>\<open>cancel\<close> is set, and the counter of the wait
  group. \<^verbatim>\<open>Destroy\<close> cancels the context and waits for the counter to drop to 0, which it
  does when the cleaner, after some more ticks, takes the branch of its \<^verbatim>\<open>select\<close> that
  returns. \<open>None\<close> is a wait without end.
\<close>

record cleaner_group =
  cg_cancel :: bool
  cg_wg :: nat

definition no_cleaner :: cleaner_group where
  "no_cleaner = \<lparr>cg_cancel = False, cg_wg = 0\<rparr>"

definition rl_PostConstruct :: "cleaner_group \<Rightarrow> cleaner_group" where
  "rl_PostConstruct c = c\<lparr>cg_cancel := True, cg_wg := cg_wg c + 1\<rparr>"

definition rl_Destroy ::
  "implRateLimiterMiddleware \<Rightarrow> nat \<Rightarrow> cleaner_group \<Rightarrow> world \<Rightarrow> (cleaner_group \<times> world) option" where
  "rl_Destroy t ticks c wd =
     (if cg_wg c = 0 then Some (c, wd)
      else if \<not> cg_cancel c then None
      else case cleanerLoop t (replicate ticks Tick @ [CtxDone]) wd of
             CleanerReturned wd1 \<Rightarrow> let c1 = c\<lparr>cg_wg := cg_wg c - 1\<rparr> in if cg_wg c1 = 0 then Some (c1, wd1) else None
           | _ \<Rightarrow> None)"

subsection \<open>The critical section as a function of its clock reads\<close>

text \<open>
  A new client's request reads the clock twice: for the reset time of the new bucket and for
  the decision. A known client's request reads it once, so there both times are equal.
\<close>

definition rl_serve ::
  "int \<Rightarrow> int \<Rightarrow> (string \<rightharpoonup> rateBucket) \<Rightarrow> string \<Rightarrow> int \<Rightarrow> int \<Rightarrow> bool \<times> (string \<rightharpoonup> rateBucket)" where
  "rl_serve limit interval m cid t1 t2 =
     (let b = (case m cid of Some b \<Rightarrow> b | None \<Rightarrow> \<lparr>b_count = 0, b_lastReset = t1\<rparr>);
          (ok, b1) = bucket_step limit interval b t2
      in (ok, m(cid \<mapsto> b1)))"

definition admit_reads :: "implRateLimiterMiddleware \<Rightarrow> string \<Rightarrow> world \<Rightarrow> nat" where
  "admit_reads t cid wd = (if w_buckets wd (rl_addr t) cid = None then 2 else 1)"

definition first_read :: "world \<Rightarrow> int" where
  "first_read wd = w_clock wd (w_reads wd)"

definition last_read :: "implRateLimiterMiddleware \<Rightarrow> string \<Rightarrow> world \<Rightarrow> int" where
  "last_read t cid wd = w_clock wd (w_reads wd + admit_reads t cid wd - 1)"

lemma rl_admit_serve:
  "rl_admit t cid wd =
     (let (ok, m) = rl_serve (rl_Limit t) (rl_Interval t) (w_buckets wd (rl_addr t)) cid
                      (first_read wd) (last_read t cid wd)
      in (ok, wd\<lparr>w_reads := w_reads wd + admit_reads t cid wd,
                 w_buckets := (w_buckets wd)(rl_addr t := m)\<rparr>))"
  by (auto simp: rl_admit_def rl_serve_def time_Now_def store_bucket_def Let_def
      admit_reads_def first_read_def last_read_def split: option.split prod.split)

lemma rl_serve_other: "c \<noteq> cid \<Longrightarrow> snd (rl_serve limit interval m c t1 t2) cid = m cid"
  by (simp add: rl_serve_def Let_def split: prod.split)

subsection \<open>Histories of one limiter\<close>

text \<open>
  The mutex makes every request's critical section and every cleaning pass one atomic step.
  A history is a sequence of such steps in any order, with reads of the clock by other parts
  of the program in between; it yields for every request the client, the first and the last
  read of the clock in its critical section, and whether it was admitted.
\<close>

datatype rl_action = Request string | CleanerTick | ClockReads nat

fun rl_history ::
  "implRateLimiterMiddleware \<Rightarrow> rl_action list \<Rightarrow> world \<Rightarrow> (string \<times> int \<times> int \<times> bool) list" where
  "rl_history t [] wd = []"
| "rl_history t (Request cid # acts) wd =
     (let (ok, wd1) = rl_admit t cid wd
      in (cid, first_read wd, last_read t cid wd, ok) # rl_history t acts wd1)"
| "rl_history t (CleanerTick # acts) wd = rl_history t acts (doCleanExpired t wd)"
| "rl_history t (ClockReads n # acts) wd = rl_history t acts (wd\<lparr>w_reads := w_reads wd + n\<rparr>)"

definition client_history :: "string \<Rightarrow> (string \<times> int \<times> int \<times> bool) list \<Rightarrow> (int \<times> int \<times> bool) list" where
  "client_history cid ds = map snd (filter (\<lambda>d. fst d = cid) ds)"

lemma client_history_simps [simp]:
  "client_history cid [] = []"
  "client_history cid ((c, d) # ds) = (if c = cid then d # client_history cid ds else client_history cid ds)"
  by (simp_all add: client_history_def)

definition admitted_between :: "string \<Rightarrow> int \<Rightarrow> int \<Rightarrow> (string \<times> int \<times> int \<times> bool) list \<Rightarrow> nat" where
  "admitted_between cid a e ds =
     length (filter (\<lambda>(c, t1, t2, ok). c = cid \<and> ok \<and> a \<le> t2 \<and> t2 \<le> e) ds)"

subsection \<open>The specification: one fixed-window counter per client\<close>

text \<open>
  The state of a client's counter is its window, the start and the number of requests
  admitted in it. A request within the interval from the start belongs to the window; a later
  one opens a new window that starts at one of the two clock reads of the request, more than
  the interval after the start of the old window. A request is admitted exactly if its window
  has admitted fewer than the limit before it.
\<close>

inductive fixed_window :: "int \<Rightarrow> int \<Rightarrow> (int \<times> int) option \<Rightarrow> (int \<times> int \<times> bool) list \<Rightarrow> bool"
  for limit interval :: int where
  fw_end: "fixed_window limit interval win []"
| fw_count: "s \<le> t2 \<Longrightarrow> t2 \<le> s + interval \<Longrightarrow> ok = (n < limit) \<Longrightarrow>
    fixed_window limit interval (Some (s, if ok then n + 1 else n)) ds \<Longrightarrow>
    fixed_window limit interval (Some (s, n)) ((t1, t2, ok) # ds)"
| fw_open: "\<forall>s n. win = Some (s, n) \<longrightarrow> s + interval < w \<Longrightarrow> w = t1 \<or> w = t2 \<Longrightarrow>
    w \<le> t2 \<Longrightarrow> t2 \<le> w + interval \<Longrightarrow> ok = (0 < limit) \<Longrightarrow>
    fixed_window limit interval (Some (w, if ok then 1 else 0)) ds \<Longrightarrow>
    fixed_window limit interval win ((t1, t2, ok) # ds)"

subsection \<open>The limiter refines it\<close>

definition sane_interval :: "int \<Rightarrow> bool" where
  "sane_interval interval \<longleftrightarrow> 0 \<le> interval \<and> interval * 5 \<le> max_int64"

lemma sat64_gt_interval: "sane_interval interval \<Longrightarrow> sat64 x > interval \<longleftrightarrow> x > interval"
  by (rule sat64_le_iff) (auto simp: sane_interval_def in_int64_def min_int64_def max_int64_def)

lemma expired_old: "sane_interval interval \<Longrightarrow> expired interval now b \<Longrightarrow> b_lastReset b + interval < now"
  using sat64_gt_interval [of interval "now - b_lastReset b"]
  by (auto simp: sane_interval_def expired_def in_int64_def min_int64_def)

text \<open>
  The window of a client and its bucket at a time: a bucket is its window, and without a
  bucket the window, if there was one, is over.
\<close>

definition window_rel :: "int \<Rightarrow> int \<Rightarrow> rateBucket option \<Rightarrow> (int \<times> int) option \<Rightarrow> bool" where
  "window_rel interval now ob win \<longleftrightarrow>
     (case ob of Some b \<Rightarrow> win = Some (b_lastReset b, b_count b) \<and> b_lastReset b \<le> now
      | None \<Rightarrow> (\<forall>s n. win = Some (s, n) \<longrightarrow> s + interval < now))"

lemma window_rel_later: "window_rel interval now ob win \<Longrightarrow> now \<le> now' \<Longrightarrow> window_rel interval now' ob win"
  by (force simp: window_rel_def split: option.splits)

lemma window_rel_clean:
  assumes "sane_interval interval" and "window_rel interval now (m cid) win" and "now \<le> now'"
  shows "window_rel interval now' (clean_buckets interval now' m cid) win"
  using window_rel_later [OF assms(2,3)] expired_old [OF assms(1), of now']
  by (auto simp: clean_buckets_def window_rel_def split: option.split option.splits)

lemma bucket_step_cases:
  assumes "sane_interval interval"
  shows "bucket_step limit interval b now =
     (if now \<le> b_lastReset b + interval
      then (b_count b < limit, b\<lparr>b_count := if b_count b < limit then b_count b + 1 else b_count b\<rparr>)
      else (0 < limit, \<lparr>b_count = if 0 < limit then 1 else 0, b_lastReset = now\<rparr>))"
  using sat64_gt_interval [OF assms, of "now - b_lastReset b"] by (auto simp: bucket_step_def)

lemma rl_serve_window:
  assumes "sane_interval interval" and "window_rel interval now (m cid) win" and "now \<le> t1" and "t1 \<le> t2"
    and "rl_serve limit interval m cid t1 t2 = (ok, m1)"
  obtains win1 where "window_rel interval t2 (m1 cid) win1"
    and "\<And>ds. fixed_window limit interval win1 ds \<Longrightarrow> fixed_window limit interval win ((t1, t2, ok) # ds)"
proof (cases "m cid")
  case None
  let ?w = "if t2 \<le> t1 + interval then t1 else t2"
  have r: "ok = (0 < limit)" "m1 cid = Some \<lparr>b_count = if ok then 1 else 0, b_lastReset = ?w\<rparr>"
    using assms(5) None by (auto simp: rl_serve_def Let_def bucket_step_cases [OF assms(1)] split: if_splits)
  have "fixed_window limit interval win ((t1, t2, ok) # ds)"
    if "fixed_window limit interval (Some (?w, if ok then 1 else 0)) ds" for ds
    using assms(1-4) None r(1) that
    by (intro fw_open [where w = ?w]) (auto simp: window_rel_def sane_interval_def)
  moreover have "window_rel interval t2 (m1 cid) (Some (?w, if ok then 1 else 0))"
    using r assms(4) by (simp add: window_rel_def)
  ultimately show ?thesis using that by blast
next
  case (Some b)
  with assms(2) have win: "win = Some (b_lastReset b, b_count b)" and le: "b_lastReset b \<le> now"
    by (auto simp: window_rel_def)
  show ?thesis
  proof (cases "t2 \<le> b_lastReset b + interval")
    case True
    let ?n = "if ok then b_count b + 1 else b_count b"
    have r: "ok = (b_count b < limit)" "m1 cid = Some (b\<lparr>b_count := ?n\<rparr>)"
      using assms(5) Some True by (auto simp: rl_serve_def Let_def bucket_step_cases [OF assms(1)] split: if_splits)
    have "fixed_window limit interval win ((t1, t2, ok) # ds)"
      if "fixed_window limit interval (Some (b_lastReset b, ?n)) ds" for ds
      unfolding win using True r(1) le assms(3,4) that by (intro fw_count) auto
    moreover have "window_rel interval t2 (m1 cid) (Some (b_lastReset b, ?n))"
      using r(2) le assms(3,4) by (simp add: window_rel_def)
    ultimately show ?thesis using that by blast
  next
    case False
    let ?n = "if ok then 1 else 0"
    have r: "ok = (0 < limit)" "m1 cid = Some \<lparr>b_count = ?n, b_lastReset = t2\<rparr>"
      using assms(5) Some False by (auto simp: rl_serve_def Let_def bucket_step_cases [OF assms(1)] split: if_splits)
    have "fixed_window limit interval win ((t1, t2, ok) # ds)"
      if "fixed_window limit interval (Some (t2, ?n)) ds" for ds
      unfolding win using False r(1) assms(1) that
      by (intro fw_open [where w = t2]) (auto simp: sane_interval_def)
    moreover have "window_rel interval t2 (m1 cid) (Some (t2, ?n))" by (simp add: window_rel_def r(2))
    ultimately show ?thesis using that by blast
  qed
qed

lemma rl_history_refines:
  assumes "sane_interval (rl_Interval t)" and "mono (w_clock wd)"
    and "window_rel (rl_Interval t) now (w_buckets wd (rl_addr t) cid) win"
    and "now \<le> w_clock wd (w_reads wd)"
  shows "fixed_window (rl_Limit t) (rl_Interval t) win (client_history cid (rl_history t acts wd))"
  using assms(2-4)
proof (induction acts arbitrary: wd now win)
  case Nil
  then show ?case by (simp add: fw_end)
next
  case (Cons act acts)
  have later: "w_clock wd (w_reads wd) \<le> w_clock wd k" if "w_reads wd \<le> k" for k
    using Cons.prems(1) that by (simp add: monoD)
  show ?case
  proof (cases act)
    case (Request c)
    let ?m = "w_buckets wd (rl_addr t)" and ?t1 = "first_read wd" and ?t2 = "last_read t c wd"
    let ?k = "admit_reads t c wd"
    obtain ok m1 where sv: "rl_serve (rl_Limit t) (rl_Interval t) ?m c ?t1 ?t2 = (ok, m1)" by fastforce
    let ?wd = "wd\<lparr>w_reads := w_reads wd + ?k, w_buckets := (w_buckets wd)(rl_addr t := m1)\<rparr>"
    have t: "now \<le> ?t1" "?t1 \<le> ?t2" "?t2 \<le> w_clock ?wd (w_reads ?wd)"
      using Cons.prems(1,3) later by (auto simp: first_read_def last_read_def admit_reads_def intro: monoD)
    have h: "rl_history t (act # acts) wd = (c, ?t1, ?t2, ok) # rl_history t acts ?wd"
      by (simp add: Request rl_admit_serve sv)
    show ?thesis
    proof (cases "c = cid")
      case True
      have wr: "window_rel (rl_Interval t) now (?m c) win" using Cons.prems(2) True by simp
      obtain win1 where w1: "window_rel (rl_Interval t) ?t2 (m1 c) win1"
        and step: "\<And>ds. fixed_window (rl_Limit t) (rl_Interval t) win1 ds \<Longrightarrow>
               fixed_window (rl_Limit t) (rl_Interval t) win ((?t1, ?t2, ok) # ds)"
        using rl_serve_window [OF assms(1) wr t(1,2) sv] by blast
      have "fixed_window (rl_Limit t) (rl_Interval t) win1 (client_history cid (rl_history t acts ?wd))"
        using w1 True t(3) Cons.prems(1) by (intro Cons.IH [of ?wd ?t2]) auto
      with step True show ?thesis unfolding h by simp
    next
      case False
      with rl_serve_other [of c cid] sv have "m1 cid = ?m cid" by (metis snd_conv)
      with False Cons.prems t show ?thesis
        unfolding h using Cons.IH [of ?wd now win] by simp
    qed
  next
    case CleanerTick
    let ?t = "first_read wd"
    let ?wd = "doCleanExpired t wd"
    have "window_rel (rl_Interval t) ?t (w_buckets ?wd (rl_addr t) cid) win"
      using window_rel_clean [where m = "w_buckets wd (rl_addr t)" and cid = cid, OF assms(1) Cons.prems(2), of ?t]
        Cons.prems(3)
      by (simp add: doCleanExpired_def time_Now_def first_read_def)
    moreover have "?t \<le> w_clock ?wd (w_reads ?wd)" and "mono (w_clock ?wd)"
      using later Cons.prems(1) by (simp_all add: doCleanExpired_def time_Now_def first_read_def)
    ultimately show ?thesis using Cons.IH CleanerTick by simp
  next
    case (ClockReads n)
    with Cons.prems later [of "w_reads wd + n"] show ?thesis
      using Cons.IH [of "wd\<lparr>w_reads := w_reads wd + n\<rparr>" now win] by simp
  qed
qed

subsection \<open>How many requests two windows can admit\<close>

definition counted :: "int \<Rightarrow> int \<Rightarrow> (int \<times> int \<times> bool) list \<Rightarrow> nat" where
  "counted a e ds = length (filter (\<lambda>(t1, t2, ok). ok \<and> a \<le> t2 \<and> t2 \<le> e) ds)"

lemma counted_simps [simp]:
  "counted a e [] = 0"
  "counted a e ((t1, t2, ok) # ds) = (if ok \<and> a \<le> t2 \<and> t2 \<le> e then 1 else 0) + counted a e ds"
  by (simp_all add: counted_def)

lemma admitted_counted: "admitted_between cid a e ds = counted a e (client_history cid ds)"
  by (simp add: admitted_between_def counted_def client_history_def filter_map o_def)
    (intro arg_cong [where f = length] filter_cong; auto)

lemma window_after:
  "fixed_window limit interval win ds \<Longrightarrow> 0 \<le> interval \<Longrightarrow> win = Some (s, n) \<Longrightarrow> e < s \<Longrightarrow> counted a e ds = 0"
  by (induction arbitrary: s n rule: fixed_window.induct) auto

lemma window_one:
  "fixed_window limit interval win ds \<Longrightarrow> 0 \<le> interval \<Longrightarrow> win = Some (s, n) \<Longrightarrow> e \<le> s + interval \<Longrightarrow>
     counted a e ds \<le> nat (limit - n)"
proof (induction arbitrary: s n rule: fixed_window.induct)
  case (fw_count s' t2 ok n' ds t1)
  let ?n = "if ok then n' + 1 else n'"
  have "counted a e ds \<le> nat (limit - ?n)"
    using fw_count.prems by (intro fw_count.IH) auto
  with fw_count.hyps(3) fw_count.prems show ?case by auto
next
  case (fw_open win w t1 t2 ok ds)
  then have "counted a e ds = 0" using window_after [of limit interval _ ds w] by auto
  with fw_open show ?case by auto
qed simp

lemma window_two:
  "fixed_window limit interval win ds \<Longrightarrow> 0 \<le> interval \<Longrightarrow> win = Some (s, n) \<Longrightarrow> e \<le> s + 2 * interval \<Longrightarrow>
     counted a e ds \<le> nat (limit - n) + nat limit"
proof (induction arbitrary: s n rule: fixed_window.induct)
  case (fw_count s' t2 ok n' ds t1)
  let ?n = "if ok then n' + 1 else n'"
  have "counted a e ds \<le> nat (limit - ?n) + nat limit"
    using fw_count.prems by (intro fw_count.IH) auto
  with fw_count.hyps(3) fw_count.prems show ?case by auto
next
  case (fw_open win w t1 t2 ok ds)
  let ?n = "if ok then 1 else 0"
  have "counted a e ds \<le> nat (limit - ?n)"
    using fw_open by (intro window_one [OF fw_open.hyps(6)]) auto
  with fw_open.hyps(5) show ?case by auto
qed simp

lemma window_any:
  "fixed_window limit interval win ds \<Longrightarrow> 0 \<le> interval \<Longrightarrow> \<forall>s n. win = Some (s, n) \<longrightarrow> 0 \<le> n \<Longrightarrow>
     counted a (a + interval) ds \<le> 2 * nat limit"
proof (induction rule: fixed_window.induct)
  case (fw_count s t2 ok n ds t1)
  show ?case
  proof (cases "t2 < a")
    case False
    have "counted a (a + interval) ((t1, t2, ok) # ds) \<le> nat (limit - n) + nat limit"
      using fw_count.hyps fw_count.prems False
      by (intro window_two [OF fixed_window.fw_count [OF fw_count.hyps]]) auto
    with fw_count.prems show ?thesis by auto
  qed (use fw_count in auto)
next
  case (fw_open win w t1 t2 ok ds)
  show ?case
  proof (cases "t2 < a")
    case False
    let ?n = "if ok then 1 else 0"
    have "counted a (a + interval) ds \<le> nat (limit - ?n) + nat limit"
      using fw_open False by (intro window_two [OF fw_open.hyps(6)]) auto
    with fw_open.hyps(5) show ?thesis by auto
  qed (use fw_open in auto)
qed simp

subsection \<open>Properties\<close>

text \<open>
  C1. In every history of a new limiter, with all clients in one shared map, the cleaner
  running at any times in between and any other reads of a clock that never runs backwards,
  the requests of a client are decided as by a fixed-window counter of that client alone:
  clients do not disturb each other, and the cleaner can only influence at which of its two
  clock reads the request that opens a window starts it. (The times are those of the code,
  which reads the clock twice for a client without a bucket and once otherwise.)
\<close>

theorem limiter_refines_client_counters:
  assumes "sane_interval (rl_Interval t)" and "mono (w_clock wd)"
    and "w_buckets wd (rl_addr t) = Map.empty"
  shows "fixed_window (rl_Limit t) (rl_Interval t) None (client_history cid (rl_history t acts wd))"
  using assms
  by (intro rl_history_refines [where now = "w_clock wd (w_reads wd)"]) (simp_all add: window_rel_def)

text \<open>
  The shortest case where the two reads differ: the limit 1, the interval 10, and a new client
  whose request reads the times 0 and 1.
\<close>

definition two_reads_world :: world where
  "two_reads_world = initial_world\<lparr>w_clock := (\<lambda>k. if k = 0 then 0 else if k = 1 then 1 else 11)\<rparr>"

definition one_per_ten :: implRateLimiterMiddleware where
  "one_per_ten = (RateLimiterMiddleware 1 0)\<lparr>rl_Limit := 1, rl_Interval := 10\<rparr>"

lemma two_reads:
  "sane_interval (rl_Interval one_per_ten)"
  "mono (w_clock two_reads_world)"
  "w_buckets two_reads_world (rl_addr one_per_ten) = Map.empty"
  by (auto simp: sane_interval_def max_int64_def one_per_ten_def RateLimiterMiddleware_def
      two_reads_world_def initial_world_def mono_def)

lemma two_reads_history:
  "rl_history one_per_ten [Request ''c'', Request ''c''] two_reads_world =
     [(''c'', 0, 1, True), (''c'', 11, 11, True)]"
  by code_simp

theorem limiter_refines_client_counters_witness:
  "fixed_window 1 10 None [(0, 1, True), (11, 11, True)]"
  using limiter_refines_client_counters [OF two_reads, of "''c''" "[Request ''c'', Request ''c'']"]
  unfolding two_reads_history by (simp add: one_per_ten_def RateLimiterMiddleware_def)

text \<open>
  C12. In every history of a new limiter, with cleaning passes anywhere, no stretch of time as
  long as the interval sees more than twice the limit admitted requests of a client. The
  documentation promises a sliding window, which would admit the limit only;
  \<open>limiter_bound_reached\<close> shows that the code admits twice the limit.
\<close>

theorem limiter_window_bound:
  assumes "sane_interval (rl_Interval t)" and "mono (w_clock wd)"
    and "w_buckets wd (rl_addr t) = Map.empty"
  shows "admitted_between cid a (a + rl_Interval t) (rl_history t acts wd) \<le> 2 * nat (rl_Limit t)"
proof -
  have "fixed_window (rl_Limit t) (rl_Interval t) None (client_history cid (rl_history t acts wd))"
    using assms
    by (intro rl_history_refines [where now = "w_clock wd (w_reads wd)"]) (simp_all add: window_rel_def)
  then show ?thesis
    using assms(1) by (simp add: admitted_counted window_any sane_interval_def)
qed

theorem limiter_window_bound_witness:
  "admitted_between ''c'' 1 11 [(''c'', 0, 1, True), (''c'', 11, 11, True)] \<le> 2"
  using limiter_window_bound [OF two_reads, of "''c''" 1 "[Request ''c'', Request ''c'']"]
  unfolding two_reads_history by (simp add: one_per_ten_def RateLimiterMiddleware_def)

text \<open>
  The bound is reached with the default configuration of 10 requests per second: 20 requests
  of a client pass within one second, 19 of them within one nanosecond around the end of a
  window. The limiter is a fixed window, not the sliding window that its comment names.
\<close>

definition boundary_world :: world where
  "boundary_world = initial_world\<lparr>w_clock :=
     (\<lambda>k. if k \<le> 1 then int k else if k \<le> 10 then 10 ^ 9 else 10 ^ 9 + 1)\<rparr>"

theorem limiter_bound_reached:
  "admitted_between ''c'' 1 (1 + 10 ^ 9)
     (rl_history (RateLimiterMiddleware 1 0) (replicate 20 (Request ''c'')) boundary_world) = 20"
  "admitted_between ''c'' (10 ^ 9) (10 ^ 9 + 1)
     (rl_history (RateLimiterMiddleware 1 0) (replicate 20 (Request ''c'')) boundary_world) = 19"
  by code_simp+

lemma refuse_limit:
  assumes "\<not> rs_wrote q"
  shows "snd (state_of (http_Error G msg 429 (set_header ''Retry-After'' v (BaseW q, wd)))) = wd"
    and "status_sent (http_Error G msg 429 (set_header ''Retry-After'' v (BaseW q, wd))) = Some 429"
    and "header_sent (http_Error G msg 429 (set_header ''Retry-After'' v (BaseW q, wd))) ''Retry-After'' = v"
  using http_Error_fresh [of "q\<lparr>rs_header := hdr_Set (rs_header q) ''Retry-After'' v\<rparr>" 429 G msg wd] assms
  by (auto simp: set_header_def status_sent_def header_sent_def hdr_simps bodyAllowed_def)

definition sample_request :: request where
  "sample_request = \<lparr>r_Method = ''GET'', r_Path = ''/api/x'', r_RawPath = [], r_RawQuery = [],
     r_RemoteAddr = ''10.0.0.1:5'', r_Header = [''X-Forwarded-For'' \<mapsto> [''1.2.3.4, 10.0.0.1'']],
     r_Body = [], r_BodyErr = False, r_Ctx = []\<rparr>"



lemma cleaner_select_run:
  "cleaner_select t (replicate n Tick @ CtxDone # es) wd = CleanerReturned (((doCleanExpired t) ^^ n) wd)"
  by (induction n arbitrary: wd) (simp_all add: funpow_swap1)

lemma doCleanExpired_shrinks:
  "w_buckets (doCleanExpired t wd) a cid = Some b \<Longrightarrow> w_buckets wd a cid = Some b"
  by (auto simp: doCleanExpired_def time_Now_def clean_buckets_def Let_def
      split: if_splits option.splits)

lemma cleaning_shrinks:
  "w_buckets (((doCleanExpired t) ^^ n) wd) a cid = Some b \<Longrightarrow> w_buckets wd a cid = Some b"
  by (induction n) (auto dest: doCleanExpired_shrinks)

text \<open>
  C31. The cleaner goroutine of a limiter whose interval is positive never panics and never
  outlives it: \<^verbatim>\<open>Destroy\<close> returns however many ticks the cleaner still takes, no cleaner is
  left, and the cleaner has only removed buckets, never added or changed one.
\<close>

theorem limiter_destroy_returns:
  assumes "0 < rl_Interval t" and "rl_Interval t * 10 \<le> max_int64"
  shows "\<exists>c wd'. rl_Destroy t ticks (rl_PostConstruct no_cleaner) wd = Some (c, wd') \<and> cg_wg c = 0 \<and>
           (\<forall>a. w_buckets wd' a \<subseteq>\<^sub>m w_buckets wd a)"
proof -
  have "wrap64 (rl_Interval t * 10) = rl_Interval t * 10"
    using assms by (intro wrap64_id) (simp add: in_int64_def min_int64_def)
  moreover have "w_buckets ((doCleanExpired t ^^ ticks) wd) a \<subseteq>\<^sub>m w_buckets wd a" for a
    using cleaning_shrinks [of ticks t wd a] by (auto simp: map_le_def)
  ultimately show ?thesis
    using assms by (simp add: rl_Destroy_def rl_PostConstruct_def no_cleaner_def cleanerLoop_def cleaner_select_run)
qed

theorem limiter_destroy_returns_witness:
  "0 < rl_Interval (RateLimiterMiddleware 1 0) \<and>
   rl_Destroy (RateLimiterMiddleware 1 0) 2 (rl_PostConstruct no_cleaner) initial_world \<noteq> None"
proof -
  have h: "0 < rl_Interval (RateLimiterMiddleware 1 0)" "rl_Interval (RateLimiterMiddleware 1 0) * 10 \<le> max_int64"
    by (simp_all add: RateLimiterMiddleware_def max_int64_def)
  show ?thesis
    using h(1) limiter_destroy_returns [OF h, of 2 initial_world] by auto
qed

text \<open>
  A limiter configured with the interval 0 crashes: its cleaner goroutine panics when it
  creates its ticker, whatever happens afterwards.
\<close>

theorem cleanerLoop_zero_interval_panics:
  "cleanerLoop (t\<lparr>rl_Interval := 0\<rparr>) es wd = CleanerPanic wd"
  by (simp add: cleanerLoop_def in_int64_def min_int64_def max_int64_def)

end
