(* ===== verification/Gzip_Middleware.thy ===== *)
theory Gzip_Middleware
  imports Http_Handlers
begin

text \<open>
  \<^verbatim>\<open>gzip_middleware.go\<close>: decompression of request bodies and adaptive compression of
  responses. The methods of \<^verbatim>\<open>adaptiveGzipWriter\<close> that every writer has are in
  \<open>Response_Writer\<close>; here are its \<^verbatim>\<open>Close\<close>, the middleware, and the proof that a client
  that decompresses gets the bytes that the handler wrote.
\<close>

subsection \<open>The middleware\<close>

record implGzipMiddleware =
  gm_beanOrder :: int
  gm_Level :: int
  gm_Threshold :: int
  gm_SkipPrefixes :: "string list"

definition GzipMiddleware :: "int \<Rightarrow> implGzipMiddleware" where
  "GzipMiddleware beanOrder = \<lparr>gm_beanOrder = beanOrder, gm_Level = 1, gm_Threshold = 1024,
     gm_SkipPrefixes = [''/images'', ''/videos'', ''/ws'']\<rparr>"

definition acceptsGzip :: "request \<Rightarrow> bool" where
  "acceptsGzip r = list_ex (\<lambda>v. TrimSpace v = ''gzip'')
     (Split CHR '','' (hdr_Get (r_Header r) ''Accept-Encoding''))"

definition isGzippedRequest :: "request \<Rightarrow> bool" where
  "isGzippedRequest r = Contains (hdr_Get (r_Header r) ''Content-Encoding'') ''gzip''"

definition decompressRequest :: "codec \<Rightarrow> request \<Rightarrow> request option" where
  "decompressRequest G r =
     (case gz_read G (r_Body r) of
        None \<Rightarrow> None
      | Some (d, e) \<Rightarrow>
          Some (r\<lparr>r_Body := d, r_BodyErr := e \<or> r_BodyErr r,
                  r_Header := hdr_Del (hdr_Del (r_Header r) ''Content-Encoding'') ''Content-Length''\<rparr>))"

definition new_adaptive :: "implGzipMiddleware \<Rightarrow> adaptiveGzipWriter" where
  "new_adaptive t = \<lparr>aw_level = gm_Level t, aw_minSize = gm_Threshold t, aw_buf = [], aw_size = 0,
     aw_gw = None, aw_started = False, aw_status = 0\<rparr>"

definition default_status :: "adaptiveGzipWriter \<Rightarrow> adaptiveGzipWriter" where
  "default_status a = (if aw_status a = 0 then a\<lparr>aw_status := 200\<rparr> else a)"

text \<open>
  \<^verbatim>\<open>io.Copy(w, &aw.buf)\<close> writes a buffer that is not empty once and keeps what was not
  written; a failed write leaves the rest for \<^verbatim>\<open>Close\<close>.
\<close>

definition send_small :: "codec \<Rightarrow> adaptiveGzipWriter \<Rightarrow> writer \<Rightarrow> (unit, writer) outcome" where
  "send_small G a w =
     (let a1 = default_status a;
          w1 = wr_editHeader (\<lambda>h. hdr_Set h ''Content-Length'' (Itoa (int (length (aw_buf a1))))) w
      in case wr_WriteHeader (aw_status a1) w1 of
           Panic w2 \<Rightarrow> Panic (AdaptiveW a1 w2)
         | Ret _ w2 \<Rightarrow>
             if aw_buf a1 = [] then Ret () (AdaptiveW a1 w2)
             else (case wr_Write G w2 (aw_buf a1) of
                     Panic w3 \<Rightarrow> Panic (AdaptiveW a1 w3)
                   | Ret (n, e) w3 \<Rightarrow>
                       Ret () (AdaptiveW (a1\<lparr>aw_buf := (if e then drop n (aw_buf a1) else [])\<rparr>) w3)))"

definition after_next :: "codec \<Rightarrow> writer \<Rightarrow> (unit, writer) outcome" where
  "after_next G w =
     (case w of AdaptiveW a u \<Rightarrow> if aw_started a then Ret () w else send_small G a u | _ \<Rightarrow> Ret () w)"

definition aw_Close :: "codec \<Rightarrow> writer \<Rightarrow> (bool, writer) outcome" where
  "aw_Close G w =
     (case w of
        AdaptiveW a u \<Rightarrow>
          (case (aw_started a, aw_gw a) of
             (True, Some z) \<Rightarrow>
               (case gz_Close G (wr_Write G u) z u of
                  Ret (e, z1) u1 \<Rightarrow> Ret e (AdaptiveW (a\<lparr>aw_gw := Some z1\<rparr>) u1)
                | Panic u1 \<Rightarrow> Panic (AdaptiveW a u1))
           | _ \<Rightarrow>
               if aw_buf a \<noteq> [] then
                 let a1 = default_status a in
                 (case wr_WriteHeader (aw_status a1) u of
                    Panic u1 \<Rightarrow> Panic (AdaptiveW a1 u1)
                  | Ret _ u1 \<Rightarrow>
                      (case wr_Write G u1 (aw_buf a1) of
                         Panic u2 \<Rightarrow> Panic (AdaptiveW a1 u2)
                       | Ret (n, e) u2 \<Rightarrow> Ret e (AdaptiveW (a1\<lparr>aw_buf := []\<rparr>) u2)))
               else Ret False w)
      | _ \<Rightarrow> Ret False w)"

definition unwrap_adaptive :: "writer \<Rightarrow> writer" where
  "unwrap_adaptive w = (case w of AdaptiveW a u \<Rightarrow> u | _ \<Rightarrow> w)"

definition on_writer' ::
  "(writer \<Rightarrow> ('a, writer) outcome) \<Rightarrow> hstate \<Rightarrow> ('a, hstate) outcome" where
  "on_writer' f s = mapO (\<lambda>w. (w, snd s)) (f (fst s))"

definition gz_Middleware :: "codec \<Rightarrow> implGzipMiddleware \<Rightarrow> handler \<Rightarrow> handler" where
  "gz_Middleware G t nxt r s =
     (case (if isGzippedRequest r then decompressRequest G r else Some r) of
        None \<Rightarrow> http_Error G ''invalid gzip request body'' 400 s
      | Some r1 \<Rightarrow>
          if \<not> acceptsGzip r1 \<or> r_Method r1 = ''HEAD'' then nxt r1 s
          else mapO (\<lambda>(w, wd). (unwrap_adaptive w, wd))
            (deferO
               (bindO (nxt r1 (AdaptiveW (new_adaptive t) (fst s), snd s))
                  (\<lambda>_. on_writer (after_next G)))
               (on_writer' (aw_Close G))))"

definition gz_Match :: "implGzipMiddleware \<Rightarrow> string \<Rightarrow> bool" where
  "gz_Match t pattern = (\<not> any_prefix (gm_SkipPrefixes t) pattern)"

subsection \<open>What the compressor promises\<close>

fun gz_stream :: "codec \<Rightarrow> int \<Rightarrow> string list \<Rightarrow> string list \<Rightarrow> string" where
  "gz_stream G l cs [] = []"
| "gz_stream G l cs (p # ps) = gz_emit G l cs p @ gz_stream G l (cs @ [p]) ps"

text \<open>
  The documented behaviour of \<^verbatim>\<open>compress/gzip\<close>: a reader of the whole stream of a closed
  writer gets the written data back, without an error.
\<close>

definition codec_ok :: "codec \<Rightarrow> bool" where
  "codec_ok G \<longleftrightarrow> (\<forall>l cs. gzip_level_ok l \<longrightarrow>
     gz_decode G (gz_stream G l [] cs @ gz_final G l cs) = Some (concat cs))"

lemma gz_stream_append: "gz_stream G l cs (ps @ qs) = gz_stream G l cs ps @ gz_stream G l (cs @ ps) qs"
  by (induction ps arbitrary: cs) auto

lemma gz_stream_snoc: "gz_stream G l [] (cs @ [p]) = gz_stream G l [] cs @ gz_emit G l cs p"
  by (simp add: gz_stream_append)

lemma stored_stream: "cs \<noteq> [] \<Longrightarrow> gz_stream stored_codec l cs ps = concat ps"
  by (induction ps arbitrary: cs) (auto simp: stored_codec_def)

lemma stored_codec_ok: "codec_ok stored_codec"
proof -
  have "gz_decode stored_codec (gz_stream stored_codec l [] cs @ gz_final stored_codec l cs) = Some (concat cs)" for l cs
  proof (cases cs)
    case Nil
    then show ?thesis by (simp add: gz_decode_def stored_codec_def)
  next
    case (Cons p ps)
    then have "gz_stream stored_codec l [] cs = CHR 0x1F # concat cs"
      using stored_stream [of "[p]" l ps] by (simp add: stored_codec_def)
    with Cons show ?thesis by (simp add: gz_decode_def stored_codec_def butlast_append)
  qed
  then show ?thesis by (simp add: codec_ok_def)
qed

subsection \<open>The adaptive writer on a fresh response\<close>

definition valid_code :: "int \<Rightarrow> bool" where
  "valid_code c \<longleftrightarrow> 200 \<le> c \<and> c \<le> 999 \<and> bodyAllowed c"

text \<open>
  The writer either still buffers everything written so far and nothing was sent, or it has
  sent the headers and the compressor holds everything written so far. It has started exactly
  when something was written and the body has reached the threshold.
\<close>

definition buffering :: "adaptiveGzipWriter \<Rightarrow> resp \<Rightarrow> string \<Rightarrow> int \<Rightarrow> bool" where
  "buffering a r body fc \<longleftrightarrow> \<not> aw_started a \<and> aw_gw a = None \<and> aw_buf a = body \<and> aw_status a = fc \<and>
     \<not> rs_wrote r \<and> rs_body r = [] \<and> rs_contentLength r = -1 \<and> rs_written r = 0"

definition compressing :: "codec \<Rightarrow> adaptiveGzipWriter \<Rightarrow> resp \<Rightarrow> string \<Rightarrow> int \<Rightarrow> bool" where
  "compressing G a r body fc \<longleftrightarrow> aw_started a \<and>
     aw_status a = (if fc = 0 then 200 else fc) \<and>
     (\<exists>z. aw_gw a = Some z \<and> z_level z = aw_level a \<and> \<not> z_err z \<and> \<not> z_closed z \<and>
          concat (z_chunks z) = body \<and> rs_body r = gz_stream G (aw_level a) [] (z_chunks z)) \<and>
     rs_wrote r \<and> rs_status r = aw_status a \<and> bodyAllowed (rs_status r) \<and> rs_contentLength r = -1 \<and>
     hdr_Get (rs_sent_header r) ''Content-Encoding'' = ''gzip'' \<and>
     hdr_Get (rs_sent_header r) ''Content-Length'' = []"

definition agw_inv :: "codec \<Rightarrow> adaptiveGzipWriter \<Rightarrow> resp \<Rightarrow> string \<Rightarrow> bool \<Rightarrow> int \<Rightarrow> bool" where
  "agw_inv G a r body wa fc \<longleftrightarrow> gzip_level_ok (aw_level a) \<and> (fc = 0 \<or> valid_code fc) \<and>
     (if wa \<and> aw_minSize a \<le> int (length body) then compressing G a r body fc \<and> aw_buf a = []
      else buffering a r body fc)"

lemma base_Write_all:
  assumes "rs_wrote r" and "bodyAllowed (rs_status r)" and "rs_contentLength r = -1"
  shows "\<exists>k. wr_Write G (BaseW r) p =
     Ret (length p, False) (BaseW (r\<lparr>rs_written := k, rs_body := rs_body r @ p\<rparr>))"
  using assms
  by (cases "p = []") (auto simp: base_Write_def base_accept_def Let_def
      intro: exI [of _ "rs_written r"])

lemma gz_Write_base:
  assumes "rs_wrote r" and "bodyAllowed (rs_status r)" and "rs_contentLength r = -1" and "\<not> z_err z"
  shows "\<exists>k. gz_Write G (wr_Write G (BaseW r)) z (BaseW r) p =
     Ret (length p, False, z\<lparr>z_chunks := z_chunks z @ [p]\<rparr>)
       (BaseW (r\<lparr>rs_written := k, rs_body := rs_body r @ gz_emit G (z_level z) (z_chunks z) p\<rparr>))"
proof -
  obtain k where "wr_Write G (BaseW r) (gz_emit G (z_level z) (z_chunks z) p) =
     Ret (length (gz_emit G (z_level z) (z_chunks z) p), False)
       (BaseW (r\<lparr>rs_written := k, rs_body := rs_body r @ gz_emit G (z_level z) (z_chunks z) p\<rparr>))"
    using base_Write_all [OF assms(1-3)] by blast
  note wr = this
  show ?thesis
  proof (cases "gz_emit G (z_level z) (z_chunks z) p = []")
    case True
    with assms(4) show ?thesis
      by (intro exI [of _ "rs_written r"]) (simp add: gz_Write_def Let_def)
  next
    case False
    with assms(4) wr show ?thesis
      by (intro exI [of _ k]) (simp add: gz_Write_def Let_def)
  qed
qed

lemma compressing_write:
  assumes "compressing G a r body fc"
  shows "\<exists>a1 r1. gw_Write G (wr_Write G (BaseW r)) a (BaseW r) p = Ret (length p, False) (a1, BaseW r1) \<and>
     compressing G a1 r1 (body @ p) fc \<and> aw_level a1 = aw_level a \<and> aw_minSize a1 = aw_minSize a \<and>
     aw_buf a1 = aw_buf a"
proof -
  from assms obtain z where z: "aw_gw a = Some z" "z_level z = aw_level a" "\<not> z_err z" "\<not> z_closed z"
      "concat (z_chunks z) = body" "rs_body r = gz_stream G (aw_level a) [] (z_chunks z)"
    by (auto simp: compressing_def)
  obtain k where k: "gz_Write G (wr_Write G (BaseW r)) z (BaseW r) p =
     Ret (length p, False, z\<lparr>z_chunks := z_chunks z @ [p]\<rparr>)
       (BaseW (r\<lparr>rs_written := k, rs_body := rs_body r @ gz_emit G (z_level z) (z_chunks z) p\<rparr>))"
    using gz_Write_base [of r z G p] assms z(3) by (auto simp: compressing_def)
  show ?thesis
    using assms z by (auto simp: gw_Write_def k compressing_def gz_stream_snoc)
qed

lemma start_compressing:
  assumes "buffering a r body fc" and "gzip_level_ok (aw_level a)" and "fc = 0 \<or> valid_code fc"
  shows "\<exists>a1 r1. startGzip_open a (BaseW r) = Ret False (a1, BaseW r1) \<and> compressing G a1 r1 [] fc \<and>
     aw_level a1 = aw_level a \<and> aw_minSize a1 = aw_minSize a \<and> aw_buf a1 = body"
proof -
  let ?c = "if fc = 0 then 200 else fc"
  let ?r1 = "r\<lparr>rs_header := gzip_headers (rs_header r), rs_wrote := True, rs_status := ?c,
               rs_sent_header := gzip_headers (rs_header r)\<rparr>"
  have c: "200 \<le> ?c" "?c \<le> 999" "bodyAllowed ?c"
    using assms(3) by (auto simp: valid_code_def bodyAllowed_def)
  have "hdr_Get (gzip_headers (rs_header r)) ''Content-Length'' = []"
    and ce: "hdr_Get (gzip_headers (rs_header r)) ''Content-Encoding'' = ''gzip''"
    by (simp_all add: gzip_headers_def hdr_simps)
  then have wh: "wr_WriteHeader ?c (wr_editHeader gzip_headers (BaseW r)) = Ret () (BaseW ?r1)"
    using assms(1) c by (auto simp: base_WriteHeader_def buffering_def Let_def)
  show ?thesis
    using assms c(3) ce wh
    by (auto simp: startGzip_open_def aw_begin_def buffering_def compressing_def
        gzip_NewWriterLevel_def gzip_headers_def hdr_simps split del: if_split)
qed

lemma compressing_set_buf: "compressing G (a\<lparr>aw_buf := b\<rparr>) r body fc = compressing G a r body fc"
  by (simp add: compressing_def)

lemma adaptive_write:
  assumes "agw_inv G a r body wa fc"
  shows "\<exists>a1 r1. wr_Write G (AdaptiveW a (BaseW r)) p = Ret (length p, False) (AdaptiveW a1 (BaseW r1)) \<and>
     agw_inv G a1 r1 (body @ p) True fc \<and> aw_level a1 = aw_level a \<and> aw_minSize a1 = aw_minSize a"
proof -
  define a1 where "a1 = a\<lparr>aw_size := aw_size a + int (length p)\<rparr>"
  define a2 where "a2 = a1\<lparr>aw_buf := aw_buf a1 @ p\<rparr>"
  note w5 = wr_Write.simps(5) [of G a "BaseW r" p, unfolded Let_def, folded a1_def, folded a2_def]
  have lv: "gzip_level_ok (aw_level a)" "fc = 0 \<or> valid_code fc" using assms by (simp_all add: agw_inv_def)
  show ?thesis
  proof (cases "wa \<and> aw_minSize a \<le> int (length body)")
    case True
    with assms have "compressing G a1 r body fc" and b: "aw_buf a = []"
      by (auto simp: agw_inv_def compressing_def a1_def)
    from compressing_write [OF this(1), of p] obtain a3 r3 where
      "gw_Write G (wr_Write G (BaseW r)) a1 (BaseW r) p = Ret (length p, False) (a3, BaseW r3)"
      "compressing G a3 r3 (body @ p) fc" "aw_level a3 = aw_level a1" "aw_minSize a3 = aw_minSize a1"
      "aw_buf a3 = aw_buf a1" by blast
    moreover have "aw_started a1" using \<open>compressing G a1 r body fc\<close> by (simp add: compressing_def)
    ultimately show ?thesis
      using True lv b by (simp add: w5 pack_adaptive_def agw_inv_def a1_def)
  next
    case nb: False
    with assms have b: "buffering a r body fc" unfolding agw_inv_def by presburger
    then have ns: "\<not> aw_started a1" and b2: "buffering a2 r (body @ p) fc"
      by (auto simp: buffering_def a1_def a2_def)
    have a2: "aw_level a2 = aw_level a" "aw_minSize a2 = aw_minSize a" "aw_buf a2 = body @ p"
      using b by (auto simp: buffering_def a1_def a2_def)
    show ?thesis
    proof (cases "aw_minSize a \<le> int (length (body @ p))")
      case False
      with ns b2 a2 lv show ?thesis by (simp add: w5 agw_inv_def)
    next
      case True
      obtain a3 r3 where o: "startGzip_open a2 (BaseW r) = Ret False (a3, BaseW r3)"
        "compressing G a3 r3 [] fc" "aw_level a3 = aw_level a" "aw_minSize a3 = aw_minSize a"
        "aw_buf a3 = body @ p"
        using start_compressing [OF b2, of G] lv a2 by auto
      show ?thesis
      proof (cases "body @ p = []")
        case empty: True
        then have b3: "aw_buf a3 = []" using o(5) by simp
        have "wr_Write G (AdaptiveW a (BaseW r)) p = Ret (length p, False) (AdaptiveW a3 (BaseW r3))"
          unfolding w5 using ns True o(1) a2 b3 by (simp add: copy_buf_def pack_adaptive_def)
        moreover have "agw_inv G a3 r3 (body @ p) True fc"
          using True o(2-4) lv b3 by (simp add: agw_inv_def empty)
        ultimately show ?thesis using o(3,4) by blast
      next
        case False
        obtain a4 r4 where g: "gw_Write G (wr_Write G (BaseW r3)) a3 (BaseW r3) (body @ p) =
            Ret (length (body @ p), False) (a4, BaseW r4)"
          "compressing G a4 r4 (body @ p) fc" "aw_level a4 = aw_level a3" "aw_minSize a4 = aw_minSize a3"
          using compressing_write [OF o(2), of "body @ p"] by auto
        then have "compressing G (a4\<lparr>aw_buf := []\<rparr>) r4 (body @ p) fc"
          by (simp add: compressing_set_buf)
        with False ns True o g a2 lv show ?thesis
          by (auto simp add: w5 copy_buf_def pack_adaptive_def agw_inv_def)
      qed
    qed
  qed
qed

text \<open>No status is set after the first write, and every status may have a body.\<close>

fun status_first :: "bool \<Rightarrow> wop list \<Rightarrow> bool" where
  "status_first wa [] = True"
| "status_first wa (OpWriteHeader c # xs) = (\<not> wa \<and> valid_code c \<and> status_first wa xs)"
| "status_first wa (OpWrite p # xs) = status_first True xs"
| "status_first wa (x # xs) = status_first wa xs"

fun first_code :: "wop list \<Rightarrow> int" where
  "first_code [] = 0"
| "first_code (OpWriteHeader c # xs) = c"
| "first_code (x # xs) = first_code xs"

fun has_write :: "wop list \<Rightarrow> bool" where
  "has_write [] = False"
| "has_write (OpWrite p # xs) = True"
| "has_write (x # xs) = has_write xs"

lemma agw_inv_edit:
  assumes "agw_inv G a r body wa fc"
  shows "agw_inv G a (r\<lparr>rs_header := h\<rparr>) body wa fc"
  using assms by (auto simp: agw_inv_def compressing_def buffering_def)

lemma agw_inv_code:
  assumes "agw_inv G a r body False fc" and "valid_code c"
  shows "agw_inv G (if aw_status a = 0 then a\<lparr>aw_status := c\<rparr> else a) r body False (if fc = 0 then c else fc)"
  using assms by (auto simp: agw_inv_def buffering_def)

lemma valid_code_pos: "valid_code c \<Longrightarrow> c \<noteq> 0"
  by (auto simp: valid_code_def)

lemma adaptive_run:
  assumes "agw_inv G a r body wa fc" and "status_first wa xs"
  shows "\<exists>a1 r1. run_ops G xs (AdaptiveW a (BaseW r)) = Ret () (AdaptiveW a1 (BaseW r1)) \<and>
     agw_inv G a1 r1 (body @ ops_body xs) (wa \<or> has_write xs) (if fc = 0 then first_code xs else fc) \<and>
     aw_level a1 = aw_level a \<and> aw_minSize a1 = aw_minSize a"
  using assms
proof (induction xs arbitrary: a r body wa fc)
  case Nil
  then show ?case by (cases "fc = 0") auto
next
  case (Cons x xs)
  show ?case
  proof (cases x)
    case (OpWrite p)
    obtain a1 r1 where w: "wr_Write G (AdaptiveW a (BaseW r)) p = Ret (length p, False) (AdaptiveW a1 (BaseW r1))"
      "agw_inv G a1 r1 (body @ p) True fc" "aw_level a1 = aw_level a" "aw_minSize a1 = aw_minSize a"
      using adaptive_write [OF Cons.prems(1), of p] by blast
    from Cons.IH [OF w(2)] Cons.prems(2) OpWrite w show ?thesis by (cases "fc = 0") simp_all
  next
    case (OpWriteHeader c)
    let ?a = "if aw_status a = 0 then a\<lparr>aw_status := c\<rparr> else a"
    from OpWriteHeader Cons.prems have c: "\<not> wa" "valid_code c" "status_first False xs" by auto
    with Cons.prems(1) have "agw_inv G ?a r body False (if fc = 0 then c else fc)"
      using agw_inv_code by simp
    from Cons.IH [OF this c(3)] obtain a1 r1 where
      "run_ops G xs (AdaptiveW ?a (BaseW r)) = Ret () (AdaptiveW a1 (BaseW r1))"
      "agw_inv G a1 r1 (body @ ops_body xs) (False \<or> has_write xs)
         (if (if fc = 0 then c else fc) = 0 then first_code xs else (if fc = 0 then c else fc))"
      "aw_level a1 = aw_level ?a" "aw_minSize a1 = aw_minSize ?a" by blast
    then show ?thesis using OpWriteHeader c valid_code_pos [OF c(2)] by (auto split: if_splits)
  next
    case (OpSet k v)
    with Cons.IH [OF agw_inv_edit [OF Cons.prems(1)]] Cons.prems(2) show ?thesis
      by (cases "fc = 0") simp_all
  next
    case (OpAdd k v)
    with Cons.IH [OF agw_inv_edit [OF Cons.prems(1)]] Cons.prems(2) show ?thesis
      by (cases "fc = 0") simp_all
  next
    case (OpDel k)
    with Cons.IH [OF agw_inv_edit [OF Cons.prems(1)]] Cons.prems(2) show ?thesis
      by (cases "fc = 0") simp_all
  qed
qed

subsection \<open>The end of the request\<close>

lemma parse_length_Itoa: "0 \<le> i \<Longrightarrow> i \<le> max_int64 \<Longrightarrow> parse_length (Itoa i) = Some i"
proof -
  assume i: "0 \<le> i" "i \<le> max_int64"
  have d: "list_all is_digit (Itoa i)" "Itoa i \<noteq> []"
    using i nat_digits_digits by (simp_all add: Itoa_def)
  then obtain c r where "Itoa i = c # r" "is_digit c" by (cases "Itoa i") auto
  moreover from this(2) have "c \<noteq> CHR ''-''" "c \<noteq> CHR ''+''" by (auto simp: is_digit_def byte_def)
  ultimately show ?thesis using i parse_nat_Itoa [of i] by (simp add: parse_length_def Let_def)
qed

lemma finish_compressing:
  assumes "compressing G a r body fc" and "codec_ok G" and "gzip_level_ok (aw_level a)"
  shows "\<exists>a1 r1. after_next G (AdaptiveW a (BaseW r)) = Ret () (AdaptiveW a (BaseW r)) \<and>
     aw_Close G (AdaptiveW a (BaseW r)) = Ret False (AdaptiveW a1 (BaseW r1)) \<and>
     rs_wrote r1 \<and> rs_status r1 = (if fc = 0 then 200 else fc) \<and>
     gz_decode G (rs_body r1) = Some body \<and> rs_sent_header r1 = rs_sent_header r"
proof -
  from assms(1) obtain z where z: "aw_gw a = Some z" "z_level z = aw_level a" "\<not> z_err z" "\<not> z_closed z"
      "concat (z_chunks z) = body" "rs_body r = gz_stream G (aw_level a) [] (z_chunks z)"
    by (auto simp: compressing_def)
  let ?out = "gz_final G (aw_level a) (z_chunks z)"
  have r: "rs_wrote r" "bodyAllowed (rs_status r)" "rs_contentLength r = -1" "aw_started a"
    "rs_status r = (if fc = 0 then 200 else fc)"
    using assms(1) by (auto simp: compressing_def split del: if_split)
  have dec: "gz_decode G (rs_body r @ ?out) = Some body"
    using assms(2,3) z(5,6) by (simp add: codec_ok_def)
  obtain k where "wr_Write G (BaseW r) ?out =
     Ret (length ?out, False) (BaseW (r\<lparr>rs_written := k, rs_body := rs_body r @ ?out\<rparr>))"
    using base_Write_all [OF r(1-3)] by blast
  then have "\<exists>z1 k. gz_Close G (wr_Write G (BaseW r)) z (BaseW r) =
     Ret (False, z1) (BaseW (r\<lparr>rs_written := k, rs_body := rs_body r @ ?out\<rparr>))"
    using z by (cases "?out = []") (auto simp: gz_Close_def Let_def intro: exI [of _ "rs_written r"])
  then obtain z1 k1 where "gz_Close G (wr_Write G (BaseW r)) z (BaseW r) =
     Ret (False, z1) (BaseW (r\<lparr>rs_written := k1, rs_body := rs_body r @ ?out\<rparr>))" by blast
  then show ?thesis
    using r z dec by (auto simp: after_next_def aw_Close_def split del: if_split)
qed

lemma finish_buffering:
  assumes "buffering a r body fc" and "fc = 0 \<or> valid_code fc" and "int (length body) \<le> max_int64"
  shows "\<exists>a1 r1. after_next G (AdaptiveW a (BaseW r)) = Ret () (AdaptiveW a1 (BaseW r1)) \<and>
     aw_Close G (AdaptiveW a1 (BaseW r1)) = Ret False (AdaptiveW a1 (BaseW r1)) \<and>
     rs_wrote r1 \<and> rs_status r1 = (if fc = 0 then 200 else fc) \<and> rs_body r1 = body \<and>
     hdr_Get (rs_sent_header r1) ''Content-Length'' = Itoa (int (length body))"
proof -
  let ?c = "if fc = 0 then 200 else fc"
  let ?n = "int (length body)"
  let ?h = "hdr_Set (rs_header r) ''Content-Length'' (Itoa ?n)"
  let ?r1 = "r\<lparr>rs_header := ?h, rs_wrote := True, rs_status := ?c, rs_sent_header := ?h,
               rs_contentLength := ?n\<rparr>"
  have b: "\<not> aw_started a" "aw_gw a = None" "aw_buf a = body" "aw_status a = fc" "\<not> rs_wrote r"
    "rs_body r = []" "rs_written r = 0"
    using assms(1) by (simp_all add: buffering_def)
  have c: "200 \<le> ?c" "?c \<le> 999" "bodyAllowed ?c"
    using assms(2) by (auto simp: valid_code_def bodyAllowed_def)
  have i: "Itoa ?n \<noteq> []" "parse_length (Itoa ?n) = Some ?n"
    using assms(3) by (simp_all add: parse_length_Itoa) (simp add: Itoa_def)
  have ds: "aw_status (default_status a) = ?c" "aw_buf (default_status a) = body"
    "\<not> aw_started (default_status a)" "aw_gw (default_status a) = None"
    using b by (auto simp: default_status_def)
  have wh: "wr_WriteHeader ?c (wr_editHeader (\<lambda>h. hdr_Set h ''Content-Length'' (Itoa ?n)) (BaseW r)) =
     Ret () (BaseW ?r1)"
    using b c i by (auto simp: base_WriteHeader_def hdr_simps Let_def)
  have "base_Write body ?r1 = Ret (length body, False) (?r1\<lparr>rs_written := ?n, rs_body := body\<rparr>)"
    if "body \<noteq> []"
    using b c that by (simp add: base_Write_def base_accept_def Let_def split del: if_split)
  then show ?thesis
    using b ds wh
    by (cases "body = []")
      (auto simp: after_next_def send_small_def Let_def aw_Close_def hdr_simps split del: if_split)
qed

subsection \<open>Properties\<close>

text \<open>
  C3. What a client gets through the compressing middleware is what the handler wrote: for
  every handler whose calls set their status before the first write, the exchange ends
  without a panic with the handler's status; a body that has reached the threshold is sent
  compressed, announced as such, without a Content-Length, and decompresses to exactly the
  handler's bytes; a smaller one is sent as it is with its exact Content-Length.
\<close>

theorem gzip_roundtrip:
  assumes "codec_ok G" and "gzip_level_ok (gm_Level t)"
    and "acceptsGzip r" and "\<not> isGzippedRequest r" and "r_Method r \<noteq> ''HEAD''"
    and "f r wd = (ops, wd')" and "status_first False ops" and "int (length (ops_body ops)) \<le> max_int64"
  shows "\<exists>r1. gz_Middleware G t (ops_handler G f) r (BaseW new_resp, wd) = Ret () (BaseW r1, wd') \<and>
     rs_wrote r1 \<and> rs_status r1 = (if first_code ops = 0 then 200 else first_code ops) \<and>
     (if has_write ops \<and> gm_Threshold t \<le> int (length (ops_body ops)) then
        hdr_Get (rs_sent_header r1) ''Content-Encoding'' = ''gzip'' \<and>
        hdr_Get (rs_sent_header r1) ''Content-Length'' = [] \<and>
        gz_decode G (rs_body r1) = Some (ops_body ops)
      else rs_body r1 = ops_body ops \<and>
        hdr_Get (rs_sent_header r1) ''Content-Length'' = Itoa (int (length (ops_body ops))))"
proof -
  let ?a = "new_adaptive t" and ?fc = "first_code ops" and ?body = "ops_body ops"
  have "agw_inv G ?a new_resp [] False 0"
    using assms(2) by (simp add: agw_inv_def buffering_def new_adaptive_def new_resp_def)
  from adaptive_run [OF this assms(7)] obtain a1 r1 where
    run: "run_ops G ops (AdaptiveW ?a (BaseW new_resp)) = Ret () (AdaptiveW a1 (BaseW r1))"
    and inv: "agw_inv G a1 r1 ?body (has_write ops) ?fc"
    and keep: "aw_level a1 = gm_Level t" "aw_minSize a1 = gm_Threshold t"
    by (auto simp: new_adaptive_def)
  have mw: "gz_Middleware G t (ops_handler G f) r (BaseW new_resp, wd) = Ret () (BaseW r3, wd')"
    if "after_next G (AdaptiveW a1 (BaseW r1)) = Ret () (AdaptiveW a2 (BaseW r2))"
      "aw_Close G (AdaptiveW a2 (BaseW r2)) = Ret e (AdaptiveW a3 (BaseW r3))" for a2 r2 e a3 r3
    using assms(3-6) run that
    by (simp add: gz_Middleware_def ops_handler_def on_writer_def on_writer'_def unwrap_adaptive_def)
  show ?thesis
  proof (cases "has_write ops \<and> gm_Threshold t \<le> int (length ?body)")
    case True
    with inv keep have c: "compressing G a1 r1 ?body ?fc" by (simp add: agw_inv_def)
    then have h: "hdr_Get (rs_sent_header r1) ''Content-Encoding'' = ''gzip''"
      "hdr_Get (rs_sent_header r1) ''Content-Length'' = []" by (simp_all add: compressing_def)
    from finish_compressing [OF c assms(1)] assms(2) keep(1) obtain a2 r2 where
      "after_next G (AdaptiveW a1 (BaseW r1)) = Ret () (AdaptiveW a1 (BaseW r1))"
      "aw_Close G (AdaptiveW a1 (BaseW r1)) = Ret False (AdaptiveW a2 (BaseW r2))"
      and fin: "rs_wrote r2" "rs_status r2 = (if ?fc = 0 then 200 else ?fc)"
      "gz_decode G (rs_body r2) = Some ?body" "rs_sent_header r2 = rs_sent_header r1" by metis
    from mw [OF this(1,2)] fin h True show ?thesis by (intro exI [of _ r2]) (simp split del: if_split)
  next
    case False
    with inv keep have "buffering a1 r1 ?body ?fc" "?fc = 0 \<or> valid_code ?fc"
      unfolding agw_inv_def by presburger+
    from finish_buffering [OF this assms(8), of G] obtain a2 r2 where
      fin: "after_next G (AdaptiveW a1 (BaseW r1)) = Ret () (AdaptiveW a2 (BaseW r2))"
      "aw_Close G (AdaptiveW a2 (BaseW r2)) = Ret False (AdaptiveW a2 (BaseW r2))"
      "rs_wrote r2" "rs_status r2 = (if ?fc = 0 then 200 else ?fc)" "rs_body r2 = ?body"
      "hdr_Get (rs_sent_header r2) ''Content-Length'' = Itoa (int (length ?body))" by metis
    from mw [OF fin(1,2)] fin(3-) False show ?thesis
      by (intro exI [of _ r2]) (simp only: if_False simp_thms)
  qed
qed

definition gzip_request :: request where
  "gzip_request = \<lparr>r_Method = ''GET'', r_Path = ''/x'', r_RawPath = [], r_RawQuery = [],
     r_RemoteAddr = ''10.0.0.1:5'', r_Header = [''Accept-Encoding'' \<mapsto> [''br, gzip'']],
     r_Body = [], r_BodyErr = False, r_Ctx = []\<rparr>"

lemma gzip_request_accepts: "acceptsGzip gzip_request" "\<not> isGzippedRequest gzip_request"
  "r_Method gzip_request \<noteq> ''HEAD''"
  by code_simp+

theorem gzip_roundtrip_witness:
  "codec_ok stored_codec \<and> acceptsGzip gzip_request \<and>
   (\<exists>r1. gz_Middleware stored_codec ((GzipMiddleware 1)\<lparr>gm_Threshold := 3\<rparr>)
      (ops_handler stored_codec (\<lambda>r wd. ([OpWriteHeader 201, OpWrite ''ab'', OpWrite ''cd''], wd)))
      gzip_request (BaseW new_resp, initial_world) = Ret () (BaseW r1, initial_world) \<and>
      rs_status r1 = 201 \<and> gz_decode stored_codec (rs_body r1) = Some ''abcd'')"
proof -
  let ?ops = "[OpWriteHeader 201, OpWrite ''ab'', OpWrite ''cd'']"
  have l: "gzip_level_ok (gm_Level ((GzipMiddleware 1)\<lparr>gm_Threshold := 3\<rparr>))"
    by (simp add: GzipMiddleware_def gzip_level_ok_def)
  have o: "status_first False ?ops" "int (length (ops_body ?ops)) \<le> max_int64"
    by (simp_all add: valid_code_def bodyAllowed_def max_int64_def)
  show ?thesis
    using gzip_roundtrip [OF stored_codec_ok l gzip_request_accepts _ o, of "\<lambda>r wd. (?ops, wd)" initial_world]
      stored_codec_ok gzip_request_accepts by auto
qed

text \<open>
  C20. A compressed request reaches the handler decompressed, whatever response the client
  accepts: for a body that any gzip writer made of some chunks, the handler is run with one
  request only, whose body is exactly these chunks, read without an error, and from which the
  headers that described the compressed form are gone; the middleware does with the compressed
  request what it does with that one, so for a client that does not accept gzip it just calls
  the handler. A body that is no gzip stream never reaches the handler and is answered with
  the status 400.
\<close>

theorem gzip_request_roundtrip:
  assumes "codec_ok G" and "gzip_level_ok l" and "isGzippedRequest r" and "\<not> r_BodyErr r"
  shows "(r_Body r = gz_stream G l [] cs @ gz_final G l cs \<longrightarrow>
           (\<exists>r1. gz_Middleware G t nxt r s = gz_Middleware G t nxt r1 s \<and>
             (\<forall>nxt'. nxt' r1 = nxt r1 \<longrightarrow> gz_Middleware G t nxt' r s = gz_Middleware G t nxt r s) \<and>
             (\<not> acceptsGzip r \<or> r_Method r = ''HEAD'' \<longrightarrow> gz_Middleware G t nxt r s = nxt r1 s) \<and>
             r_Body r1 = concat cs \<and> \<not> r_BodyErr r1 \<and> \<not> isGzippedRequest r1 \<and>
             hdr_Get (r_Header r1) ''Content-Encoding'' = [] \<and>
             hdr_Get (r_Header r1) ''Content-Length'' = [] \<and> r_Method r1 = r_Method r \<and> r_Ctx r1 = r_Ctx r \<and>
             r_Path r1 = r_Path r)) \<and>
        (gz_read G (r_Body r) = None \<longrightarrow>
           (\<forall>nxt'. gz_Middleware G t nxt' r (BaseW new_resp, wd) = gz_Middleware G t nxt r (BaseW new_resp, wd)) \<and>
           status_sent (gz_Middleware G t nxt r (BaseW new_resp, wd)) = Some 400)"
proof (intro conjI [OF impI impI])
  let ?r1 = "r\<lparr>r_Body := concat cs, r_BodyErr := False,
      r_Header := hdr_Del (hdr_Del (r_Header r) ''Content-Encoding'') ''Content-Length''\<rparr>"
  assume b: "r_Body r = gz_stream G l [] cs @ gz_final G l cs"
  have "gz_decode G (r_Body r) = Some (concat cs)" using assms(1,2) b by (simp add: codec_ok_def)
  then have "gz_read G (r_Body r) = Some (concat cs, False)"
    by (auto simp: gz_decode_def split: option.splits bool.splits)
  then have d: "decompressRequest G r = Some ?r1" using assms(4) by (simp add: decompressRequest_def)
  have e: "hdr_Get (r_Header ?r1) ''Content-Encoding'' = []" by (simp add: hdr_simps)
  have a: "acceptsGzip ?r1 = acceptsGzip r" by (simp add: acceptsGzip_def hdr_simps)
  have "\<not> Contains [] ''gzip''" by code_simp
  with e have n: "\<not> isGzippedRequest ?r1" by (simp only: isGzippedRequest_def not_False_eq_True)
  show "\<exists>r1. gz_Middleware G t nxt r s = gz_Middleware G t nxt r1 s \<and>
             (\<forall>nxt'. nxt' r1 = nxt r1 \<longrightarrow> gz_Middleware G t nxt' r s = gz_Middleware G t nxt r s) \<and>
             (\<not> acceptsGzip r \<or> r_Method r = ''HEAD'' \<longrightarrow> gz_Middleware G t nxt r s = nxt r1 s) \<and>
             r_Body r1 = concat cs \<and> \<not> r_BodyErr r1 \<and> \<not> isGzippedRequest r1 \<and>
             hdr_Get (r_Header r1) ''Content-Encoding'' = [] \<and>
             hdr_Get (r_Header r1) ''Content-Length'' = [] \<and> r_Method r1 = r_Method r \<and> r_Ctx r1 = r_Ctx r \<and>
             r_Path r1 = r_Path r"
    using assms(3) d n e a
    by (intro exI [of _ ?r1] conjI allI impI) (simp_all only: gz_Middleware_def, simp_all add: hdr_simps)
next
  assume n: "gz_read G (r_Body r) = None"
  then have "gz_Middleware G t h r s = http_Error G ''invalid gzip request body'' 400 s" for h s
    using assms(3) by (simp add: gz_Middleware_def decompressRequest_def)
  moreover have "status_sent (http_Error G msg 400 (BaseW new_resp, wd)) = Some 400" for msg
    by (rule http_Error_status(1)) (simp_all add: new_resp_def bodyAllowed_def)
  ultimately show "(\<forall>nxt'. gz_Middleware G t nxt' r (BaseW new_resp, wd) = gz_Middleware G t nxt r (BaseW new_resp, wd)) \<and>
      status_sent (gz_Middleware G t nxt r (BaseW new_resp, wd)) = Some 400" by simp
qed

definition gzipped_request :: request where
  "gzipped_request = gzip_request\<lparr>r_Header := [''Content-Encoding'' \<mapsto> [''gzip'']],
     r_Body := CHR 0x1F # ''ab'' @ [CHR 0x03]\<rparr>"

theorem gzip_request_roundtrip_witness:
  "gz_Middleware stored_codec (GzipMiddleware 1) (\<lambda>r s. Ret () (fst s, log_write LInfo (r_Body r) [] (snd s)))
      gzipped_request (BaseW new_resp, initial_world) =
    Ret () (BaseW new_resp, log_write LInfo ''ab'' [] initial_world)"
proof -
  have l: "gzip_level_ok 1" by (simp add: gzip_level_ok_def)
  have h: "isGzippedRequest gzipped_request" "\<not> r_BodyErr gzipped_request" "\<not> acceptsGzip gzipped_request"
    by code_simp+
  have b: "r_Body gzipped_request = gz_stream stored_codec 1 [] [''ab''] @ gz_final stored_codec 1 [''ab'']"
    by (simp add: stored_codec_def gzipped_request_def)
  define nxt :: handler where "nxt = (\<lambda>r s. Ret () (fst s, log_write LInfo (r_Body r) [] (snd s)))"
  obtain r1 where r1: "\<not> acceptsGzip gzipped_request \<or> r_Method gzipped_request = ''HEAD'' \<longrightarrow>
       gz_Middleware stored_codec (GzipMiddleware 1) nxt gzipped_request (BaseW new_resp, initial_world) =
         nxt r1 (BaseW new_resp, initial_world)" "r_Body r1 = concat [''ab'']"
    using gzip_request_roundtrip [OF stored_codec_ok l h(1,2), THEN conjunct1, THEN mp, OF b,
        of "GzipMiddleware 1" nxt "(BaseW new_resp, initial_world)"] by (elim exE conjE) (rule that)
  from r1(2) have "r_Body r1 = ''ab''" by simp
  then show ?thesis using mp [OF r1(1) disjI1 [OF h(3)]] by (simp only: nxt_def fst_conv snd_conv)
qed

text \<open>The state that the first write leaves when the compressor refuses its level.\<close>

definition refused_writer :: "implGzipMiddleware \<Rightarrow> string \<Rightarrow> adaptiveGzipWriter" where
  "refused_writer t p = (new_adaptive t)\<lparr>aw_size := int (length p), aw_buf := p, aw_started := True, aw_status := 200\<rparr>"

definition refused_resp :: resp where
  "refused_resp = new_resp\<lparr>rs_header := gzip_headers Map.empty, rs_wrote := True, rs_status := 200,
     rs_sent_header := gzip_headers Map.empty\<rparr>"

lemma refused_write:
  assumes "\<not> gzip_level_ok (gm_Level t)" and "gm_Threshold t \<le> int (length p)"
  shows "wr_Write G (AdaptiveW (new_adaptive t) (BaseW new_resp)) p =
     Ret (0, True) (AdaptiveW (refused_writer t p) (BaseW refused_resp))"
proof -
  have "hdr_Get (gzip_headers Map.empty) ''Content-Length'' = []"
    by (simp add: gzip_headers_def hdr_simps)
  then have "startGzip_open (refused_writer t p \<lparr>aw_started := False, aw_status := 0\<rparr>) (BaseW new_resp) =
     Ret True (refused_writer t p, BaseW refused_resp)"
    using assms(1) by (simp add: startGzip_open_def aw_begin_def refused_writer_def new_adaptive_def
        base_WriteHeader_def new_resp_def refused_resp_def gzip_NewWriterLevel_def)
  with assms(2) show ?thesis
    by (simp add: wr_Write.simps(5) new_adaptive_def refused_writer_def pack_adaptive_def)
qed

lemma refused_close:
  assumes "p \<noteq> []"
  shows "\<exists>a. aw_Close G (AdaptiveW (refused_writer t p) (BaseW refused_resp)) =
     Ret False (AdaptiveW a (BaseW (refused_resp\<lparr>rs_written := int (length p), rs_body := p\<rparr>)))"
  using assms by (simp add: aw_Close_def refused_writer_def refused_resp_def default_status_def
      new_adaptive_def new_resp_def base_Write_def base_accept_def bodyAllowed_def Let_def)

lemma refused_started: "aw_started (refused_writer t p)" "aw_gw (refused_writer t p) = None"
  by (simp_all add: refused_writer_def new_adaptive_def)

lemma refused_second:
  "wr_Write G (AdaptiveW (refused_writer t p) u) q =
     Panic (AdaptiveW ((refused_writer t p)\<lparr>aw_size := aw_size (refused_writer t p) + int (length q)\<rparr>) u)"
  by (simp add: wr_Write.simps(5) refused_started gw_Write_def pack_adaptive_def)

text \<open>
  A level outside of -2..9, which nothing checks when the configuration is read, breaks the
  protocol: the first write that reaches the threshold announces gzip and then fails, and the
  bytes are sent as they are; a handler that writes once more panics.
\<close>

theorem gzip_bad_level:
  assumes "\<not> gzip_level_ok (gm_Level t)" and "gm_Threshold t \<le> int (length p)" and "p \<noteq> []"
  shows "(\<exists>r1. gz_Middleware G t (ops_handler G (\<lambda>r wd. ([OpWrite p], wd))) gzip_request (BaseW new_resp, wd) =
       Ret () (BaseW r1, wd) \<and>
     hdr_Get (rs_sent_header r1) ''Content-Encoding'' = ''gzip'' \<and> rs_body r1 = p) \<and>
   \<not> returns (gz_Middleware G t (ops_handler G (\<lambda>r wd. ([OpWrite p, OpWrite q], wd))) gzip_request
       (BaseW new_resp, wd))"
proof -
  have h: "hdr_Get (gzip_headers Map.empty) ''Content-Encoding'' = ''gzip''"
    by (simp add: gzip_headers_def hdr_simps)
  obtain a where "aw_Close G (AdaptiveW (refused_writer t p) (BaseW refused_resp)) =
     Ret False (AdaptiveW a (BaseW (refused_resp\<lparr>rs_written := int (length p), rs_body := p\<rparr>)))"
    using refused_close [OF assms(3)] by blast
  then have "gz_Middleware G t (ops_handler G (\<lambda>r wd. ([OpWrite p], wd))) gzip_request (BaseW new_resp, wd) =
       Ret () (BaseW (refused_resp\<lparr>rs_written := int (length p), rs_body := p\<rparr>), wd)"
    using gzip_request_accepts
    by (simp add: gz_Middleware_def ops_handler_def refused_write [OF assms(1,2)] on_writer_def on_writer'_def
        after_next_def refused_started unwrap_adaptive_def)
  moreover have "\<not> returns (gz_Middleware G t (ops_handler G (\<lambda>r wd. ([OpWrite p, OpWrite q], wd)))
      gzip_request (BaseW new_resp, wd))"
    using gzip_request_accepts
    by (simp add: gz_Middleware_def ops_handler_def refused_write [OF assms(1,2)] refused_second
        on_writer_def on_writer'_def split: outcome.split)
  ultimately show ?thesis using h by (simp add: refused_resp_def)
qed

theorem gzip_bad_level_witness:
  "\<exists>r1. gz_Middleware stored_codec ((GzipMiddleware 1)\<lparr>gm_Level := 42, gm_Threshold := 2\<rparr>)
      (ops_handler stored_codec (\<lambda>r wd. ([OpWrite ''ab''], wd))) gzip_request (BaseW new_resp, initial_world) =
       Ret () (BaseW r1, initial_world) \<and>
     hdr_Get (rs_sent_header r1) ''Content-Encoding'' = ''gzip'' \<and> rs_body r1 = ''ab''"
  using gzip_bad_level [of "(GzipMiddleware 1)\<lparr>gm_Level := 42, gm_Threshold := 2\<rparr>" "''ab''" stored_codec
      initial_world "[]"]
  by (simp add: gzip_level_ok_def)

end
