(* ===== verification/Sha256.thy ===== *)
theory Sha256
  imports Go_Strings "HOL-Library.Word"
begin

text \<open>
  \<^verbatim>\<open>sha256.Sum256\<close> of the standard library, after FIPS 180-4, on byte strings: it is the
  hash under which \<^verbatim>\<open>auth_token_provider.go\<close> keeps tokens and identities.
\<close>

unbundle bit_operations_syntax

type_synonym w32 = "32 word"

definition rotr :: "nat \<Rightarrow> w32 \<Rightarrow> w32" where
  "rotr n x = drop_bit n x OR push_bit (32 - n) x"

definition Ch :: "w32 \<Rightarrow> w32 \<Rightarrow> w32 \<Rightarrow> w32" where
  "Ch x y z = (x AND y) XOR (NOT x AND z)"

definition Maj :: "w32 \<Rightarrow> w32 \<Rightarrow> w32 \<Rightarrow> w32" where
  "Maj x y z = (x AND y) XOR (x AND z) XOR (y AND z)"

definition big0 :: "w32 \<Rightarrow> w32" where
  "big0 x = rotr 2 x XOR rotr 13 x XOR rotr 22 x"

definition big1 :: "w32 \<Rightarrow> w32" where
  "big1 x = rotr 6 x XOR rotr 11 x XOR rotr 25 x"

definition small0 :: "w32 \<Rightarrow> w32" where
  "small0 x = rotr 7 x XOR rotr 18 x XOR drop_bit 3 x"

definition small1 :: "w32 \<Rightarrow> w32" where
  "small1 x = rotr 17 x XOR rotr 19 x XOR drop_bit 10 x"

text \<open>
  The constants of the standard are computed from what it says they are: the first 32 bits
  behind the point of the cube roots of the first 64 primes, and of the square roots of the
  first eight. \<open>root_below p n k r\<close> is the largest \<open>r + d\<close> with \<open>d < 2 ^ k\<close> whose
  \<open>p\<close>-th power is at most \<open>n\<close>, found bit by bit.
\<close>

fun root_below :: "nat \<Rightarrow> int \<Rightarrow> nat \<Rightarrow> int \<Rightarrow> int" where
  "root_below p n 0 r = r"
| "root_below p n (Suc k) r = root_below p n k (if (r + 2 ^ k) ^ p \<le> n then r + 2 ^ k else r)"

lemma root_below_correct:
  "0 \<le> r \<Longrightarrow> r ^ p \<le> n \<Longrightarrow> n < (r + 2 ^ k) ^ p \<Longrightarrow>
     (root_below p n k r) ^ p \<le> n \<and> n < (root_below p n k r + 1) ^ p"
proof (induction k arbitrary: r)
  case (Suc k)
  then show ?case by (cases "(r + 2 ^ k) ^ p \<le> n") (simp_all add: add.assoc)
qed simp

definition small_primes :: "int list" where
  "small_primes = filter (\<lambda>n. list_all (\<lambda>d. n mod d \<noteq> 0) [2..n - 1]) [2..311]"

definition root_fraction :: "nat \<Rightarrow> int \<Rightarrow> w32" where
  "root_fraction p n = word_of_int (root_below p (n * 2 ^ (32 * p)) 37 0)"

definition round_constants :: "w32 list" where
  "round_constants = map (root_fraction 3) small_primes"

type_synonym hash_state = "w32 \<times> w32 \<times> w32 \<times> w32 \<times> w32 \<times> w32 \<times> w32 \<times> w32"

fun state_of_words :: "w32 list \<Rightarrow> hash_state" where
  "state_of_words (a # b # c # d # e # f # g # h # r) = (a, b, c, d, e, f, g, h)"
| "state_of_words _ = (0, 0, 0, 0, 0, 0, 0, 0)"

definition initial_hash :: hash_state where
  "initial_hash = state_of_words (map (root_fraction 2) (take 8 small_primes))"

text \<open>The message schedule: sixteen words of the block, then 48 more, newest first.\<close>

fun schedule :: "nat \<Rightarrow> w32 list \<Rightarrow> w32 list" where
  "schedule 0 ws = ws"
| "schedule (Suc n) ws = schedule n ((small1 (ws ! 1) + ws ! 6 + small0 (ws ! 14) + ws ! 15) # ws)"

fun sha_round :: "hash_state \<Rightarrow> w32 \<times> w32 \<Rightarrow> hash_state" where
  "sha_round (a, b, c, d, e, f, g, h) (k, w) =
     (let t1 = h + big1 e + Ch e f g + k + w; t2 = big0 a + Maj a b c
      in (t1 + t2, a, b, c, d + t1, e, f, g))"

fun add_state :: "hash_state \<Rightarrow> hash_state \<Rightarrow> hash_state" where
  "add_state (a, b, c, d, e, f, g, h) (a', b', c', d', e', f', g', h') =
     (a + a', b + b', c + c', d + d', e + e', f + f', g + g', h + h')"

definition sha_block :: "hash_state \<Rightarrow> w32 list \<Rightarrow> hash_state" where
  "sha_block st ws = add_state st (foldl sha_round st (zip round_constants (rev (schedule 48 (rev ws)))))"

fun words_be :: "nat list \<Rightarrow> w32 list" where
  "words_be (a # b # c # d # r) =
     (push_bit 24 (word_of_nat a) OR push_bit 16 (word_of_nat b) OR push_bit 8 (word_of_nat c) OR word_of_nat d)
     # words_be r"
| "words_be _ = []"

function sha_blocks :: "hash_state \<Rightarrow> w32 list \<Rightarrow> hash_state" where
  "sha_blocks st ws = (if ws = [] then st else sha_blocks (sha_block st (take 16 ws)) (drop 16 ws))"
  by pat_completeness auto
termination
  by (relation "measure (\<lambda>(st, ws). length ws)") auto

declare sha_blocks.simps [simp del]

fun be_bytes :: "nat \<Rightarrow> nat \<Rightarrow> nat list" where
  "be_bytes 0 n = []"
| "be_bytes (Suc k) n = be_bytes k (n div 256) @ [n mod 256]"

definition sha_pad :: "nat list \<Rightarrow> nat list" where
  "sha_pad bs = bs @ 128 # replicate ((119 - length bs mod 64) mod 64) 0 @ be_bytes 8 (8 * length bs)"

fun state_words :: "hash_state \<Rightarrow> w32 list" where
  "state_words (a, b, c, d, e, f, g, h) = [a, b, c, d, e, f, g, h]"

definition word_bytes :: "w32 \<Rightarrow> nat list" where
  "word_bytes w = map (\<lambda>k. unat (drop_bit k w AND 255)) [24, 16, 8, 0]"

definition Sum256 :: "string \<Rightarrow> string" where
  "Sum256 s = map char_of
     (concat (map word_bytes (state_words (sha_blocks initial_hash (words_be (sha_pad (map byte s)))))))"

lemma length_be_bytes [simp]: "length (be_bytes k n) = k"
  by (induction k n rule: be_bytes.induct) auto

lemma Sum256_length: "length (Sum256 s) = 32"
  by (cases "sha_blocks initial_hash (words_be (sha_pad (map byte s)))" rule: state_words.cases)
    (simp add: Sum256_def word_bytes_def)

text \<open>Padding fills whole blocks of 64 bytes.\<close>

lemma sha_pad_length: "length (sha_pad bs) mod 64 = 0"
proof -
  define m where "m = length bs mod 64"
  have "m < 64" by (simp add: m_def)
  then have "(m + 9 + (119 - m) mod 64) mod 64 = 0"
    by (cases "m \<le> 55") (simp_all add: le_mod_geq)
  moreover have "(length bs + (9 + (119 - m) mod 64)) mod 64 = (m + (9 + (119 - m) mod 64)) mod 64"
    by (simp add: m_def mod_add_left_eq)
  ultimately show ?thesis by (simp add: sha_pad_def m_def add_ac)
qed

end
