(* ===== verification/Auth_Middleware.thy ===== *)
theory Auth_Middleware
  imports Http_Handlers Sha256
begin

text \<open>
  \<^verbatim>\<open>auth_middleware.go\<close> and the contract of \<^verbatim>\<open>servion.Authenticator\<close>
  (\<^verbatim>\<open>api.go\<close>) that it relies on. The contract is the locale \<open>authenticator\<close>; the theories
  of the two providers interpret it.
\<close>

subsection \<open>The middleware\<close>

type_synonym authenticator = "string \<Rightarrow> go_error + AuthInfo"

record implAuthMiddleware =
  am_beanOrder :: int
  am_Prefixes :: "string list"
  am_Authenticator :: authenticator

definition AuthMiddleware :: "int \<Rightarrow> authenticator \<Rightarrow> implAuthMiddleware" where
  "AuthMiddleware beanOrder authn =
     \<lparr>am_beanOrder = beanOrder, am_Prefixes = [''/api''], am_Authenticator = authn\<rparr>"

definition refuse_bearer :: "codec \<Rightarrow> string \<Rightarrow> hstate \<Rightarrow> (unit, hstate) outcome" where
  "refuse_bearer G msg s = http_Error G msg 401 (set_header ''WWW-Authenticate'' ''Bearer'' s)"

definition auth_Middleware :: "codec \<Rightarrow> implAuthMiddleware \<Rightarrow> handler \<Rightarrow> handler" where
  "auth_Middleware G t nxt r s =
     (if r_Method r = ''OPTIONS'' then nxt r s
      else
        let h = hdr_Get (r_Header r) ''Authorization'' in
        if h = [] then refuse_bearer G ''Authorization header is missing'' s
        else
          let parts = Fields h in
          if length parts \<noteq> 2 \<or> \<not> EqualFold (parts ! 0) ''Bearer''
          then refuse_bearer G ''invalid Authorization header'' s
          else
            (case am_Authenticator t (parts ! 1) of
               Inl err \<Rightarrow>
                 if errors_Is err ErrUnauthorized then refuse_bearer G (Error err) s
                 else if errors_Is err ErrServiceUnavailable then http_Error G (Error err) 503 s
                 else http_Error G (Error err) 500 s
             | Inr auth \<Rightarrow> nxt (WithContext r (ContextWithAuth (r_Ctx r) auth)) s))"

definition am_Match :: "implAuthMiddleware \<Rightarrow> string \<Rightarrow> bool" where
  "am_Match t pref = any_prefix (am_Prefixes t) pref"

subsection \<open>Refusals\<close>

lemma refuse_bearer_status:
  assumes "\<not> rs_wrote q"
  shows "status_sent (refuse_bearer G msg (BaseW q, wd)) = Some 401"
    and "header_sent (refuse_bearer G msg (BaseW q, wd)) ''WWW-Authenticate'' = ''Bearer''"
  using http_Error_fresh [of "q\<lparr>rs_header := hdr_Set (rs_header q) ''WWW-Authenticate'' ''Bearer''\<rparr>" 401 G msg wd] assms
  by (auto simp: refuse_bearer_def set_header_def status_sent_def header_sent_def hdr_simps bodyAllowed_def)

subsection \<open>The contract of an authenticator\<close>

text \<open>Both providers name a token by the hexadecimal form of its hash.\<close>

definition hashToken :: "string \<Rightarrow> string" where
  "hashToken token = hex_EncodeToString (Sum256 token)"

lemma hashToken_length: "length (hashToken token) = 64"
  by (simp add: hashToken_def hex_length Sum256_length)

text \<open>
  The token that a request presents: the second field of an Authorization header of the form
  \<^verbatim>\<open>Bearer <token>\<close>.
\<close>

definition presented :: "request \<Rightarrow> string \<Rightarrow> bool" where
  "presented r tok \<longleftrightarrow> (\<exists>scheme. Fields (hdr_Get (r_Header r) ''Authorization'') = [scheme, tok] \<and>
     EqualFold scheme ''Bearer'')"

lemma presented_unique: "presented r tok \<Longrightarrow> presented r tok' \<Longrightarrow> tok = tok'"
  by (auto simp: presented_def)

lemma Fields_Nil [simp]: "Fields [] = []"
  by (simp add: Fields_def)

lemma auth_presented:
  assumes "r_Method r \<noteq> ''OPTIONS''" and "presented r tok"
  shows "auth_Middleware G t nxt r s =
     (case am_Authenticator t tok of
        Inl err \<Rightarrow>
          if errors_Is err ErrUnauthorized then refuse_bearer G (Error err) s
          else if errors_Is err ErrServiceUnavailable then http_Error G (Error err) 503 s
          else http_Error G (Error err) 500 s
      | Inr auth \<Rightarrow> nxt (WithContext r (ContextWithAuth (r_Ctx r) auth)) s)"
  using assms by (auto simp: auth_Middleware_def presented_def Let_def split: sum.split)

lemma two_fields: "length ps = 2 \<Longrightarrow> ps = [ps ! 0, ps ! 1]"
  by (cases ps; cases "tl ps") auto

lemma auth_not_presented:
  assumes "r_Method r \<noteq> ''OPTIONS''" and "\<nexists>tok. presented r tok"
  shows "\<exists>msg. \<forall>nxt. auth_Middleware G t nxt r s = refuse_bearer G msg s"
proof -
  let ?h = "hdr_Get (r_Header r) ''Authorization''"
  have "length (Fields ?h) \<noteq> 2 \<or> \<not> EqualFold (Fields ?h ! 0) ''Bearer''"
    using assms(2) two_fields [of "Fields ?h"] by (auto simp: presented_def)
  with assms(1) show ?thesis
    by (auto simp: auth_Middleware_def Let_def)
qed

locale authenticator =
  fixes authenticate :: "string \<Rightarrow> go_error + AuthInfo"
  assumes identifies: "authenticate tok = Inr i \<Longrightarrow> HashedToken i = hashToken tok"
    and refuses: "authenticate tok = Inl e \<Longrightarrow> e = ErrUnauthorized"
begin

text \<open>
  Behind the middleware there is nothing but authenticated requests: a request is passed on
  with the identity of the token it presents, or it is refused with 401.
\<close>

lemma guarded:
  assumes "am_Authenticator t = authenticate" and "r_Method r \<noteq> ''OPTIONS''"
  shows "(\<exists>tok i. presented r tok \<and> authenticate tok = Inr i \<and>
            HashedToken i = hashToken tok \<and>
            auth_Middleware G t nxt r s = nxt (WithContext r (ContextWithAuth (r_Ctx r) i)) s) \<or>
         (\<exists>msg. \<forall>nxt'. auth_Middleware G t nxt' r s = refuse_bearer G msg s)"
proof (cases "\<exists>tok. presented r tok")
  case True
  then obtain tok where tok: "presented r tok" by blast
  show ?thesis
  proof (cases "authenticate tok")
    case (Inl e)
    then have "authenticate tok = Inl ErrUnauthorized" using refuses by blast
    then show ?thesis using auth_presented [OF assms(2) tok] assms(1) by auto
  next
    case (Inr i)
    then show ?thesis using identifies auth_presented [OF assms(2) tok] assms(1) tok by auto
  qed
next
  case False
  then show ?thesis using auth_not_presented [OF assms(2)] by blast
qed

end

lemma auth_Middleware_cases:
  assumes "r_Method r \<noteq> ''OPTIONS''" and "\<not> rs_wrote q"
  shows "(\<exists>scheme tok i r1. Fields (hdr_Get (r_Header r) ''Authorization'') = [scheme, tok] \<and>
            EqualFold scheme ''Bearer'' \<and> am_Authenticator t tok = Inr i \<and>
            auth_Middleware G t nxt r (BaseW q, wd) = nxt r1 (BaseW q, wd) \<and>
            AuthFromContext (r_Ctx r1) = Some i \<and>
            RequestIDFromContext (r_Ctx r1) = RequestIDFromContext (r_Ctx r)) \<or>
         (\<exists>o'. (\<forall>nxt'. auth_Middleware G t nxt' r (BaseW q, wd) = o') \<and> snd (state_of o') = wd \<and>
            (status_sent o' = Some 401 \<and> header_sent o' ''WWW-Authenticate'' = ''Bearer'' \<or>
             status_sent o' \<in> {Some 503, Some 500}))"
proof (cases "\<exists>tok. presented r tok")
  case False
  have "snd (state_of (refuse_bearer G msg (BaseW q, wd))) = wd" for msg
    by (simp add: refuse_bearer_def set_header_def http_Error_def on_writer_def)
  with auth_not_presented [OF assms(1) False, of G t "(BaseW q, wd)"] refuse_bearer_status [OF assms(2), of G _ wd]
  show ?thesis by metis
next
  case True
  then obtain tok where tok: "presented r tok" by blast
  have w: "snd (state_of (refuse_bearer G msg (BaseW q, wd))) = wd"
    "snd (state_of (http_Error G msg c (BaseW q, wd))) = wd" for msg c
    by (simp_all add: refuse_bearer_def set_header_def http_Error_def on_writer_def)
  note ap = auth_presented [OF assms(1) tok, of G t _ "(BaseW q, wd)"]
  show ?thesis
  proof (cases "am_Authenticator t tok")
    case (Inr i)
    with tok ap [of nxt] show ?thesis
      by (intro disjI1) (force simp: presented_def WithContext_def)
  next
    case (Inl e)
    then have "\<exists>o'. (\<forall>nxt'. auth_Middleware G t nxt' r (BaseW q, wd) = o') \<and> snd (state_of o') = wd \<and>
            (status_sent o' = Some 401 \<and> header_sent o' ''WWW-Authenticate'' = ''Bearer'' \<or>
             status_sent o' \<in> {Some 503, Some 500})"
      using ap refuse_bearer_status [OF assms(2), of G "Error e" wd] w
        http_Error_status(1) [OF assms(2), of _ G "Error e" wd]
      by (cases "errors_Is e ErrUnauthorized"; cases "errors_Is e ErrServiceUnavailable")
        (simp_all add: bodyAllowed_def)
    then show ?thesis by blast
  qed
qed

subsection \<open>Properties\<close>

text \<open>
  C2. An OPTIONS request passes the middleware as it is, without authentication. For every
  other request the middleware cannot be bypassed: whatever the authenticator answers, the
  request either reaches the handler, with the unchanged writer, carrying exactly the identity
  that the authenticator gave for the token in the Authorization header; or the handler has no
  influence on the response at all, and the status is 401 with a challenge, 503 or 500.
\<close>

theorem auth_Middleware_guards:
  assumes "\<not> rs_wrote q"
  shows "if r_Method r = ''OPTIONS'' then auth_Middleware G t nxt r (BaseW q, wd) = nxt r (BaseW q, wd)
         else (\<exists>scheme tok i r1. Fields (hdr_Get (r_Header r) ''Authorization'') = [scheme, tok] \<and>
            EqualFold scheme ''Bearer'' \<and> am_Authenticator t tok = Inr i \<and>
            auth_Middleware G t nxt r (BaseW q, wd) = nxt r1 (BaseW q, wd) \<and>
            AuthFromContext (r_Ctx r1) = Some i \<and>
            RequestIDFromContext (r_Ctx r1) = RequestIDFromContext (r_Ctx r)) \<or>
         (\<exists>o'. (\<forall>nxt'. auth_Middleware G t nxt' r (BaseW q, wd) = o') \<and> snd (state_of o') = wd \<and>
            (status_sent o' = Some 401 \<and> header_sent o' ''WWW-Authenticate'' = ''Bearer'' \<or>
             status_sent o' \<in> {Some 503, Some 500}))"
proof (cases "r_Method r = ''OPTIONS''")
  case True
  then show ?thesis by (simp add: auth_Middleware_def)
next
  case False
  then show ?thesis using auth_Middleware_cases [OF False assms] by simp
qed

definition bearer_request :: "string \<Rightarrow> request" where
  "bearer_request h = \<lparr>r_Method = ''GET'', r_Path = ''/api/x'', r_RawPath = [], r_RawQuery = [],
     r_RemoteAddr = ''10.0.0.1:5'', r_Header = [''Authorization'' \<mapsto> [h]],
     r_Body = [], r_BodyErr = False, r_Ctx = []\<rparr>"

theorem auth_Middleware_guards_witness:
  "status_sent (auth_Middleware stored_codec (AuthMiddleware 1 (\<lambda>_. Inl ErrUnauthorized)) (\<lambda>r. Ret ())
     (bearer_request ''Basic x'') (BaseW new_resp, initial_world)) \<in> {Some 401, Some 503, Some 500} \<and>
   auth_Middleware stored_codec (AuthMiddleware 1 (\<lambda>_. Inl ErrUnauthorized)) (\<lambda>r. Ret ())
     ((bearer_request [])\<lparr>r_Method := ''OPTIONS''\<rparr>) (BaseW new_resp, initial_world) =
   Ret () (BaseW new_resp, initial_world)"
proof -
  have q: "\<not> rs_wrote new_resp" by (simp add: new_resp_def)
  note g = auth_Middleware_guards [OF q, of _ stored_codec "AuthMiddleware 1 (\<lambda>_. Inl ErrUnauthorized)"
        "\<lambda>r. Ret ()" initial_world]
  show ?thesis
    using g [of "bearer_request ''Basic x''"] g [of "(bearer_request [])\<lparr>r_Method := ''OPTIONS''\<rparr>"]
    by (auto simp: AuthMiddleware_def bearer_request_def)
qed

text \<open>
  A client that sends its token the standard way is authenticated by exactly that token:
  for every token without white space the header \<^verbatim>\<open>Bearer <token>\<close>, with the scheme in
  any case, makes the middleware ask the authenticator for the token and pass the request on
  with the identity it answers.
\<close>

theorem bearer_header_roundtrip:
  assumes "no_space tok" and "tok \<noteq> []" and "EqualFold scheme ''Bearer''" and "no_space scheme"
    and "hdr_Get (r_Header r) ''Authorization'' = scheme @ '' '' @ tok" and "r_Method r \<noteq> ''OPTIONS''"
    and "am_Authenticator t tok = Inr i"
  shows "auth_Middleware G t nxt r s = nxt (WithContext r (ContextWithAuth (r_Ctx r) i)) s"
proof -
  have "scheme \<noteq> []" using assms(3) by (auto simp: EqualFold_def)
  then have "presented r tok" using assms(1-5) Fields_pair [of scheme tok] by (simp add: presented_def)
  with assms(6,7) show ?thesis by (simp add: auth_presented)
qed

theorem bearer_header_roundtrip_witness:
  "no_space ''abc'' \<and>
   auth_Middleware stored_codec (AuthMiddleware 1 (\<lambda>tok. Inr (empty_AuthInfo\<lparr>Subject := tok\<rparr>)))
     (\<lambda>r s. Ret () (fst s, log_write LInfo (Subject (the (AuthFromContext (r_Ctx r)))) [] (snd s)))
     (bearer_request ''bEARER abc'') (BaseW new_resp, initial_world) =
   Ret () (BaseW new_resp, log_write LInfo ''abc'' [] initial_world)"
proof -
  have h: "no_space ''abc''" "''abc'' \<noteq> []" "EqualFold ''bEARER'' ''Bearer''" "no_space ''bEARER''"
    by code_simp+
  have r: "hdr_Get (r_Header (bearer_request ''bEARER abc'')) ''Authorization'' = ''bEARER'' @ '' '' @ ''abc''"
    "r_Method (bearer_request ''bEARER abc'') \<noteq> ''OPTIONS''"
    by (simp_all add: bearer_request_def hdr_Get_def)
  show ?thesis
    using h(1) bearer_header_roundtrip [OF h r, of "AuthMiddleware 1 (\<lambda>tok. Inr (empty_AuthInfo\<lparr>Subject := tok\<rparr>))"]
    by (simp add: AuthMiddleware_def WithContext_def)
qed

end
