(* ===== verification/Cors_Middleware.thy ===== *)
theory Cors_Middleware
  imports Auth_Middleware
begin

text \<open>
  \<^verbatim>\<open>cors_middleware.go\<close>: the headers that let a browser share responses with other
  origins, and the answers to preflight requests.
\<close>

subsection \<open>The middleware\<close>

record implCorsMiddleware =
  cm_beanOrder :: int
  cm_Prefixes :: "string list"
  cm_AllowOrigins :: "string list"
  cm_AllowMethods :: "string list"
  cm_AllowHeaders :: "string list"
  cm_ExposeHeaders :: "string list"
  cm_AllowCreds :: bool
  cm_MaxAge :: string

definition CorsMiddleware :: "int \<Rightarrow> implCorsMiddleware" where
  "CorsMiddleware beanOrder = \<lparr>cm_beanOrder = beanOrder, cm_Prefixes = [''/''], cm_AllowOrigins = [''*''],
     cm_AllowMethods = [''GET'', ''POST'', ''PUT'', ''DELETE'', ''PATCH'', ''OPTIONS''],
     cm_AllowHeaders = [''Authorization'', ''Content-Type'', ''X-Request-ID''],
     cm_ExposeHeaders = [''X-Request-ID''], cm_AllowCreds = False, cm_MaxAge = ''86400''\<rparr>"

definition isOriginAllowed :: "implCorsMiddleware \<Rightarrow> string \<Rightarrow> bool" where
  "isOriginAllowed t origin = list_ex (\<lambda>o'. o' = ''*'' \<or> o' = origin) (cm_AllowOrigins t)"

text \<open>The edits of the map \<^verbatim>\<open>h := w.Header()\<close>.\<close>

definition cors_headers :: "implCorsMiddleware \<Rightarrow> string \<Rightarrow> header \<Rightarrow> header" where
  "cors_headers t origin h =
     (let h1 = hdr_Set h ''Access-Control-Allow-Origin'' origin;
          h2 = (if cm_AllowCreds t then hdr_Set h1 ''Access-Control-Allow-Credentials'' ''true'' else h1)
      in if 0 < length (cm_ExposeHeaders t)
         then hdr_Set h2 ''Access-Control-Expose-Headers'' (Join (cm_ExposeHeaders t) '', '') else h2)"

definition preflight_headers :: "implCorsMiddleware \<Rightarrow> header \<Rightarrow> header" where
  "preflight_headers t h =
     (let h1 = hdr_Set h ''Access-Control-Allow-Methods'' (Join (cm_AllowMethods t) '', '');
          h2 = hdr_Set h1 ''Access-Control-Allow-Headers'' (Join (cm_AllowHeaders t) '', '')
      in hdr_Set h2 ''Access-Control-Max-Age'' (cm_MaxAge t))"

definition edit_headers :: "(header \<Rightarrow> header) \<Rightarrow> hstate \<Rightarrow> hstate" where
  "edit_headers f s = (wr_editHeader f (fst s), snd s)"

definition cors_Middleware :: "implCorsMiddleware \<Rightarrow> handler \<Rightarrow> handler" where
  "cors_Middleware t nxt r s =
     (let origin = hdr_Get (r_Header r) ''Origin'' in
      if origin = [] then nxt r s
      else if \<not> isOriginAllowed t origin then nxt r s
      else
        let s1 = edit_headers (cors_headers t origin) s in
        if r_Method r = ''OPTIONS'' then on_writer (wr_WriteHeader 204) (edit_headers (preflight_headers t) s1)
        else nxt r s1)"

definition cm_Match :: "implCorsMiddleware \<Rightarrow> string \<Rightarrow> bool" where
  "cm_Match t pref = any_prefix (cm_Prefixes t) pref"

subsection \<open>Headers of a base response\<close>

lemma cors_headers_get [hdr_simps]:
  "hdr_Get (cors_headers t origin h) ''Access-Control-Allow-Origin'' = origin"
  "hdr_Get (cors_headers t origin h) ''Access-Control-Allow-Credentials'' =
     (if cm_AllowCreds t then ''true'' else hdr_Get h ''Access-Control-Allow-Credentials'')"
  by (simp_all add: cors_headers_def Let_def hdr_simps)

lemma preflight_headers_get [hdr_simps]:
  "hdr_Get (preflight_headers t h) ''Access-Control-Allow-Methods'' = Join (cm_AllowMethods t) '', ''"
  "hdr_Get (preflight_headers t h) ''Access-Control-Allow-Headers'' = Join (cm_AllowHeaders t) '', ''"
  "hdr_Get (preflight_headers t h) ''Access-Control-Max-Age'' = cm_MaxAge t"
  "hdr_Get (preflight_headers t h) ''Access-Control-Allow-Origin'' = hdr_Get h ''Access-Control-Allow-Origin''"
  by (simp_all add: preflight_headers_def Let_def hdr_simps)

subsection \<open>Properties\<close>

text \<open>
  C25. A request of an origin that is not allowed, or of none, gets the handler's response as it
  is. A preflight request of an allowed origin is answered without the handler, with the
  status 204, for exactly that origin and with the configured methods, headers and age. Any
  other request of an allowed origin reaches the handler with the origin already granted.
\<close>

theorem cors_grants_allowed_origins:
  assumes "s = (BaseW q, wd)" and "\<not> rs_wrote q" and "hdr_Get (r_Header r) ''Origin'' = origin"
  shows "if origin = [] \<or> origin \<notin> set (cm_AllowOrigins t) \<and> ''*'' \<notin> set (cm_AllowOrigins t)
    then cors_Middleware t nxt r s = nxt r s
    else if r_Method r = ''OPTIONS''
    then (\<forall>nxt'. cors_Middleware t nxt' r s = cors_Middleware t nxt r s) \<and>
      returns (cors_Middleware t nxt r s) \<and> status_sent (cors_Middleware t nxt r s) = Some 204 \<and>
      header_sent (cors_Middleware t nxt r s) ''Access-Control-Allow-Origin'' = origin \<and>
      header_sent (cors_Middleware t nxt r s) ''Access-Control-Allow-Methods'' = Join (cm_AllowMethods t) '', '' \<and>
      header_sent (cors_Middleware t nxt r s) ''Access-Control-Allow-Headers'' = Join (cm_AllowHeaders t) '', '' \<and>
      header_sent (cors_Middleware t nxt r s) ''Access-Control-Max-Age'' = cm_MaxAge t
    else (\<exists>h :: header. cors_Middleware t nxt r s = nxt r (BaseW (q\<lparr>rs_header := h\<rparr>), wd) \<and>
      hdr_Get h ''Access-Control-Allow-Origin'' = origin)"
proof -
  have al: "isOriginAllowed t origin \<longleftrightarrow> origin \<in> set (cm_AllowOrigins t) \<or> ''*'' \<in> set (cm_AllowOrigins t)"
    by (auto simp: isOriginAllowed_def list_ex_iff)
  let ?h = "preflight_headers t (cors_headers t origin (rs_header q))"
  obtain q2 where q2: "wr_WriteHeader 204 (BaseW (q\<lparr>rs_header := ?h\<rparr>)) = Ret () (BaseW q2)"
    "rs_wrote q2" "rs_status q2 = 204" "rs_sent_header q2 = ?h"
    using base_WriteHeader_fresh [of "q\<lparr>rs_header := ?h\<rparr>" 204] assms(2) by auto
  show ?thesis
    using q2 assms(1,3) al
    by (auto simp: cors_Middleware_def Let_def on_writer_def status_sent_def header_sent_def edit_headers_def hdr_simps)
qed

definition preflight_request :: request where
  "preflight_request = (bearer_request [])\<lparr>r_Method := ''OPTIONS'', r_Header := [''Origin'' \<mapsto> [''http://a'']]\<rparr>"

theorem cors_grants_allowed_origins_witness:
  "\<not> rs_wrote new_resp \<and>
   status_sent (cors_Middleware (CorsMiddleware 1) (\<lambda>r s. Panic s) preflight_request (BaseW new_resp, initial_world)) = Some 204 \<and>
   header_sent (cors_Middleware (CorsMiddleware 1) (\<lambda>r s. Panic s) preflight_request (BaseW new_resp, initial_world))
     ''Access-Control-Allow-Origin'' = ''http://a''"
proof -
  have q: "\<not> rs_wrote new_resp" by (simp add: new_resp_def)
  have o: "hdr_Get (r_Header preflight_request) ''Origin'' = ''http://a''"
    by (simp add: preflight_request_def hdr_Get_def)
  have m: "r_Method preflight_request = ''OPTIONS''" "''*'' \<in> set (cm_AllowOrigins (CorsMiddleware 1))"
    by (simp_all add: preflight_request_def CorsMiddleware_def)
  show ?thesis
    using q m cors_grants_allowed_origins [OF refl q o, of "CorsMiddleware 1" "\<lambda>r s. Panic s" initial_world] by simp
qed

text \<open>
  The wildcard combined with credentials grants credentialed access to every origin: the
  response names whatever origin asks, together with the credentials header, which defeats
  the browsers' rule that a wildcard never goes with credentials.
\<close>

theorem cors_wildcard_with_credentials:
  assumes "''*'' \<in> set (cm_AllowOrigins t)" and "cm_AllowCreds t"
    and "hdr_Get (r_Header r) ''Origin'' = origin" and "origin \<noteq> []" and "r_Method r \<noteq> ''OPTIONS''"
  shows "\<exists>h. cors_Middleware t nxt r (BaseW q, wd) = nxt r (BaseW (q\<lparr>rs_header := h\<rparr>), wd) \<and>
     hdr_Get h ''Access-Control-Allow-Origin'' = origin \<and>
     hdr_Get h ''Access-Control-Allow-Credentials'' = ''true''"
proof -
  have "isOriginAllowed t origin" using assms(1) by (auto simp: isOriginAllowed_def list_ex_iff)
  with assms show ?thesis
    by (intro exI [of _ "cors_headers t origin (rs_header q)"])
      (simp add: cors_Middleware_def Let_def edit_headers_def hdr_simps)
qed

theorem cors_wildcard_with_credentials_witness:
  "\<exists>h. cors_Middleware ((CorsMiddleware 1)\<lparr>cm_AllowCreds := True\<rparr>) (\<lambda>r. Ret ())
      (preflight_request\<lparr>r_Method := ''GET''\<rparr>) (BaseW new_resp, initial_world) =
     Ret () (BaseW (new_resp\<lparr>rs_header := h\<rparr>), initial_world) \<and>
     hdr_Get h ''Access-Control-Allow-Origin'' = ''http://a'' \<and>
     hdr_Get h ''Access-Control-Allow-Credentials'' = ''true''"
  using cors_wildcard_with_credentials [of "(CorsMiddleware 1)\<lparr>cm_AllowCreds := True\<rparr>"
      "preflight_request\<lparr>r_Method := ''GET''\<rparr>" "''http://a''" "\<lambda>r. Ret ()" new_resp initial_world]
  by (simp add: CorsMiddleware_def preflight_request_def hdr_Get_def)

end
