(* ===== verification/Request_Id.thy ===== *)
theory Request_Id
  imports Http_Handlers
begin

text \<open>
  \<^verbatim>\<open>requestid_middleware.go\<close>: every request gets an id, its own or a random one, that the
  handler finds in the context and the client in the response.
\<close>

subsection \<open>The middleware\<close>

record implRequestIDMiddleware =
  rim_beanOrder :: int
  rim_Prefixes :: "string list"

definition RequestIDMiddleware :: "int \<Rightarrow> implRequestIDMiddleware" where
  "RequestIDMiddleware beanOrder = \<lparr>rim_beanOrder = beanOrder, rim_Prefixes = [''/'']\<rparr>"

definition generateRequestID :: "world \<Rightarrow> string \<times> world" where
  "generateRequestID wd = (let (b, wd1) = rand_Read wd in (hex_EncodeToString b, wd1))"

definition rid_Middleware :: "implRequestIDMiddleware \<Rightarrow> handler \<Rightarrow> handler" where
  "rid_Middleware t nxt r s =
     (let id0 = hdr_Get (r_Header r) ''X-Request-ID'';
          (rid, wd) = (if id0 = [] then generateRequestID (snd s) else (id0, snd s));
          ctx = WithValue (r_Ctx r) requestIDContextKey (CtxString rid)
      in nxt (WithContext r ctx) (set_header ''X-Request-ID'' rid (fst s, wd)))"

definition rim_Match :: "implRequestIDMiddleware \<Rightarrow> string \<Rightarrow> bool" where
  "rim_Match t pref = any_prefix (rim_Prefixes t) pref"

lemma wr_Header_edit [simp]: "wr_Header (wr_editHeader f w) = f (wr_Header w)"
  by (induction w) auto

subsection \<open>Properties\<close>

text \<open>
  The handler runs exactly once, with an id that is never empty: the one the client sent,
  or else the hexadecimal form of the next sixteen random bytes. The same id is in the
  request's context and in the header of the response, on any writer, and an identity that
  the context carried is still there.
\<close>

theorem request_id_consistent:
  assumes "length (w_rand wd (w_rands wd)) = 16"
  shows "\<exists>rid r1 s1. rid_Middleware t nxt r (w, wd) = nxt r1 s1 \<and> rid \<noteq> [] \<and>
     RequestIDFromContext (r_Ctx r1) = Some rid \<and> hdr_Get (wr_Header (fst s1)) ''X-Request-ID'' = rid \<and>
     AuthFromContext (r_Ctx r1) = AuthFromContext (r_Ctx r) \<and> skel (fst s1) = skel w \<and>
     (if hdr_Get (r_Header r) ''X-Request-ID'' \<noteq> []
      then rid = hdr_Get (r_Header r) ''X-Request-ID'' \<and> snd s1 = wd
      else rid = hex_EncodeToString (w_rand wd (w_rands wd)) \<and> length rid = 32 \<and>
        w_rands (snd s1) = Suc (w_rands wd))"
proof -
  let ?id0 = "hdr_Get (r_Header r) ''X-Request-ID''"
  let ?rid = "if ?id0 = [] then hex_EncodeToString (w_rand wd (w_rands wd)) else ?id0"
  let ?wd = "if ?id0 = [] then wd\<lparr>w_rands := Suc (w_rands wd)\<rparr> else wd"
  let ?r1 = "WithContext r (WithValue (r_Ctx r) requestIDContextKey (CtxString ?rid))"
  let ?s1 = "set_header ''X-Request-ID'' ?rid (w, ?wd)"
  have "rid_Middleware t nxt r (w, wd) = nxt ?r1 ?s1"
    by (simp add: rid_Middleware_def generateRequestID_def rand_Read_def Let_def)
  moreover have len: "length (hex_EncodeToString (w_rand wd (w_rands wd))) = 32" using assms by simp
  then have "?rid \<noteq> []" by (metis list.size(3) zero_neq_numeral)
  moreover have "hdr_Get (wr_Header (fst ?s1)) ''X-Request-ID'' = ?rid"
    by (simp add: set_header_def hdr_Get_Set)
  ultimately show ?thesis
    using len
    by (intro exI [of _ ?rid] exI [of _ ?r1] exI [of _ ?s1])
      (simp add: WithContext_def set_header_def)
qed

definition id_request :: "string \<Rightarrow> request" where
  "id_request v = \<lparr>r_Method = ''GET'', r_Path = ''/x'', r_RawPath = [], r_RawQuery = [],
     r_RemoteAddr = ''10.0.0.1:5'', r_Header = [''X-Request-Id'' \<mapsto> [v]],
     r_Body = [], r_BodyErr = False, r_Ctx = []\<rparr>"

theorem request_id_consistent_witness:
  "\<exists>(r1 :: request) s1. rid_Middleware (RequestIDMiddleware 1) (\<lambda>r. Ret ()) (id_request ''q7'') (BaseW new_resp, initial_world) =
     Ret () s1 \<and> RequestIDFromContext (r_Ctx r1) = Some ''q7'' \<and>
     hdr_Get (wr_Header (fst s1)) ''X-Request-ID'' = ''q7''"
proof -
  have l: "length (w_rand initial_world (w_rands initial_world)) = 16" by (simp add: initial_world_def)
  have h: "hdr_Get (r_Header (id_request ''q7'')) ''X-Request-ID'' = ''q7''"
    by (simp add: id_request_def hdr_Get_def)
  show ?thesis
    using request_id_consistent [OF l, of "RequestIDMiddleware 1" "\<lambda>r. Ret ()" "id_request ''q7''" "BaseW new_resp"] h
    by auto
qed

end
