(* ===== verification/Access_Log.thy ===== *)
theory Access_Log
  imports Request_Id
begin

text \<open>
  The access log, \<^verbatim>\<open>accesslog_middleware.go\<close>, a client of the contract
  \<open>counting_writer\<close>, and what the counters of that contract hold when a handler returns.
\<close>

subsection \<open>The access log\<close>

record implAccessLogMiddleware =
  al_beanOrder :: int
  al_Prefixes :: "string list"

definition AccessLogMiddleware :: "int \<Rightarrow> implAccessLogMiddleware" where
  "AccessLogMiddleware beanOrder = \<lparr>al_beanOrder = beanOrder, al_Prefixes = [''/'']\<rparr>"

definition new_statusWriter :: statusWriter where
  "new_statusWriter = \<lparr>sw_status = 200, sw_written = 0\<rparr>"

fun counted :: "writer \<Rightarrow> statusWriter" where
  "counted (StatusW sw w) = sw"
| "counted (MetricsW sw w) = sw"
| "counted w = new_statusWriter"

fun unwrap_counted :: "writer \<Rightarrow> writer" where
  "unwrap_counted (StatusW sw w) = w"
| "unwrap_counted (MetricsW sw w) = w"
| "unwrap_counted w = w"

definition access_fields :: "request \<Rightarrow> statusWriter \<Rightarrow> int \<Rightarrow> log_field list" where
  "access_fields r sw duration =
     [FStr ''method'' (r_Method r), FStr ''path'' (r_Path r), FInt ''status'' (sw_status sw),
      FDur ''duration'' duration, FInt ''bytes'' (sw_written sw), FStr ''remote'' (r_RemoteAddr r)]
     @ (case RequestIDFromContext (r_Ctx r) of Some i \<Rightarrow> [FStr ''requestId'' i] | None \<Rightarrow> [])
     @ (if UserAgent r \<noteq> [] then [FStr ''userAgent'' (UserAgent r)] else [])"

definition al_Middleware :: "implAccessLogMiddleware \<Rightarrow> handler \<Rightarrow> handler" where
  "al_Middleware t nxt r s =
     (let (start, wd1) = time_Now (snd s) in
      mapO (\<lambda>(w, wd). (unwrap_counted w, wd))
        (bindO (nxt r (StatusW new_statusWriter (fst s), wd1))
          (\<lambda>_ (w, wd2).
             let (now, wd3) = time_Now wd2; duration = sat64 (now - start)
             in Ret () (w, log_write LInfo ''access'' (access_fields r (counted w) duration) wd3))))"

definition al_Match :: "implAccessLogMiddleware \<Rightarrow> string \<Rightarrow> bool" where
  "al_Match t pref = any_prefix (al_Prefixes t) pref"

subsection \<open>What the counters hold when the handler returns\<close>

definition observed :: "codec \<Rightarrow> wop list \<Rightarrow> writer \<Rightarrow> statusWriter" where
  "observed G ops w = \<lparr>sw_status = last_code ops 200, sw_written = int (accepted G ops w)\<rparr>"

lemma run_status_writer:
  assumes "run_ops G ops w = Ret () w1"
  shows "run_ops G ops (StatusW new_statusWriter w) = Ret () (StatusW (observed G ops w) w1)"
    and "run_ops G ops (MetricsW new_statusWriter w) = Ret () (MetricsW (observed G ops w) w1)"
  using assms status_writer.run_ops_wrap [of G ops new_statusWriter w]
    metrics_writer.run_ops_wrap [of G ops new_statusWriter w]
  by (auto simp: observed_def new_statusWriter_def)

text \<open>
  One final status at most, and none after a write: the usual form of a handler, for which
  the counters and the response agree.
\<close>

fun one_status :: "bool \<Rightarrow> wop list \<Rightarrow> bool" where
  "one_status done' [] = True"
| "one_status done' (OpWriteHeader c # xs) = (\<not> done' \<and> \<not> informational c \<and> one_status True xs)"
| "one_status done' (OpWrite p # xs) = one_status True xs"
| "one_status done' (_ # xs) = one_status done' xs"

lemma one_status_last: "one_status True xs \<Longrightarrow> last_code xs d = d"
  by (induction True xs rule: one_status.induct) auto

lemma one_status_sent:
  "one_status False xs \<Longrightarrow> last_code xs 200 = (case sent_status xs of Some c \<Rightarrow> c | None \<Rightarrow> 200)"
  by (induction False xs rule: one_status.induct) (auto simp: one_status_last)

lemma base_finish_status:
  assumes "run_ops G ops (BaseW new_resp) = Ret () (BaseW q)" and "one_status False ops"
  shows "rs_status (finish q) = last_code ops 200"
proof -
  have "case sent_status ops of Some c \<Rightarrow> rs_wrote q \<and> rs_status q = c | None \<Rightarrow> \<not> rs_wrote q"
    using run_ops_base_status [OF assms(1)] by (simp add: new_resp_def)
  then show ?thesis
    using one_status_sent [OF assms(2)] base_WriteHeader_fresh [of q 200]
    by (auto simp: finish_def split: option.splits)
qed

subsection \<open>Properties\<close>

text \<open>
  For a handler that sets at most one status, before its first write, the recorded status
  is the status that the client receives.
\<close>

theorem recorded_status_is_sent:
  assumes "run_ops G ops (BaseW new_resp) = Ret () (BaseW q)" and "one_status False ops"
  shows "sw_status (observed G ops (BaseW new_resp)) = rs_status (finish q)"
  using base_finish_status [OF assms] by (simp add: observed_def)

theorem recorded_status_is_sent_witness:
  "one_status False [OpWriteHeader 404] \<and>
   sw_status (observed stored_codec [OpWriteHeader 404] (BaseW new_resp)) = 404"
proof -
  have o: "one_status False [OpWriteHeader 404]" by (simp add: informational_def)
  obtain q where q: "run_ops stored_codec [OpWriteHeader 404] (BaseW new_resp) = Ret () (BaseW q)"
    "rs_wrote q" "rs_status q = 404"
    using base_WriteHeader_fresh [of new_resp 404] by (auto simp: new_resp_def)
  show ?thesis using o recorded_status_is_sent [OF q(1) o] q by (simp add: finish_def)
qed

text \<open>
  Without that restriction it is not: after a handler sends 200 and then calls
  \<^verbatim>\<open>WriteHeader(500)\<close>, which \<^verbatim>\<open>net/http\<close> ignores, the log and the metrics say 500
  and the client received 200.
\<close>

theorem recorded_status_can_differ:
  "\<exists>q. run_ops G [OpWriteHeader 200, OpWriteHeader 500] (BaseW new_resp) = Ret () (BaseW q) \<and>
     rs_status (finish q) = 200 \<and>
     sw_status (observed G [OpWriteHeader 200, OpWriteHeader 500] (BaseW new_resp)) = 500"
  using base_WriteHeader_fresh [of new_resp 200]
  by (auto simp: new_resp_def finish_def observed_def)

end
