(* ===== verification/Metrics.thy ===== *)
theory Metrics
  imports Access_Log
begin

text \<open>
  \<^verbatim>\<open>metrics_handler.go\<close>: the metric vectors, their registration, the endpoint that exposes
  them and the middleware that fills them. The Prometheus library is a parameter: its handler,
  and the check \<open>valid\<close> it makes on a label value.
\<close>

subsection \<open>The vectors\<close>

text \<open>Bounds of buckets; \<open>None\<close> stands for the default buckets of the library.\<close>

datatype metric_kind = CounterVec | HistogramVec "int list option"

record metric_vec =
  mv_Namespace :: string
  mv_Name :: string
  mv_Help :: string
  mv_kind :: metric_kind
  mv_labels :: "string list"

definition httpRequestsTotal :: metric_vec where
  "httpRequestsTotal = \<lparr>mv_Namespace = ''servion'', mv_Name = ''http_requests_total'',
     mv_Help = ''Total number of HTTP requests.'', mv_kind = CounterVec, mv_labels = [''method'', ''path'', ''status'']\<rparr>"

definition httpRequestDuration :: metric_vec where
  "httpRequestDuration = \<lparr>mv_Namespace = ''servion'', mv_Name = ''http_request_duration_seconds'',
     mv_Help = ''HTTP request duration in seconds.'', mv_kind = HistogramVec None, mv_labels = [''method'', ''path'']\<rparr>"

text \<open>\<^verbatim>\<open>prometheus.ExponentialBuckets\<close>.\<close>

definition ExponentialBuckets :: "int \<Rightarrow> int \<Rightarrow> nat \<Rightarrow> int list" where
  "ExponentialBuckets start factor count = map (\<lambda>i. start * factor ^ i) [0..<count]"

definition httpResponseSize :: metric_vec where
  "httpResponseSize = \<lparr>mv_Namespace = ''servion'', mv_Name = ''http_response_size_bytes'',
     mv_Help = ''HTTP response size in bytes.'', mv_kind = HistogramVec (Some (ExponentialBuckets 100 10 7)),
     mv_labels = [''method'', ''path'']\<rparr>"

text \<open>
  \<^verbatim>\<open>MustRegister\<close> panics at a vector whose full name, or the name of one of its labels, is
  there already.
\<close>

definition fq_name :: "metric_vec \<Rightarrow> string" where
  "fq_name v = mv_Namespace v @ ''_'' @ mv_Name v"

fun MustRegister :: "metric_vec list \<Rightarrow> metric_vec list \<Rightarrow> (unit, metric_vec list) outcome" where
  "MustRegister [] reg = Ret () reg"
| "MustRegister (v # vs) reg =
     (if fq_name v \<in> fq_name ` set reg \<or> \<not> distinct (mv_labels v) then Panic reg else MustRegister vs (reg @ [v]))"

definition metrics_init :: "metric_vec list \<Rightarrow> (unit, metric_vec list) outcome" where
  "metrics_init reg = MustRegister [httpRequestsTotal, httpRequestDuration, httpResponseSize] reg"

subsection \<open>The endpoint\<close>

record implMetricsHandler =
  mh_MetricsPattern :: string

definition MetricsHandler :: implMetricsHandler where
  "MetricsHandler = \<lparr>mh_MetricsPattern = ''/metrics''\<rparr>"

definition mh_Pattern :: "implMetricsHandler \<Rightarrow> string" where
  "mh_Pattern t = mh_MetricsPattern t"

definition mh_ServeHTTP :: "handler \<Rightarrow> implMetricsHandler \<Rightarrow> handler" where
  "mh_ServeHTTP promhttp_Handler t = promhttp_Handler"

subsection \<open>The middleware\<close>

record implMetricsMiddleware =
  mm_beanOrder :: int
  mm_Prefixes :: "string list"

definition MetricsMiddleware :: "int \<Rightarrow> implMetricsMiddleware" where
  "MetricsMiddleware beanOrder = \<lparr>mm_beanOrder = beanOrder, mm_Prefixes = [''/'']\<rparr>"

text \<open>Durations are kept in nanoseconds; the code divides them into seconds for Prometheus.\<close>

definition request_metrics :: "request \<Rightarrow> statusWriter \<Rightarrow> int \<Rightarrow> metric_call list" where
  "request_metrics r sw duration =
     [IncRequests [r_Method r, r_Path r, Itoa (sw_status sw)],
      ObserveDuration [r_Method r, r_Path r] duration,
      ObserveSize [r_Method r, r_Path r] (sw_written sw)]"

fun call_vec :: "metric_call \<Rightarrow> metric_vec \<times> string list" where
  "call_vec (IncRequests ls) = (httpRequestsTotal, ls)"
| "call_vec (ObserveDuration ls d) = (httpRequestDuration, ls)"
| "call_vec (ObserveSize ls n) = (httpResponseSize, ls)"

text \<open>
  \<^verbatim>\<open>WithLabelValues\<close> panics unless there is one value for each label and each value passes
  the library's check.
\<close>

definition WithLabelValues :: "(string \<Rightarrow> bool) \<Rightarrow> metric_vec \<Rightarrow> string list \<Rightarrow> bool" where
  "WithLabelValues valid v vals \<longleftrightarrow> length vals = length (mv_labels v) \<and> list_all valid vals"

fun record_metrics :: "(string \<Rightarrow> bool) \<Rightarrow> metric_call list \<Rightarrow> world \<Rightarrow> (unit, world) outcome" where
  "record_metrics valid [] wd = Ret () wd"
| "record_metrics valid (c # cs) wd =
     (if WithLabelValues valid (fst (call_vec c)) (snd (call_vec c))
      then record_metrics valid cs (metric_write [c] wd) else Panic wd)"

definition mm_Middleware :: "(string \<Rightarrow> bool) \<Rightarrow> implMetricsMiddleware \<Rightarrow> handler \<Rightarrow> handler" where
  "mm_Middleware valid t nxt r s =
     (let (start, wd1) = time_Now (snd s) in
      mapO (\<lambda>(w, wd). (unwrap_counted w, wd))
        (bindO (nxt r (MetricsW new_statusWriter (fst s), wd1))
          (\<lambda>_ (w, wd2).
             let (now, wd3) = time_Now wd2; duration = sat64 (now - start)
             in mapO (\<lambda>wd. (w, wd)) (record_metrics valid (request_metrics r (counted w) duration) wd3))))"

definition mm_Match :: "implMetricsMiddleware \<Rightarrow> string \<Rightarrow> bool" where
  "mm_Match t pref = any_prefix (mm_Prefixes t) pref"

subsection \<open>What the library promises of labels\<close>

definition label_law :: "(string \<Rightarrow> bool) \<Rightarrow> bool" where
  "label_law valid \<longleftrightarrow> (\<forall>s. (\<forall>c \<in> set s. byte c < 128) \<longrightarrow> valid s)"

lemma nat_digits_ascii: "c \<in> set (nat_digits n) \<Longrightarrow> byte c < 128"
  using nat_digits_digits [of n] by (auto simp: list_all_iff is_digit_def)

lemma Itoa_valid: "label_law valid \<Longrightarrow> valid (Itoa i)"
proof -
  have "byte CHR ''-'' < 128" by (simp add: byte_def)
  then have "\<forall>c \<in> set (Itoa i). byte c < 128" by (auto simp: Itoa_def nat_digits_ascii)
  then show "label_law valid \<Longrightarrow> valid (Itoa i)" by (simp add: label_law_def)
qed

lemma record_request_metrics:
  "record_metrics valid (request_metrics r sw d) wd =
     (if valid (r_Method r) \<and> valid (r_Path r)
      then if valid (Itoa (sw_status sw)) then Ret () (metric_write (request_metrics r sw d) wd) else Panic wd
      else Panic wd)"
  by (simp add: request_metrics_def WithLabelValues_def httpRequestsTotal_def httpRequestDuration_def
      httpResponseSize_def metric_write_def)

lemma record_valid:
  "label_law valid \<Longrightarrow> valid (r_Method r) \<Longrightarrow> valid (r_Path r) \<Longrightarrow>
     record_metrics valid (request_metrics r sw d) wd = Ret () (metric_write (request_metrics r sw d) wd)"
  by (simp add: record_request_metrics Itoa_valid)

subsection \<open>Properties\<close>

lemma accepted_status: "accepted G ops (StatusW sw w) = accepted G ops w"
proof (induction ops arbitrary: sw w)
  case (Cons x xs)
  then show ?case
  proof (cases x)
    case (OpWriteHeader c)
    with Cons show ?thesis by (cases "wr_WriteHeader c w") auto
  next
    case (OpWrite p)
    with Cons show ?thesis by (cases "wr_Write G w p") auto
  qed auto
qed simp

text \<open>A handler below both observers: it writes through two counters.\<close>

lemma observers_returned:
  assumes "run_ops G ops w = Ret () w1"
  shows "run_ops G ops (MetricsW new_statusWriter (StatusW new_statusWriter w)) =
     Ret () (MetricsW (observed G ops w) (StatusW (observed G ops w) w1))"
  using run_status_writer(2) [OF run_status_writer(1) [OF assms]]
  by (simp add: observed_def accepted_status)

lemma observers_panicked:
  assumes "run_ops G ops w = Panic w1"
  shows "\<exists>s1 s2. run_ops G ops (MetricsW s (StatusW s' w)) = Panic (MetricsW s1 (StatusW s2 w1))"
proof -
  obtain s2 where "run_ops G ops (StatusW s' w) = Panic (StatusW s2 w1)"
    using status_writer.run_ops_wrap [of G ops s' w] assms by auto
  then show ?thesis
    using metrics_writer.run_ops_wrap [of G ops s "StatusW s' w"] by auto
qed

text \<open>
  C26. The two observing middlewares, one around the other as they are usually configured, on
  any writer. A request whose handler returns, and whose method and path the metrics library
  accepts as label values, is recorded exactly once, by one access-log line and one triple of
  metric updates with the method, the path, the last status that the handler set (200 if none)
  and the number of bytes that the writer accepted, and its response is the one that the
  handler makes alone. In every other case, a handler that panics or a label value that the
  library refuses, the chain panics, with the response as the handler left it, and nothing is
  recorded, neither a log line nor a metric.
\<close>

theorem observers_are_transparent:
  assumes "\<And>wd. f r wd = (ops, wd)" and "label_law valid"
  shows "(\<forall>w1. run_ops G ops w = Ret () w1 \<and> valid (r_Method r) \<and> valid (r_Path r) \<longrightarrow>
      (\<exists>d1 d2 wd'. al_Middleware ta (mm_Middleware valid tm (ops_handler G f)) r (w, wd) = Ret () (w1, wd') \<and>
         w_log wd' = w_log wd @ [(LInfo, ''access'', access_fields r (observed G ops w) d1)] \<and>
         w_metrics wd' = w_metrics wd @ request_metrics r (observed G ops w) d2 \<and>
         w_buckets wd' = w_buckets wd)) \<and>
    (\<forall>w1. run_ops G ops w = Panic w1 \<or>
        run_ops G ops w = Ret () w1 \<and> \<not> (valid (r_Method r) \<and> valid (r_Path r)) \<longrightarrow>
      (\<exists>wd'. al_Middleware ta (mm_Middleware valid tm (ops_handler G f)) r (w, wd) = Panic (w1, wd') \<and>
         w_log wd' = w_log wd \<and> w_metrics wd' = w_metrics wd \<and> w_buckets wd' = w_buckets wd))"
proof (intro conjI allI impI; elim conjE disjE)
  fix w1
  assume "run_ops G ops w = Ret () w1" and v: "valid (r_Method r)" "valid (r_Path r)"
  from observers_returned [OF this(1)] show "\<exists>d1 d2 wd'.
      al_Middleware ta (mm_Middleware valid tm (ops_handler G f)) r (w, wd) = Ret () (w1, wd') \<and>
      w_log wd' = w_log wd @ [(LInfo, ''access'', access_fields r (observed G ops w) d1)] \<and>
      w_metrics wd' = w_metrics wd @ request_metrics r (observed G ops w) d2 \<and> w_buckets wd' = w_buckets wd"
    by (simp add: al_Middleware_def mm_Middleware_def ops_handler_def time_Now_def log_write_def assms(1)
        record_valid [OF assms(2) v] metric_write_def) blast
next
  fix w1
  assume "run_ops G ops w = Panic w1"
  then obtain s1 s2 where "run_ops G ops (MetricsW new_statusWriter (StatusW new_statusWriter w)) =
      Panic (MetricsW s1 (StatusW s2 w1))" using observers_panicked by blast
  then show "\<exists>wd'. al_Middleware ta (mm_Middleware valid tm (ops_handler G f)) r (w, wd) = Panic (w1, wd') \<and>
      w_log wd' = w_log wd \<and> w_metrics wd' = w_metrics wd \<and> w_buckets wd' = w_buckets wd"
    by (simp add: al_Middleware_def mm_Middleware_def ops_handler_def time_Now_def assms(1))
next
  fix w1
  assume "run_ops G ops w = Ret () w1" and v: "\<not> (valid (r_Method r) \<and> valid (r_Path r))"
  from observers_returned [OF this(1)] v
  show "\<exists>wd'. al_Middleware ta (mm_Middleware valid tm (ops_handler G f)) r (w, wd) = Panic (w1, wd') \<and>
      w_log wd' = w_log wd \<and> w_metrics wd' = w_metrics wd \<and> w_buckets wd' = w_buckets wd"
    by (simp add: al_Middleware_def mm_Middleware_def ops_handler_def time_Now_def assms(1)
        record_request_metrics)
qed

theorem observers_are_transparent_witness:
  "(\<exists>d1 d2 wd'. al_Middleware (AccessLogMiddleware 1) (mm_Middleware (\<lambda>_. True) (MetricsMiddleware 2)
      (ops_handler stored_codec (\<lambda>r wd. ([OpSet ''Vary'' ''x''], wd)))) (id_request ''q7'') (BaseW new_resp, initial_world) =
      Ret () (BaseW (new_resp\<lparr>rs_header := hdr_Set Map.empty ''Vary'' ''x''\<rparr>), wd')) \<and>
   (\<exists>wd'. al_Middleware (AccessLogMiddleware 1) (mm_Middleware (list_all (\<lambda>c. byte c < 128)) (MetricsMiddleware 2)
      (ops_handler stored_codec (\<lambda>r wd. ([], wd)))) ((id_request ''q7'')\<lparr>r_Path := [CHR 0xFF]\<rparr>)
        (BaseW new_resp, initial_world) = Panic (BaseW new_resp, wd'))"
proof
  have r: "run_ops stored_codec [OpSet ''Vary'' ''x''] (BaseW new_resp) =
      Ret () (BaseW (new_resp\<lparr>rs_header := hdr_Set Map.empty ''Vary'' ''x''\<rparr>))" by (simp add: new_resp_def)
  have l: "label_law (\<lambda>_. True)" by (simp add: label_law_def)
  show "\<exists>d1 d2 wd'. al_Middleware (AccessLogMiddleware 1) (mm_Middleware (\<lambda>_. True) (MetricsMiddleware 2)
      (ops_handler stored_codec (\<lambda>r wd. ([OpSet ''Vary'' ''x''], wd)))) (id_request ''q7'') (BaseW new_resp, initial_world) =
      Ret () (BaseW (new_resp\<lparr>rs_header := hdr_Set Map.empty ''Vary'' ''x''\<rparr>), wd')"
    using observers_are_transparent [of "\<lambda>r wd. ([OpSet ''Vary'' ''x''], wd)" "id_request ''q7''", OF refl l] r
    by blast
  have l': "label_law (list_all (\<lambda>c. byte c < 128))" by (simp add: label_law_def list_all_iff)
  have v: "\<not> (list_all (\<lambda>c. byte c < 128) (r_Method ((id_request ''q7'')\<lparr>r_Path := [CHR 0xFF]\<rparr>)) \<and>
      list_all (\<lambda>c. byte c < 128) (r_Path ((id_request ''q7'')\<lparr>r_Path := [CHR 0xFF]\<rparr>)))"
    by (simp add: byte_def)
  show "\<exists>wd'. al_Middleware (AccessLogMiddleware 1) (mm_Middleware (list_all (\<lambda>c. byte c < 128)) (MetricsMiddleware 2)
      (ops_handler stored_codec (\<lambda>r wd. ([], wd)))) ((id_request ''q7'')\<lparr>r_Path := [CHR 0xFF]\<rparr>)
        (BaseW new_resp, initial_world) = Panic (BaseW new_resp, wd')"
    using observers_are_transparent [of "\<lambda>r wd. ([], wd)" "(id_request ''q7'')\<lparr>r_Path := [CHR 0xFF]\<rparr>",
        OF refl l', THEN conjunct2, rule_format, OF disjI2, OF conjI, OF run_ops.simps(1) v] by blast
qed

text \<open>
  C28. The metrics are used as they are declared: registering the three vectors cannot panic in
  a registry that has none of their names;
  every call that the middleware makes has one value for each label of its vector; and so the
  middleware itself panics, after a handler that returned, exactly when the library refuses
  the method or the path as a label value.
\<close>

theorem metrics_well_labelled:
  assumes "label_law valid"
    and "fq_name ` set reg \<inter> fq_name ` {httpRequestsTotal, httpRequestDuration, httpResponseSize} = {}"
    and "\<And>s. returns (nxt r s)"
  shows "metrics_init reg = Ret () (reg @ [httpRequestsTotal, httpRequestDuration, httpResponseSize]) \<and>
     (\<forall>c \<in> set (request_metrics r sw d). length (snd (call_vec c)) = length (mv_labels (fst (call_vec c)))) \<and>
     (returns (mm_Middleware valid t nxt r (w, wd)) \<longleftrightarrow> valid (r_Method r) \<and> valid (r_Path r))"
proof -
  note vecs = httpRequestsTotal_def httpRequestDuration_def httpResponseSize_def
  have "metrics_init reg = Ret () (reg @ [httpRequestsTotal, httpRequestDuration, httpResponseSize])"
    using assms(2) by (auto simp: metrics_init_def fq_name_def vecs)
  moreover have "\<forall>c \<in> set (request_metrics r sw d). length (snd (call_vec c)) = length (mv_labels (fst (call_vec c)))"
    by (simp add: request_metrics_def vecs)
  moreover have "returns (mm_Middleware valid t nxt r (w, wd)) \<longleftrightarrow> valid (r_Method r) \<and> valid (r_Path r)"
  proof -
    obtain start wd1 where st: "time_Now wd = (start, wd1)" by fastforce
    obtain u w2 wd2 where n: "nxt r (MetricsW new_statusWriter w, wd1) = Ret u (w2, wd2)"
      using assms(3) [of "(MetricsW new_statusWriter w, wd1)"] by (cases "nxt r (MetricsW new_statusWriter w, wd1)") auto
    obtain now wd3 where t: "time_Now wd2 = (now, wd3)" by fastforce
    show ?thesis by (simp add: mm_Middleware_def st n t record_request_metrics Itoa_valid [OF assms(1)])
  qed
  ultimately show ?thesis by blast
qed

theorem metrics_well_labelled_witness:
  "metrics_init [] = Ret () [httpRequestsTotal, httpRequestDuration, httpResponseSize] \<and>
   returns (mm_Middleware (\<lambda>_. True) (MetricsMiddleware 2) (\<lambda>r. Ret ()) (id_request ''q7'') (BaseW new_resp, initial_world))"
  using metrics_well_labelled [of "\<lambda>_. True" "[]" "\<lambda>r. Ret ()" "id_request ''q7''" _ _ "MetricsMiddleware 2" "BaseW new_resp" initial_world]
  by (simp add: label_law_def)

text \<open>
  The path of a request is decoded from the client's URL and need not be valid UTF-8: with a
  check that refuses such a value the middleware panics after the handler has answered, and
  the request is in no metric.
\<close>

theorem metrics_invalid_path_panics:
  assumes "\<not> valid (r_Path r)"
  shows "\<exists>s1. mm_Middleware valid t (ops_handler G (\<lambda>r wd. ([OpWriteHeader 200], wd))) r (BaseW new_resp, wd) = Panic s1 \<and>
     w_metrics (snd s1) = w_metrics wd \<and> (\<exists>q. fst s1 = BaseW q \<and> rs_wrote q \<and> rs_status q = 200)"
proof -
  obtain q where q: "base_WriteHeader 200 new_resp = Ret () q" "rs_wrote q" "rs_status q = 200"
    using base_WriteHeader_fresh [of new_resp 200] by (auto simp: new_resp_def)
  then show ?thesis
    using assms by (auto simp: mm_Middleware_def ops_handler_def time_Now_def record_request_metrics on_writer_def)
qed

end
