(* ===== verification/Token_Provider.thy ===== *)
theory Token_Provider
  imports Auth_Middleware
begin

text \<open>
  \<^verbatim>\<open>auth_token_provider.go\<close>: the authenticator of a list of configured tokens. It keeps the
  hashes of the tokens only.
\<close>

subsection \<open>The provider\<close>

record implAuthTokenProvider =
  tp_allowed :: "string \<rightharpoonup> AuthInfo"
  tp_Tokens :: "string list"

definition AuthTokenProvider :: "string list \<Rightarrow> implAuthTokenProvider" where
  "AuthTokenProvider tokens = \<lparr>tp_allowed = Map.empty, tp_Tokens = tokens\<rparr>"

text \<open>The loop over the configured tokens: the first one with a comma ends it with an error.\<close>

fun tp_load :: "string list \<Rightarrow> (string \<rightharpoonup> AuthInfo) \<Rightarrow> go_error option \<times> (string \<rightharpoonup> AuthInfo)" where
  "tp_load [] m = (None, m)"
| "tp_load (token # rest) m =
     (let token = TrimSpace token in
      if token \<noteq> [] then
        if Contains token '','' then (Some (ErrText ''token must not contain comma''), m)
        else let h = hashToken token in
          tp_load rest (m(h \<mapsto> empty_AuthInfo\<lparr>HashedToken := h, Subject := h\<rparr>))
      else tp_load rest m)"

definition tp_PostConstruct :: "implAuthTokenProvider \<Rightarrow> go_error option \<times> implAuthTokenProvider" where
  "tp_PostConstruct t =
     (case tp_load (tp_Tokens t) (tp_allowed t) of
        (Some e, m) \<Rightarrow> (Some e, t\<lparr>tp_allowed := m\<rparr>)
      | (None, m) \<Rightarrow> (None, t\<lparr>tp_allowed := m, tp_Tokens := []\<rparr>))"

definition tp_Authenticate :: "implAuthTokenProvider \<Rightarrow> string \<Rightarrow> go_error + AuthInfo" where
  "tp_Authenticate t token =
     (case tp_allowed t (hashToken token) of Some info \<Rightarrow> Inr info | None \<Rightarrow> Inl ErrUnauthorized)"

subsection \<open>Invariant\<close>

definition tp_inv :: "(string \<rightharpoonup> AuthInfo) \<Rightarrow> bool" where
  "tp_inv m \<longleftrightarrow> (\<forall>h i. m h = Some i \<longrightarrow> i = empty_AuthInfo\<lparr>HashedToken := h, Subject := h\<rparr>)"

lemma tp_inv_upd: "tp_inv m \<Longrightarrow> tp_inv (m(h \<mapsto> empty_AuthInfo\<lparr>HashedToken := h, Subject := h\<rparr>))"
  by (simp add: tp_inv_def)

lemma tp_load_inv: "tp_inv m \<Longrightarrow> tp_inv (snd (tp_load ts m))"
  by (induction ts arbitrary: m) (simp_all add: Let_def tp_inv_upd)

lemma tp_PostConstruct_inv: "tp_inv (tp_allowed t) \<Longrightarrow> tp_inv (tp_allowed (snd (tp_PostConstruct t)))"
  using tp_load_inv [of "tp_allowed t" "tp_Tokens t"]
  by (auto simp: tp_PostConstruct_def split: prod.splits option.splits)

interpretation token_provider: authenticator
  "tp_Authenticate (snd (tp_PostConstruct (AuthTokenProvider tokens)))" for tokens
proof -
  have "tp_inv (tp_allowed (snd (tp_PostConstruct (AuthTokenProvider tokens))))"
    by (rule tp_PostConstruct_inv) (simp add: tp_inv_def AuthTokenProvider_def)
  then show "authenticator (tp_Authenticate (snd (tp_PostConstruct (AuthTokenProvider tokens))))"
    by unfold_locales (fastforce simp: tp_Authenticate_def tp_inv_def split: option.splits)+
qed

text \<open>The tokens that a configuration means.\<close>

definition configured :: "string list \<Rightarrow> string list" where
  "configured ts = filter (\<lambda>p. p \<noteq> []) (map TrimSpace ts)"

lemma tp_load_error: "fst (tp_load ts m) = None \<longleftrightarrow> (\<forall>c \<in> set (configured ts). \<not> Contains c '','')"
  by (induction ts arbitrary: m) (simp_all add: Let_def configured_def)

lemma tp_load_dom:
  "tp_load ts m = (None, m') \<Longrightarrow> dom m' = dom m \<union> hashToken ` set (configured ts)"
  by (induction ts arbitrary: m) (auto simp: Let_def configured_def split: if_splits)

lemma tp_admits_only_configured:
  assumes "fst (tp_PostConstruct (AuthTokenProvider tokens)) = None"
    and "tp_Authenticate (snd (tp_PostConstruct (AuthTokenProvider tokens))) tok = Inr i"
  shows "hashToken tok \<in> hashToken ` set (configured tokens)"
proof -
  obtain e m where em: "tp_load tokens Map.empty = (e, m)" by fastforce
  with assms have "hashToken tok \<in> dom m" "e = None"
    by (auto simp: tp_PostConstruct_def tp_Authenticate_def AuthTokenProvider_def split: option.splits)
  with em tp_load_dom [of tokens Map.empty m] show ?thesis by simp
qed

subsection \<open>Properties\<close>

text \<open>
  C11. The provider starts exactly when no configured token has a comma in it, and then admits
  exactly the configured tokens: a presented token is accepted, with its hash as identity, if
  and only if its hash is that of a configured token without the white space around it; every
  other token is refused as unauthorized, and the plain tokens are gone.
\<close>

theorem token_provider_admits_configured:
  "(fst (tp_PostConstruct (AuthTokenProvider tokens)) = None \<longleftrightarrow> (\<forall>c \<in> set (configured tokens). CHR '','' \<notin> set c)) \<and>
   (fst (tp_PostConstruct (AuthTokenProvider tokens)) = None \<longrightarrow>
      tp_Tokens (snd (tp_PostConstruct (AuthTokenProvider tokens))) = [] \<and>
      tp_Authenticate (snd (tp_PostConstruct (AuthTokenProvider tokens))) token =
        (if hashToken token \<in> hashToken ` set (configured tokens)
         then Inr (empty_AuthInfo\<lparr>HashedToken := hashToken token, Subject := hashToken token\<rparr>)
         else Inl ErrUnauthorized))"
proof -
  let ?t = "AuthTokenProvider tokens"
  obtain e m where em: "tp_load tokens Map.empty = (e, m)" by fastforce
  have one: "Contains c '','' \<longleftrightarrow> CHR '','' \<in> set c" for c
    by (auto simp: sublist_def dest: split_list)
  have "tp_inv m" using tp_load_inv [of Map.empty tokens] em by (simp add: tp_inv_def)
  moreover have "e = None \<Longrightarrow> dom m = hashToken ` set (configured tokens)"
    using tp_load_dom [of tokens Map.empty m] em by simp
  ultimately have "e = None \<Longrightarrow> m h = (if h \<in> hashToken ` set (configured tokens)
      then Some (empty_AuthInfo\<lparr>HashedToken := h, Subject := h\<rparr>) else None)" for h
    by (cases "m h") (force simp: tp_inv_def)+
  then show ?thesis
    using em tp_load_error [of tokens Map.empty]
    by (auto simp: tp_PostConstruct_def tp_Authenticate_def AuthTokenProvider_def one split: option.splits)
qed

theorem token_provider_admits_configured_witness:
  "fst (tp_PostConstruct (AuthTokenProvider ['' abc '', []])) = None \<and>
   tp_Authenticate (snd (tp_PostConstruct (AuthTokenProvider ['' abc '', []]))) ''abc'' =
     Inr (empty_AuthInfo\<lparr>HashedToken := hashToken ''abc'', Subject := hashToken ''abc''\<rparr>)"
proof -
  have c: "configured ['' abc '', []] = [''abc'']" by code_simp
  then show ?thesis
    using token_provider_admits_configured [of "['' abc '', []]" "''abc''"] by simp
qed

end
