(* ===== verification/Server_Lifecycle.thy ===== *)
theory Server_Lifecycle
  imports Http_Types
begin

text \<open>
  What the three servers (HTTP, gRPC, value-rpc) have in common: listeners, the outcome of a
  serving loop, and the contract of \<^verbatim>\<open>servion.Server\<close> (\<^verbatim>\<open>api.go\<close>) for shutting
  down, as the locale \<open>server_lifecycle\<close>.
\<close>

subsection \<open>Listeners and channels\<close>

record listener =
  l_Network :: string
  l_String :: string
  l_tls :: bool
  l_open :: bool

definition close_listener :: "listener \<Rightarrow> listener" where
  "close_listener l = l\<lparr>l_open := False\<rparr>"

definition EmptyAddr :: "string \<times> string" where
  "EmptyAddr = ([], [])"

definition listener_addr :: "listener option \<Rightarrow> string \<times> string" where
  "listener_addr l = (case l of Some ln \<Rightarrow> (l_Network ln, l_String ln) | None \<Rightarrow> EmptyAddr)"

text \<open>\<^verbatim>\<open>close(ch)\<close> of a channel that is closed (\<open>True\<close>) panics.\<close>

definition close_chan :: "bool \<Rightarrow> (unit, bool) outcome" where
  "close_chan ch = (if ch then Panic ch else Ret () True)"

subsection \<open>The result of a serving loop\<close>

definition quoted :: "string \<Rightarrow> string" where
  "quoted s = CHR 0x27 # s @ [CHR 0x27]"

text \<open>
  A loop returns its error or panics with a value; \<open>stack\<close> is what \<^verbatim>\<open>debug.Stack()\<close>
  gives. \<open>PanicToError\<close> is the deferred function of \<^verbatim>\<open>utils.go\<close>.
\<close>

datatype serve_result = ServeReturns "go_error option" | ServePanics string string

definition PanicToError :: "serve_result \<Rightarrow> go_error option" where
  "PanicToError res =
     (case res of ServeReturns e \<Rightarrow> e | ServePanics v stack \<Rightarrow> Some (ErrText (v @ '', '' @ stack)))"

text \<open>The filter of errors that a closed socket causes.\<close>

definition closed_error :: "go_error \<Rightarrow> bool" where
  "closed_error e = Contains (Error e) ''closed''"

subsection \<open>The contract of shutting down\<close>

datatype stop_op = StopShutdown | StopDestroy

fun stop ::
  "('s \<Rightarrow> (go_error option, 's) outcome) \<Rightarrow> ('s \<Rightarrow> (go_error option, 's) outcome) \<Rightarrow> stop_op \<Rightarrow> 's
     \<Rightarrow> (go_error option, 's) outcome" where
  "stop sh de StopShutdown s = sh s"
| "stop sh de StopDestroy s = de s"

text \<open>A sequence of calls; the list holds what each of them returned.\<close>

fun stops ::
  "('s \<Rightarrow> (go_error option, 's) outcome) \<Rightarrow> ('s \<Rightarrow> (go_error option, 's) outcome) \<Rightarrow> stop_op list \<Rightarrow> 's
     \<Rightarrow> (go_error option list, 's) outcome" where
  "stops sh de [] s = Ret [] s"
| "stops sh de (x # xs) s =
     bindO (stop sh de x s) (\<lambda>e s'. bindO (stops sh de xs s') (\<lambda>es s''. Ret (e # es) s''))"

locale server_lifecycle =
  fixes shutdown destroy :: "'s \<Rightarrow> (go_error option, 's) outcome"
    and is_down :: "'s \<Rightarrow> bool"
    and wf :: "'s \<Rightarrow> bool"
  assumes first_shutdown: "wf s \<Longrightarrow> \<not> is_down s \<Longrightarrow> \<exists>e s'. shutdown s = Ret e s' \<and> is_down s' \<and> wf s'"
    and next_shutdown: "wf s \<Longrightarrow> is_down s \<Longrightarrow> shutdown s = Ret None s"
    and destroy_shutdown: "wf s \<Longrightarrow> shutdown s = Ret e s' \<Longrightarrow> destroy s = Ret None s'"
begin

lemma shutdown_returns: "wf s \<Longrightarrow> \<exists>e s'. shutdown s = Ret e s' \<and> is_down s' \<and> wf s'"
  using first_shutdown next_shutdown by (cases "is_down s") auto

lemma stop_down: "wf s \<Longrightarrow> is_down s \<Longrightarrow> stop shutdown destroy x s = Ret None s"
  using next_shutdown destroy_shutdown by (cases x) auto

lemma stops_down: "wf s \<Longrightarrow> is_down s \<Longrightarrow> stops shutdown destroy xs s = Ret (map (\<lambda>_. None) xs) s"
  by (induction xs) (simp_all add: stop_down)

lemma stop_first: "wf s \<Longrightarrow> \<exists>e s'. stop shutdown destroy x s = Ret e s' \<and> is_down s' \<and> wf s' \<and> s' = state_of (shutdown s)"
  using shutdown_returns [of s] destroy_shutdown [of s] by (cases x) auto

text \<open>
  Any further calls of \<^verbatim>\<open>Shutdown\<close> and \<^verbatim>\<open>Destroy\<close>, in any order, change nothing
  and report no error.
\<close>

lemma stops_idempotent:
  assumes "wf s"
  shows "\<exists>e. stops shutdown destroy (x # xs) s = Ret (e # map (\<lambda>_. None) xs) (state_of (shutdown s)) \<and>
     is_down (state_of (shutdown s))"
proof -
  obtain e s' where s': "stop shutdown destroy x s = Ret e s'" "is_down s'" "wf s'" "s' = state_of (shutdown s)"
    using stop_first [OF assms] by blast
  then show ?thesis using stops_down [OF s'(3,2), of xs] by auto
qed

end

end
