(* ===== verification/Http_Server.thy ===== *)
theory Http_Server
  imports Server_Lifecycle
begin

text \<open>
  \<^verbatim>\<open>http_server.go\<close>: the lifecycle of an HTTP server. \<^verbatim>\<open>Serve\<close> blocks while other
  goroutines shut the server down, so it is two operations, before and after the serving
  loop of \<^verbatim>\<open>net/http\<close>.
\<close>

subsection \<open>The server\<close>

text \<open>
  \<open>sv_TLSConfig\<close> is the field \<^verbatim>\<open>InsecureSkipVerify\<close> of the TLS configuration if there is
  one; \<open>hs_srv_closed\<close> counts the calls of \<^verbatim>\<open>srv.Close()\<close>.
\<close>

record http_Server =
  sv_Addr :: string
  sv_TLSConfig :: "bool option"

text \<open>
  \<^verbatim>\<open>tls.NewListener(inner, config)\<close> embeds the interface \<open>inner\<close>, which may be nil; the
  wrapper itself is never nil.
\<close>

datatype http_listener = PlainListener listener | TLSListener "http_listener option"

type_synonym ListenerProvider = "string \<Rightarrow> string \<Rightarrow> go_error + listener option"

record implHttpServer =
  hs_Provider :: "ListenerProvider option"
  hs_srv :: http_Server
  hs_listener :: "http_listener option"
  hs_alive :: bool
  hs_once :: bool
  hs_shutdownCh :: bool
  hs_srv_closed :: nat
  hs_log :: "log_entry list"

definition NewHttpServer :: "ListenerProvider option \<Rightarrow> http_Server \<Rightarrow> implHttpServer" where
  "NewHttpServer provider srv = \<lparr>hs_Provider = provider, hs_srv = srv, hs_listener = None, hs_alive = False,
     hs_once = False, hs_shutdownCh = False, hs_srv_closed = 0, hs_log = []\<rparr>"

definition hs_PostConstruct :: "implHttpServer \<Rightarrow> implHttpServer" where
  "hs_PostConstruct t = t\<lparr>hs_alive := False\<rparr>"

text \<open>\<open>net_Listen\<close> is what \<^verbatim>\<open>net.Listen("tcp", addr)\<close> gives.\<close>

definition listen_tcp ::
  "(string \<Rightarrow> go_error + listener) \<Rightarrow> implHttpServer \<Rightarrow> go_error option \<times> implHttpServer" where
  "listen_tcp net_Listen t =
     (case net_Listen (sv_Addr (hs_srv t)) of
        Inl e \<Rightarrow> (Some (ErrWrap (''can not bind to port '' @ quoted (sv_Addr (hs_srv t))) e), t\<lparr>hs_listener := None\<rparr>)
      | Inr ln \<Rightarrow> (None, t\<lparr>hs_listener := Some (PlainListener ln)\<rparr>))"

definition hs_Bind ::
  "(string \<Rightarrow> go_error + listener) \<Rightarrow> implHttpServer \<Rightarrow> go_error option \<times> implHttpServer" where
  "hs_Bind net_Listen t =
     (case hs_Provider t of
        Some provide \<Rightarrow>
          (case provide ''tcp'' (sv_Addr (hs_srv t)) of
             Inl e \<Rightarrow> (Some (ErrWrap (''listener provider for '' @ quoted (sv_Addr (hs_srv t))) e), t)
           | Inr (Some ln) \<Rightarrow> (None, t\<lparr>hs_listener := Some (PlainListener ln)\<rparr>)
           | Inr None \<Rightarrow> listen_tcp net_Listen t)
      | None \<Rightarrow> listen_tcp net_Listen t)"

definition hs_Alive :: "implHttpServer \<Rightarrow> bool" where
  "hs_Alive t = hs_alive t"

definition hs_ShutdownCh :: "implHttpServer \<Rightarrow> bool" where
  "hs_ShutdownCh t = hs_shutdownCh t"

text \<open>
  The methods of a listener: those of a wrapper are the ones of the listener inside, and a
  call on the nil interface inside a wrapper panics (\<open>None\<close>).
\<close>

fun listener_Addr :: "http_listener \<Rightarrow> (string \<times> string) option" where
  "listener_Addr (PlainListener l) = Some (l_Network l, l_String l)"
| "listener_Addr (TLSListener (Some l)) = listener_Addr l"
| "listener_Addr (TLSListener None) = None"

fun listener_Close :: "http_listener \<Rightarrow> http_listener option" where
  "listener_Close (PlainListener l) = Some (PlainListener (close_listener l))"
| "listener_Close (TLSListener (Some l)) = map_option (\<lambda>l'. TLSListener (Some l')) (listener_Close l)"
| "listener_Close (TLSListener None) = None"

fun listener_closed :: "http_listener \<Rightarrow> bool" where
  "listener_closed (PlainListener l) \<longleftrightarrow> \<not> l_open l"
| "listener_closed (TLSListener (Some l)) \<longleftrightarrow> listener_closed l"
| "listener_closed (TLSListener None) \<longleftrightarrow> False"

lemma listener_Close_addr:
  "listener_Addr l = Some a \<Longrightarrow>
     \<exists>l'. listener_Close l = Some l' \<and> listener_Addr l' = Some a \<and> listener_closed l'"
  by (induction l rule: listener_Addr.induct) (auto simp: close_listener_def)

text \<open>The address of the server; \<open>None\<close> is a panic.\<close>

definition hs_ListenAddress :: "implHttpServer \<Rightarrow> (string \<times> string) option" where
  "hs_ListenAddress t = (case hs_listener t of Some l \<Rightarrow> listener_Addr l | None \<Rightarrow> Some EmptyAddr)"

definition hs_logs :: "log_level \<Rightarrow> string \<Rightarrow> log_field list \<Rightarrow> implHttpServer \<Rightarrow> implHttpServer" where
  "hs_logs l m fs t = t\<lparr>hs_log := hs_log t @ [(l, m, fs)]\<rparr>"

text \<open>
  \<open>close_err\<close> is the result of \<^verbatim>\<open>srv.Close()\<close>. \<^verbatim>\<open>sync.Once\<close> counts a function that
  panics as done.
\<close>

definition hs_Shutdown ::
  "(implHttpServer \<Rightarrow> go_error option) \<Rightarrow> implHttpServer \<Rightarrow> (go_error option, implHttpServer) outcome" where
  "hs_Shutdown close_err t =
     (if hs_once t then Ret None t
      else let t0 = t\<lparr>hs_once := True\<rparr> in
        case hs_ListenAddress t0 of
          None \<Rightarrow> Panic t0
        | Some addr \<Rightarrow>
            let t1 = hs_logs LInfo ''HttpServerShutdown'' [FStr ''addr'' (snd addr), FStr ''network'' (fst addr)] t0
            in case close_chan (hs_shutdownCh t1) of
                 Panic ch \<Rightarrow> Panic t1
               | Ret _ ch \<Rightarrow>
                   let t2 = t1\<lparr>hs_shutdownCh := ch, hs_srv_closed := Suc (hs_srv_closed t1)\<rparr> in
                   (case hs_listener t2 of
                      None \<Rightarrow> Ret (close_err t1) t2
                    | Some l \<Rightarrow>
                        (case listener_Close l of
                           None \<Rightarrow> Panic t2
                         | Some l1 \<Rightarrow> Ret (close_err t1) (t2\<lparr>hs_listener := Some l1\<rparr>))))"

definition hs_Destroy ::
  "(implHttpServer \<Rightarrow> go_error option) \<Rightarrow> implHttpServer \<Rightarrow> (go_error option, implHttpServer) outcome" where
  "hs_Destroy close_err t = bindO (hs_Shutdown close_err t) (\<lambda>_. Ret None)"

text \<open>
  \<^verbatim>\<open>Serve\<close> up to the call of \<^verbatim>\<open>srv.Serve\<close>. A panic on the way is recovered and becomes
  the error that \<^verbatim>\<open>Serve\<close> returns; \<open>stack\<close> is its stack trace.
\<close>

definition nil_dereference :: string where
  "nil_dereference = ''runtime error: invalid memory address or nil pointer dereference''"

definition hs_Serve_begin :: "string \<Rightarrow> implHttpServer \<Rightarrow> go_error option \<times> implHttpServer" where
  "hs_Serve_begin stack t =
     (case hs_ListenAddress t of
        None \<Rightarrow> (PanicToError (ServePanics nil_dereference stack), t)
      | Some addr \<Rightarrow>
          let t1 = (case sv_TLSConfig (hs_srv t) of
                      Some insecure \<Rightarrow>
                        (hs_logs LInfo ''HttpServerServe'' [FStr ''addr'' (snd addr), FStr ''network'' (fst addr),
                           FBool ''tls'' True, FBool ''insecure'' insecure] t)
                          \<lparr>hs_listener := Some (TLSListener (hs_listener t))\<rparr>
                    | None \<Rightarrow>
                        hs_logs LInfo ''HttpServerServe'' [FStr ''addr'' (snd addr), FStr ''network'' (fst addr),
                           FBool ''tls'' False] t)
          in (None, t1\<lparr>hs_alive := True\<rparr>))"

definition hs_Serve_end :: "serve_result \<Rightarrow> implHttpServer \<Rightarrow> go_error option \<times> implHttpServer" where
  "hs_Serve_end res t =
     (case res of
        ServePanics v stack \<Rightarrow> (PanicToError res, t)
      | ServeReturns err \<Rightarrow>
          let t1 = t\<lparr>hs_alive := False\<rparr> in
          (case err of
             None \<Rightarrow> (None, t1)
           | Some e \<Rightarrow>
               if closed_error e then (None, t1)
               else (Some e, hs_logs LWarn ''HttpServerClose'' [FStr ''error'' (Error e)] t1)))"

subsection \<open>The contract\<close>

text \<open>
  The shutdown fields agree (\<open>hs_inv\<close>, which every operation keeps), and the listener is no
  wrapper of nil.
\<close>

definition hs_inv :: "implHttpServer \<Rightarrow> bool" where
  "hs_inv t \<longleftrightarrow> hs_shutdownCh t = hs_once t \<and> hs_srv_closed t = (if hs_once t then 1 else 0)"

definition hs_wf :: "implHttpServer \<Rightarrow> bool" where
  "hs_wf t \<longleftrightarrow> hs_inv t \<and> hs_ListenAddress t \<noteq> None"

lemma hs_Shutdown_first:
  assumes "hs_wf t" and "\<not> hs_once t"
  shows "\<exists>t1. hs_Shutdown close_err t =
             Ret (close_err (t\<lparr>hs_once := True, hs_log := hs_log t1\<rparr>)) t1 \<and>
           hs_wf t1 \<and> hs_once t1 \<and> hs_srv t1 = hs_srv t \<and>
           (case hs_listener t of None \<Rightarrow> hs_listener t1 = None
            | Some l \<Rightarrow> \<exists>l1. listener_Close l = Some l1 \<and> hs_listener t1 = Some l1 \<and> listener_closed l1)"
proof (cases "hs_listener t")
  case None
  with assms show ?thesis
    by (simp add: hs_wf_def hs_inv_def hs_Shutdown_def hs_ListenAddress_def hs_logs_def close_chan_def Let_def)
next
  case (Some l)
  with assms obtain a where a: "listener_Addr l = Some a" by (auto simp: hs_wf_def hs_ListenAddress_def)
  with listener_Close_addr obtain l' where
    "listener_Close l = Some l'" "listener_Addr l' = Some a" "listener_closed l'" by blast
  with Some a assms show ?thesis
    by (simp add: hs_wf_def hs_inv_def hs_Shutdown_def hs_ListenAddress_def hs_logs_def close_chan_def Let_def)
qed

lemma hs_Shutdown_again: "hs_once t \<Longrightarrow> hs_Shutdown close_err t = Ret None t"
  by (simp add: hs_Shutdown_def)

lemma hs_wf_down: "hs_wf t \<Longrightarrow> hs_shutdownCh t = hs_once t"
  by (simp add: hs_wf_def hs_inv_def)

interpretation http_lifecycle: server_lifecycle "hs_Shutdown close_err" "hs_Destroy close_err" hs_shutdownCh hs_wf
  for close_err
proof unfold_locales
  fix s assume "hs_wf s" "\<not> hs_shutdownCh s"
  then show "\<exists>e s'. hs_Shutdown close_err s = Ret e s' \<and> hs_shutdownCh s' \<and> hs_wf s'"
    using hs_Shutdown_first [of s close_err] hs_wf_down by blast
next
  fix s assume "hs_wf s" "hs_shutdownCh s"
  then show "hs_Shutdown close_err s = Ret None s" by (simp add: hs_Shutdown_again hs_wf_down)
next
  fix s e s' assume "hs_wf s" "hs_Shutdown close_err s = Ret e s'"
  then show "hs_Destroy close_err s = Ret None s'" by (simp add: hs_Destroy_def)
qed

subsection \<open>Any interleaving of the operations\<close>

datatype hs_op =
    HsBind "string \<Rightarrow> go_error + listener"
  | HsServeBegin string
  | HsServeEnd serve_result
  | HsShutdown "go_error option"
  | HsDestroy "go_error option"

fun hs_run_op :: "hs_op \<Rightarrow> implHttpServer \<Rightarrow> (go_error option, implHttpServer) outcome" where
  "hs_run_op (HsBind f) t = (let (e, t1) = hs_Bind f t in Ret e t1)"
| "hs_run_op (HsServeBegin stack) t = (let (e, t1) = hs_Serve_begin stack t in Ret e t1)"
| "hs_run_op (HsServeEnd r) t = (let (e, t1) = hs_Serve_end r t in Ret e t1)"
| "hs_run_op (HsShutdown e) t = hs_Shutdown (\<lambda>_. e) t"
| "hs_run_op (HsDestroy e) t = hs_Destroy (\<lambda>_. e) t"

fun hs_run :: "hs_op list \<Rightarrow> implHttpServer \<Rightarrow> (unit, implHttpServer) outcome" where
  "hs_run [] t = Ret () t"
| "hs_run (x # xs) t = bindO (hs_run_op x t) (\<lambda>_. hs_run xs)"

text \<open>
  \<open>serves_unbound\<close> holds of a sequence in which a TLS server is served while it has no
  listener, before the first panic if any.
\<close>

fun serves_unbound :: "hs_op list \<Rightarrow> implHttpServer \<Rightarrow> bool" where
  "serves_unbound [] t = False"
| "serves_unbound (x # xs) t =
     ((\<exists>stack. x = HsServeBegin stack) \<and> sv_TLSConfig (hs_srv t) \<noteq> None \<and> hs_listener t = None \<or>
      (case hs_run_op x t of Ret e t1 \<Rightarrow> serves_unbound xs t1 | Panic t1 \<Rightarrow> False))"

lemma hs_Bind_keeps:
  "hs_wf t \<Longrightarrow> hs_wf (snd (hs_Bind f t)) \<and> hs_srv (snd (hs_Bind f t)) = hs_srv t"
  by (auto simp: hs_Bind_def listen_tcp_def hs_wf_def hs_inv_def hs_ListenAddress_def
      split: option.split sum.split)

lemma hs_Serve_end_keeps:
  "hs_wf t \<Longrightarrow> hs_wf (snd (hs_Serve_end r t)) \<and> hs_srv (snd (hs_Serve_end r t)) = hs_srv t"
  by (auto simp: hs_Serve_end_def hs_wf_def hs_inv_def hs_ListenAddress_def hs_logs_def Let_def
      split: option.split serve_result.split)

lemma hs_Serve_begin_keeps:
  assumes "hs_wf t" and "\<not> (sv_TLSConfig (hs_srv t) \<noteq> None \<and> hs_listener t = None)"
  shows "hs_wf (snd (hs_Serve_begin stack t)) \<and> hs_srv (snd (hs_Serve_begin stack t)) = hs_srv t"
  using assms
  by (auto simp: hs_Serve_begin_def hs_wf_def hs_inv_def hs_ListenAddress_def hs_logs_def Let_def
      split: option.split)

lemma hs_stop_keeps:
  assumes "hs_wf t"
  shows "\<exists>e' t1. hs_Shutdown (\<lambda>_. e) t = Ret e' t1 \<and> hs_wf t1 \<and> hs_srv t1 = hs_srv t"
  using hs_Shutdown_first [OF assms, of "\<lambda>_. e"] hs_Shutdown_again [of t "\<lambda>_. e"] assms
  by (cases "hs_once t") auto

lemma hs_op_wf:
  assumes "hs_wf t" and "\<not> serves_unbound [x] t"
  shows "\<exists>e t1. hs_run_op x t = Ret e t1 \<and> hs_wf t1 \<and> hs_srv t1 = hs_srv t"
proof (cases x)
  case (HsBind f)
  then show ?thesis using hs_Bind_keeps [OF assms(1), of f] by (auto split: prod.split)
next
  case (HsServeBegin stack)
  then show ?thesis using hs_Serve_begin_keeps [OF assms(1), of stack] assms(2) by (auto split: prod.splits)
next
  case (HsServeEnd r)
  then show ?thesis using hs_Serve_end_keeps [OF assms(1), of r] by (auto split: prod.split)
next
  case (HsShutdown e)
  then show ?thesis using hs_stop_keeps [OF assms(1), of e] by auto
next
  case (HsDestroy e)
  then show ?thesis using hs_stop_keeps [OF assms(1), of e] by (auto simp: hs_Destroy_def)
qed

lemma hs_run_wf:
  "hs_wf t \<Longrightarrow> \<not> serves_unbound xs t \<Longrightarrow> \<exists>t1. hs_run xs t = Ret () t1 \<and> hs_wf t1"
proof (induction xs arbitrary: t)
  case (Cons x xs)
  then have "\<not> serves_unbound [x] t" by (auto split: outcome.splits)
  from hs_op_wf [OF Cons.prems(1) this] obtain e t1 where "hs_run_op x t = Ret e t1" "hs_wf t1" by blast
  with Cons show ?case by auto
qed simp

lemma hs_new_wf: "hs_wf (NewHttpServer p s)"
  by (simp add: hs_wf_def hs_inv_def hs_ListenAddress_def NewHttpServer_def)

lemma hs_plain_bound: "sv_TLSConfig (hs_srv t) = None \<Longrightarrow> hs_wf t \<Longrightarrow> \<not> serves_unbound xs t"
proof (induction xs arbitrary: t)
  case (Cons x xs)
  then have "\<not> serves_unbound [x] t" by (auto split: outcome.splits)
  from hs_op_wf [OF Cons.prems(2) this] obtain e t1 where
    "hs_run_op x t = Ret e t1" "hs_wf t1" "hs_srv t1 = hs_srv t" by blast
  with Cons show ?case by simp
qed simp

subsection \<open>Properties\<close>

text \<open>
  A TLS server that is served before it is bound and then shut down or destroyed panics: its
  listener is a wrapper of nil, and the first call on it, for the log, fails before the
  shutdown channel is closed.
\<close>

theorem http_serve_before_bind_panics:
  assumes "last_op = HsShutdown e \<or> last_op = HsDestroy e"
  shows "\<exists>t. hs_run [HsServeBegin stack, HsServeEnd res, last_op]
             (NewHttpServer provider \<lparr>sv_Addr = addr, sv_TLSConfig = Some insecure\<rparr>) = Panic t \<and>
           \<not> hs_shutdownCh t"
  using assms
  by (auto simp: NewHttpServer_def hs_Serve_begin_def hs_ListenAddress_def hs_logs_def hs_Serve_end_def
      hs_Shutdown_def hs_Destroy_def Let_def split: serve_result.split option.split)

theorem http_serve_before_bind_panics_witness:
  "\<exists>t. hs_run [HsServeBegin ''s'', HsServeEnd (ServePanics nil_dereference ''s''), HsDestroy None]
         (NewHttpServer None \<lparr>sv_Addr = '':443'', sv_TLSConfig = Some False\<rparr>) = Panic t \<and> \<not> hs_shutdownCh t"
  by (rule http_serve_before_bind_panics [of _ None]) simp

text \<open>
  C7. In any sequence of binds, serving loops, shutdowns and destructions of an HTTP server, by
  whatever goroutines, in which a TLS server is not served while it has no listener, nothing
  panics, the shutdown channel is closed exactly when the server has been shut down, and
  \<^verbatim>\<open>net/http\<close>'s server is closed once at most. For a server without TLS every sequence is
  such a one. (\<open>http_serve_before_bind_panics\<close> shows that the condition is needed.)
\<close>

theorem http_server_lifecycle_safe:
  assumes "sv_TLSConfig srv = None \<or> \<not> serves_unbound ops (NewHttpServer provider srv)"
  shows "\<exists>t. hs_run ops (NewHttpServer provider srv) = Ret () t \<and>
     hs_shutdownCh t = hs_once t \<and> hs_srv_closed t = (if hs_shutdownCh t then 1 else 0)"
proof -
  have "\<not> serves_unbound ops (NewHttpServer provider srv)"
    using assms hs_plain_bound [OF _ hs_new_wf, of provider srv ops] by (auto simp: NewHttpServer_def)
  then obtain t where "hs_run ops (NewHttpServer provider srv) = Ret () t" "hs_wf t"
    using hs_run_wf [OF hs_new_wf] by blast
  then show ?thesis by (intro exI [of _ t]) (simp add: hs_wf_def hs_inv_def)
qed

definition sample_tls_ops :: "hs_op list" where
  "sample_tls_ops = [HsBind (\<lambda>a. Inr \<lparr>l_Network = ''tcp'', l_String = a, l_tls = False, l_open = True\<rparr>),
     HsServeBegin [], HsShutdown None, HsServeEnd (ServeReturns None), HsDestroy None]"

theorem http_server_lifecycle_safe_witness:
  "\<exists>t. hs_run sample_tls_ops (NewHttpServer None \<lparr>sv_Addr = '':443'', sv_TLSConfig = Some False\<rparr>) = Ret () t \<and>
     hs_shutdownCh t = hs_once t \<and> hs_srv_closed t = (if hs_shutdownCh t then 1 else 0)"
  by (rule http_server_lifecycle_safe)
    (simp add: sample_tls_ops_def NewHttpServer_def hs_Bind_def listen_tcp_def hs_Serve_begin_def
      hs_ListenAddress_def hs_logs_def hs_Serve_end_def hs_Shutdown_def hs_Destroy_def close_chan_def Let_def)

text \<open>
  Shutting down an HTTP server whose listener is no wrapper of nil closes its listener, and
  any further shutdowns and destructions, in any order, are without effect and report no error.
\<close>

theorem http_shutdown_idempotent:
  assumes "hs_wf t"
  shows "\<exists>e. stops (hs_Shutdown close_err) (hs_Destroy close_err) (x # xs) t =
           Ret (e # map (\<lambda>_. None) xs) (state_of (hs_Shutdown close_err t)) \<and>
         hs_shutdownCh (state_of (hs_Shutdown close_err t)) \<and>
         (\<not> hs_once t \<longrightarrow> (\<forall>l. hs_listener (state_of (hs_Shutdown close_err t)) = Some l \<longrightarrow> listener_closed l))"
proof -
  have "\<not> hs_once t \<longrightarrow> (\<forall>l. hs_listener (state_of (hs_Shutdown close_err t)) = Some l \<longrightarrow> listener_closed l)"
    using hs_Shutdown_first [OF assms, of close_err] by (cases "hs_listener t") auto
  with http_lifecycle.stops_idempotent [OF assms, of close_err x xs] show ?thesis by blast
qed

theorem http_shutdown_idempotent_witness:
  "\<exists>e. stops (hs_Shutdown (\<lambda>_. None)) (hs_Destroy (\<lambda>_. None)) [StopShutdown, StopDestroy] (NewHttpServer None \<lparr>sv_Addr = '':80'', sv_TLSConfig = None\<rparr>) =
     Ret [e, None] (state_of (hs_Shutdown (\<lambda>_. None) (NewHttpServer None \<lparr>sv_Addr = '':80'', sv_TLSConfig = None\<rparr>)))"
  using http_shutdown_idempotent [OF hs_new_wf, of "\<lambda>_. None" StopShutdown "[StopDestroy]" None
      "\<lparr>sv_Addr = '':80'', sv_TLSConfig = None\<rparr>"] by auto

text \<open>
  A serving loop that panics leaves the server marked alive for ever, while the serving
  function has returned the panic as its error; a loop that returns marks it not alive, and
  an error that comes of a closed socket is not reported.
\<close>

theorem http_serve_end:
  assumes "hs_Serve_begin stack0 t = (None, t1)"
  shows "hs_Alive (snd (hs_Serve_end (ServePanics v stack) t1)) \<and>
   fst (hs_Serve_end (ServePanics v stack) t1) = Some (ErrText (v @ '', '' @ stack)) \<and>
   \<not> hs_Alive (snd (hs_Serve_end (ServeReturns e) t1)) \<and>
   fst (hs_Serve_end (ServeReturns e) t1) =
     (case e of None \<Rightarrow> None | Some e' \<Rightarrow> if Contains (Error e') ''closed'' then None else e)"
  using assms
  by (auto simp: hs_Serve_end_def hs_Serve_begin_def hs_Alive_def PanicToError_def closed_error_def hs_logs_def
      Let_def split: option.splits)

theorem http_serve_end_witness:
  "\<exists>t1. hs_Serve_begin [] (NewHttpServer None \<lparr>sv_Addr = '':80'', sv_TLSConfig = None\<rparr>) = (None, t1) \<and>
     hs_Alive (snd (hs_Serve_end (ServePanics ''v'' ''s'') t1))"
proof -
  let ?t = "NewHttpServer None \<lparr>sv_Addr = '':80'', sv_TLSConfig = None\<rparr>"
  obtain t1 where t1: "hs_Serve_begin [] ?t = (None, t1)"
    by (simp add: hs_Serve_begin_def hs_ListenAddress_def NewHttpServer_def Let_def)
  with http_serve_end [OF t1, of "''v''" "''s''" None] show ?thesis by blast
qed

text \<open>
  A listener provider that offers a listener decides where the server listens, and
  \<^verbatim>\<open>net.Listen\<close> is not consulted; one that declines has no influence; one that fails
  makes the bind fail with its error.
\<close>

theorem http_bind_provider:
  "(\<forall>ln. provide ''tcp'' (sv_Addr (hs_srv t)) = Inr (Some ln) \<longrightarrow>
      hs_Bind f (t\<lparr>hs_Provider := Some provide\<rparr>) = (None, t\<lparr>hs_Provider := Some provide, hs_listener := Some (PlainListener ln)\<rparr>)) \<and>
   (provide ''tcp'' (sv_Addr (hs_srv t)) = Inr None \<longrightarrow>
      fst (hs_Bind f (t\<lparr>hs_Provider := Some provide\<rparr>)) = fst (hs_Bind f (t\<lparr>hs_Provider := None\<rparr>)) \<and>
      hs_ListenAddress (snd (hs_Bind f (t\<lparr>hs_Provider := Some provide\<rparr>))) =
        hs_ListenAddress (snd (hs_Bind f (t\<lparr>hs_Provider := None\<rparr>)))) \<and>
   (\<forall>e. provide ''tcp'' (sv_Addr (hs_srv t)) = Inl e \<longrightarrow>
      (\<exists>m. fst (hs_Bind f (t\<lparr>hs_Provider := Some provide\<rparr>)) = Some (ErrWrap m e)))"
  by (auto simp: hs_Bind_def listen_tcp_def hs_ListenAddress_def split: sum.splits)

theorem http_bind_provider_witness:
  "hs_Bind (\<lambda>_. Inl EADDRINUSE) (NewHttpServer (Some (\<lambda>n a. Inr (Some
      \<lparr>l_Network = n, l_String = a, l_tls = False, l_open = True\<rparr>))) \<lparr>sv_Addr = '':80'', sv_TLSConfig = None\<rparr>) =
   (None, (NewHttpServer (Some (\<lambda>n a. Inr (Some
      \<lparr>l_Network = n, l_String = a, l_tls = False, l_open = True\<rparr>))) \<lparr>sv_Addr = '':80'', sv_TLSConfig = None\<rparr>)
      \<lparr>hs_listener := Some (PlainListener \<lparr>l_Network = ''tcp'', l_String = '':80'', l_tls = False, l_open = True\<rparr>)\<rparr>)"
  using http_bind_provider [of "\<lambda>n a. Inr (Some \<lparr>l_Network = n, l_String = a, l_tls = False, l_open = True\<rparr>)"
      "NewHttpServer None \<lparr>sv_Addr = '':80'', sv_TLSConfig = None\<rparr>" "\<lambda>_. Inl EADDRINUSE"]
  by (simp add: NewHttpServer_def)

end
