(* ===== verification/Go_Paths.thy ===== *)
theory Go_Paths
  imports Go_Errors
begin

text \<open>
  The part of \<^verbatim>\<open>path/filepath\<close> that the sources use, on Unix. Paths that are joined from
  plain names, which are not empty, no dots and have no separator, are in normal form: joining
  them to a directory appends their names to the names of the directory, and different names
  give different paths.
\<close>

subsection \<open>Cleaning a path\<close>

text \<open>\<^verbatim>\<open>filepath.Clean\<close>, \<^verbatim>\<open>Abs\<close>, \<^verbatim>\<open>Base\<close> and \<^verbatim>\<open>Dir\<close> on Unix.\<close>

fun clean_parts :: "bool \<Rightarrow> string list \<Rightarrow> string list \<Rightarrow> string list" where
  "clean_parts rooted acc [] = rev acc"
| "clean_parts rooted acc (p # ps) =
     (if p = [] \<or> p = ''.'' then clean_parts rooted acc ps
      else if p = ''..'' then
        (case acc of
           q # qs \<Rightarrow> if q = ''..'' then clean_parts rooted (p # acc) ps else clean_parts rooted qs ps
         | [] \<Rightarrow> if rooted then clean_parts rooted [] ps else clean_parts rooted [p] ps)
      else clean_parts rooted (p # acc) ps)"

definition Clean :: "string \<Rightarrow> string" where
  "Clean p =
     (let rooted = HasPrefix p ''/'';
          parts = clean_parts rooted [] (Split CHR ''/'' p)
      in if rooted then CHR ''/'' # Join parts ''/''
         else if parts = [] then ''.'' else Join parts ''/'')"

text \<open>\<open>cwd\<close> is the result of \<^verbatim>\<open>os.Getwd()\<close>.\<close>

definition Abs :: "go_error + string \<Rightarrow> string \<Rightarrow> go_error + string" where
  "Abs cwd p =
     (if HasPrefix p ''/'' then Inr (Clean p)
      else (case cwd of Inl e \<Rightarrow> Inl e
            | Inr d \<Rightarrow> Inr (Clean (if p = [] then d else d @ ''/'' @ p))))"

definition Base :: "string \<Rightarrow> string" where
  "Base p = (if p = [] then ''.''
     else let s = rev (dropWhile (\<lambda>c. c = CHR ''/'') (rev p)) in
       if s = [] then ''/'' else last (Split CHR ''/'' s))"

definition Dir :: "string \<Rightarrow> string" where
  "Dir p = Clean (rev (dropWhile (\<lambda>c. c \<noteq> CHR ''/'') (rev p)))"

text \<open>\<^verbatim>\<open>filepath.Join\<close>: from the first element that is not empty.\<close>

fun filepath_Join :: "string list \<Rightarrow> string" where
  "filepath_Join [] = []"
| "filepath_Join (e # es) = (if e = [] then filepath_Join es else Clean (Join (e # es) ''/''))"

subsection \<open>Plain names\<close>

definition plain_name :: "string \<Rightarrow> bool" where
  "plain_name c \<longleftrightarrow> c \<noteq> [] \<and> c \<noteq> ''.'' \<and> c \<noteq> ''..'' \<and> CHR ''/'' \<notin> set c \<and> CHR 0x5C \<notin> set c"

text \<open>The path of names, and the path of names below a directory.\<close>

definition path_of :: "string list \<Rightarrow> string" where
  "path_of ps = Join ps ''/''"

definition below :: "string \<Rightarrow> string list \<Rightarrow> string" where
  "below dir ps =
     (let rooted = HasPrefix dir ''/''
      in (if rooted then ''/'' else []) @ path_of (clean_parts rooted [] (Split CHR ''/'' dir) @ ps))"

lemma plain_nameD:
  "plain_name c \<Longrightarrow> c \<noteq> []" "plain_name c \<Longrightarrow> c \<noteq> ''.''" "plain_name c \<Longrightarrow> c \<noteq> ''..''"
  "plain_name c \<Longrightarrow> CHR ''/'' \<notin> set c" "plain_name c \<Longrightarrow> CHR 0x5C \<notin> set c"
  by (simp_all add: plain_name_def)

lemma clean_parts_append:
  "clean_parts r acc (ps @ qs) = clean_parts r (rev (clean_parts r acc ps)) qs"
  by (induction r acc ps rule: clean_parts.induct) (auto split: list.splits)

lemma clean_parts_plain:
  "\<forall>p \<in> set ps. plain_name p \<Longrightarrow> clean_parts r acc ps = rev acc @ ps"
  by (induction ps arbitrary: acc) (auto dest: plain_nameD)

lemma clean_parts_set: "set (clean_parts r acc ps) \<subseteq> set acc \<union> set ps"
proof (induction r acc ps rule: clean_parts.induct)
  case (2 r acc p ps)
  show ?case
  proof (cases acc)
    case Nil
    with 2 show ?thesis by (cases "p = [] \<or> p = ''.''"; cases "p = ''..''"; cases r) auto
  next
    case (Cons q qs)
    with 2 show ?thesis by (cases "p = [] \<or> p = ''.''"; cases "p = ''..''"; cases "q = ''..''") auto
  qed
qed simp

lemma clean_parts_no_sep:
  "\<forall>p \<in> set acc \<union> set ps. c \<notin> set p \<Longrightarrow> \<forall>p \<in> set (clean_parts r acc ps). c \<notin> set p"
  using clean_parts_set by blast

lemma Split_append_sep: "Split c (s @ c # t) = Split c s @ Split c t"
  by (induction s) (auto split: list.splits)

lemma Split_path: "ps \<noteq> [] \<Longrightarrow> \<forall>p \<in> set ps. plain_name p \<Longrightarrow> Split CHR ''/'' (path_of ps) = ps"
  by (simp add: path_of_def Split_Join plain_nameD(4))

lemma path_of_inj:
  assumes "\<forall>p \<in> set ps \<union> set qs. CHR ''/'' \<notin> set p" and "ps \<noteq> []" and "qs \<noteq> []" and "path_of ps = path_of qs"
  shows "ps = qs"
proof -
  have s: "Split CHR ''/'' (path_of xs) = xs" if "xs \<noteq> []" "set xs \<subseteq> set ps \<union> set qs" for xs
    unfolding path_of_def using that assms(1) by (intro Split_Join) blast+
  have "Split CHR ''/'' (path_of ps) = ps" "Split CHR ''/'' (path_of qs) = qs" by (rule s; use assms(2,3) in simp)+
  with assms(4) show ?thesis by metis
qed

lemma path_of_Cons: "ps \<noteq> [] \<Longrightarrow> path_of (p # ps) = p @ CHR ''/'' # path_of ps"
  by (cases ps) (simp_all add: path_of_def)

lemma path_of_snoc: "ps \<noteq> [] \<Longrightarrow> path_of (ps @ [c]) = path_of ps @ CHR ''/'' # c"
proof (induction ps)
  case (Cons p ps)
  then show ?case by (cases ps) (simp_all add: path_of_def)
qed simp

lemma path_of_Nil [simp]: "path_of [] = []"
  by (simp add: path_of_def)

lemma path_of_single [simp]: "path_of [p] = p"
  by (simp add: path_of_def)

lemma path_of_eq_Nil: "\<forall>p \<in> set ps. plain_name p \<Longrightarrow> path_of ps = [] \<longleftrightarrow> ps = []"
  by (cases ps; cases "tl ps") (auto simp: path_of_def dest: plain_nameD)

lemma Clean_path:
  assumes "\<forall>p \<in> set ps. plain_name p" and "ps \<noteq> []"
  shows "Clean (path_of ps) = path_of ps"
proof -
  have "plain_name (hd ps)" using assms by simp
  then obtain c cs where p: "hd ps = c # cs" by (cases "hd ps") (auto dest: plain_nameD)
  moreover have "c \<noteq> CHR ''/''" using assms p by (metis hd_in_set list.set_intros(1) plain_nameD(4))
  ultimately have "\<not> prefix ''/'' (path_of ps)"
    using assms(2) by (cases ps; cases "tl ps") (auto simp: path_of_def)
  moreover have "clean_parts False [] (Split CHR ''/'' (path_of ps)) = ps"
    using assms by (simp add: Split_path clean_parts_plain)
  ultimately show ?thesis using assms(2) by (simp add: Clean_def Let_def) (simp add: path_of_def)
qed

lemma join_child:
  assumes "\<forall>p \<in> set ps. plain_name p" and "plain_name c"
  shows "filepath_Join [path_of ps, c] = path_of (ps @ [c])"
proof (cases "ps = []")
  case True
  with assms(2) Clean_path [of "[c]"] show ?thesis by (auto dest: plain_nameD)
next
  case False
  then have "path_of ps \<noteq> []" using assms(1) by (simp add: path_of_eq_Nil)
  moreover have "Join [path_of ps, c] ''/'' = path_of (ps @ [c])" using False by (simp add: path_of_snoc)
  moreover have "Clean (path_of (ps @ [c])) = path_of (ps @ [c])" using assms by (intro Clean_path) auto
  ultimately show ?thesis by simp
qed

lemma join_below:
  assumes "\<forall>p \<in> set ps. plain_name p" and "ps \<noteq> []"
  shows "filepath_Join (dir # ps) = below dir ps"
proof (cases "dir = []")
  case True
  obtain p qs where p: "ps = p # qs" "p \<noteq> []" using assms by (cases ps) (auto dest: plain_nameD)
  then have "filepath_Join (dir # ps) = Clean (path_of ps)" using True by (simp add: path_of_def)
  with True Clean_path [OF assms] show ?thesis by (simp add: below_def)
next
  case False
  let ?r = "prefix ''/'' dir" and ?q = "dir @ CHR ''/'' # path_of ps"
  have j: "Join (dir # ps) ''/'' = ?q"
    using assms(2) by (cases ps) (simp_all add: path_of_def)
  have r: "prefix ''/'' ?q \<longleftrightarrow> ?r" using False by (cases dir) auto
  have c: "clean_parts ?r [] (Split CHR ''/'' ?q) = clean_parts ?r [] (Split CHR ''/'' dir) @ ps"
    using assms by (simp add: Split_append_sep clean_parts_append Split_path clean_parts_plain)
  have "Clean ?q = below dir ps"
    unfolding Clean_def below_def Let_def r c using assms(2) by (simp add: path_of_def)
  then show ?thesis using False by (simp only: filepath_Join.simps j if_False)
qed

lemma below_inj:
  assumes "\<forall>p \<in> set ps \<union> set qs. plain_name p" and "ps \<noteq> []" and "qs \<noteq> []" and "below dir ps = below dir qs"
  shows "ps = qs"
proof -
  let ?d = "clean_parts (prefix ''/'' dir) [] (Split CHR ''/'' dir)"
  have "\<forall>p \<in> set [] \<union> set (Split CHR ''/'' dir). CHR ''/'' \<notin> set p" by (auto dest: Split_no_sep)
  then have d: "\<forall>p \<in> set ?d. CHR ''/'' \<notin> set p" by (rule clean_parts_no_sep)
  have e: "\<forall>p \<in> set ps \<union> set qs. CHR ''/'' \<notin> set p" using assms(1) by (auto dest: plain_nameD(4))
  have "path_of (?d @ ps) = path_of (?d @ qs)" using assms(4) by (simp add: below_def Let_def)
  then have "?d @ ps = ?d @ qs"
    by (rule path_of_inj [rotated 3]) (use assms(2,3) d e in \<open>simp_all, blast\<close>)
  then show ?thesis by simp
qed

end
