(* ===== verification/Server_Factory.thy ===== *)
theory Server_Factory
  imports Auth_Middleware Http_Server Go_Paths "HOL-Library.Multiset"
begin

text \<open>
  \<^verbatim>\<open>http_server_factory.go\<close> and the helpers of \<^verbatim>\<open>utils.go\<close> it uses: the handlers of
  a server are wrapped into the middlewares and registered with the router, the embedded
  assets are grouped by path, and unknown paths of a single-page application go to its index.
  What the factory registers with the router (\<^verbatim>\<open>gorilla/mux\<close>) is a list of routes; how
  the router serves them is a parameter with the law \<open>mux_law\<close>.
\<close>

subsection \<open>Options\<close>

definition ParseOptions :: "string \<Rightarrow> string set" where
  "ParseOptions str = set (filter (\<lambda>k. 0 < length k) (map TrimSpace (Split CHR '';'' str)))"

definition ParsePrefixList :: "string \<Rightarrow> string list" where
  "ParsePrefixList str = filter (\<lambda>p. p \<noteq> []) (map TrimSpace (Split CHR '';'' str))"

subsection \<open>Assets\<close>

record servingAsset =
  sa_pattern :: string
  sa_plainH :: "handler option"
  sa_gzipH :: "handler option"

definition sa_acceptGzip :: "request \<Rightarrow> bool" where
  "sa_acceptGzip r = list_ex (\<lambda>enc. ''gzip'' = TrimSpace enc)
     (Split CHR '','' (hdr_Get (r_Header r) ''Accept-Encoding''))"

definition sa_ServeHTTP :: "codec \<Rightarrow> servingAsset \<Rightarrow> handler" where
  "sa_ServeHTTP G t r s =
     (case sa_gzipH t of
        Some h \<Rightarrow>
          if sa_acceptGzip r then h r s
          else (case sa_plainH t of Some p \<Rightarrow> p r s | None \<Rightarrow> http_Error G ''resource not found'' 404 s)
      | None \<Rightarrow> (case sa_plainH t of Some p \<Rightarrow> p r s | None \<Rightarrow> http_Error G ''resource not found'' 404 s))"

fun unwrap_gzip :: "writer \<Rightarrow> writer" where
  "unwrap_gzip (GzipHdrW w) = w"
| "unwrap_gzip w = w"

definition gzipHeaderHandler :: "handler \<Rightarrow> handler" where
  "gzipHeaderHandler h r s = mapO (\<lambda>(w, wd). (unwrap_gzip w, wd)) (h r (GzipHdrW (fst s), snd s))"

text \<open>\<open>res_FileServer\<close> is \<^verbatim>\<open>http.FileServer\<close> over the files of the resource.\<close>

record ResourceSource =
  res_Name :: string
  res_AssetNames :: "string list"
  res_FileServer :: handler

definition add_asset ::
  "bool \<Rightarrow> handler \<Rightarrow> string \<Rightarrow> (string \<rightharpoonup> servingAsset) \<times> log_entry list
     \<Rightarrow> (string \<rightharpoonup> servingAsset) \<times> log_entry list" where
  "add_asset gz h name s =
     (let (cache, lg) = s;
          pattern = ''/'' @ name;
          sa = (case cache pattern of Some a \<Rightarrow> a
                | None \<Rightarrow> \<lparr>sa_pattern = pattern, sa_plainH = None, sa_gzipH = None\<rparr>)
      in if gz then
           (cache(pattern \<mapsto> sa\<lparr>sa_gzipH := Some h\<rparr>),
            if sa_gzipH sa \<noteq> None
            then lg @ [(LWarn, ''GzipHandlerExist'', [FStr ''pattern'' pattern, FStr ''asset'' name])] else lg)
         else
           (cache(pattern \<mapsto> sa\<lparr>sa_plainH := Some h\<rparr>),
            if sa_plainH sa \<noteq> None
            then lg @ [(LWarn, ''PlainHandlerExist'', [FStr ''pattern'' pattern, FStr ''asset'' name])] else lg))"

text \<open>The \<^verbatim>\<open>goto Again\<close> registers the index a second time, under the empty name.\<close>

fun add_names ::
  "bool \<Rightarrow> handler \<Rightarrow> string list \<Rightarrow> (string \<rightharpoonup> servingAsset) \<times> log_entry list
     \<Rightarrow> (string \<rightharpoonup> servingAsset) \<times> log_entry list" where
  "add_names gz h [] s = s"
| "add_names gz h (name # names) s =
     (let s1 = add_asset gz h name s;
          s2 = (if name = ''index.html'' then add_asset gz h [] s1 else s1)
      in add_names gz h names s2)"

fun group_resources ::
  "ResourceSource list \<Rightarrow> (string \<rightharpoonup> servingAsset) \<times> log_entry list
     \<Rightarrow> (string \<rightharpoonup> servingAsset) \<times> log_entry list" where
  "group_resources [] s = s"
| "group_resources (res # rest) s =
     group_resources rest
       (if HasPrefix (res_Name res) ''assets'' then
          (if HasSuffix (res_Name res) ''gzip''
           then add_names True (gzipHeaderHandler (res_FileServer res)) (res_AssetNames res) s
           else add_names False (res_FileServer res) (res_AssetNames res) s)
        else s)"

definition groupAssets :: "ResourceSource list \<Rightarrow> (string \<rightharpoonup> servingAsset) \<times> log_entry list" where
  "groupAssets rs = group_resources rs (Map.empty, [])"

subsection \<open>The fallback of a single-page application\<close>

record spaFallback =
  spa_index :: handler
  spa_exclude :: "string list"

definition spa_ServeHTTP :: "codec \<Rightarrow> spaFallback \<Rightarrow> handler" where
  "spa_ServeHTTP G t r s =
     (if r_Method r \<noteq> ''GET'' \<and> r_Method r \<noteq> ''HEAD'' then http_NotFound G s
      else if any_prefix (spa_exclude t) (r_Path r) then http_NotFound G s
      else if Ext (r_Path r) \<noteq> [] then http_NotFound G s
      else spa_index t (r\<lparr>r_Path := ''/'', r_RawPath := []\<rparr>) s)"

subsection \<open>The factory\<close>

record HttpHandler =
  hb_Pattern :: string
  hb_ServeHTTP :: handler

record HttpMiddleware =
  mb_BeanOrder :: int
  mb_Match :: "string \<Rightarrow> bool"
  mb_Middleware :: "handler \<Rightarrow> handler"

record properties =
  prop_String :: "string \<Rightarrow> string \<Rightarrow> string"
  prop_Duration :: "string \<Rightarrow> int \<Rightarrow> int"

record implHttpServerFactory =
  hf_Properties :: properties
  hf_Handlers :: "HttpHandler list"
  hf_Middlewares :: "HttpMiddleware option list"
  hf_Resources :: "ResourceSource list"
  hf_TlsConfig :: "bool option"
  hf_beanName :: string

text \<open>
  \<^verbatim>\<open>sort.Slice\<close> is not stable: the result is any permutation in the order of
  \<^verbatim>\<open>BeanOrder\<close>. A nil entry would panic in the comparison, so there is no result then.
\<close>

definition hf_sorted :: "HttpMiddleware option list \<Rightarrow> HttpMiddleware option list \<Rightarrow> bool" where
  "hf_sorted ms ms' \<longleftrightarrow>
     (if 1 < length ms
      then None \<notin> set ms \<and> mset ms' = mset ms \<and> sorted (map (\<lambda>m. mb_BeanOrder (the m)) ms')
      else ms' = ms)"

definition hf_PostConstruct :: "implHttpServerFactory \<Rightarrow> implHttpServerFactory \<Rightarrow> bool" where
  "hf_PostConstruct t t' \<longleftrightarrow> (\<exists>ms'. hf_sorted (hf_Middlewares t) ms' \<and> t' = t\<lparr>hf_Middlewares := ms'\<rparr>)"

text \<open>The loop that wraps a handler, from the last middleware to the first.\<close>

definition wrap_middlewares :: "HttpMiddleware option list \<Rightarrow> string \<Rightarrow> handler \<Rightarrow> handler" where
  "wrap_middlewares ms pattern h =
     foldr (\<lambda>om h. case om of None \<Rightarrow> h | Some m \<Rightarrow> if mb_Match m pattern then mb_Middleware m h else h) ms h"

record router =
  mx_routes :: "(string \<times> handler) list"
  mx_NotFound :: "handler option"

record factory_Server = http_Server +
  sv_Handler :: router
  sv_ReadTimeout :: int
  sv_WriteTimeout :: int
  sv_IdleTimeout :: int

record build =
  bs_visited :: "string set"
  bs_patterns :: "string list"
  bs_routes :: "(string \<times> handler) list"
  bs_log :: "log_entry list"

fun add_handlers :: "HttpMiddleware option list \<Rightarrow> HttpHandler list \<Rightarrow> build \<Rightarrow> build" where
  "add_handlers ms [] b = b"
| "add_handlers ms (hb # hs) b =
     (let pattern = hb_Pattern hb in
      add_handlers ms hs
        (if pattern \<in> bs_visited b
         then b\<lparr>bs_log := bs_log b @ [(LWarn, ''PatternExist'', [FStr ''pattern'' pattern])]\<rparr>
         else b\<lparr>bs_visited := insert pattern (bs_visited b), bs_patterns := bs_patterns b @ [pattern],
                bs_routes := bs_routes b @ [(pattern, wrap_middlewares ms pattern (hb_ServeHTTP hb))]\<rparr>))"

fun add_assets :: "codec \<Rightarrow> (string \<rightharpoonup> servingAsset) \<Rightarrow> string list \<Rightarrow> build \<Rightarrow> build" where
  "add_assets G cache [] b = b"
| "add_assets G cache (pattern # ps) b =
     (let b1 = (if pattern \<in> bs_visited b
                then b\<lparr>bs_log := bs_log b @ [(LWarn, ''PatternExist'', [FStr ''pattern'' pattern])]\<rparr> else b)
      in add_assets G cache ps
           (b1\<lparr>bs_visited := insert pattern (bs_visited b1), bs_patterns := bs_patterns b1 @ [pattern],
               bs_routes := bs_routes b1 @ [(pattern, sa_ServeHTTP G (the (cache pattern)))]\<rparr>))"

definition hf_key :: "implHttpServerFactory \<Rightarrow> string \<Rightarrow> string" where
  "hf_key t name = hf_beanName t @ ''.'' @ name"

definition HttpServerFactory :: "properties \<Rightarrow> string \<Rightarrow> implHttpServerFactory" where
  "HttpServerFactory props beanName = \<lparr>hf_Properties = props, hf_Handlers = [], hf_Middlewares = [], hf_Resources = [],
     hf_TlsConfig = None, hf_beanName = beanName\<rparr>"

definition hf_ObjectName :: "implHttpServerFactory \<Rightarrow> string" where
  "hf_ObjectName t = hf_beanName t"

text \<open>\<open>getBool\<close> is \<^verbatim>\<open>GetBool\<close> of the properties.\<close>

definition hf_isEnabled :: "(string \<Rightarrow> bool \<Rightarrow> bool) \<Rightarrow> implHttpServerFactory \<Rightarrow> string \<Rightarrow> bool" where
  "hf_isEnabled getBool t name = getBool (hf_key t name) False"

definition hf_handler_phase :: "implHttpServerFactory \<Rightarrow> string set \<Rightarrow> build" where
  "hf_handler_phase t options =
     (let b = \<lparr>bs_visited = {}, bs_patterns = [], bs_routes = [], bs_log = []\<rparr>
      in if ''handlers'' \<in> options then add_handlers (hf_Middlewares t) (hf_Handlers t) b else b)"

text \<open>\<open>range_keys m\<close> is the order in which \<^verbatim>\<open>range\<close> visits the keys of the map.\<close>

definition hf_asset_phase ::
  "codec \<Rightarrow> ((string \<rightharpoonup> servingAsset) \<Rightarrow> string list) \<Rightarrow> (string \<rightharpoonup> servingAsset) \<Rightarrow> string set \<Rightarrow> build \<Rightarrow> build" where
  "hf_asset_phase G range_keys cache options b =
     (if ''assets'' \<in> options then add_assets G cache (range_keys cache) (b\<lparr>bs_patterns := []\<rparr>)
      else b\<lparr>bs_patterns := []\<rparr>)"

definition hf_spa ::
  "codec \<Rightarrow> implHttpServerFactory \<Rightarrow> (string \<rightharpoonup> servingAsset) \<Rightarrow> string set \<Rightarrow> handler option \<times> log_entry list" where
  "hf_spa G t cache options =
     (if ''spa'' \<in> options then
        (case cache ''/'' of
           Some index \<Rightarrow>
             (Some (spa_ServeHTTP G \<lparr>spa_index = sa_ServeHTTP G index,
                 spa_exclude = ParsePrefixList (prop_String (hf_Properties t) (hf_key t ''spa-exclude'') ''/api'')\<rparr>), [])
         | None \<Rightarrow> (None, [(LWarn, ''SpaIndexHtmlNotFound'', [FStr ''bean'' (hf_beanName t)])]))
      else (None, []))"

definition hf_tls :: "implHttpServerFactory \<Rightarrow> string set \<Rightarrow> bool option \<times> log_entry list" where
  "hf_tls t options =
     (if ''tls'' \<in> options then
        (case hf_TlsConfig t of
           Some c \<Rightarrow> (Some c, [])
         | None \<Rightarrow> (None, [(LWarn, ''TLSConfigNotFound'', [FStr ''bean'' (hf_beanName t)])]))
      else (None, []))"

definition hf_Object ::
  "codec \<Rightarrow> ((string \<rightharpoonup> servingAsset) \<Rightarrow> string list) \<Rightarrow> implHttpServerFactory
     \<Rightarrow> go_error + factory_Server \<times> log_entry list" where
  "hf_Object G range_keys t =
     (let str = prop_String (hf_Properties t); dur = prop_Duration (hf_Properties t);
          listenAddr = str (hf_key t ''bind-address'') []
      in if listenAddr = []
         then Inl (ErrText (''property '' @ quoted (hf_beanName t @ ''.bind-address'') @ '' not found in server context''))
         else
           let options = ParseOptions (str (hf_key t ''options'') []);
               b1 = hf_handler_phase t options;
               (cache, alog) = (if ''assets'' \<in> options \<or> ''spa'' \<in> options then groupAssets (hf_Resources t)
                                else (Map.empty, []));
               b2 = hf_asset_phase G range_keys cache options b1;
               (notFound, slog) = hf_spa G t cache options;
               (tlsConfig, tlog) = hf_tls t options
           in Inr (\<lparr>sv_Addr = listenAddr, sv_TLSConfig = tlsConfig,
                    sv_Handler = \<lparr>mx_routes = bs_routes b2, mx_NotFound = notFound\<rparr>,
                    sv_ReadTimeout = dur (hf_key t ''read-timeout'') (30 * 10 ^ 9),
                    sv_WriteTimeout = dur (hf_key t ''write-timeout'') (30 * 10 ^ 9),
                    sv_IdleTimeout = dur (hf_key t ''idle-timeout'') (60 * 10 ^ 9)\<rparr>,
                   bs_log b1 @ alog @ drop (length (bs_log b1)) (bs_log b2) @ slog @ tlog @
                   [(LInfo, ''HTTPServerFactory'',
                     [FStr ''listenAddr'' listenAddr, FStr ''bean'' (hf_beanName t),
                      FStrs ''handlers'' (bs_patterns b1), FStrs ''assets'' (bs_patterns b2),
                      FBool ''tls'' (tlsConfig \<noteq> None)])]))"

subsection \<open>The router\<close>

text \<open>
  The router is third-party code, so a parameter \<open>mux\<close> that makes a handler of what was
  registered. A pattern is literal when it is a rooted path without variables, and a path is
  normal when cleaning it (\<^verbatim>\<open>path.Clean\<close>, with a trailing slash kept) changes nothing.
\<close>

definition literal_pattern :: "string \<Rightarrow> bool" where
  "literal_pattern p \<longleftrightarrow> prefix ''/'' p \<and> CHR ''{'' \<notin> set p \<and> CHR ''}'' \<notin> set p"

definition normal_path :: "string \<Rightarrow> bool" where
  "normal_path p \<longleftrightarrow> prefix ''/'' p \<and> (Clean p = p \<or> Clean p \<noteq> ''/'' \<and> Clean p @ ''/'' = p)"

text \<open>
  The documented behaviour: a request for a normal path goes to the first registered route with
  that pattern, and to the \<^verbatim>\<open>NotFoundHandler\<close>, by default \<^verbatim>\<open>http.NotFound\<close>, if there
  is none; a request for any other path is redirected to the cleaned path, without a handler.
  The values that the router adds to the context are under keys of its own.
\<close>

definition dispatch :: "codec \<Rightarrow> router \<Rightarrow> handler" where
  "dispatch G mx r s =
     (case map_of (mx_routes mx) (r_Path r) of
        Some h \<Rightarrow> h r s
      | None \<Rightarrow> (case mx_NotFound mx of Some h \<Rightarrow> h r s | None \<Rightarrow> http_NotFound G s))"

definition redirect_to :: "codec \<Rightarrow> string \<Rightarrow> handler" where
  "redirect_to G loc r = on_writer (run_ops G [OpSet ''Location'' loc, OpWriteHeader 301])"

definition mux_law :: "codec \<Rightarrow> (router \<Rightarrow> handler) \<Rightarrow> bool" where
  "mux_law G mux \<longleftrightarrow>
     (\<forall>mx r s. (\<forall>p \<in> fst ` set (mx_routes mx). literal_pattern p) \<longrightarrow>
        (if normal_path (r_Path r) then mux mx r s = dispatch G mx r s
         else \<exists>loc. mux mx r s = redirect_to G loc r s))"

text \<open>A router for literal patterns.\<close>

definition literal_mux :: "codec \<Rightarrow> router \<Rightarrow> handler" where
  "literal_mux G mx r s =
     (if normal_path (r_Path r) then dispatch G mx r s else redirect_to G (Clean (''/'' @ r_Path r)) r s)"

lemma literal_mux_law: "mux_law G (literal_mux G)"
  by (auto simp: mux_law_def literal_mux_def)

lemma mux_normal:
  assumes "mux_law G mux" and "\<And>p. p \<in> fst ` set (mx_routes mx) \<Longrightarrow> literal_pattern p" and "normal_path (r_Path r)"
  shows "mux mx r s = dispatch G mx r s"
proof -
  have "if normal_path (r_Path r) then mux mx r s = dispatch G mx r s
        else \<exists>loc. mux mx r s = redirect_to G loc r s"
    using assms(1,2) unfolding mux_law_def by blast
  with assms(3) show ?thesis by simp
qed

lemma redirect_status:
  assumes "\<not> rs_wrote q"
  shows "status_sent (redirect_to G loc r (BaseW q, wd)) = Some 301"
proof -
  have k: "CanonicalKey ''Location'' = ''Location''" by code_simp
  show ?thesis
    using assms by (auto simp: redirect_to_def status_sent_def on_writer_def base_WriteHeader_def hdr_simps k Let_def
        split: option.split)
qed

lemma mux_redirects:
  assumes "mux_law G mux" and "\<And>p. p \<in> fst ` set (mx_routes mx) \<Longrightarrow> literal_pattern p" and "\<not> normal_path (r_Path r)"
    and "\<not> rs_wrote q"
  shows "status_sent (mux mx r (BaseW q, wd)) = Some 301"
proof -
  have "if normal_path (r_Path r) then mux mx r (BaseW q, wd) = dispatch G mx r (BaseW q, wd)
        else \<exists>loc. mux mx r (BaseW q, wd) = redirect_to G loc r (BaseW q, wd)"
    using assms(1,2) unfolding mux_law_def by blast
  with assms(3) redirect_status [OF assms(4)] show ?thesis by auto
qed

subsection \<open>Middlewares\<close>

lemma wrap_filter:
  "wrap_middlewares ms pattern h =
     foldr mb_Middleware (filter (\<lambda>m. mb_Match m pattern) (map the (filter (\<lambda>m. m \<noteq> None) ms))) h"
  by (induction ms) (auto simp: wrap_middlewares_def split: option.splits)

subsection \<open>Routes\<close>

definition routed :: "build \<Rightarrow> bool" where
  "routed b \<longleftrightarrow> bs_visited b = fst ` set (bs_routes b)"

lemma add_handlers_routed: "routed b \<Longrightarrow> routed (add_handlers ms hs b)"
  by (induction hs arbitrary: b) (simp_all add: Let_def routed_def)

lemma map_of_snoc:
  "map_of (xs @ [(k, v)]) p = (case map_of xs p of Some h \<Rightarrow> Some h | None \<Rightarrow> if p = k then Some v else None)"
  by (auto simp: map_add_def split: option.split)

lemma add_handlers_route:
  assumes "routed b"
  shows "map_of (bs_routes (add_handlers ms hs b)) p =
     (case map_of (bs_routes b) p of
        Some h \<Rightarrow> Some h
      | None \<Rightarrow> map_option (\<lambda>hb. wrap_middlewares ms p (hb_ServeHTTP hb)) (find (\<lambda>hb. hb_Pattern hb = p) hs))"
  using assms
proof (induction hs arbitrary: b)
  case Nil
  then show ?case by (simp split: option.split)
next
  case (Cons hb hs)
  show ?case
  proof (cases "hb_Pattern hb \<in> bs_visited b")
    case True
    then have "map_of (bs_routes b) (hb_Pattern hb) \<noteq> None"
      using Cons.prems by (auto simp: routed_def map_of_eq_None_iff)
    with True Cons show ?thesis by (auto simp: Let_def routed_def split: option.split)
  next
    case False
    let ?b = "b\<lparr>bs_visited := insert (hb_Pattern hb) (bs_visited b), bs_patterns := bs_patterns b @ [hb_Pattern hb],
        bs_routes := bs_routes b @ [(hb_Pattern hb, wrap_middlewares ms (hb_Pattern hb) (hb_ServeHTTP hb))]\<rparr>"
    have "routed ?b" using Cons.prems by (simp add: routed_def)
    moreover have "map_of (bs_routes b) (hb_Pattern hb) = None"
      using False Cons.prems by (simp add: routed_def map_of_eq_None_iff)
    ultimately show ?thesis using Cons.IH [of ?b] False
      by (auto simp: Let_def map_of_snoc simp del: map_of_append split: option.split)
  qed
qed

lemma add_assets_route:
  "map_of (bs_routes (add_assets G cache ps b)) p =
     (case map_of (bs_routes b) p of
        Some h \<Rightarrow> Some h
      | None \<Rightarrow> if p \<in> set ps then Some (sa_ServeHTTP G (the (cache p))) else None)"
proof (induction ps arbitrary: b)
  case (Cons q qs)
  then show ?case by (auto simp: Let_def map_of_snoc simp del: map_of_append split: option.split)
qed (simp split: option.split)

subsection \<open>Assets\<close>

definition variants :: "(string \<rightharpoonup> servingAsset) \<Rightarrow> string \<Rightarrow> (handler option \<times> handler option) option" where
  "variants cache p = map_option (\<lambda>a. (sa_plainH a, sa_gzipH a)) (cache p)"

definition put_variant ::
  "bool \<Rightarrow> handler \<Rightarrow> (handler option \<times> handler option) option \<Rightarrow> (handler option \<times> handler option) option" where
  "put_variant gz h v = (case v of
      Some (pl, zi) \<Rightarrow> Some (if gz then (pl, Some h) else (Some h, zi))
    | None \<Rightarrow> Some (if gz then (None, Some h) else (Some h, None)))"

lemma add_asset_variants:
  "variants (fst (add_asset gz h name s)) p =
     (if p = ''/'' @ name then put_variant gz h (variants (fst s) p) else variants (fst s) p)"
  by (auto simp: add_asset_def variants_def put_variant_def Let_def split: prod.splits option.splits)

lemma put_variant_twice [simp]: "put_variant gz h (put_variant gz h v) = put_variant gz h v"
  by (auto simp: put_variant_def split: option.split)

text \<open>The paths of a resource: its names, and the root for its index page.\<close>

definition resource_paths :: "ResourceSource \<Rightarrow> string set" where
  "resource_paths res = (\<lambda>n. ''/'' @ n) ` set (res_AssetNames res) \<union>
     (if ''index.html'' \<in> set (res_AssetNames res) then {''/''} else {})"

lemma add_names_variants:
  "variants (fst (add_names gz h names s)) p =
     (if (\<exists>n \<in> set names. p = ''/'' @ n) \<or> ''index.html'' \<in> set names \<and> p = ''/''
      then put_variant gz h (variants (fst s) p) else variants (fst s) p)"
  by (induction names arbitrary: s) (auto simp: Let_def add_asset_variants)

definition keyed :: "(string \<rightharpoonup> servingAsset) \<Rightarrow> bool" where
  "keyed cache \<longleftrightarrow> (\<forall>p a. cache p = Some a \<longrightarrow> sa_pattern a = p)"

lemma add_asset_keyed: "keyed (fst s) \<Longrightarrow> keyed (fst (add_asset gz h name s))"
  by (auto simp: keyed_def add_asset_def Let_def split: prod.splits option.splits)

lemma add_names_keyed: "keyed (fst s) \<Longrightarrow> keyed (fst (add_names gz h names s))"
  by (induction names arbitrary: s) (simp_all add: Let_def add_asset_keyed)

lemma group_resources_keyed: "keyed (fst s) \<Longrightarrow> keyed (fst (group_resources rs s))"
  by (induction rs arbitrary: s) (simp_all add: add_names_keyed)

text \<open>
  The handler of a path: that of the last asset resource of the kind, plain or compressed,
  that has the path.
\<close>

definition resource_serves :: "bool \<Rightarrow> string \<Rightarrow> ResourceSource \<Rightarrow> bool" where
  "resource_serves gz p res \<longleftrightarrow> prefix ''assets'' (res_Name res) \<and> suffix ''gzip'' (res_Name res) = gz \<and> p \<in> resource_paths res"

definition last_handler :: "bool \<Rightarrow> ResourceSource list \<Rightarrow> string \<Rightarrow> handler option" where
  "last_handler gz rs p =
     map_option (\<lambda>res. if gz then gzipHeaderHandler (res_FileServer res) else res_FileServer res)
       (find (resource_serves gz p) (rev rs))"

definition both_handlers :: "ResourceSource list \<Rightarrow> string \<Rightarrow> (handler option \<times> handler option) option" where
  "both_handlers rs p =
     (if last_handler False rs p = None \<and> last_handler True rs p = None then None
      else Some (last_handler False rs p, last_handler True rs p))"

lemma last_handler_snoc:
  "last_handler gz (rs @ [res]) p =
     (if resource_serves gz p res then Some (if gz then gzipHeaderHandler (res_FileServer res) else res_FileServer res)
      else last_handler gz rs p)"
  by (simp add: last_handler_def)

lemma group_resources_snoc: "group_resources (xs @ ys) s = group_resources ys (group_resources xs s)"
  by (induction xs arbitrary: s) auto

lemma groupAssets_variants: "variants (fst (groupAssets rs)) p = both_handlers rs p"
proof (induction rs rule: rev_induct)
  case Nil
  then show ?case by (simp add: groupAssets_def variants_def both_handlers_def last_handler_def)
next
  case (snoc res rs)
  let ?gz = "suffix ''gzip'' (res_Name res)"
  let ?h = "if ?gz then gzipHeaderHandler (res_FileServer res) else res_FileServer res"
  have paths: "(\<exists>n \<in> set (res_AssetNames res). p = ''/'' @ n) \<or> ''index.html'' \<in> set (res_AssetNames res) \<and> p = ''/'' \<longleftrightarrow>
      p \<in> resource_paths res"
    by (auto simp: resource_paths_def)
  have names: "variants (fst (add_names gz h (res_AssetNames res) s)) p =
      (if p \<in> resource_paths res then put_variant gz h (variants (fst s) p) else variants (fst s) p)" for gz h s
    by (simp only: add_names_variants paths)
  have "variants (fst (groupAssets (rs @ [res]))) p =
      (if prefix ''assets'' (res_Name res) \<and> p \<in> resource_paths res
       then put_variant ?gz ?h (both_handlers rs p) else both_handlers rs p)"
    using snoc.IH by (simp add: groupAssets_def group_resources_snoc names)
  also have "\<dots> = both_handlers (rs @ [res]) p"
    by (simp add: both_handlers_def last_handler_snoc resource_serves_def put_variant_def)
  finally show ?case .
qed

lemma groupAssets_Some:
  "fst (groupAssets rs) p =
     map_option (\<lambda>(pl, zi). \<lparr>sa_pattern = p, sa_plainH = pl, sa_gzipH = zi\<rparr>) (both_handlers rs p)"
proof (cases "fst (groupAssets rs) p")
  case None
  then show ?thesis using groupAssets_variants [of rs p] by (simp add: variants_def)
next
  case (Some a)
  then have "sa_pattern a = p" using group_resources_keyed [of "(Map.empty, [])" rs] by (simp add: groupAssets_def keyed_def)
  moreover have "both_handlers rs p = Some (sa_plainH a, sa_gzipH a)"
    using groupAssets_variants [of rs p] Some by (simp add: variants_def)
  ultimately show ?thesis using Some by simp
qed

lemma hf_Object_error:
  "prop_String (hf_Properties t) (hf_key t ''bind-address'') [] = [] \<Longrightarrow> \<exists>e. hf_Object G range_keys t = Inl e"
  by (simp add: hf_Object_def)

text \<open>The server that is built, for any options.\<close>

definition hf_options :: "implHttpServerFactory \<Rightarrow> string set" where
  "hf_options t = ParseOptions (prop_String (hf_Properties t) (hf_key t ''options'') [])"

lemma hf_Object_built:
  assumes "prop_String (hf_Properties t) (hf_key t ''bind-address'') [] \<noteq> []"
  shows "\<exists>srv lg. hf_Object G range_keys t = Inr (srv, lg) \<and>
     sv_Addr srv = prop_String (hf_Properties t) (hf_key t ''bind-address'') [] \<and>
     sv_TLSConfig srv = fst (hf_tls t (hf_options t)) \<and>
     mx_routes (sv_Handler srv) = bs_routes (hf_asset_phase G range_keys (fst (groupAssets (hf_Resources t))) (hf_options t)
       (hf_handler_phase t (hf_options t))) \<and>
     mx_NotFound (sv_Handler srv) = fst (hf_spa G t (fst (groupAssets (hf_Resources t))) (hf_options t))"
  using assms by (simp add: hf_Object_def hf_options_def hf_asset_phase_def hf_spa_def Let_def case_prod_unfold)

lemma hf_Object_routes:
  assumes "hf_Object G range_keys t = Inr (srv, lg)"
  shows "mx_routes (sv_Handler srv) = bs_routes (hf_asset_phase G range_keys (fst (groupAssets (hf_Resources t))) (hf_options t)
       (hf_handler_phase t (hf_options t)))"
    and "mx_NotFound (sv_Handler srv) = fst (hf_spa G t (fst (groupAssets (hf_Resources t))) (hf_options t))"
proof -
  have "prop_String (hf_Properties t) (hf_key t ''bind-address'') [] \<noteq> []"
    using assms by (auto simp: hf_Object_def)
  from hf_Object_built [OF this, of G range_keys] assms
  show "mx_routes (sv_Handler srv) = bs_routes (hf_asset_phase G range_keys (fst (groupAssets (hf_Resources t))) (hf_options t)
       (hf_handler_phase t (hf_options t)))"
    "mx_NotFound (sv_Handler srv) = fst (hf_spa G t (fst (groupAssets (hf_Resources t))) (hf_options t))" by auto
qed

lemma handler_phase_route:
  "map_of (bs_routes (hf_handler_phase t options)) p =
     (if ''handlers'' \<in> options
      then map_option (\<lambda>hb. wrap_middlewares (hf_Middlewares t) p (hb_ServeHTTP hb))
             (find (\<lambda>hb. hb_Pattern hb = p) (hf_Handlers t))
      else None)"
proof -
  have "routed \<lparr>bs_visited = {}, bs_patterns = [], bs_routes = [], bs_log = []\<rparr>" by (simp add: routed_def)
  from add_handlers_route [OF this, of "hf_Middlewares t" "hf_Handlers t" p]
  show ?thesis by (simp add: hf_handler_phase_def)
qed

lemma asset_phase_route:
  "map_of (bs_routes (hf_asset_phase G range_keys cache options b)) p =
     (case map_of (bs_routes b) p of
        Some h \<Rightarrow> Some h
      | None \<Rightarrow> if ''assets'' \<in> options \<and> p \<in> set (range_keys cache) then Some (sa_ServeHTTP G (the (cache p))) else None)"
  by (simp add: hf_asset_phase_def add_assets_route split: option.split)

text \<open>A handler's route, whatever else is registered.\<close>

lemma handler_route:
  assumes "hf_Object G range_keys t = Inr (srv, lg)" and "''handlers'' \<in> hf_options t"
    and "p \<in> hb_Pattern ` set (hf_Handlers t)"
  shows "\<exists>hb. find (\<lambda>hb. hb_Pattern hb = p) (hf_Handlers t) = Some hb \<and>
     map_of (mx_routes (sv_Handler srv)) p = Some (wrap_middlewares (hf_Middlewares t) p (hb_ServeHTTP hb))"
proof -
  have "find (\<lambda>hb. hb_Pattern hb = p) (hf_Handlers t) \<noteq> None" using assms(3) by (auto simp: find_None_iff)
  then obtain hb where "find (\<lambda>hb. hb_Pattern hb = p) (hf_Handlers t) = Some hb" by blast
  with assms(2) show ?thesis
    by (simp add: hf_Object_routes(1) [OF assms(1)] asset_phase_route handler_phase_route)
qed

lemma handlers_only_patterns:
  assumes "hf_Object G range_keys t = Inr (srv, lg)" and "''assets'' \<notin> hf_options t"
    and "p \<in> fst ` set (mx_routes (sv_Handler srv))"
  shows "p \<in> hb_Pattern ` set (hf_Handlers t)"
proof -
  have "map_of (mx_routes (sv_Handler srv)) p \<noteq> None" using assms(3) by (simp add: map_of_eq_None_iff)
  then have "find (\<lambda>hb. hb_Pattern hb = p) (hf_Handlers t) \<noteq> None"
    using assms(2)
    by (cases "find (\<lambda>hb. hb_Pattern hb = p) (hf_Handlers t)"; cases "''handlers'' \<in> hf_options t")
      (simp_all add: hf_Object_routes(1) [OF assms(1)] asset_phase_route handler_phase_route)
  then show ?thesis by (auto simp: find_None_iff)
qed

subsection \<open>Properties\<close>

text \<open>
  C18. Every handler runs behind exactly the middlewares whose prefixes match its pattern, in
  the order of their bean order, the smallest outermost, whatever order the container
  injected them in and however the unstable sort orders equal ones.
\<close>

theorem middleware_chain_order:
  assumes "hf_PostConstruct t t'" and "None \<notin> set (hf_Middlewares t)"
  shows "\<exists>chain. sorted (map mb_BeanOrder chain) \<and>
     mset chain = mset (filter (\<lambda>m. mb_Match m pattern) (map the (hf_Middlewares t))) \<and>
     wrap_middlewares (hf_Middlewares t') pattern h = foldr mb_Middleware chain h"
proof -
  let ?ms = "hf_Middlewares t" and ?ms' = "hf_Middlewares t'"
  let ?chain = "filter (\<lambda>m. mb_Match m pattern) (map the ?ms')"
  have s: "hf_sorted ?ms ?ms'" using assms(1) by (auto simp: hf_PostConstruct_def)
  have p: "mset ?ms' = mset ?ms" using s by (auto simp: hf_sorted_def split: if_splits)
  then have "None \<notin> set ?ms'" using assms(2) by (metis set_mset_mset)
  then have "filter (\<lambda>m. m \<noteq> None) ?ms' = ?ms'" by (intro filter_True ballI) metis
  then have "wrap_middlewares ?ms' pattern h = foldr mb_Middleware ?chain h" by (simp add: wrap_filter)
  moreover have "sorted (map mb_BeanOrder (map the ?ms'))"
  proof (cases "1 < length ?ms")
    case True
    with s show ?thesis by (simp add: hf_sorted_def comp_def)
  next
    case False
    with s show ?thesis by (cases ?ms; cases "tl ?ms") (auto simp: hf_sorted_def)
  qed
  then have "sorted (map mb_BeanOrder ?chain)" by (rule sorted_filter)
  moreover have "mset ?chain = mset (filter (\<lambda>m. mb_Match m pattern) (map the ?ms))"
    using p by (metis mset_filter mset_map)
  ultimately show ?thesis by blast
qed

definition log_middleware :: "int \<Rightarrow> string \<Rightarrow> HttpMiddleware" where
  "log_middleware n msg = \<lparr>mb_BeanOrder = n, mb_Match = (\<lambda>p. True),
     mb_Middleware = (\<lambda>nxt r s. nxt r (fst s, log_write LInfo msg [] (snd s)))\<rparr>"

definition sample_factory :: implHttpServerFactory where
  "sample_factory = \<lparr>hf_Properties = \<lparr>prop_String = (\<lambda>k d. if k = ''http.bind-address'' then '':8080''
        else if k = ''http.options'' then ''handlers; assets'' else d), prop_Duration = (\<lambda>k d. d)\<rparr>,
     hf_Handlers = [\<lparr>hb_Pattern = ''/x'', hb_ServeHTTP = (\<lambda>r. Ret ())\<rparr>],
     hf_Middlewares = [Some (log_middleware 2 ''b''), Some (log_middleware 1 ''a'')], hf_Resources = [],
     hf_TlsConfig = None, hf_beanName = ''http''\<rparr>"

theorem middleware_chain_order_witness:
  "\<exists>chain. sorted (map mb_BeanOrder chain) \<and>
     mset chain = {#log_middleware 2 ''b'', log_middleware 1 ''a''#} \<and>
     wrap_middlewares [Some (log_middleware 1 ''a''), Some (log_middleware 2 ''b'')] ''/x'' (\<lambda>r. Ret ()) =
       foldr mb_Middleware chain (\<lambda>r. Ret ())"
proof -
  let ?t' = "sample_factory\<lparr>hf_Middlewares := [Some (log_middleware 1 ''a''), Some (log_middleware 2 ''b'')]\<rparr>"
  have p: "hf_PostConstruct sample_factory ?t'"
    by (auto simp: hf_PostConstruct_def hf_sorted_def sample_factory_def log_middleware_def)
  have n: "None \<notin> set (hf_Middlewares sample_factory)" by (simp add: sample_factory_def)
  have m: "mb_Match (log_middleware k v) p" for k v p by (simp add: log_middleware_def)
  show ?thesis
    using middleware_chain_order [OF p n, of "''/x''" "\<lambda>r. Ret ()"] by (simp add: sample_factory_def m)
qed

text \<open>
  C17. What the factory builds, for any set of options: a server exactly if there is a bind
  address, and it listens there. With the option \<^verbatim>\<open>handlers\<close> the route of a pattern is the
  first handler that declares it, wrapped into its middlewares, never a later one and never an
  asset of the same path; with the option \<^verbatim>\<open>assets\<close> an asset is served on a path that has
  no handler; nothing else is routed. What is not routed goes to the index of the single-page
  application with the option \<^verbatim>\<open>spa\<close>, if there is an index. The server has the TLS
  configuration of its bean with the option \<^verbatim>\<open>tls\<close> only. (The hypothesis says that
  \<^verbatim>\<open>range\<close> visits the keys of the map of assets, in any order.)
\<close>

theorem factory_routes:
  assumes "options = hf_options t"
    and "cache = fst (groupAssets (hf_Resources t))" and "set (range_keys cache) = dom cache"
  shows "if prop_String (hf_Properties t) (hf_key t ''bind-address'') [] = [] then \<exists>e. hf_Object G range_keys t = Inl e
     else \<exists>srv lg. hf_Object G range_keys t = Inr (srv, lg) \<and>
          sv_Addr srv = prop_String (hf_Properties t) (hf_key t ''bind-address'') [] \<and>
          (\<forall>p. map_of (mx_routes (sv_Handler srv)) p =
            (case if ''handlers'' \<in> options then find (\<lambda>hb. hb_Pattern hb = p) (hf_Handlers t) else None of
               Some hb \<Rightarrow> Some (wrap_middlewares (hf_Middlewares t) p (hb_ServeHTTP hb))
             | None \<Rightarrow> if ''assets'' \<in> options then map_option (sa_ServeHTTP G) (cache p) else None)) \<and>
          mx_NotFound (sv_Handler srv) =
            (if ''spa'' \<in> options
             then map_option (\<lambda>index. spa_ServeHTTP G \<lparr>spa_index = sa_ServeHTTP G index,
                 spa_exclude = ParsePrefixList (prop_String (hf_Properties t) (hf_key t ''spa-exclude'') ''/api'')\<rparr>) (cache ''/'')
             else None) \<and>
          sv_TLSConfig srv = (if ''tls'' \<in> options then hf_TlsConfig t else None)"
proof (cases "prop_String (hf_Properties t) (hf_key t ''bind-address'') [] = []")
  case True
  with hf_Object_error [OF True] show ?thesis by simp
next
  case False
  have routes: "map_of (bs_routes (hf_asset_phase G range_keys cache options (hf_handler_phase t options))) p =
            (case if ''handlers'' \<in> options then find (\<lambda>hb. hb_Pattern hb = p) (hf_Handlers t) else None of
               Some hb \<Rightarrow> Some (wrap_middlewares (hf_Middlewares t) p (hb_ServeHTTP hb))
             | None \<Rightarrow> if ''assets'' \<in> options then map_option (sa_ServeHTTP G) (cache p) else None)" for p
    using assms(3) by (auto simp: asset_phase_route handler_phase_route dom_def split: option.split)
  have tls: "fst (hf_tls t options) = (if ''tls'' \<in> options then hf_TlsConfig t else None)"
    by (simp add: hf_tls_def split: option.split)
  have spa: "fst (hf_spa G t cache options) = (if ''spa'' \<in> options
     then map_option (\<lambda>index. spa_ServeHTTP G \<lparr>spa_index = sa_ServeHTTP G index,
         spa_exclude = ParsePrefixList (prop_String (hf_Properties t) (hf_key t ''spa-exclude'') ''/api'')\<rparr>) (cache ''/'')
     else None)"
    by (simp add: hf_spa_def split: option.split)
  from hf_Object_built [OF False, of G range_keys, folded assms(1,2)] obtain srv lg
    where srv: "hf_Object G range_keys t = Inr (srv, lg)"
      "sv_Addr srv = prop_String (hf_Properties t) (hf_key t ''bind-address'') []"
      "sv_TLSConfig srv = fst (hf_tls t options)"
      "mx_routes (sv_Handler srv) = bs_routes (hf_asset_phase G range_keys cache options (hf_handler_phase t options))"
      "mx_NotFound (sv_Handler srv) = fst (hf_spa G t cache options)"
    by blast
  show ?thesis
    unfolding if_not_P [OF False]
    by (intro exI [of _ srv] exI [of _ lg] conjI allI) (simp_all only: srv routes tls spa)
qed

theorem factory_routes_witness:
  "\<exists>srv lg. hf_Object stored_codec (\<lambda>c. []) sample_factory = Inr (srv, lg) \<and> sv_Addr srv = '':8080'' \<and>
     map_of (mx_routes (sv_Handler srv)) ''/x'' =
       Some (wrap_middlewares (hf_Middlewares sample_factory) ''/x'' (\<lambda>r. Ret ())) \<and> mx_NotFound (sv_Handler srv) = None"
proof -
  have "ParseOptions ''handlers; assets'' = {''handlers'', ''assets''}" by code_simp
  then have o: "hf_options sample_factory = {''handlers'', ''assets''}"
    by (simp add: hf_options_def sample_factory_def hf_key_def)
  have c: "fst (groupAssets (hf_Resources sample_factory)) = Map.empty"
    by (simp add: sample_factory_def groupAssets_def)
  have b: "prop_String (hf_Properties sample_factory) (hf_key sample_factory ''bind-address'') [] = '':8080''"
    by (simp add: sample_factory_def hf_key_def)
  have h: "find (\<lambda>hb. hb_Pattern hb = ''/x'') (hf_Handlers sample_factory) = Some \<lparr>hb_Pattern = ''/x'', hb_ServeHTTP = (\<lambda>r. Ret ())\<rparr>"
    by (simp add: sample_factory_def)
  from factory_routes [OF o [symmetric] c [symmetric], of "\<lambda>c. []" stored_codec] b h show ?thesis by auto
qed

text \<open>
  The fallback of a single-page application serves its index, as the path \<^verbatim>\<open>/\<close> and with
  nothing else of the request changed, exactly for the GET and HEAD requests whose path has
  no excluded prefix and no file extension; every other request gets 404 and the index has no
  part in it.
\<close>

theorem spa_fallback_serves:
  assumes "\<not> rs_wrote q"
  shows "if (r_Method r = ''GET'' \<or> r_Method r = ''HEAD'') \<and> (\<forall>p \<in> set (spa_exclude t). \<not> prefix p (r_Path r)) \<and>
       Ext (r_Path r) = []
     then spa_ServeHTTP G t r (BaseW q, wd) = spa_index t (r\<lparr>r_Path := ''/'', r_RawPath := []\<rparr>) (BaseW q, wd)
     else status_sent (spa_ServeHTTP G t r (BaseW q, wd)) = Some 404 \<and>
       (\<forall>i. spa_ServeHTTP G (t\<lparr>spa_index := i\<rparr>) r (BaseW q, wd) = spa_ServeHTTP G t r (BaseW q, wd))"
proof -
  have "status_sent (http_NotFound G (BaseW q, wd)) = Some 404"
    using http_Error_status(1) [OF assms, of 404 G "''404 page not found''" wd]
    by (simp add: http_NotFound_def http_NotFound_ops_def http_Error_def bodyAllowed_def)
  then show ?thesis by (auto simp: spa_ServeHTTP_def any_prefix_iff)
qed

theorem spa_fallback_serves_witness:
  "status_sent (spa_ServeHTTP stored_codec \<lparr>spa_index = (\<lambda>r. Ret ()), spa_exclude = [''/api'']\<rparr>
     (bearer_request []) (BaseW new_resp, initial_world)) = Some 404"
  using spa_fallback_serves [of new_resp "bearer_request []" "\<lparr>spa_index = (\<lambda>r. Ret ()), spa_exclude = [''/api'']\<rparr>"
      stored_codec initial_world]
  by (simp add: new_resp_def bearer_request_def)

text \<open>
  C32. Embedded assets, for any list of resources: the map of assets has a path exactly if an
  asset resource has it, which for the root means that it has an index page; its plain and its
  compressed handler are those of the last plain and of the last compressed asset resource with
  the path; and a request is served by the compressed one if there is one and the client
  accepts it, by the plain one otherwise, and with 404 if there is no plain one either. When no
  resource names an asset by the empty name, the root is registered with the same handlers as
  the index page.
\<close>

theorem grouped_assets_serve:
  assumes "\<not> rs_wrote q"
  shows "(case fst (groupAssets rs) p of
       None \<Rightarrow> \<not> (\<exists>res \<in> set rs. prefix ''assets'' (res_Name res) \<and> p \<in> resource_paths res)
     | Some a \<Rightarrow> (\<exists>res \<in> set rs. prefix ''assets'' (res_Name res) \<and> p \<in> resource_paths res) \<and>
         sa_pattern a = p \<and> sa_plainH a = last_handler False rs p \<and> sa_gzipH a = last_handler True rs p \<and>
         (case (if sa_acceptGzip r then last_handler True rs p else None, last_handler False rs p) of
            (Some h, _) \<Rightarrow> sa_ServeHTTP G a r (BaseW q, wd) = h r (BaseW q, wd)
          | (None, Some h) \<Rightarrow> sa_ServeHTTP G a r (BaseW q, wd) = h r (BaseW q, wd)
          | (None, None) \<Rightarrow> status_sent (sa_ServeHTTP G a r (BaseW q, wd)) = Some 404)) \<and>
     ((\<forall>res \<in> set rs. [] \<notin> set (res_AssetNames res)) \<longrightarrow>
        last_handler gz rs ''/'' = last_handler gz rs ''/index.html'')"
proof (intro conjI impI)
  have none: "last_handler gz rs p = None \<longleftrightarrow> \<not> (\<exists>res \<in> set rs. resource_serves gz p res)" for gz p
    by (auto simp: last_handler_def find_None_iff)
  have any: "(\<exists>res \<in> set rs. prefix ''assets'' (res_Name res) \<and> p \<in> resource_paths res) \<longleftrightarrow>
      last_handler False rs p \<noteq> None \<or> last_handler True rs p \<noteq> None" for p
    unfolding none by (auto simp: resource_serves_def)
  have missing: "status_sent (http_Error G msg 404 (BaseW q, wd)) = Some 404" for msg
    using http_Error_status(1) [OF assms, of 404 G msg wd] by (simp add: bodyAllowed_def)
  show "case fst (groupAssets rs) p of
       None \<Rightarrow> \<not> (\<exists>res \<in> set rs. prefix ''assets'' (res_Name res) \<and> p \<in> resource_paths res)
     | Some a \<Rightarrow> (\<exists>res \<in> set rs. prefix ''assets'' (res_Name res) \<and> p \<in> resource_paths res) \<and>
         sa_pattern a = p \<and> sa_plainH a = last_handler False rs p \<and> sa_gzipH a = last_handler True rs p \<and>
         (case (if sa_acceptGzip r then last_handler True rs p else None, last_handler False rs p) of
            (Some h, _) \<Rightarrow> sa_ServeHTTP G a r (BaseW q, wd) = h r (BaseW q, wd)
          | (None, Some h) \<Rightarrow> sa_ServeHTTP G a r (BaseW q, wd) = h r (BaseW q, wd)
          | (None, None) \<Rightarrow> status_sent (sa_ServeHTTP G a r (BaseW q, wd)) = Some 404)"
    unfolding any groupAssets_Some
    by (auto simp: both_handlers_def sa_ServeHTTP_def missing split: option.split)
  assume e: "\<forall>res \<in> set rs. [] \<notin> set (res_AssetNames res)"
  have "find (resource_serves gz ''/'') (rev rs) = find (resource_serves gz ''/index.html'') (rev rs)"
    by (intro find_cong refl) (use e in \<open>auto simp: resource_serves_def resource_paths_def\<close>)
  then show "last_handler gz rs ''/'' = last_handler gz rs ''/index.html''" by (simp add: last_handler_def)
qed

theorem grouped_assets_serve_witness:
  "\<exists>a. fst (groupAssets [\<lparr>res_Name = ''assets'', res_AssetNames = [''index.html''], res_FileServer = (\<lambda>r. Ret ())\<rparr>])
     ''/'' = Some a \<and> sa_ServeHTTP stored_codec a (bearer_request []) (BaseW new_resp, initial_world) =
       Ret () (BaseW new_resp, initial_world)"
proof -
  let ?res = "\<lparr>res_Name = ''assets'', res_AssetNames = [''index.html''], res_FileServer = (\<lambda>r. Ret ())\<rparr>"
  have g: "\<not> sa_acceptGzip (bearer_request [])" by code_simp
  have n: "\<not> suffix ''gzip'' ''assets''" by code_simp
  then have s: "resource_serves False ''/'' ?res" by (simp add: resource_serves_def resource_paths_def)
  then have l: "last_handler False [?res] ''/'' = Some (\<lambda>r. Ret ())" by (simp add: last_handler_def)
  have q: "\<not> rs_wrote new_resp" by (simp add: new_resp_def)
  note th = grouped_assets_serve [where rs = "[?res]" and p = "''/''" and r = "bearer_request []" and G = stored_codec
      and wd = initial_world, OF q, THEN conjunct1]
  obtain a where a: "fst (groupAssets [?res]) ''/'' = Some a"
    using l by (simp add: groupAssets_Some both_handlers_def)
  from th show ?thesis unfolding a option.case l using g by (intro exI [of _ a]) (simp add: a)
qed

text \<open>
  A compressed asset is announced as such exactly when its file server sends the status 200
  explicitly: the part of a compressed file that a range request gets (206) is sent without
  the Content-Encoding header.
\<close>

theorem gzip_asset_marks_only_200:
  assumes "200 \<le> code" and "code \<le> 999"
  shows "\<exists>q. gzipHeaderHandler (ops_handler G (\<lambda>r wd. ([OpWriteHeader code], wd))) r (BaseW new_resp, wd) =
       Ret () (BaseW q, wd) \<and> rs_status q = code \<and>
     hdr_Get (rs_sent_header q) ''Content-Encoding'' = (if code = 200 then ''gzip'' else [])"
  using assms
  by (simp add: gzipHeaderHandler_def ops_handler_def base_WriteHeader_def new_resp_def hdr_simps Let_def)
    (simp add: hdr_Get_def)

theorem gzip_asset_marks_only_200_witness:
  "\<exists>q. gzipHeaderHandler (ops_handler stored_codec (\<lambda>r wd. ([OpWriteHeader 206], wd))) (bearer_request [])
     (BaseW new_resp, initial_world) = Ret () (BaseW q, initial_world) \<and> rs_status q = 206 \<and>
     hdr_Get (rs_sent_header q) ''Content-Encoding'' = []"
  using gzip_asset_marks_only_200 [of 206 stored_codec "bearer_request []" initial_world] by simp

end
