(* ===== verification/Jwt_Provider.thy ===== *)
theory Jwt_Provider
  imports Auth_Middleware
begin

text \<open>
  \<^verbatim>\<open>jwt_auth_provider.go\<close>: the authenticator of signed JSON web tokens. The library
  \<^verbatim>\<open>golang-jwt\<close> is a parameter (\<open>parse\<close>, its \<^verbatim>\<open>jwt.Parse\<close>), as are the decoders of
  the configured public key.
\<close>

subsection \<open>Tokens, keys and claims\<close>

datatype signing_method = SigningMethodHMAC | SigningMethodECDSA | SigningMethodOther

record token_header =
  th_Method :: signing_method
  th_alg :: string

datatype jwt_key = HMACKey string | ECDSAKey string

datatype public_key = EcdsaPub string | OtherPub string

datatype json = JNull | JBool bool | JNum string | JStr string | JArr "json list" | JObj "(string \<times> json) list"

type_synonym MapClaims = "string \<rightharpoonup> json"

datatype parser_option = WithExpirationRequired | WithIssuer string | WithAudience string

text \<open>\<open>tk_Claims\<close> is \<open>None\<close> when the claims are of another type than \<^verbatim>\<open>jwt.MapClaims\<close>.\<close>

record jwt_token =
  tk_Claims :: "MapClaims option"
  tk_Valid :: bool

type_synonym Keyfunc = "token_header \<Rightarrow> go_error + jwt_key"

type_synonym jwt_Parse = "string \<Rightarrow> Keyfunc option \<Rightarrow> parser_option list \<Rightarrow> go_error + jwt_token"

subsection \<open>The provider\<close>

record implJwtAuthProvider =
  jp_Secret :: string
  jp_PublicKeyB64 :: string
  jp_Issuer :: string
  jp_Audience :: string
  jp_RolesClaim :: string
  jp_ScopesClaim :: string
  jp_keyFunc :: "Keyfunc option"

definition JwtAuthProvider :: implJwtAuthProvider where
  "JwtAuthProvider = \<lparr>jp_Secret = [], jp_PublicKeyB64 = [], jp_Issuer = [], jp_Audience = [],
     jp_RolesClaim = ''roles'', jp_ScopesClaim = ''scope'', jp_keyFunc = None\<rparr>"

definition unexpected_method :: "token_header \<Rightarrow> go_error" where
  "unexpected_method h = ErrText (''jwt: unexpected signing method '' @ th_alg h)"

definition ecdsa_keyFunc :: "string \<Rightarrow> Keyfunc" where
  "ecdsa_keyFunc pub h =
     (if th_Method h \<noteq> SigningMethodECDSA then Inl (unexpected_method h) else Inr (ECDSAKey pub))"

definition hmac_keyFunc :: "string \<Rightarrow> Keyfunc" where
  "hmac_keyFunc secret h =
     (if th_Method h \<noteq> SigningMethodHMAC then Inl (unexpected_method h) else Inr (HMACKey secret))"

definition jp_PostConstruct ::
  "(string \<Rightarrow> go_error + string) \<Rightarrow> (string \<Rightarrow> go_error + public_key)
     \<Rightarrow> implJwtAuthProvider \<Rightarrow> go_error + implJwtAuthProvider" where
  "jp_PostConstruct b64 pkix t =
     (if jp_Secret t = [] \<and> jp_PublicKeyB64 t = []
      then Inl (ErrText ''jwt: either jwt.secret or jwt.public-key must be configured'')
      else if jp_Secret t \<noteq> [] \<and> jp_PublicKeyB64 t \<noteq> []
      then Inl (ErrText ''jwt: jwt.secret and jwt.public-key are mutually exclusive'')
      else if jp_PublicKeyB64 t \<noteq> [] then
        (case b64 (jp_PublicKeyB64 t) of
           Inl e \<Rightarrow> Inl (ErrWrap ''jwt: failed to base64-decode jwt.public-key'' e)
         | Inr der \<Rightarrow>
             (case pkix der of
                Inl e \<Rightarrow> Inl (ErrWrap ''jwt: failed to parse public key'' e)
              | Inr (OtherPub ty) \<Rightarrow> Inl (ErrText (''jwt: public key is not ECDSA, got '' @ ty))
              | Inr (EcdsaPub pub) \<Rightarrow> Inr (t\<lparr>jp_keyFunc := Some (ecdsa_keyFunc pub)\<rparr>)))
      else Inr (t\<lparr>jp_keyFunc := Some (hmac_keyFunc (jp_Secret t))\<rparr>))"

definition claimString :: "MapClaims \<Rightarrow> string \<Rightarrow> string" where
  "claimString claims key = (case claims key of Some (JStr s) \<Rightarrow> s | _ \<Rightarrow> [])"

definition splitClaimString :: "string \<Rightarrow> string list" where
  "splitClaimString s =
     filter (\<lambda>p. p \<noteq> []) (map TrimSpace (FieldsFunc (\<lambda>r. r = CHR '' '' \<or> r = CHR '','') s))"

fun json_strings :: "json list \<Rightarrow> string list" where
  "json_strings [] = []"
| "json_strings (JStr s # r) = s # json_strings r"
| "json_strings (_ # r) = json_strings r"

definition claimStringSlice :: "MapClaims \<Rightarrow> string \<Rightarrow> string list" where
  "claimStringSlice claims key =
     (case claims key of
        Some (JArr arr) \<Rightarrow> json_strings arr
      | Some (JStr s) \<Rightarrow> splitClaimString s
      | _ \<Rightarrow> [])"

definition parseScopeClaim :: "MapClaims \<Rightarrow> string \<Rightarrow> string list" where
  "parseScopeClaim claims key =
     (case claims key of
        Some (JStr s) \<Rightarrow> splitClaimString s
      | Some (JArr arr) \<Rightarrow> json_strings arr
      | _ \<Rightarrow> [])"

definition parser_options :: "implJwtAuthProvider \<Rightarrow> parser_option list" where
  "parser_options t = [WithExpirationRequired]
     @ (if jp_Issuer t \<noteq> [] then [WithIssuer (jp_Issuer t)] else [])
     @ (if jp_Audience t \<noteq> [] then [WithAudience (jp_Audience t)] else [])"

fun claim_attributes :: "MapClaims \<Rightarrow> string list \<Rightarrow> (string \<rightharpoonup> string) \<Rightarrow> (string \<rightharpoonup> string)" where
  "claim_attributes claims [] m = m"
| "claim_attributes claims (key # ks) m =
     claim_attributes claims ks
       (let v = claimString claims key in if v \<noteq> [] then m(key \<mapsto> v) else m)"

definition jp_Authenticate :: "jwt_Parse \<Rightarrow> implJwtAuthProvider \<Rightarrow> string \<Rightarrow> go_error + AuthInfo" where
  "jp_Authenticate parse t tokenStr =
     (case parse tokenStr (jp_keyFunc t) (parser_options t) of
        Inl e \<Rightarrow> Inl ErrUnauthorized
      | Inr token \<Rightarrow>
          (case tk_Claims token of
             None \<Rightarrow> Inl ErrUnauthorized
           | Some claims \<Rightarrow>
               if \<not> tk_Valid token then Inl ErrUnauthorized
               else Inr \<lparr>HashedToken = hashToken tokenStr, Subject = claimString claims ''sub'',
                 Scopes = parseScopeClaim claims (jp_ScopesClaim t),
                 Roles = claimStringSlice claims (jp_RolesClaim t),
                 Issuer = claimString claims ''iss'',
                 Attributes = claim_attributes claims [''email'', ''name'', ''preferred_username'', ''jti''] Map.empty\<rparr>))"

interpretation jwt_provider: authenticator "jp_Authenticate parse t" for parse t
  by unfold_locales (auto simp: jp_Authenticate_def split: sum.splits option.splits if_splits)

subsection \<open>What the library promises\<close>

fun option_holds :: "parser_option \<Rightarrow> MapClaims \<Rightarrow> bool" where
  "option_holds WithExpirationRequired c = (c ''exp'' \<noteq> None)"
| "option_holds (WithIssuer i) c = (c ''iss'' = Some (JStr i))"
| "option_holds (WithAudience a) c =
     (case c ''aud'' of Some (JStr s) \<Rightarrow> s = a | Some (JArr l) \<Rightarrow> JStr a \<in> set l | _ \<Rightarrow> False)"

text \<open>
  The documented behaviour of \<^verbatim>\<open>jwt.Parse\<close>: without an error, the token decodes to a header
  and claims (\<open>decoded\<close>), the key function gave a key for the header, the signature
  verifies with that key (\<open>sig_ok\<close>), and the claims satisfy the options.
\<close>

definition jwt_law ::
  "jwt_Parse \<Rightarrow> (string \<Rightarrow> (token_header \<times> MapClaims) option) \<Rightarrow> (string \<Rightarrow> jwt_key \<Rightarrow> bool) \<Rightarrow> bool" where
  "jwt_law parse decoded sig_ok \<longleftrightarrow> (\<forall>s kf opts tk. parse s kf opts = Inr tk \<longrightarrow>
     (\<exists>f h k c. kf = Some f \<and> decoded s = Some (h, c) \<and> f h = Inr k \<and> sig_ok s k \<and>
        tk_Claims tk = Some c \<and> (\<forall>x \<in> set opts. option_holds x c)))"

subsection \<open>Claims\<close>

lemma split_claim_ok:
  assumes "w \<in> set (splitClaimString s)"
  shows "w \<noteq> []" and "TrimSpace w = w" and "CHR '' '' \<notin> set w" and "CHR '','' \<notin> set w"
proof -
  from assms obtain f where f: "f \<in> set (FieldsFunc (\<lambda>r. r = CHR '' '' \<or> r = CHR '','') s)" "w = TrimSpace f" "w \<noteq> []"
    by (auto simp: splitClaimString_def)
  then have "list_all (\<lambda>c. \<not> (c = CHR '' '' \<or> c = CHR '','')) f" using FieldsFunc_ok by blast
  then have "CHR '' '' \<notin> set f \<and> CHR '','' \<notin> set f" by (auto simp: list_all_iff)
  with f TrimSpace_set [of f] show "w \<noteq> []" "TrimSpace w = w" "CHR '' '' \<notin> set w" "CHR '','' \<notin> set w" by auto
qed

lemma splitClaimString_Join:
  assumes "\<forall>w \<in> set ws. w \<noteq> [] \<and> TrimSpace w = w \<and> CHR '' '' \<notin> set w \<and> CHR '','' \<notin> set w"
  shows "splitClaimString (Join ws '' '') = ws"
proof -
  have "FieldsFunc (\<lambda>r. r = CHR '' '' \<or> r = CHR '','') (Join ws '' '') = ws"
    using assms by (intro FieldsFunc_Join) (auto simp: list_all_iff)
  moreover have "map TrimSpace ws = ws" using assms by (simp add: map_idI)
  ultimately show ?thesis using assms by (simp add: splitClaimString_def)
qed

lemma claim_attributes_value:
  "claim_attributes c ks m k =
     (if k \<in> set ks \<and> claimString c k \<noteq> [] then Some (claimString c k) else m k)"
  by (induction c ks m rule: claim_attributes.induct) (auto simp: Let_def)

subsection \<open>Properties\<close>

text \<open>
  C5. A configuration accepts only tokens of its own kind: when the provider with a secret
  accepts a token, the token was signed by an HMAC method under exactly that secret; when
  the provider with a public key accepts one, it was signed by an ECDSA method under exactly
  that key. So no token can make a provider use its public key as an HMAC secret. The token
  has an expiration, the configured issuer and audience, and the identity is that of its
  claims.
\<close>

theorem jwt_no_algorithm_confusion:
  assumes "jwt_law parse decoded sig_ok"
    and "jp_PostConstruct b64 pkix t0 = Inr t" and "jp_Authenticate parse t s = Inr i"
  shows "\<exists>h c. decoded s = Some (h, c) \<and>
     (jp_PublicKeyB64 t0 = [] \<and> th_Method h = SigningMethodHMAC \<and> sig_ok s (HMACKey (jp_Secret t0)) \<or>
      jp_Secret t0 = [] \<and> th_Method h = SigningMethodECDSA \<and>
        (\<exists>der pub. b64 (jp_PublicKeyB64 t0) = Inr der \<and> pkix der = Inr (EcdsaPub pub) \<and> sig_ok s (ECDSAKey pub))) \<and>
     c ''exp'' \<noteq> None \<and> (jp_Issuer t0 \<noteq> [] \<longrightarrow> Issuer i = jp_Issuer t0) \<and>
     (jp_Audience t0 \<noteq> [] \<longrightarrow> option_holds (WithAudience (jp_Audience t0)) c) \<and>
     Subject i = claimString c ''sub'' \<and> HashedToken i = hashToken s"
proof -
  from assms(3) obtain tk c where p: "parse s (jp_keyFunc t) (parser_options t) = Inr tk"
    "tk_Claims tk = Some c" and i: "Subject i = claimString c ''sub''" "Issuer i = claimString c ''iss''"
      "HashedToken i = hashToken s"
    by (auto simp: jp_Authenticate_def split: sum.splits option.splits if_splits)
  then obtain f h k where l: "jp_keyFunc t = Some f" "decoded s = Some (h, c)" "f h = Inr k" "sig_ok s k"
    "\<forall>x \<in> set (parser_options t). option_holds x c"
    using assms(1) unfolding jwt_law_def by fastforce
  have keep: "jp_Issuer t = jp_Issuer t0" "jp_Audience t = jp_Audience t0"
    using assms(2) by (auto simp: jp_PostConstruct_def split: if_splits sum.splits public_key.splits)
  have key: "jp_PublicKeyB64 t0 = [] \<and> f = hmac_keyFunc (jp_Secret t0) \<or> jp_Secret t0 = [] \<and>
     (\<exists>der pub. b64 (jp_PublicKeyB64 t0) = Inr der \<and> pkix der = Inr (EcdsaPub pub) \<and> f = ecdsa_keyFunc pub)"
    using assms(2) l(1) by (auto simp: jp_PostConstruct_def split: if_splits sum.splits public_key.splits)
  have "c ''exp'' \<noteq> None \<and> (jp_Issuer t0 \<noteq> [] \<longrightarrow> Issuer i = jp_Issuer t0) \<and>
     (jp_Audience t0 \<noteq> [] \<longrightarrow> option_holds (WithAudience (jp_Audience t0)) c)"
    using l(5) keep i(2) by (auto simp: parser_options_def claimString_def)
  moreover have "jp_PublicKeyB64 t0 = [] \<and> th_Method h = SigningMethodHMAC \<and> sig_ok s (HMACKey (jp_Secret t0)) \<or>
      jp_Secret t0 = [] \<and> th_Method h = SigningMethodECDSA \<and>
        (\<exists>der pub. b64 (jp_PublicKeyB64 t0) = Inr der \<and> pkix der = Inr (EcdsaPub pub) \<and> sig_ok s (ECDSAKey pub))"
    using key l(3,4) by (auto simp: hmac_keyFunc_def ecdsa_keyFunc_def split: if_splits)
  ultimately show ?thesis using l(2) i by blast
qed

text \<open>A library of one token: the text \<^verbatim>\<open>t\<close>, signed by HMAC under the secret \<^verbatim>\<open>k\<close>.\<close>

definition sample_claims :: MapClaims where
  "sample_claims = [''exp'' \<mapsto> JNum ''1'', ''sub'' \<mapsto> JStr ''bob'']"

definition sample_decoded :: "string \<Rightarrow> (token_header \<times> MapClaims) option" where
  "sample_decoded s = (if s = ''t'' then Some (\<lparr>th_Method = SigningMethodHMAC, th_alg = ''HS256''\<rparr>, sample_claims) else None)"

definition sample_signed :: "string \<Rightarrow> jwt_key \<Rightarrow> bool" where
  "sample_signed s k \<longleftrightarrow> s = ''t'' \<and> k = HMACKey ''k''"

definition sample_parse :: jwt_Parse where
  "sample_parse s kf opts =
     (case (kf, sample_decoded s) of
        (Some f, Some (h, c)) \<Rightarrow>
          (case f h of
             Inl e \<Rightarrow> Inl e
           | Inr k \<Rightarrow> if sample_signed s k \<and> list_all (\<lambda>x. option_holds x c) opts
                      then Inr \<lparr>tk_Claims = Some c, tk_Valid = True\<rparr> else Inl (ErrText ''invalid''))
      | _ \<Rightarrow> Inl (ErrText ''malformed''))"

lemma sample_law: "jwt_law sample_parse sample_decoded sample_signed"
  unfolding jwt_law_def sample_parse_def
  by (auto simp: list_all_iff split: option.splits prod.splits sum.splits if_splits)

theorem jwt_no_algorithm_confusion_witness:
  "\<exists>h c. sample_decoded ''t'' = Some (h, c) \<and> th_Method h = SigningMethodHMAC \<and> c ''exp'' \<noteq> None \<and>
     sample_signed ''t'' (HMACKey ''k'')"
proof -
  let ?t0 = "JwtAuthProvider\<lparr>jp_Secret := ''k''\<rparr>"
  let ?t = "?t0\<lparr>jp_keyFunc := Some (hmac_keyFunc ''k'')\<rparr>"
  have p: "jp_PostConstruct (\<lambda>s. Inr s) (\<lambda>s. Inr (EcdsaPub s)) ?t0 = Inr ?t"
    by (simp add: jp_PostConstruct_def JwtAuthProvider_def)
  have "sample_parse ''t'' (jp_keyFunc ?t) (parser_options ?t) = Inr \<lparr>tk_Claims = Some sample_claims, tk_Valid = True\<rparr>"
    by (simp add: sample_parse_def sample_decoded_def hmac_keyFunc_def sample_signed_def parser_options_def
        JwtAuthProvider_def sample_claims_def)
  then obtain i where "jp_Authenticate sample_parse ?t ''t'' = Inr i" by (simp add: jp_Authenticate_def)
  from jwt_no_algorithm_confusion [OF sample_law p this] show ?thesis
    by (auto simp: JwtAuthProvider_def)
qed

text \<open>
  The scopes that a space-delimited claim names are read back exactly: for every list of
  scopes that are no blank texts, have no space or comma in them and no white space at their
  ends, the claim that joins them with single spaces parses to the same list, in the same
  order; and whatever text a claim holds, what is read from it is such a list.
\<close>

theorem scope_claim_roundtrip:
  assumes "\<forall>w \<in> set ws. w \<noteq> [] \<and> TrimSpace w = w \<and> CHR '' '' \<notin> set w \<and> CHR '','' \<notin> set w"
    and "claims key = Some (JStr (Join ws '' ''))"
  shows "parseScopeClaim claims key = ws \<and>
     (\<forall>str. parseScopeClaim (claims(key \<mapsto> JStr (Join (parseScopeClaim [key \<mapsto> JStr str] key) '' ''))) key
        = parseScopeClaim [key \<mapsto> JStr str] key)"
proof -
  have "splitClaimString (Join (splitClaimString str) '' '') = splitClaimString str" for str
    using split_claim_ok by (intro splitClaimString_Join) blast
  with assms show ?thesis by (simp add: parseScopeClaim_def splitClaimString_Join)
qed

theorem scope_claim_roundtrip_witness:
  "parseScopeClaim [''scope'' \<mapsto> JStr ''read write''] ''scope'' = [''read'', ''write'']"
proof -
  have h: "\<forall>w \<in> set [''read'', ''write'']. w \<noteq> [] \<and> TrimSpace w = w \<and> CHR '' '' \<notin> set w \<and> CHR '','' \<notin> set w"
    by code_simp
  show ?thesis
    using scope_claim_roundtrip [OF h, of "[''scope'' \<mapsto> JStr ''read write'']" "''scope''"] by simp
qed

end
