(* ===== verification/Runtime.thy ===== *)
theory Runtime
  imports Go_Paths
begin

text \<open>
  \<^verbatim>\<open>runtime.go\<close>: the application's runtime, which is also the root of its contexts. Its
  shutdown is a critical section of four atomic steps under a \<^verbatim>\<open>sync.Once\<close>, while any
  other goroutine may read the runtime between two of them; it is modelled both as one
  function and as a step relation of interleaved atomic steps.
\<close>

subsection \<open>The runtime\<close>

text \<open>
  \<open>rt_closed\<close> is whether \<^verbatim>\<open>shutdownCh\<close> is closed, \<open>rt_once\<close> whether the
  \<^verbatim>\<open>sync.Once\<close> has run.
\<close>

record implRuntime =
  rt_runtimeErr :: "go_error option"
  rt_executable :: string
  rt_executableDir :: string
  rt_homeDir :: string
  rt_shuttingDown :: bool
  rt_closed :: bool
  rt_restarting :: bool
  rt_once :: bool

definition NewRuntime :: "string \<Rightarrow> implRuntime" where
  "NewRuntime homeDir = \<lparr>rt_runtimeErr = None, rt_executable = [], rt_executableDir = [],
     rt_homeDir = homeDir, rt_shuttingDown = False, rt_closed = False, rt_restarting = False,
     rt_once = False\<rparr>"

record cli_application =
  app_Name :: string
  app_Version :: string
  app_Build :: string

text \<open>The calls of the callback, in their order; its result is not used.\<close>

definition rt_GetStats :: "cli_application \<Rightarrow> implRuntime \<Rightarrow> (string \<times> string) list" where
  "rt_GetStats app t = [(''name'', app_Name app), (''version'', app_Version app), (''build'', app_Build app),
     (''executable'', rt_executable t), (''home'', rt_homeDir t)]"

definition rt_BeanName :: string where
  "rt_BeanName = ''runtime''"

definition rt_PostConstruct ::
  "go_error + string \<Rightarrow> string \<Rightarrow> implRuntime \<Rightarrow> go_error option \<times> implRuntime" where
  "rt_PostConstruct cwd arg0 t =
     (case Abs cwd (rt_homeDir t) of
        Inl e \<Rightarrow> (Some (ErrWrap (''failed to get abs home directory: '' @ rt_homeDir t) e), t)
      | Inr absHomeDir \<Rightarrow>
          let t1 = t\<lparr>rt_homeDir := absHomeDir, rt_executable := arg0\<rparr> in
          (case Abs cwd (Dir arg0) of
             Inl e \<Rightarrow> (Some e, t1\<lparr>rt_executableDir := []\<rparr>)
           | Inr d \<Rightarrow>
               let t2 = t1\<lparr>rt_executableDir := d, rt_executable := Base arg0\<rparr> in
               if rt_homeDir t2 = ''.'' then
                 (case Abs cwd (rt_homeDir t2) of
                    Inl e \<Rightarrow> (Some e, t2\<lparr>rt_homeDir := []\<rparr>)
                  | Inr h \<Rightarrow> (None, t2\<lparr>rt_homeDir := h\<rparr>))
               else (None, t2)))"

definition rt_Executable :: "implRuntime \<Rightarrow> string" where
  "rt_Executable t = rt_executable t"

definition rt_HomeDir :: "implRuntime \<Rightarrow> string" where
  "rt_HomeDir t = rt_homeDir t"

text \<open>As a context the runtime has no deadline (the time it gives is the clock's) and no values.\<close>

definition rt_Deadline :: "int \<Rightarrow> implRuntime \<Rightarrow> int \<times> bool" where
  "rt_Deadline now t = (now, False)"

definition rt_Value :: "implRuntime \<Rightarrow> 'k \<Rightarrow> 'v option" where
  "rt_Value t key = None"

definition rt_Active :: "implRuntime \<Rightarrow> bool" where
  "rt_Active t = (\<not> rt_shuttingDown t)"

definition rt_Restarting :: "implRuntime \<Rightarrow> bool" where
  "rt_Restarting t = rt_restarting t"

definition rt_Err :: "implRuntime \<Rightarrow> go_error option" where
  "rt_Err t = rt_runtimeErr t"

definition rt_Done :: "implRuntime \<Rightarrow> bool" where
  "rt_Done t = rt_closed t"

text \<open>Closing a closed channel panics.\<close>

definition rt_close :: "implRuntime \<Rightarrow> (unit, implRuntime) outcome" where
  "rt_close t = (if rt_closed t then Panic t else Ret () (t\<lparr>rt_closed := True\<rparr>))"

definition rt_Shutdown :: "bool \<Rightarrow> implRuntime \<Rightarrow> (unit, implRuntime) outcome" where
  "rt_Shutdown restart t =
     (if rt_once t then Ret () t
      else rt_close (t\<lparr>rt_once := True, rt_restarting := restart, rt_shuttingDown := True,
                       rt_runtimeErr := Some (ErrText ''closed'')\<rparr>))"

subsection \<open>Interleaved shutdown\<close>

text \<open>
  \<open>Inside b n\<close>: a goroutine that called \<^verbatim>\<open>Shutdown(b)\<close> is inside the critical section and
  has done its first \<open>n\<close> steps; every other caller waits in \<^verbatim>\<open>Do\<close> until the section is
  left. \<open>Crashed\<close> is the panic of a second \<^verbatim>\<open>close\<close>.
\<close>

datatype once_section = Free | Inside bool nat | Left | Crashed

type_synonym rt_state = "once_section \<times> implRuntime"

inductive rt_step :: "rt_state \<Rightarrow> rt_state \<Rightarrow> bool" where
  enter: "rt_step (Free, t) (Inside b 0, t\<lparr>rt_once := True\<rparr>)"
| restarting: "rt_step (Inside b 0, t) (Inside b 1, t\<lparr>rt_restarting := b\<rparr>)"
| shutting_down: "rt_step (Inside b 1, t) (Inside b 2, t\<lparr>rt_shuttingDown := True\<rparr>)"
| set_err: "rt_step (Inside b 2, t) (Inside b 3, t\<lparr>rt_runtimeErr := Some (ErrText ''closed'')\<rparr>)"
| close_ok: "rt_close t = Ret () t1 \<Longrightarrow> rt_step (Inside b 3, t) (Inside b 4, t1)"
| close_panic: "rt_close t = Panic t1 \<Longrightarrow> rt_step (Inside b 3, t) (Crashed, t1)"
| leave: "rt_step (Inside b 4, t) (Left, t)"

inductive_cases rt_stepE: "rt_step s s'"

inductive rt_reachable :: "string \<Rightarrow> rt_state \<Rightarrow> bool" for home where
  start: "rt_reachable home (Free, NewRuntime home)"
| more: "rt_reachable home s \<Longrightarrow> rt_step s s' \<Longrightarrow> rt_reachable home s'"

text \<open>What is known at each point of the section; \<open>b\<close> is the argument of the caller inside.\<close>

fun rt_inv :: "string \<Rightarrow> rt_state \<Rightarrow> bool" where
  "rt_inv home (Free, t) = (t = NewRuntime home)"
| "rt_inv home (Inside b n, t) =
     (t = (NewRuntime home)\<lparr>rt_once := True, rt_restarting := (1 \<le> n \<and> b), rt_shuttingDown := (2 \<le> n),
        rt_runtimeErr := (if 3 \<le> n then Some (ErrText ''closed'') else None), rt_closed := (4 \<le> n)\<rparr> \<and> n \<le> 4)"
| "rt_inv home (Left, t) = (\<exists>b. rt_Shutdown b (NewRuntime home) = Ret () t)"
| "rt_inv home (Crashed, t) = False"

lemma rt_inv_step: "rt_inv home s \<Longrightarrow> rt_step s s' \<Longrightarrow> rt_inv home s'"
proof (elim rt_stepE)
  fix b t assume "rt_inv home s" "s = (Inside b 4, t)" "s' = (Left, t)"
  then show ?thesis
    by (auto simp: rt_Shutdown_def rt_close_def NewRuntime_def intro: exI [of _ b])
qed (auto simp: NewRuntime_def rt_close_def split: if_splits)

lemma rt_inv_reachable: "rt_reachable home s \<Longrightarrow> rt_inv home s"
  by (induction rule: rt_reachable.induct) (auto dest: rt_inv_step)

subsection \<open>Properties\<close>

text \<open>
  C4. Whatever goroutines call \<^verbatim>\<open>Shutdown\<close> and with whatever arguments, no interleaving
  closes the channel twice; whoever sees the channel closed also sees an error, an inactive
  runtime and the restart decision of the one caller that shut it down, and this never
  changes again; and while the runtime is active it has no error and is not restarting
  unless a shutdown is under way.
\<close>

theorem shutdown_interleavings_safe:
  assumes "rt_reachable home (pc, t)"
  shows "pc \<noteq> Crashed \<and>
     (rt_Done t \<longrightarrow> rt_Err t = Some (ErrText ''closed'') \<and> \<not> rt_Active t \<and>
        (\<exists>b. rt_Shutdown b (NewRuntime home) = Ret () t \<and> rt_Restarting t = b)) \<and>
     (rt_Active t \<longrightarrow> rt_Err t = None \<and> \<not> rt_Done t \<and> (rt_Restarting t \<longrightarrow> pc \<noteq> Free)) \<and>
     (pc = Left \<longrightarrow> rt_Done t)"
proof (cases pc)
  case Crashed
  with rt_inv_reachable [OF assms] show ?thesis by simp
next
  case (Inside b n)
  with rt_inv_reachable [OF assms] show ?thesis
    by (cases "n = 4") (auto simp: rt_Done_def rt_Err_def rt_Active_def rt_Restarting_def NewRuntime_def
        rt_Shutdown_def rt_close_def)
qed (use rt_inv_reachable [OF assms] in \<open>auto simp: rt_Done_def rt_Err_def rt_Active_def rt_Restarting_def
        NewRuntime_def rt_Shutdown_def rt_close_def\<close>)

theorem shutdown_interleavings_safe_witness:
  "rt_reachable ''.'' (Inside True 0, (NewRuntime ''.'')\<lparr>rt_once := True\<rparr>) \<and>
   rt_Err ((NewRuntime ''.'')\<lparr>rt_once := True\<rparr>) = None"
proof -
  have r: "rt_reachable ''.'' (Inside True 0, (NewRuntime ''.'')\<lparr>rt_once := True\<rparr>)"
    using rt_reachable.start rt_step.enter by (rule rt_reachable.more)
  then show ?thesis
    using shutdown_interleavings_safe [OF r] by (simp add: rt_Active_def NewRuntime_def)
qed

lemma Abs_rooted: "Abs (Inr (CHR ''/'' # d)) p = Inr h \<Longrightarrow> HasPrefix h ''/''"
  by (auto simp: Abs_def Clean_def Let_def split: if_splits)

text \<open>
  With a working directory that is absolute, as \<^verbatim>\<open>os.Getwd\<close> promises, the construction
  of the runtime succeeds and makes the home directory absolute; the second resolution of a
  home directory that is still \<^verbatim>\<open>.\<close> is never needed.
\<close>

theorem runtime_home_absolute:
  "\<exists>h. Abs (Inr (CHR ''/'' # d)) (rt_homeDir t) = Inr h \<and> HasPrefix h ''/'' \<and>
     fst (rt_PostConstruct (Inr (CHR ''/'' # d)) arg0 t) = None \<and>
     rt_homeDir (snd (rt_PostConstruct (Inr (CHR ''/'' # d)) arg0 t)) = h \<and>
     HasPrefix (rt_executableDir (snd (rt_PostConstruct (Inr (CHR ''/'' # d)) arg0 t))) ''/''"
proof -
  have ex: "\<exists>h. Abs (Inr (CHR ''/'' # d)) p = Inr h" for p by (simp add: Abs_def)
  obtain h e where h: "Abs (Inr (CHR ''/'' # d)) (rt_homeDir t) = Inr h"
    and e: "Abs (Inr (CHR ''/'' # d)) (Dir arg0) = Inr e"
    using ex by blast
  have r: "HasPrefix h ''/''" "HasPrefix e ''/''" using Abs_rooted h e by blast+
  then have "h \<noteq> ''.''" by auto
  with h e r show ?thesis by (simp add: rt_PostConstruct_def)
qed

end
