(* ===== verification/Health_Handler.thy ===== *)
theory Health_Handler
  imports Auth_Middleware Runtime
begin

text \<open>
  \<^verbatim>\<open>healthz_handler.go\<close>: the probe endpoint, a client of the runtime. The JSON encoder is
  a parameter.
\<close>

subsection \<open>The handler\<close>

text \<open>A component's statistics are the callbacks it makes, in their order.\<close>

record component =
  cp_BeanName :: string
  cp_Stats :: "(string \<times> string) list"

record implHealthHandler =
  hh_Components :: "component list"
  hh_HealthPattern :: string
  hh_Detailed :: bool

definition HealthHandler :: implHealthHandler where
  "HealthHandler = \<lparr>hh_Components = [], hh_HealthPattern = ''/healthz'', hh_Detailed = False\<rparr>"

definition hh_Pattern :: "implHealthHandler \<Rightarrow> string" where
  "hh_Pattern t = hh_HealthPattern t"

record healthResponse =
  hr_Status :: string
  hr_Components :: "(string \<rightharpoonup> (string \<rightharpoonup> string)) option"

fun collect_stats :: "(string \<times> string) list \<Rightarrow> (string \<rightharpoonup> string) \<Rightarrow> (string \<rightharpoonup> string)" where
  "collect_stats [] stats = stats"
| "collect_stats ((name, v) # cs) stats = collect_stats cs (stats(name \<mapsto> v))"

fun collect_components ::
  "component list \<Rightarrow> (string \<rightharpoonup> (string \<rightharpoonup> string)) \<Rightarrow> (string \<rightharpoonup> (string \<rightharpoonup> string))" where
  "collect_components [] m = m"
| "collect_components (c # cs) m =
     collect_components cs (m(cp_BeanName c \<mapsto> collect_stats (cp_Stats c) Map.empty))"

definition health_response :: "implRuntime \<Rightarrow> implHealthHandler \<Rightarrow> healthResponse" where
  "health_response rt t =
     \<lparr>hr_Status = (if \<not> rt_Active rt then ''DOWN'' else ''UP''),
      hr_Components = (if hh_Detailed t \<and> 0 < length (hh_Components t)
         then Some (collect_components (hh_Components t) Map.empty) else None)\<rparr>"

definition hh_ServeHTTP ::
  "codec \<Rightarrow> (healthResponse \<Rightarrow> string) \<Rightarrow> implRuntime \<Rightarrow> implHealthHandler \<Rightarrow> handler" where
  "hh_ServeHTTP G enc rt t r s =
     (if r_Method r \<noteq> ''GET'' \<and> r_Method r \<noteq> ''HEAD'' then http_Error G ''method not allowed'' 405 s
      else
        let code = (if \<not> rt_Active rt then 503 else 200)
        in on_writer (run_ops G [OpSet ''Content-Type'' ''application/json'', OpWriteHeader code,
             OpWrite (enc (health_response rt t))]) s)"

subsection \<open>Properties\<close>

lemma collect_stats_last:
  "collect_stats cs m k = (case map_of (rev cs) k of Some v \<Rightarrow> Some v | None \<Rightarrow> m k)"
  by (induction cs arbitrary: m) (auto simp: map_add_def split: option.splits)

text \<open>
  C34. A probe reports the runtime truthfully: after any shutdown of the runtime, a GET or HEAD
  probe is answered with 503 and DOWN; before any, with 200 and UP; the body is the encoded
  response, and nothing panics whatever the components report.
\<close>

theorem health_reports_runtime:
  assumes "r_Method r = ''GET'' \<or> r_Method r = ''HEAD''" and "\<not> rs_wrote q" and "rs_body q = []"
    and "hdr_Get (rs_header q) ''Content-Length'' = []" and "rs_contentLength q = -1"
    and "rt' = (if down then state_of (rt_Shutdown b (NewRuntime home)) else NewRuntime home)"
  shows "\<exists>q1. hh_ServeHTTP G enc rt' t r (BaseW q, wd) = Ret () (BaseW q1, wd) \<and>
     rs_status q1 = (if down then 503 else 200) \<and>
     hr_Status (health_response rt' t) = (if down then ''DOWN'' else ''UP'') \<and>
     rs_body q1 = enc (health_response rt' t) \<and>
     hdr_Get (rs_sent_header q1) ''Content-Type'' = ''application/json''"
proof -
  have a: "rt_Active rt' = (\<not> down)"
    using assms(6) by (simp add: rt_Active_def rt_Shutdown_def rt_close_def NewRuntime_def)
  show ?thesis
    using assms(1-5)
    by (cases down; cases "enc (health_response rt' t) = []")
      (auto simp: hh_ServeHTTP_def health_response_def a on_writer_def base_WriteHeader_def base_Write_def
        base_accept_def bodyAllowed_def hdr_simps Let_def)
qed

theorem health_reports_runtime_witness:
  "\<exists>q1. hh_ServeHTTP stored_codec hr_Status (state_of (rt_Shutdown False (NewRuntime ''.''))) HealthHandler
      (bearer_request []) (BaseW new_resp, initial_world) = Ret () (BaseW q1, initial_world) \<and> rs_status q1 = 503 \<and>
      rs_body q1 = ''DOWN''"
  using health_reports_runtime [of "bearer_request []" new_resp "state_of (rt_Shutdown False (NewRuntime ''.''))" True
      False "''.''" stored_codec hr_Status HealthHandler initial_world]
  by (auto simp: bearer_request_def new_resp_def hdr_Get_def)

end
