(* ===== verification/Grpc_Auth.thy ===== *)
theory Grpc_Auth
  imports Auth_Middleware
begin

text \<open>
  \<^verbatim>\<open>grpc/auth_interceptor.go\<close> and \<^verbatim>\<open>grpc/token_auth.go\<close>: the authentication of gRPC
  calls on the server's side and the credentials on the client's side.
\<close>

subsection \<open>Calls\<close>

datatype grpc_code = Unauthenticated | Unavailable | Internal | Unimplemented

type_synonym grpc_status = "grpc_code \<times> string"

text \<open>
  The context of an incoming call: its metadata, if it has any, by lower-case key, and the
  values that interceptors stored in it.
\<close>

record grpc_ctx =
  gx_md :: "(string \<rightharpoonup> string list) option"
  gx_values :: ctx

definition grpc_WithAuth :: "grpc_ctx \<Rightarrow> AuthInfo \<Rightarrow> grpc_ctx" where
  "grpc_WithAuth c i = c\<lparr>gx_values := ContextWithAuth (gx_values c) i\<rparr>"

subsection \<open>The interceptor\<close>

definition defaultAuthExempt :: "string list" where
  "defaultAuthExempt = [''/grpc.health.v1.Health/'', ''/grpc.reflection.'']"

record implAuthInterceptor =
  ai_Authenticator :: authenticator
  ai_beanOrder :: int
  ai_exempt :: "string list"

definition AuthInterceptor :: "authenticator \<Rightarrow> int \<Rightarrow> implAuthInterceptor" where
  "AuthInterceptor authn beanOrder = \<lparr>ai_Authenticator = authn, ai_beanOrder = beanOrder, ai_exempt = []\<rparr>"

text \<open>\<open>exempt_property\<close> is the value of \<^verbatim>\<open>grpc.auth.exempt\<close>.\<close>

definition ai_PostConstruct :: "string \<Rightarrow> implAuthInterceptor \<Rightarrow> implAuthInterceptor" where
  "ai_PostConstruct exempt_property t =
     t\<lparr>ai_exempt := defaultAuthExempt @
        filter (\<lambda>p. p \<noteq> []) (map TrimSpace (Split CHR '','' exempt_property))\<rparr>"

fun has_exempt_prefix :: "string list \<Rightarrow> string \<Rightarrow> bool" where
  "has_exempt_prefix [] fullMethod = False"
| "has_exempt_prefix (p # ps) fullMethod = (if HasPrefix fullMethod p then True else has_exempt_prefix ps fullMethod)"

definition isExempt :: "implAuthInterceptor \<Rightarrow> string \<Rightarrow> bool" where
  "isExempt t fullMethod = has_exempt_prefix (ai_exempt t) fullMethod"

definition bearerFromContext :: "grpc_ctx \<Rightarrow> grpc_status + string" where
  "bearerFromContext c =
     (case gx_md c of
        None \<Rightarrow> Inl (Unauthenticated, ''missing metadata'')
      | Some md \<Rightarrow>
          let values = (case md ''authorization'' of Some vs \<Rightarrow> vs | None \<Rightarrow> []) in
          if length values = 0 then Inl (Unauthenticated, ''missing authorization header'')
          else
            let parts = Fields (values ! 0) in
            if length parts \<noteq> 2 \<or> \<not> EqualFold (parts ! 0) ''Bearer''
            then Inl (Unauthenticated, ''invalid authorization header'')
            else Inr (parts ! 1))"

definition ai_authenticate :: "implAuthInterceptor \<Rightarrow> grpc_ctx \<Rightarrow> string \<Rightarrow> grpc_status + grpc_ctx" where
  "ai_authenticate t c fullMethod =
     (if length fullMethod = 0 \<or> fullMethod ! 0 \<noteq> CHR ''/'' then Inl (Unimplemented, ''malformed method name'')
      else if isExempt t fullMethod then Inr c
      else
        (case bearerFromContext c of
           Inl err \<Rightarrow> Inl err
         | Inr token \<Rightarrow>
             (case ai_Authenticator t token of
                Inl err \<Rightarrow>
                  if errors_Is err ErrUnauthorized then Inl (Unauthenticated, Error err)
                  else if errors_Is err ErrServiceUnavailable then Inl (Unavailable, Error err)
                  else Inl (Internal, Error err)
              | Inr info \<Rightarrow> Inr (grpc_WithAuth c info))))"

definition ai_UnaryInterceptor ::
  "implAuthInterceptor \<Rightarrow> grpc_ctx \<Rightarrow> 'req \<Rightarrow> string \<Rightarrow> (grpc_ctx \<Rightarrow> 'req \<Rightarrow> grpc_status + 'resp)
     \<Rightarrow> grpc_status + 'resp" where
  "ai_UnaryInterceptor t c req fullMethod handler =
     (case ai_authenticate t c fullMethod of Inl err \<Rightarrow> Inl err | Inr c1 \<Rightarrow> handler c1 req)"

record 'inner server_stream =
  ss_ctx :: grpc_ctx
  ss_inner :: 'inner

definition authServerStream :: "'inner server_stream \<Rightarrow> grpc_ctx \<Rightarrow> 'inner server_stream" where
  "authServerStream ss c = ss\<lparr>ss_ctx := c\<rparr>"

definition ai_StreamInterceptor ::
  "implAuthInterceptor \<Rightarrow> 'inner server_stream \<Rightarrow> string \<Rightarrow> ('inner server_stream \<Rightarrow> grpc_status option)
     \<Rightarrow> grpc_status option" where
  "ai_StreamInterceptor t ss fullMethod handler =
     (case ai_authenticate t (ss_ctx ss) fullMethod of
        Inl err \<Rightarrow> Some err
      | Inr c1 \<Rightarrow> handler (authServerStream ss c1))"

subsection \<open>The client's credentials\<close>

record tokenAuth =
  ta_token :: string
  ta_secure :: bool

definition GetRequestMetadata :: "tokenAuth \<Rightarrow> (string \<times> string) list" where
  "GetRequestMetadata t = [(''authorization'', ''Bearer '' @ ta_token t)]"

definition RequireTransportSecurity :: "tokenAuth \<Rightarrow> bool" where
  "RequireTransportSecurity t = ta_secure t"

text \<open>How gRPC delivers the metadata of a call to the server: every value under its key.\<close>

definition delivered :: "(string \<times> string) list \<Rightarrow> grpc_ctx" where
  "delivered kvs = \<lparr>gx_md = Some (\<lambda>k. case map_of kvs k of Some v \<Rightarrow> Some [v] | None \<Rightarrow> None), gx_values = []\<rparr>"

subsection \<open>What a decision can be\<close>

lemma exempt_iff: "isExempt t m \<longleftrightarrow> (\<exists>p \<in> set (ai_exempt t). prefix p m)"
proof -
  have "has_exempt_prefix ps m \<longleftrightarrow> (\<exists>p \<in> set ps. prefix p m)" for ps by (induction ps) auto
  then show ?thesis by (simp add: isExempt_def)
qed

lemma bearer_delivered:
  "no_space tok \<Longrightarrow> tok \<noteq> [] \<Longrightarrow>
     bearerFromContext (delivered (GetRequestMetadata \<lparr>ta_token = tok, ta_secure = sec\<rparr>)) = Inr tok"
proof -
  assume "no_space tok" "tok \<noteq> []"
  moreover have "no_space ''Bearer''" "EqualFold ''Bearer'' ''Bearer''" by code_simp+
  ultimately have "Fields (''Bearer'' @ '' '' @ tok) = [''Bearer'', tok]"
    by (intro Fields_pair) auto
  then show ?thesis
    by (simp add: bearerFromContext_def delivered_def GetRequestMetadata_def EqualFold_def)
qed

context authenticator
begin

text \<open>With an authenticator that keeps its contract, a refusal is never an internal error.\<close>

lemma grpc_codes:
  assumes "ai_Authenticator t = authenticate" and "ai_authenticate t c m = Inl (code, msg)"
  shows "code = Unauthenticated \<or> code = Unimplemented"
proof -
  have "authenticate tok = Inl e \<Longrightarrow> errors_Is e ErrUnauthorized" for tok e
    using refuses by fastforce
  moreover have "bearerFromContext c = Inl (d, n) \<Longrightarrow> d = Unauthenticated" for d n
    by (auto simp: bearerFromContext_def Let_def split: option.splits if_splits)
  ultimately show ?thesis
    using assms by (auto simp: ai_authenticate_def split: if_splits sum.splits)
qed

lemma grpc_identity:
  assumes "ai_Authenticator t = authenticate" and "ai_authenticate t c m = Inr c1" and "\<not> isExempt t m"
  shows "\<exists>tok i. bearerFromContext c = Inr tok \<and> AuthFromContext (gx_values c1) = Some i \<and> HashedToken i = hashToken tok"
proof -
  from assms(2,3) obtain tok i where "bearerFromContext c = Inr tok" "ai_Authenticator t tok = Inr i"
    "c1 = grpc_WithAuth c i"
    by (auto simp: ai_authenticate_def split: if_splits sum.splits)
  with assms(1) identifies [of tok i] show ?thesis by (simp add: grpc_WithAuth_def)
qed

end

subsection \<open>Properties\<close>

text \<open>
  C6. No unauthenticated call reaches a handler: a unary call either runs its handler with the
  identity that the authenticator gave for the token of the call, or its method has one of
  the exempt prefixes and begins with a slash and the handler runs with an unchanged context,
  or the handler has no influence on the result, which is an error; a malformed method name
  is refused even when an exempt prefix matches it. Streaming calls are decided the same way.
\<close>

theorem grpc_calls_guarded:
  "(\<exists>tok i. bearerFromContext c = Inr tok \<and> ai_Authenticator t tok = Inr i \<and> prefix ''/'' m \<and>
      ai_UnaryInterceptor t c req m handler = handler (grpc_WithAuth c i) req \<and>
      AuthFromContext (gx_values (grpc_WithAuth c i)) = Some i \<and>
      (\<forall>(ss :: 'inner server_stream) h. ss_ctx ss = c \<longrightarrow> ai_StreamInterceptor t ss m h = h (ss\<lparr>ss_ctx := grpc_WithAuth c i\<rparr>)))
   \<or> ((\<exists>p \<in> set (ai_exempt t). prefix p m) \<and> prefix ''/'' m \<and>
      ai_UnaryInterceptor t c req m handler = handler c req \<and>
      (\<forall>(ss :: 'inner server_stream) h. ss_ctx ss = c \<longrightarrow> ai_StreamInterceptor t ss m h = h ss))
   \<or> (\<exists>st. (\<forall>handler'. ai_UnaryInterceptor t c req m handler' = ai_UnaryInterceptor t c req m handler) \<and>
      ai_UnaryInterceptor t c req m handler = Inl st \<and>
      (\<not> prefix ''/'' m \<longrightarrow> fst st = Unimplemented) \<and>
      (\<forall>(ss :: 'inner server_stream) h. ss_ctx ss = c \<longrightarrow> ai_StreamInterceptor t ss m h = Some st))"
proof (cases "ai_authenticate t c m")
  case (Inl st)
  then have "\<not> prefix ''/'' m \<longrightarrow> fst st = Unimplemented"
    by (cases m) (auto simp: ai_authenticate_def)
  with Inl show ?thesis by (simp add: ai_UnaryInterceptor_def ai_StreamInterceptor_def)
next
  case (Inr c1)
  then have p: "prefix ''/'' m" by (cases m) (auto simp: ai_authenticate_def split: if_splits)
  have ss: "authServerStream ss (ss_ctx ss) = ss" for ss :: "'inner server_stream" by (simp add: authServerStream_def)
  show ?thesis
  proof (cases "isExempt t m")
    case True
    with Inr have "c1 = c" by (auto simp: ai_authenticate_def split: if_splits)
    with Inr True p ss show ?thesis
      by (auto simp: ai_UnaryInterceptor_def ai_StreamInterceptor_def exempt_iff)
  next
    case False
    with Inr obtain tok i where "bearerFromContext c = Inr tok" "ai_Authenticator t tok = Inr i" "c1 = grpc_WithAuth c i"
      by (auto simp: ai_authenticate_def split: if_splits sum.splits)
    with Inr p show ?thesis
      by (intro disjI1) (auto simp: ai_UnaryInterceptor_def ai_StreamInterceptor_def authServerStream_def grpc_WithAuth_def)
  qed
qed

definition reject_all :: implAuthInterceptor where
  "reject_all = ai_PostConstruct [] (AuthInterceptor (\<lambda>_. Inl ErrUnauthorized) 10)"

theorem grpc_calls_guarded_witness:
  "ai_exempt reject_all = defaultAuthExempt \<and>
   ai_UnaryInterceptor reject_all (delivered []) () ''Health/Check'' (\<lambda>c r. Inr ()) \<noteq> Inr ()"
proof -
  have e: "ai_exempt reject_all = defaultAuthExempt"
    by (simp add: reject_all_def ai_PostConstruct_def)
  have a: "ai_Authenticator reject_all tok = Inl ErrUnauthorized" for tok
    by (simp add: reject_all_def ai_PostConstruct_def AuthInterceptor_def)
  show ?thesis
    using grpc_calls_guarded [of "delivered []" reject_all "''Health/Check''" "()" "\<lambda>c r. Inr ()", where 'inner = unit] e a
    by auto
qed

text \<open>
  Client and server fit together: for every token without white space, the metadata that
  the client's credentials attach make the interceptor ask the authenticator for exactly that
  token, and the handler runs with the identity it answers.
\<close>

theorem token_auth_roundtrip:
  assumes "no_space (ta_token ta)" and "ta_token ta \<noteq> []" and "prefix ''/'' m"
    and "ai_Authenticator t (ta_token ta) = Inr i" and "\<not> isExempt t m"
  shows "ai_UnaryInterceptor t (delivered (GetRequestMetadata ta)) req m handler =
     handler (grpc_WithAuth (delivered (GetRequestMetadata ta)) i) req"
proof -
  have "bearerFromContext (delivered (GetRequestMetadata ta)) = Inr (ta_token ta)"
    using bearer_delivered [OF assms(1,2), of "ta_secure ta"] by (cases ta) simp
  with assms(3-5) show ?thesis
    by (cases m) (auto simp: ai_UnaryInterceptor_def ai_authenticate_def)
qed

theorem token_auth_roundtrip_witness:
  "ai_UnaryInterceptor (AuthInterceptor (\<lambda>tok. Inr (empty_AuthInfo\<lparr>Subject := tok\<rparr>)) 1)
     (delivered (GetRequestMetadata \<lparr>ta_token = ''abc'', ta_secure = True\<rparr>)) () ''/s/m''
     (\<lambda>c r. Inr (Subject (the (AuthFromContext (gx_values c))))) = Inr ''abc''"
proof -
  have t: "no_space (ta_token \<lparr>ta_token = ''abc'', ta_secure = True\<rparr>)" by code_simp
  show ?thesis
    using token_auth_roundtrip [OF t, of "''/s/m''" "AuthInterceptor (\<lambda>tok. Inr (empty_AuthInfo\<lparr>Subject := tok\<rparr>)) 1"
        "empty_AuthInfo\<lparr>Subject := ''abc''\<rparr>" "()" "\<lambda>c r. Inr (Subject (the (AuthFromContext (gx_values c))))"]
    by (simp add: AuthInterceptor_def isExempt_def grpc_WithAuth_def)
qed

text \<open>
  The exempt list is exactly the two built-in prefixes followed by the configured ones: a
  property that joins prefixes, with white space around them or empty entries or not, adds
  each of them once, in order, and never an empty prefix, which would exempt every method.
\<close>

theorem exempt_list_configured:
  "ai_exempt (ai_PostConstruct prop_value t) = defaultAuthExempt @ trimmed_parts CHR '','' prop_value \<and>
   [] \<notin> set (ai_exempt (ai_PostConstruct prop_value t)) \<and>
   ((\<forall>p \<in> set ps. p \<noteq> [] \<and> TrimSpace p = p \<and> CHR '','' \<notin> set p) \<longrightarrow>
      ai_exempt (ai_PostConstruct (Join ps '','') t) = defaultAuthExempt @ ps)"
proof -
  have e: "ai_exempt (ai_PostConstruct v t) = defaultAuthExempt @ trimmed_parts CHR '','' v" for v
    by (simp add: ai_PostConstruct_def trimmed_parts_def)
  moreover have "[] \<notin> set (trimmed_parts CHR '','' v)" for v using trimmed_parts_ok by blast
  moreover have "[] \<notin> set defaultAuthExempt" by (simp add: defaultAuthExempt_def)
  ultimately show ?thesis using trimmed_parts_Join [of ps "CHR '',''"] by simp
qed

theorem exempt_list_configured_witness:
  "ai_exempt (ai_PostConstruct ''/a/,/b/'' reject_all) = defaultAuthExempt @ [''/a/'', ''/b/'']"
proof -
  have h: "\<forall>p \<in> set [''/a/'', ''/b/'']. p \<noteq> [] \<and> TrimSpace p = p \<and> CHR '','' \<notin> set p" by code_simp
  show ?thesis using exempt_list_configured [of "[]" reject_all "[''/a/'', ''/b/'']"] h by simp
qed

end
