(* ===== verification/Grpc_Server.thy ===== *)
theory Grpc_Server
  imports Grpc_Auth Server_Lifecycle Server_Factory
begin

text \<open>
  The gRPC server and its factories: \<^verbatim>\<open>grpc/grpc_server.go\<close>,
  \<^verbatim>\<open>grpc/grpc_server_factory.go\<close>, \<^verbatim>\<open>grpc/grpc_client_factory.go\<close>,
  \<^verbatim>\<open>grpc/health.go\<close>. The library \<^verbatim>\<open>grpc-go\<close> is what these give it: its server
  options, its services, its dial options.
\<close>

subsection \<open>TLS\<close>

record tls_Config =
  tls_NextProtos :: "string list"
  tls_InsecureSkipVerify :: bool

definition ensureH2 :: "tls_Config \<Rightarrow> tls_Config" where
  "ensureH2 cfg =
     (if list_ex (\<lambda>p. p = ''h2'') (tls_NextProtos cfg) then cfg
      else cfg\<lparr>tls_NextProtos := tls_NextProtos cfg @ [''h2'']\<rparr>)"

subsection \<open>The server\<close>

text \<open>
  \<open>gs_srv\<close> names the \<^verbatim>\<open>*grpc.Server\<close>; \<open>gs_tls\<close> is the configuration its listener was
  wrapped with; \<open>gs_graceful\<close> and \<open>gs_stops\<close> count the calls of \<^verbatim>\<open>GracefulStop\<close> and
  \<^verbatim>\<open>Stop\<close>.
\<close>

record implGrpcServer =
  gs_Properties :: "string \<Rightarrow> string \<Rightarrow> string"
  gs_TlsConfig :: "tls_Config option"
  gs_beanName :: string
  gs_listenAddr :: string
  gs_srv :: "nat option"
  gs_listener :: "listener option"
  gs_tls :: "tls_Config option"
  gs_alive :: bool
  gs_once :: bool
  gs_shutdownCh :: bool
  gs_graceful :: nat
  gs_stops :: nat
  gs_log :: "log_entry list"

definition GrpcServer :: "(string \<Rightarrow> string \<Rightarrow> string) \<Rightarrow> tls_Config option \<Rightarrow> string \<Rightarrow> implGrpcServer" where
  "GrpcServer props tls beanName = \<lparr>gs_Properties = props, gs_TlsConfig = tls, gs_beanName = beanName,
     gs_listenAddr = [], gs_srv = None, gs_listener = None, gs_tls = None, gs_alive = False, gs_once = False,
     gs_shutdownCh = False, gs_graceful = 0, gs_stops = 0, gs_log = []\<rparr>"

text \<open>\<open>beans\<close> are the beans of class \<^verbatim>\<open>*grpc.Server\<close>: name and object (\<open>None\<close>: of another type).\<close>

fun find_grpc_bean :: "string \<Rightarrow> (string \<times> nat option) list \<Rightarrow> go_error + nat" where
  "find_grpc_bean beanName [] =
     Inl (ErrText (''grpc.Server bean '' @ quoted beanName @ '' not found in server context''))"
| "find_grpc_bean beanName ((name, obj) # rest) =
     (if name = beanName then
        (case obj of None \<Rightarrow> Inl (ErrText (''bean '' @ quoted beanName @ '' is not a *grpc.Server'')) | Some srv \<Rightarrow> Inr srv)
      else find_grpc_bean beanName rest)"

definition gs_PostConstruct :: "(string \<times> nat option) list \<Rightarrow> implGrpcServer \<Rightarrow> go_error option \<times> implGrpcServer" where
  "gs_PostConstruct beans t =
     (let t1 = t\<lparr>gs_alive := False\<rparr> in
      case find_grpc_bean (gs_beanName t) beans of
        Inl e \<Rightarrow> (Some e, t1)
      | Inr srv \<Rightarrow> (None, t1\<lparr>gs_srv := Some srv\<rparr>))"

definition gs_Bind :: "(string \<Rightarrow> go_error + listener) \<Rightarrow> implGrpcServer \<Rightarrow> go_error option \<times> implGrpcServer" where
  "gs_Bind net_Listen t =
     (let t1 = t\<lparr>gs_listenAddr := gs_Properties t (gs_beanName t @ ''.bind-address'') []\<rparr> in
      if gs_listenAddr t1 = [] then
        (Some (ErrText (''property '' @ quoted (gs_beanName t @ ''.bind-address'') @ '' not found in server context'')), t1)
      else
        (case net_Listen (gs_listenAddr t1) of
           Inl e \<Rightarrow> (Some (ErrWrap (''can not bind to '' @ quoted (gs_listenAddr t1)) e), t1\<lparr>gs_listener := None\<rparr>)
         | Inr ln \<Rightarrow>
             (None,
              case gs_TlsConfig t1 of
                Some cfg \<Rightarrow> t1\<lparr>gs_listener := Some (ln\<lparr>l_tls := True\<rparr>), gs_tls := Some (ensureH2 cfg)\<rparr>
              | None \<Rightarrow> t1\<lparr>gs_listener := Some ln\<rparr>)))"

definition gs_Alive :: "implGrpcServer \<Rightarrow> bool" where
  "gs_Alive t = gs_alive t"

definition gs_ShutdownCh :: "implGrpcServer \<Rightarrow> bool" where
  "gs_ShutdownCh t = gs_shutdownCh t"

definition gs_ListenAddress :: "implGrpcServer \<Rightarrow> string \<times> string" where
  "gs_ListenAddress t = listener_addr (gs_listener t)"

definition gs_logs :: "log_level \<Rightarrow> string \<Rightarrow> log_field list \<Rightarrow> implGrpcServer \<Rightarrow> implGrpcServer" where
  "gs_logs l m fs t = t\<lparr>gs_log := gs_log t @ [(l, m, fs)]\<rparr>"

text \<open>
  \<open>in_time\<close> is whether the call of the library returned before the timer. A stop is started
  in either case; only the answer differs. Without a \<^verbatim>\<open>*grpc.Server\<close> (\<^verbatim>\<open>PostConstruct\<close>
  failed or was not called) the goroutine calls a method of a nil pointer, and its panic is
  not recovered.
\<close>

definition gs_doGracefulStop :: "bool \<Rightarrow> implGrpcServer \<Rightarrow> (bool, implGrpcServer) outcome" where
  "gs_doGracefulStop in_time t =
     (case gs_srv t of None \<Rightarrow> Panic t | Some srv \<Rightarrow> Ret in_time (t\<lparr>gs_graceful := Suc (gs_graceful t)\<rparr>))"

definition gs_doStop :: "bool \<Rightarrow> implGrpcServer \<Rightarrow> (bool, implGrpcServer) outcome" where
  "gs_doStop in_time t =
     (case gs_srv t of None \<Rightarrow> Panic t | Some srv \<Rightarrow> Ret in_time (t\<lparr>gs_stops := Suc (gs_stops t)\<rparr>))"

definition gs_Shutdown :: "bool \<Rightarrow> bool \<Rightarrow> implGrpcServer \<Rightarrow> (go_error option, implGrpcServer) outcome" where
  "gs_Shutdown graceful_in_time stop_in_time t =
     (if gs_once t then Ret None t
      else
        let addr = gs_ListenAddress t;
            t1 = gs_logs LInfo ''GrpcServerShutdown'' [FStr ''addr'' (snd addr), FStr ''network'' (fst addr)]
                   (t\<lparr>gs_once := True\<rparr>)
        in case close_chan (gs_shutdownCh t1) of
             Panic ch \<Rightarrow> Panic t1
           | Ret _ ch \<Rightarrow>
               bindO (gs_doGracefulStop graceful_in_time (t1\<lparr>gs_shutdownCh := ch\<rparr>))
                 (\<lambda>ok t2. bindO (if \<not> ok then gs_doStop stop_in_time t2 else Ret True t2)
                   (\<lambda>_ t3. Ret None (t3\<lparr>gs_listener := map_option close_listener (gs_listener t3)\<rparr>))))"

definition gs_Destroy :: "bool \<Rightarrow> bool \<Rightarrow> implGrpcServer \<Rightarrow> (go_error option, implGrpcServer) outcome" where
  "gs_Destroy g st t = bindO (gs_Shutdown g st t) (\<lambda>_. Ret None)"

definition gs_Serve_begin :: "implGrpcServer \<Rightarrow> implGrpcServer" where
  "gs_Serve_begin t =
     (let addr = gs_ListenAddress t;
          fs = [FStr ''addr'' (snd addr), FStr ''network'' (fst addr)];
          t1 = (case gs_TlsConfig t of
                  Some cfg \<Rightarrow> gs_logs LInfo ''GrpcServerServe''
                    (fs @ [FBool ''tls'' True, FBool ''insecure'' (tls_InsecureSkipVerify cfg)]) t
                | None \<Rightarrow> gs_logs LInfo ''GrpcServerServe'' (fs @ [FBool ''tls'' False]) t)
      in t1\<lparr>gs_alive := True\<rparr>)"

definition gs_Serve_end :: "serve_result \<Rightarrow> implGrpcServer \<Rightarrow> go_error option \<times> implGrpcServer" where
  "gs_Serve_end res t =
     (case res of
        ServePanics v stack \<Rightarrow> (PanicToError res, t)
      | ServeReturns err \<Rightarrow>
          let t1 = t\<lparr>gs_alive := False\<rparr> in
          (case err of
             None \<Rightarrow> (None, t1)
           | Some e \<Rightarrow>
               if closed_error e then (None, t1)
               else (Some e, gs_logs LWarn ''GrpcServerClose'' [FStr ''error'' (Error e)] t1)))"

definition gs_wf :: "implGrpcServer \<Rightarrow> bool" where
  "gs_wf t \<longleftrightarrow> gs_srv t \<noteq> None \<and> gs_shutdownCh t = gs_once t \<and> gs_graceful t = (if gs_once t then 1 else 0) \<and> gs_stops t \<le> gs_graceful t"

lemma gs_Shutdown_first:
  assumes "gs_wf t" and "\<not> gs_shutdownCh t"
  shows "\<exists>t1. gs_Shutdown g st t = Ret None t1 \<and> gs_shutdownCh t1 \<and> gs_wf t1 \<and>
     gs_stops t1 = (if g then 0 else 1) \<and> (\<forall>l. gs_listener t1 = Some l \<longrightarrow> \<not> l_open l)"
proof -
  let ?t = "t\<lparr>gs_once := True,
      gs_log := gs_log t @ [(LInfo, ''GrpcServerShutdown'',
        [FStr ''addr'' (snd (gs_ListenAddress t)), FStr ''network'' (fst (gs_ListenAddress t))])],
      gs_shutdownCh := True, gs_graceful := Suc (gs_graceful t),
      gs_stops := (if g then gs_stops t else Suc (gs_stops t)),
      gs_listener := map_option close_listener (gs_listener t)\<rparr>"
  have w: "\<not> gs_once t" "gs_graceful t = 0" "gs_stops t = 0"
    using assms by (auto simp: gs_wf_def)
  obtain srv where srv: "gs_srv t = Some srv" using assms by (auto simp: gs_wf_def)
  with w have "gs_Shutdown g st t = Ret None ?t"
    using assms(2) by (simp add: gs_Shutdown_def gs_logs_def close_chan_def gs_doGracefulStop_def gs_doStop_def Let_def)
  then show ?thesis
    using w srv by (intro exI [of _ ?t]) (auto simp: gs_wf_def close_listener_def)
qed

interpretation grpc_lifecycle: server_lifecycle "gs_Shutdown g st" "gs_Destroy g st" gs_shutdownCh gs_wf for g st
proof unfold_locales
  fix t assume "gs_wf t" "\<not> gs_shutdownCh t"
  then show "\<exists>e s'. gs_Shutdown g st t = Ret e s' \<and> gs_shutdownCh s' \<and> gs_wf s'"
    using gs_Shutdown_first [of t g st] by blast
next
  fix t assume "gs_wf t" "gs_shutdownCh t"
  then show "gs_Shutdown g st t = Ret None t" by (simp add: gs_wf_def gs_Shutdown_def)
next
  fix t e t' assume "gs_Shutdown g st t = Ret e t'"
  then show "gs_Destroy g st t = Ret None t'" by (simp add: gs_Destroy_def)
qed

subsection \<open>The server's factory\<close>

record ('u, 'v) implGrpcServerFactory =
  gf_options :: string
  gf_maxRecv :: int
  gf_maxSend :: int
  gf_Services :: "string list list"
  gf_Unary :: "(int \<times> 'u option) list"
  gf_Stream :: "(int \<times> 'v option) list"
  gf_beanName :: string

datatype ('u, 'v) server_option =
    MaxRecvMsgSize int
  | MaxSendMsgSize int
  | ChainUnaryInterceptor "'u list"
  | ChainStreamInterceptor "'v list"

text \<open>\<^verbatim>\<open>sort.SliceStable\<close> by bean order; a bean without a function is left out.\<close>

definition unaryInterceptors :: "('u, 'v) implGrpcServerFactory \<Rightarrow> 'u list" where
  "unaryInterceptors t = map the (filter (\<lambda>f. f \<noteq> None) (map snd (sort_key fst (gf_Unary t))))"

definition streamInterceptors :: "('u, 'v) implGrpcServerFactory \<Rightarrow> 'v list" where
  "streamInterceptors t = map the (filter (\<lambda>f. f \<noteq> None) (map snd (sort_key fst (gf_Stream t))))"

definition server_options :: "('u, 'v) implGrpcServerFactory \<Rightarrow> ('u, 'v) server_option list" where
  "server_options t =
     (if 0 < gf_maxRecv t then [MaxRecvMsgSize (gf_maxRecv t)] else [])
     @ (if 0 < gf_maxSend t then [MaxSendMsgSize (gf_maxSend t)] else [])
     @ (if 0 < length (unaryInterceptors t) then [ChainUnaryInterceptor (unaryInterceptors t)] else [])
     @ (if 0 < length (streamInterceptors t) then [ChainStreamInterceptor (streamInterceptors t)] else [])"

text \<open>
  \<^verbatim>\<open>registerHealth\<close>: the services that the health service reports as serving, the
  whole server under the empty name.
\<close>

definition registerHealth :: "string set \<Rightarrow> string set \<times> string set" where
  "registerHealth services = (insert [] services, insert ''grpc.health.v1.Health'' services)"

record ('u, 'v) grpc_built =
  gb_opts :: "('u, 'v) server_option list"
  gb_services :: "string set"
  gb_serving :: "string set"
  gb_log :: "log_entry list"

text \<open>
  Every service bean registers the services of its list. \<open>sorted_names\<close> is
  \<^verbatim>\<open>sort.Strings\<close> of a set of names; \<open>reflection_names\<close> are what
  \<^verbatim>\<open>reflection.Register\<close> registers.
\<close>

definition gf_Object ::
  "(string set \<Rightarrow> string list) \<Rightarrow> string set \<Rightarrow> ('u, 'v) implGrpcServerFactory \<Rightarrow> ('u, 'v) grpc_built" where
  "gf_Object sorted_names reflection_names t =
     (let options = ParseOptions (gf_options t);
          s0 = set (concat (gf_Services t));
          (serving, s1) = (if ''health'' \<in> options then registerHealth s0 else ({}, s0));
          s2 = (if ''reflection'' \<in> options then s1 \<union> reflection_names else s1)
      in \<lparr>gb_opts = server_options t, gb_services = s2, gb_serving = serving,
          gb_log = [(LInfo, ''GrpcServerFactory'', [FStr ''bean'' (gf_beanName t), FStrs ''services'' (sorted_names s2),
            FInt ''unaryInterceptors'' (int (length (gf_Unary t))), FInt ''streamInterceptors'' (int (length (gf_Stream t))),
            FBool ''health'' (''health'' \<in> options), FBool ''reflection'' (''reflection'' \<in> options)])]\<rparr>)"

subsection \<open>The client's factory\<close>

definition localizeAddr :: "string \<Rightarrow> string" where
  "localizeAddr bindAddr =
     (if HasPrefix bindAddr ''0.0.0.0:'' then ''127.0.0.1'' @ drop (length ''0.0.0.0'') bindAddr
      else if HasPrefix bindAddr '':'' then ''127.0.0.1'' @ bindAddr
      else bindAddr)"

record implGrpcClientFactory =
  gc_Properties :: "string \<Rightarrow> string \<Rightarrow> string"
  gc_maxRecv :: int
  gc_TlsConfig :: "tls_Config option"
  gc_beanName :: string

datatype dial_option =
    WithTLS tls_Config
  | WithInsecure
  | WithMaxCallRecvMsgSize int
  | WithPerRPCCredentials tokenAuth

definition transportCreds :: "implGrpcClientFactory \<Rightarrow> dial_option" where
  "transportCreds t = (case gc_TlsConfig t of Some cfg \<Rightarrow> WithTLS cfg | None \<Rightarrow> WithInsecure)"

definition gc_dial :: "implGrpcClientFactory \<Rightarrow> string \<Rightarrow> string \<times> dial_option list" where
  "gc_dial t connectAddr =
     (connectAddr,
      [transportCreds t]
      @ (if 0 < gc_maxRecv t then [WithMaxCallRecvMsgSize (gc_maxRecv t)] else [])
      @ (let token = gc_Properties t (gc_beanName t @ ''.auth-token'') [] in
         if token \<noteq> [] then [WithPerRPCCredentials \<lparr>ta_token = token, ta_secure = (gc_TlsConfig t \<noteq> None)\<rparr>] else []))"

definition gc_Object :: "implGrpcClientFactory \<Rightarrow> go_error + (string \<times> dial_option list) \<times> log_entry list" where
  "gc_Object t =
     (let connectAddr = gc_Properties t (gc_beanName t @ ''.connect-address'') [];
          done' = (\<lambda>addr. Inr (gc_dial t addr, [(LInfo, ''GrpcClientFactory'', [FStr ''bean'' (gc_beanName t),
             FStr ''connectAddr'' addr, FBool ''tls'' (gc_TlsConfig t \<noteq> None)])]))
      in if connectAddr = [] then
           let serverBean = ReplaceAll (gc_beanName t) ''client'' ''server'';
               bindAddr = gc_Properties t (serverBean @ ''.bind-address'') []
           in if bindAddr = []
              then Inl (ErrText (''neither property '' @ quoted (gc_beanName t @ ''.connect-address'') @ '' nor '' @
                quoted (serverBean @ ''.bind-address'') @ '' is found in context''))
              else done' (localizeAddr bindAddr)
         else done' connectAddr)"

subsection \<open>Properties\<close>

text \<open>
  C38. Shutting down a gRPC server stops it gracefully first and by force exactly when that did
  not finish in time, closes its listener, and reports no error; any further shutdowns and
  destructions, in any order, are without effect.
\<close>

theorem grpc_shutdown_idempotent:
  assumes "gs_wf t" and "\<not> gs_shutdownCh t"
  shows "\<exists>t1. stops (gs_Shutdown g st) (gs_Destroy g st) (x # xs) t = Ret (map (\<lambda>_. None) (x # xs)) t1 \<and>
     gs_shutdownCh t1 \<and> gs_graceful t1 = 1 \<and> gs_stops t1 = (if g then 0 else 1) \<and>
     (\<forall>l. gs_listener t1 = Some l \<longrightarrow> \<not> l_open l)"
proof -
  obtain t1 where t1: "gs_Shutdown g st t = Ret None t1" "gs_shutdownCh t1" "gs_wf t1"
    "gs_stops t1 = (if g then 0 else 1)" "\<forall>l. gs_listener t1 = Some l \<longrightarrow> \<not> l_open l"
    using gs_Shutdown_first [OF assms, of g st] by blast
  have "stop (gs_Shutdown g st) (gs_Destroy g st) x t = Ret None t1"
    using t1(1) by (cases x) (simp_all add: gs_Destroy_def)
  moreover have "gs_graceful t1 = 1" using t1(2,3) by (simp add: gs_wf_def)
  ultimately show ?thesis
    using t1(2,4,5) grpc_lifecycle.stops_down [OF t1(3,2), of g st xs]
    by (intro exI [of _ t1]) simp
qed

theorem grpc_shutdown_idempotent_witness:
  "\<exists>t1. stops (gs_Shutdown False True) (gs_Destroy False True) [StopDestroy, StopShutdown]
      (snd (gs_PostConstruct [(''grpc-server'', Some 7)] (GrpcServer (\<lambda>k d. d) None ''grpc-server''))) = Ret [None, None] t1 \<and>
     gs_stops t1 = 1"
  using grpc_shutdown_idempotent [of "snd (gs_PostConstruct [(''grpc-server'', Some 7)] (GrpcServer (\<lambda>k d. d) None ''grpc-server''))"
      False True StopDestroy "[StopShutdown]"]
  by (auto simp: gs_wf_def GrpcServer_def gs_PostConstruct_def)

text \<open>
  A server whose \<^verbatim>\<open>*grpc.Server\<close> was not found cannot be destroyed: its first shutdown
  panics, after it has closed the shutdown channel.
\<close>

theorem grpc_unresolved_shutdown_panics:
  "fst (gs_PostConstruct [] (GrpcServer props tls name)) \<noteq> None \<and>
   (\<exists>t1. gs_Destroy g st (snd (gs_PostConstruct [] (GrpcServer props tls name))) = Panic t1 \<and> gs_shutdownCh t1)"
  by (simp add: gs_PostConstruct_def GrpcServer_def gs_Destroy_def gs_Shutdown_def gs_logs_def close_chan_def
      gs_doGracefulStop_def Let_def)

text \<open>
  A gRPC server with a TLS configuration always negotiates HTTP/2: whatever protocols the
  configuration lists, the listener of a successful bind is a TLS listener whose
  configuration lists them in their order and lists HTTP/2, once if it was listed once or not
  at all; the bean's own configuration is not changed.
\<close>

theorem grpc_bind_negotiates_h2:
  assumes "gs_Bind net_Listen (t\<lparr>gs_TlsConfig := Some cfg\<rparr>) = (None, t1)"
  shows "\<exists>c l. gs_tls t1 = Some c \<and> gs_listener t1 = Some l \<and> l_tls l \<and> ''h2'' \<in> set (tls_NextProtos c) \<and>
     prefix (tls_NextProtos cfg) (tls_NextProtos c) \<and> (distinct (tls_NextProtos cfg) \<longrightarrow> distinct (tls_NextProtos c)) \<and>
     gs_TlsConfig t1 = Some cfg \<and> gs_listenAddr t1 = gs_Properties t (gs_beanName t @ ''.bind-address'') []"
proof -
  have "''h2'' \<in> set (tls_NextProtos (ensureH2 cfg))" "prefix (tls_NextProtos cfg) (tls_NextProtos (ensureH2 cfg))"
    "distinct (tls_NextProtos cfg) \<longrightarrow> distinct (tls_NextProtos (ensureH2 cfg))"
    by (auto simp: ensureH2_def list_ex_iff)
  with assms show ?thesis
    by (auto simp: gs_Bind_def Let_def split: if_splits sum.splits)
qed

theorem grpc_bind_negotiates_h2_witness:
  "\<exists>t1 c. gs_Bind (\<lambda>a. Inr \<lparr>l_Network = ''tcp'', l_String = a, l_tls = False, l_open = True\<rparr>)
      ((GrpcServer (\<lambda>k d. '':9090'') None ''g'')\<lparr>gs_TlsConfig := Some \<lparr>tls_NextProtos = [''x''], tls_InsecureSkipVerify = False\<rparr>\<rparr>) =
      (None, t1) \<and> gs_tls t1 = Some c \<and> ''h2'' \<in> set (tls_NextProtos c)"
proof -
  let ?cfg = "\<lparr>tls_NextProtos = [''x''], tls_InsecureSkipVerify = False\<rparr>"
  let ?nl = "\<lambda>a. Inr \<lparr>l_Network = ''tcp'', l_String = a, l_tls = False, l_open = True\<rparr> :: go_error + listener"
  obtain t1 where "gs_Bind ?nl ((GrpcServer (\<lambda>k d. '':9090'') None ''g'')\<lparr>gs_TlsConfig := Some ?cfg\<rparr>) = (None, t1)"
    by (simp add: gs_Bind_def GrpcServer_def)
  with grpc_bind_negotiates_h2 [OF this] show ?thesis by blast
qed

text \<open>
  Interceptors run in ascending bean order, those of equal order in the order of the
  container, and every bean that gives a function is there exactly once.
\<close>

theorem grpc_interceptor_order:
  "\<exists>bs. unaryInterceptors t = map the (filter (\<lambda>f. f \<noteq> None) (map snd bs)) \<and>
     sorted (map fst bs) \<and> mset bs = mset (gf_Unary t) \<and>
     (\<forall>k. filter (\<lambda>b. fst b = k) bs = filter (\<lambda>b. fst b = k) (gf_Unary t))"
proof (intro exI conjI allI)
  show "unaryInterceptors t = map the (filter (\<lambda>f. f \<noteq> None) (map snd (sort_key fst (gf_Unary t))))"
    by (simp add: unaryInterceptors_def)
  show "filter (\<lambda>b. fst b = k) (sort_key fst (gf_Unary t)) = filter (\<lambda>b. fst b = k) (gf_Unary t)" for k
    by (rule sort_key_stable)
qed simp_all

text \<open>
  C29. A client that is configured by the name of its server only dials the server: where the
  server bound \<^verbatim>\<open>0.0.0.0:port\<close> or \<^verbatim>\<open>:port\<close>, which it listens on, the client dials
  \<^verbatim>\<open>127.0.0.1:port\<close>, and where the server bound any other address the client dials that
  address, found under the same property as the server's with \<^verbatim>\<open>client\<close> in its name read as
  \<^verbatim>\<open>server\<close>. An explicit address is dialled as it is. The transport is TLS with the injected
  configuration, or insecure exactly without one, and the credentials are the configured token,
  sent exactly when there is one, insisting on transport security exactly under TLS.
\<close>

theorem grpc_client_reaches_server:
  assumes "gs_beanName srv = ReplaceAll (gc_beanName t) ''client'' ''server''"
    and "gs_Properties srv = gc_Properties t" and "gs_Bind net_Listen srv = (None, srv')"
    and "explicit = gc_Properties t (gc_beanName t @ ''.connect-address'') []"
    and "token = gc_Properties t (gc_beanName t @ ''.auth-token'') []"
  shows "\<exists>addr opts lg. gc_Object t = Inr ((addr, opts), lg) \<and>
     (explicit \<noteq> [] \<longrightarrow> addr = explicit) \<and>
     (explicit = [] \<longrightarrow>
        (\<exists>l. net_Listen (gs_listenAddr srv') = Inr l) \<and>
        (\<forall>port. gs_listenAddr srv' = ''0.0.0.0:'' @ port \<or> gs_listenAddr srv' = '':'' @ port \<longrightarrow>
           addr = ''127.0.0.1:'' @ port) \<and>
        (\<not> prefix ''0.0.0.0:'' (gs_listenAddr srv') \<and> \<not> prefix '':'' (gs_listenAddr srv') \<longrightarrow>
           addr = gs_listenAddr srv')) \<and>
     (\<forall>cfg. WithTLS cfg \<in> set opts \<longleftrightarrow> gc_TlsConfig t = Some cfg) \<and>
     (WithInsecure \<in> set opts \<longleftrightarrow> gc_TlsConfig t = None) \<and>
     (\<forall>c. WithPerRPCCredentials c \<in> set opts \<longleftrightarrow>
        token \<noteq> [] \<and> ta_token c = token \<and> RequireTransportSecurity c = (gc_TlsConfig t \<noteq> None))"
proof -
  let ?la = "gs_listenAddr srv'"
  let ?addr = "if explicit \<noteq> [] then explicit else localizeAddr ?la"
  have la: "?la = gc_Properties t (ReplaceAll (gc_beanName t) ''client'' ''server'' @ ''.bind-address'') []"
    "?la \<noteq> []" and l: "\<exists>l. net_Listen ?la = Inr l"
    using assms by (auto simp: gs_Bind_def Let_def split: if_splits sum.splits option.splits)
  have "\<exists>lg. gc_Object t = Inr (gc_dial t ?addr, lg)"
    by (cases "explicit = []") (simp_all add: gc_Object_def Let_def la(2) la(1) [symmetric] assms(4) [symmetric])
  then obtain lg where o: "gc_Object t = Inr (gc_dial t ?addr, lg)" by blast
  have w: "localizeAddr (''0.0.0.0:'' @ port) = ''127.0.0.1:'' @ port"
    "localizeAddr ('':'' @ port) = ''127.0.0.1:'' @ port" for port by (simp_all add: localizeAddr_def)
  have "\<not> prefix ''0.0.0.0:'' ?la \<and> \<not> prefix '':'' ?la \<longrightarrow> localizeAddr ?la = ?la"
    by (simp add: localizeAddr_def)
  with l w have d: "explicit = [] \<longrightarrow> (\<exists>l. net_Listen ?la = Inr l) \<and>
      (\<forall>port. ?la = ''0.0.0.0:'' @ port \<or> ?la = '':'' @ port \<longrightarrow> ?addr = ''127.0.0.1:'' @ port) \<and>
      (\<not> prefix ''0.0.0.0:'' ?la \<and> \<not> prefix '':'' ?la \<longrightarrow> ?addr = ?la)" by metis
  have c: "(\<forall>cfg. WithTLS cfg \<in> set (snd (gc_dial t ?addr)) \<longleftrightarrow> gc_TlsConfig t = Some cfg)"
    "WithInsecure \<in> set (snd (gc_dial t ?addr)) \<longleftrightarrow> gc_TlsConfig t = None"
    "\<forall>c. WithPerRPCCredentials c \<in> set (snd (gc_dial t ?addr)) \<longleftrightarrow>
        token \<noteq> [] \<and> ta_token c = token \<and> RequireTransportSecurity c = (gc_TlsConfig t \<noteq> None)"
    by (auto simp: gc_dial_def Let_def transportCreds_def RequireTransportSecurity_def assms(5) split: option.splits)
  have "gc_dial t ?addr = (?addr, snd (gc_dial t ?addr))" by (simp add: gc_dial_def)
  with o have "gc_Object t = Inr ((?addr, snd (gc_dial t ?addr)), lg)" by metis
  with c d show ?thesis by (intro exI [of _ ?addr] exI [of _ "snd (gc_dial t ?addr)"] exI [of _ lg] conjI) simp_all
qed

theorem grpc_client_reaches_server_witness:
  "\<exists>addr opts lg. gc_Object \<lparr>gc_Properties = (\<lambda>k d. if k = ''grpc-server.bind-address'' then '':9090'' else d),
       gc_maxRecv = 0, gc_TlsConfig = None, gc_beanName = ''grpc-client''\<rparr> = Inr ((addr, opts), lg) \<and>
     addr = ''127.0.0.1:9090''"
proof -
  let ?p = "\<lambda>k d. if k = ''grpc-server.bind-address'' then '':9090'' else d"
  let ?t = "\<lparr>gc_Properties = ?p, gc_maxRecv = 0, gc_TlsConfig = None, gc_beanName = ''grpc-client''\<rparr>"
  let ?s = "GrpcServer ?p None ''grpc-server''"
  let ?nl = "\<lambda>a. Inr \<lparr>l_Network = ''tcp'', l_String = a, l_tls = False, l_open = True\<rparr> :: go_error + listener"
  have n: "gs_beanName ?s = ReplaceAll (gc_beanName ?t) ''client'' ''server''" by code_simp
  obtain s' where b: "gs_Bind ?nl ?s = (None, s')" "gs_listenAddr s' = '':9090''"
    by (simp add: gs_Bind_def GrpcServer_def)
  have p: "gs_Properties ?s = gc_Properties ?t" by (simp add: GrpcServer_def)
  have e: "gc_Properties ?t (gc_beanName ?t @ ''.connect-address'') [] = []" by simp
  obtain addr opts lg where c: "gc_Object ?t = Inr ((addr, opts), lg)"
    "\<forall>port. gs_listenAddr s' = ''0.0.0.0:'' @ port \<or> gs_listenAddr s' = '':'' @ port \<longrightarrow> addr = ''127.0.0.1:'' @ port"
    using grpc_client_reaches_server [OF n p b(1) e [symmetric] refl] by blast
  from c(2) [rule_format, of "''9090''"] b(2) have "addr = ''127.0.0.1:9090''" by simp
  with c(1) show ?thesis by blast
qed

text \<open>
  Localizing an address keeps everything after the host, leaves no wildcard host, and
  leaves an address that is already dialable unchanged.
\<close>

theorem localizeAddr_dialable:
  "\<not> prefix ''0.0.0.0:'' (localizeAddr a) \<and> \<not> prefix '':'' (localizeAddr a) \<and>
   localizeAddr (localizeAddr a) = localizeAddr a \<and>
   localizeAddr (''0.0.0.0:'' @ port) = ''127.0.0.1:'' @ port \<and> localizeAddr ('':'' @ port) = ''127.0.0.1:'' @ port"
  by (auto simp: localizeAddr_def)

end
