(* ===== verification/Scanners.thy ===== *)
theory Scanners
  imports Grpc_Server
begin

text \<open>
  \<^verbatim>\<open>scanner.go\<close>, \<^verbatim>\<open>grpc/scan.go\<close> and \<^verbatim>\<open>vrpc/scan.go\<close>: the beans that make up a
  server or a client in a container, and with them \<^verbatim>\<open>zap_log_factory.go\<close> and
  \<^verbatim>\<open>servion.go\<close>, which the beans of an application start from.
\<close>

subsection \<open>The beans of a scanner\<close>

text \<open>
  A bean by the constructor that makes it; an anonymous struct by the types of its injected
  fields and whether they are optional; the beans of the application are left abstract.
\<close>

datatype 'u bean =
    HttpServerFactoryBean string
  | GrpcServerFactoryBean string
  | GrpcServerBean string
  | GrpcClientFactoryBean string
  | ValueServerBean string
  | ValueClientFactoryBean string
  | InjectStruct "(string \<times> bool) list"
  | AppBean 'u

record 'u scanner =
  sc_beanName :: string
  sc_scan :: "'u bean list"

definition HttpServerScanner :: "string \<Rightarrow> 'u bean list \<Rightarrow> 'u scanner" where
  "HttpServerScanner beanName scan = \<lparr>sc_beanName = beanName, sc_scan = scan\<rparr>"

definition http_ScannerBeans :: "'u scanner \<Rightarrow> 'u bean list" where
  "http_ScannerBeans t =
     [HttpServerFactoryBean (sc_beanName t),
      InjectStruct [(''[]Server'', True), (''[]*http.Server'', False)]] @ sc_scan t"

definition GrpcServerScanner :: "string \<Rightarrow> 'u bean list \<Rightarrow> 'u scanner" where
  "GrpcServerScanner beanName scan = \<lparr>sc_beanName = beanName, sc_scan = scan\<rparr>"

definition grpc_ScannerBeans :: "'u scanner \<Rightarrow> 'u bean list" where
  "grpc_ScannerBeans t =
     [GrpcServerFactoryBean (sc_beanName t), GrpcServerBean (sc_beanName t),
      InjectStruct [(''[]servion.Server'', True), (''[]*grpc.Server'', True)]] @ sc_scan t"

definition GrpcClientScanner :: "string \<Rightarrow> 'u bean list \<Rightarrow> 'u scanner" where
  "GrpcClientScanner beanName scan = \<lparr>sc_beanName = beanName, sc_scan = scan\<rparr>"

definition grpc_client_ScannerBeans :: "'u scanner \<Rightarrow> 'u bean list" where
  "grpc_client_ScannerBeans t =
     [GrpcClientFactoryBean (sc_beanName t), InjectStruct [(''[]*grpc.ClientConn'', True)]] @ sc_scan t"

definition ValueServerScanner :: "string \<Rightarrow> 'u bean list \<Rightarrow> 'u scanner" where
  "ValueServerScanner beanName scan = \<lparr>sc_beanName = beanName, sc_scan = scan\<rparr>"

definition value_ScannerBeans :: "'u scanner \<Rightarrow> 'u bean list" where
  "value_ScannerBeans t =
     [ValueServerBean (sc_beanName t), InjectStruct [(''[]servion.Server'', True)]] @ sc_scan t"

definition ValueClientScanner :: "string \<Rightarrow> 'u bean list \<Rightarrow> 'u scanner" where
  "ValueClientScanner beanName scan = \<lparr>sc_beanName = beanName, sc_scan = scan\<rparr>"

definition value_client_ScannerBeans :: "'u scanner \<Rightarrow> 'u bean list" where
  "value_client_ScannerBeans t =
     [ValueClientFactoryBean (sc_beanName t), InjectStruct [(''[]valueclient.Client'', True)]] @ sc_scan t"

subsection \<open>Factories in a container\<close>

text \<open>
  What the container documents for factories: the object that a factory makes is a bean under
  the factory's \<^verbatim>\<open>ObjectName\<close> and of its \<^verbatim>\<open>ObjectType\<close>, in the order of the beans.
  \<open>made\<close> is the object of the factory of a name.
\<close>

fun grpc_server_objects :: "(string \<Rightarrow> nat) \<Rightarrow> 'u bean list \<Rightarrow> (string \<times> nat option) list" where
  "grpc_server_objects made [] = []"
| "grpc_server_objects made (GrpcServerFactoryBean n # bs) = (n, Some (made n)) # grpc_server_objects made bs"
| "grpc_server_objects made (_ # bs) = grpc_server_objects made bs"

subsection \<open>The logger and the entry point\<close>

record implZapLogFactory =
  zf_development :: bool

definition ZapLogFactory :: "bool \<Rightarrow> implZapLogFactory" where
  "ZapLogFactory development = \<lparr>zf_development = development\<rparr>"

text \<open>\<open>dev\<close> and \<open>prd\<close> are how the two constructors of \<^verbatim>\<open>zap\<close> end: with a logger or an error, or by a panic.\<close>

datatype 'a construction = Constructed 'a | ConstructFails go_error | ConstructPanics string string

fun guard_construction :: "'a construction \<Rightarrow> go_error + 'a" where
  "guard_construction (Constructed x) = Inr x"
| "guard_construction (ConstructFails e) = Inl e"
| "guard_construction (ConstructPanics v stack) =
     Inl (case PanicToError (ServePanics v stack) of Some e \<Rightarrow> e | None \<Rightarrow> ErrText [])"

definition zf_Object :: "'l construction \<Rightarrow> 'l construction \<Rightarrow> implZapLogFactory \<Rightarrow> go_error + 'l" where
  "zf_Object dev prd t = guard_construction (if zf_development t then dev else prd)"

definition zf_ObjectName :: string where
  "zf_ObjectName = ''zap_logger''"

text \<open>\<open>glue_New\<close> is the result of making the root container; \<open>doRun\<close> also tells whether it closed one.\<close>

definition doRun :: "go_error option \<Rightarrow> go_error option \<times> bool" where
  "doRun glue_New = (case glue_New of Some e \<Rightarrow> (Some e, False) | None \<Rightarrow> (None, True))"

text \<open>What \<^verbatim>\<open>Run\<close> prints, and its exit code if it exits.\<close>

definition Run :: "go_error option \<Rightarrow> string \<times> int option" where
  "Run glue_New = (case fst (doRun glue_New) of Some e \<Rightarrow> (''Error: '' @ Error e @ [CHR 0x0A], Some 1) | None \<Rightarrow> ([], None))"

subsection \<open>Properties\<close>

text \<open>
  A gRPC scanner wires its server: whatever other beans the application adds, even further
  gRPC servers, the server bean of the scanner finds the \<^verbatim>\<open>*grpc.Server\<close> that the factory
  of the same scanner makes, and is then in the state from which it can be shut down and
  destroyed any number of times without a panic.
\<close>

theorem grpc_scanner_wires_server:
  "\<exists>t. gs_PostConstruct (grpc_server_objects made (grpc_ScannerBeans (GrpcServerScanner name scan)))
         (GrpcServer props tls name) = (None, t) \<and>
     gs_srv t = Some (made name) \<and> returns (stops (gs_Shutdown g st) (gs_Destroy g st) calls t)"
proof -
  let ?t = "(GrpcServer props tls name)\<lparr>gs_alive := False, gs_srv := Some (made name)\<rparr>"
  have "gs_PostConstruct (grpc_server_objects made (grpc_ScannerBeans (GrpcServerScanner name scan)))
      (GrpcServer props tls name) = (None, ?t)"
    by (simp add: gs_PostConstruct_def grpc_ScannerBeans_def GrpcServerScanner_def GrpcServer_def)
  moreover have "gs_wf ?t" by (simp add: gs_wf_def GrpcServer_def)
  then have "returns (stops (gs_Shutdown g st) (gs_Destroy g st) calls ?t)"
    using grpc_lifecycle.stops_idempotent [of ?t g st "hd calls" "tl calls"] by (cases calls) auto
  ultimately show ?thesis by (intro exI [of _ ?t]) (simp add: GrpcServer_def)
qed

end
