(* ===== verification/Server_Run.thy ===== *)
theory Server_Run
  imports Server_Lifecycle
begin

text \<open>
  The runner of \<^verbatim>\<open>utils.go\<close>: finding the servers of a container, binding them, and
  handing them to the group that serves. Containers are what the dependency-injection library
  gives: their beans and the results of their operations.
\<close>

subsection \<open>Binding\<close>

definition em_dash :: string where
  "em_dash = [CHR 0xE2, CHR 0x80, CHR 0x94]"

fun addrInUseHint :: "go_error list \<Rightarrow> string" where
  "addrInUseHint [] = []"
| "addrInUseHint (e # es) =
     (if errors_Is e EADDRINUSE then '' '' @ em_dash @ '' is another instance already running?''
      else addrInUseHint es)"

record 's bind_state =
  bd_all :: "'s list"
  bd_bound :: "'s list"
  bd_errs :: "go_error list"
  bd_log :: "log_entry list"
  bd_stderr :: "string list"

fun bind_each :: "('s \<Rightarrow> go_error option \<times> 's) \<Rightarrow> 's list \<Rightarrow> 's bind_state \<Rightarrow> 's bind_state" where
  "bind_each bind [] b = b"
| "bind_each bind (server # rest) b =
     bind_each bind rest
       (case bind server of
          (Some err, server') \<Rightarrow>
            b\<lparr>bd_all := bd_all b @ [server'],
              bd_log := bd_log b @ [(LError, ''Bind'', [FStr ''error'' (Error err)])],
              bd_stderr := bd_stderr b @ [''warning: '' @ Error err],
              bd_errs := bd_errs b @ [err]\<rparr>
        | (None, server') \<Rightarrow>
            b\<lparr>bd_all := bd_all b @ [server'], bd_bound := bd_bound b @ [server']\<rparr>)"

definition count_text :: "nat \<Rightarrow> nat \<Rightarrow> string" where
  "count_text k n = Itoa (int k) @ '' of '' @ Itoa (int n)"

text \<open>
  \<^verbatim>\<open>errors.Join\<close> of no errors is nil, and \<^verbatim>\<open>xerrors.Errorf\<close> wraps nothing then but
  prints the nil for its \<^verbatim>\<open>%w\<close>.
\<close>

definition wrap_joined :: "string \<Rightarrow> go_error list \<Rightarrow> go_error" where
  "wrap_joined m es = (if es = [] then ErrText (m @ '': %!w(<nil>)'') else ErrWrap m (ErrJoin es))"

definition bindServers ::
  "('s \<Rightarrow> go_error option \<times> 's) \<Rightarrow> 's list \<Rightarrow> (go_error + 's list) \<times> 's bind_state" where
  "bindServers bind servers =
     (let b = bind_each bind servers \<lparr>bd_all = [], bd_bound = [], bd_errs = [], bd_log = [], bd_stderr = []\<rparr> in
      if length (bd_bound b) = 0 then
        (Inl (wrap_joined (''no server could bind ('' @ count_text (length (bd_errs b)) (length servers) @ '' failed)''
                @ addrInUseHint (bd_errs b)) (bd_errs b)), b)
      else
        (Inr (bd_bound b),
         if 0 < length (bd_errs b)
         then b\<lparr>bd_stderr := bd_stderr b @ [''warning: '' @ count_text (length (bd_errs b)) (length servers) @
                '' servers failed to bind '' @ em_dash @
                '' continuing with the rest so the failure can be fixed from the admin surface'']\<rparr>
         else b))"

subsection \<open>Containers\<close>

text \<open>
  A bean of the server classes is a server, or an object of another type (\<open>None\<close>). A bean of
  class \<^verbatim>\<open>*http.Server\<close> becomes a server by \<^verbatim>\<open>NewHttpServer\<close>, and injecting into it
  may fail.
\<close>

record 's container =
  ct_name :: string
  ct_Servers :: "'s option list"
  ct_HttpServers :: "(string \<times> go_error option \<times> 's) option list"
  ct_close :: "go_error option"

text \<open>The initialization of the child containers: the first failure ends it.\<close>

fun init_children ::
  "(string \<times> (go_error + 's container)) list \<Rightarrow> 's container list \<Rightarrow> go_error option \<times> 's container list" where
  "init_children [] acc = (None, acc)"
| "init_children ((name, Inl e) # rest) acc =
     (Some (ErrWrap (''server creation context '' @ quoted name @ '' failed'') e), acc)"
| "init_children ((name, Inr c) # rest) acc = init_children rest (acc @ [c])"

fun add_server_beans :: "string \<Rightarrow> nat \<Rightarrow> 's option list \<Rightarrow> 's list \<Rightarrow> go_error + 's list" where
  "add_server_beans ctx i [] acc = Inr acc"
| "add_server_beans ctx i (Some srv # rest) acc = add_server_beans ctx (Suc i) rest (acc @ [srv])"
| "add_server_beans ctx i (None # rest) acc =
     Inl (ErrText (''invalid object found for servionapi.Server on position '' @ Itoa (int i) @
       '' in child context: '' @ ctx))"

fun add_http_beans ::
  "string \<Rightarrow> nat \<Rightarrow> (string \<times> go_error option \<times> 's) option list \<Rightarrow> 's list \<Rightarrow> go_error + 's list" where
  "add_http_beans ctx i [] acc = Inr acc"
| "add_http_beans ctx i (Some (addr, None, s) # rest) acc = add_http_beans ctx (Suc i) rest (acc @ [s])"
| "add_http_beans ctx i (Some (addr, Some e, s) # rest) acc =
     Inl (ErrWrap (''injection error for server '' @ quoted addr @ '' of *http.Server on position '' @ Itoa (int i) @
       '' in child context '' @ ctx) e)"
| "add_http_beans ctx i (None # rest) acc =
     Inl (ErrText (''invalid object found for *http.Server on position '' @ Itoa (int i) @
       '' in child context '' @ ctx))"

fun collect_servers :: "'s container list \<Rightarrow> 's list \<Rightarrow> go_error + 's list" where
  "collect_servers [] acc = Inr acc"
| "collect_servers (c # cs) acc =
     (case add_server_beans (ct_name c) 0 (ct_Servers c) acc of
        Inl e \<Rightarrow> Inl e
      | Inr acc1 \<Rightarrow>
          (case add_http_beans (ct_name c) 0 (ct_HttpServers c) acc1 of
             Inl e \<Rightarrow> Inl e
           | Inr acc2 \<Rightarrow> collect_servers cs acc2))"

definition error_list_text :: "go_error list \<Rightarrow> string" where
  "error_list_text es = CHR ''['' # Join (map Error es) '' '' @ '']''"

text \<open>
  The deferred function: a panic and every failed close are collected, and if there is any,
  the list replaces the result. It returns the containers it closed.
\<close>

definition close_children ::
  "bool \<Rightarrow> 's container list \<Rightarrow> serve_result \<Rightarrow> go_error option \<times> string list" where
  "close_children is_core childList res =
     (let panics = (case res of ServePanics v st \<Rightarrow> [ErrText (''recovered on error: '' @ v)] | ServeReturns e \<Rightarrow> []);
          closing = (if is_core then [] else childList);
          listErr = panics @ concat (map (\<lambda>c. case ct_close c of Some e \<Rightarrow> [e] | None \<Rightarrow> []) closing)
      in (if 0 < length listErr then Some (ErrText (error_list_text listErr))
          else (case res of ServeReturns e \<Rightarrow> e | ServePanics v st \<Rightarrow> None),
          map ct_name closing))"

definition doWithServers ::
  "'s container \<Rightarrow> (string \<times> (go_error + 's container)) list \<Rightarrow> ('s list \<Rightarrow> serve_result)
     \<Rightarrow> go_error option \<times> string list" where
  "doWithServers core children cb =
     (if length children = 0 then
        close_children True [core]
          (case collect_servers [core] [] of Inl e \<Rightarrow> ServeReturns (Some e) | Inr servers \<Rightarrow> cb servers)
      else
        (case init_children children [] of
           (Some e, childList) \<Rightarrow> close_children False childList (ServeReturns (Some e))
         | (None, childList) \<Rightarrow>
             close_children False childList
               (case collect_servers childList [] of Inl e \<Rightarrow> ServeReturns (Some e) | Inr servers \<Rightarrow> cb servers)))"

subsection \<open>Running the servers\<close>

text \<open>
  The callback of \<^verbatim>\<open>runServers\<close>; \<open>serve\<close> is what serving the bound servers as a group ends
  with. It also gives the messages it logged.
\<close>

definition run_callback ::
  "('s \<Rightarrow> go_error option \<times> 's) \<Rightarrow> ('s list \<Rightarrow> serve_result) \<Rightarrow> 's list \<Rightarrow> serve_result \<times> log_entry list" where
  "run_callback bind serve servers =
     (if length servers = 0
      then (ServeReturns (Some (ErrText ''servionapi.Server instances are not found in server context'')), [])
      else
        (case bindServers bind servers of
           (Inl e, b) \<Rightarrow> (ServeReturns (Some e), bd_log b)
         | (Inr bound, b) \<Rightarrow>
             (ServeReturns (PanicToError (serve bound)),
              bd_log b @ [(LInfo, ''ServionStarted'', [FInt ''Servers'' (int (length bound))])])))"

definition runServers ::
  "'s container \<Rightarrow> (string \<times> (go_error + 's container)) list \<Rightarrow> ('s \<Rightarrow> go_error option \<times> 's)
     \<Rightarrow> ('s list \<Rightarrow> serve_result) \<Rightarrow> go_error option \<times> string list" where
  "runServers core children bind serve =
     doWithServers core children (\<lambda>servers. fst (run_callback bind serve servers))"

subsection \<open>What binding collects\<close>

lemma bind_each_split:
  "bd_bound (bind_each bind ss b) = bd_bound b @ map (\<lambda>s. snd (bind s)) (filter (\<lambda>s. fst (bind s) = None) ss)"
  "bd_errs (bind_each bind ss b) = bd_errs b @ map (\<lambda>s. the (fst (bind s))) (filter (\<lambda>s. fst (bind s) \<noteq> None) ss)"
  by (induction ss arbitrary: b) (auto split: prod.splits option.splits)

lemma bind_each_reports:
  "bd_stderr (bind_each bind ss b) = bd_stderr b @
     map (\<lambda>s. ''warning: '' @ Error (the (fst (bind s)))) (filter (\<lambda>s. fst (bind s) \<noteq> None) ss)"
  "length (bd_log (bind_each bind ss b)) = length (bd_log b) + length (filter (\<lambda>s. fst (bind s) \<noteq> None) ss)"
  "bd_all (bind_each bind ss b) = bd_all b @ map (\<lambda>s. snd (bind s)) ss"
  by (induction ss arbitrary: b) (auto split: prod.splits option.splits)

definition bind_failed :: "('s \<Rightarrow> go_error option \<times> 's) \<Rightarrow> 's list \<Rightarrow> 's list" where
  "bind_failed bind ss = filter (\<lambda>s. fst (bind s) \<noteq> None) ss"

lemma bindServers_bound:
  assumes "bindServers bind ss = (Inr bound, b)"
  shows "bound = map (\<lambda>s. snd (bind s)) (filter (\<lambda>s. fst (bind s) = None) ss)"
  using assms by (auto simp: bindServers_def bind_each_split Let_def split: if_splits)

lemma hint_iff: "addrInUseHint es \<noteq> [] \<longleftrightarrow> (\<exists>e \<in> set es. errors_Is e EADDRINUSE)"
  by (induction es) auto

subsection \<open>Properties\<close>

text \<open>
  C10. Binding is partial-failure tolerant and never silent: every server is tried, the servers
  whose bind succeeded are the result, in their order, unless there is none; only then is the
  result an error, and it wraps every bind error (there is nothing to wrap when there was no
  server to bind); each failure is logged and printed once,
  in order, and a partial failure is summed up once more.
\<close>

theorem bindServers_partial:
  "bd_all (snd (bindServers bind ss)) = map (\<lambda>s. snd (bind s)) ss \<and>
     length (bd_log (snd (bindServers bind ss))) = length (bind_failed bind ss) \<and>
     (if \<exists>s \<in> set ss. fst (bind s) = None
      then fst (bindServers bind ss) = Inr (map (\<lambda>s. snd (bind s)) (filter (\<lambda>s. fst (bind s) = None) ss)) \<and>
        length (bd_stderr (snd (bindServers bind ss))) = length (bind_failed bind ss) + (if bind_failed bind ss = [] then 0 else 1)
      else (\<exists>m. fst (bindServers bind ss) =
            Inl (if ss = [] then ErrText m else ErrWrap m (ErrJoin (map (\<lambda>s. the (fst (bind s))) ss)))) \<and>
        bd_stderr (snd (bindServers bind ss)) = map (\<lambda>s. ''warning: '' @ Error (the (fst (bind s)))) ss)"
proof -
  let ?b = "bind_each bind ss \<lparr>bd_all = [], bd_bound = [], bd_errs = [], bd_log = [], bd_stderr = []\<rparr>"
  have none: "filter (\<lambda>s. fst (bind s) = None) ss = [] \<longleftrightarrow> \<not> (\<exists>s \<in> set ss. fst (bind s) = None)"
    by (simp add: filter_empty_conv)
  have all: "\<not> (\<exists>s \<in> set ss. fst (bind s) = None) \<Longrightarrow> bind_failed bind ss = ss"
    unfolding bind_failed_def by (rule filter_True) auto
  show ?thesis
  proof (cases "\<exists>s \<in> set ss. fst (bind s) = None")
    case True
    then have "bd_bound ?b \<noteq> []" using none by (simp add: bind_each_split)
    with True show ?thesis
      by (auto simp: bindServers_def Let_def bind_each_split bind_each_reports bind_failed_def)
  next
    case False
    then have "bd_bound ?b = []" using none by (simp add: bind_each_split)
    with False all show ?thesis
      by (simp add: bindServers_def Let_def bind_each_split bind_each_reports bind_failed_def wrap_joined_def)
  qed
qed

theorem bindServers_partial_witness:
  "\<exists>b. bindServers (\<lambda>n. (if n = 1 then Some EADDRINUSE else None, n)) [0, 1, 2 :: nat] = (Inr [0, 2], b) \<and> length (bd_stderr b) = 2"
proof -
  let ?bind = "\<lambda>n :: nat. (if n = 1 then Some EADDRINUSE else None, n)"
  have "\<exists>s \<in> set [0, 1, 2]. fst (?bind s) = None" "bind_failed ?bind [0, 1, 2] = [1]"
    by (simp_all add: bind_failed_def)
  with bindServers_partial [of ?bind "[0, 1, 2]"] show ?thesis
    by (intro exI [of _ "snd (bindServers ?bind [0, 1, 2])"]) (simp add: prod_eq_iff)
qed

text \<open>
  When nothing could bind, the error tells the operator of another instance exactly when
  one of the failures is an address in use, however deep it is wrapped; and callers can still
  test the error for every cause of every failure.
\<close>

theorem bindServers_error_causes:
  assumes "bindServers bind ss = (Inl err, b)" and "ss \<noteq> []"
  shows "\<exists>hint. err = ErrWrap (''no server could bind ('' @ count_text (length ss) (length ss) @ '' failed)'' @ hint)
       (ErrJoin (bd_errs b)) \<and>
     (hint \<noteq> [] \<longleftrightarrow> errors_Is err EADDRINUSE) \<and>
     (\<forall>s \<in> set ss. \<exists>e. fst (bind s) = Some e \<and> e \<in> set (bd_errs b) \<and>
        (\<forall>sentinel \<in> {ErrUnauthorized, ErrServiceUnavailable, ErrRepeatRun, EADDRINUSE}.
           errors_Is e sentinel \<longrightarrow> errors_Is err sentinel))"
proof -
  let ?b = "bind_each bind ss \<lparr>bd_all = [], bd_bound = [], bd_errs = [], bd_log = [], bd_stderr = []\<rparr>"
  have e0: "bd_bound ?b = []" "b = ?b" "err = wrap_joined (''no server could bind ('' @
      count_text (length (bd_errs ?b)) (length ss) @ '' failed)'' @ addrInUseHint (bd_errs ?b)) (bd_errs ?b)"
    using assms(1) by (auto simp: bindServers_def Let_def split: if_splits)
  then have all: "\<forall>s \<in> set ss. fst (bind s) \<noteq> None"
    by (auto simp: bind_each_split filter_empty_conv)
  then have errs: "bd_errs ?b = map (\<lambda>s. the (fst (bind s))) ss" by (simp add: bind_each_split)
  with assms(2) e0 have e: "bd_bound ?b = []" "b = ?b" "err = ErrWrap (''no server could bind ('' @
      count_text (length (bd_errs ?b)) (length ss) @ '' failed)'' @ addrInUseHint (bd_errs ?b)) (ErrJoin (bd_errs ?b))"
    by (simp_all add: wrap_joined_def)
  have "errors_Is err EADDRINUSE \<longleftrightarrow> (\<exists>x \<in> set (bd_errs ?b). errors_Is x EADDRINUSE)"
    using e(3) by (simp add: list_ex_iff)
  moreover have "\<exists>x. fst (bind s) = Some x \<and> x \<in> set (bd_errs b) \<and>
      (\<forall>sentinel \<in> {ErrUnauthorized, ErrServiceUnavailable, ErrRepeatRun, EADDRINUSE}.
           errors_Is x sentinel \<longrightarrow> errors_Is err sentinel)" if ss: "s \<in> set ss" for s
  proof -
    obtain x where x: "fst (bind s) = Some x" using all ss by auto
    then have "x \<in> set (bd_errs b)" using errs e(2) ss by force
    with x e(2,3) show ?thesis by (auto simp: list_ex_iff)
  qed
  ultimately show ?thesis
    using e hint_iff [of "bd_errs ?b"] errs by (intro exI [of _ "addrInUseHint (bd_errs ?b)"]) simp
qed

theorem bindServers_error_causes_witness:
  "\<exists>err b. bindServers (\<lambda>s. (Some (ErrWrap ''listen'' EADDRINUSE), s)) [1 :: nat, 2] = (Inl err, b) \<and>
     errors_Is err EADDRINUSE"
proof -
  obtain err b where eb: "bindServers (\<lambda>s. (Some (ErrWrap ''listen'' EADDRINUSE), s)) [1 :: nat, 2] = (Inl err, b)"
    by (simp add: bindServers_def Let_def wrap_joined_def)
  from bindServers_error_causes [OF eb] have "errors_Is err EADDRINUSE" by auto
  with eb show ?thesis by blast
qed

lemma init_children_ok:
  "init_children (map (\<lambda>c. (ct_name c, Inr c)) cs @ (name, Inl e) # rest) acc =
     (Some (ErrWrap (''server creation context '' @ quoted name @ '' failed'') e), acc @ cs)"
  "init_children (map (\<lambda>c. (ct_name c, Inr c)) cs) acc = (None, acc @ cs)"
  by (induction cs arbitrary: acc) auto

text \<open>
  C24. The containers of the servers are never leaked: every child container that was
  initialized is closed exactly once, in order, whether the callback returns, fails or
  panics, and also when a later child cannot be initialized; the core container is left to
  its owner. A panic never escapes. But the error of the run is lost as soon as closing a
  container fails as well: the result is then the text of the failed closes only.
\<close>

theorem doWithServers_closes:
  assumes "cs \<noteq> []"
  shows "snd (doWithServers core (map (\<lambda>c. (ct_name c, Inr c)) cs) cb) = map ct_name cs \<and>
     snd (doWithServers core (map (\<lambda>c. (ct_name c, Inr c)) cs @ (name, Inl e) # rest) cb) = map ct_name cs \<and>
     snd (doWithServers core [] cb) = [] \<and>
     (collect_servers cs [] = Inr servers \<and> cb servers = ServePanics v stack \<longrightarrow>
        fst (doWithServers core (map (\<lambda>c. (ct_name c, Inr c)) cs) cb) \<noteq> None) \<and>
     (collect_servers cs [] = Inr servers \<and> cb servers = ServeReturns (Some err) \<and>
        (\<forall>c \<in> set cs. ct_close c = Some (ErrText (ct_name c))) \<longrightarrow>
        fst (doWithServers core (map (\<lambda>c. (ct_name c, Inr c)) cs) cb) =
          Some (ErrText (CHR ''['' # Join (map ct_name cs) '' '' @ '']'')))"
proof -
  have cl: "(\<forall>c \<in> set cs. ct_close c = Some (ErrText (ct_name c))) \<Longrightarrow>
     concat (map (\<lambda>c. case ct_close c of Some e \<Rightarrow> [e] | None \<Rightarrow> []) cs) = map (\<lambda>c. ErrText (ct_name c)) cs"
    by (induction cs) auto
  have "map Error (map (\<lambda>c. ErrText (ct_name c)) cs) = map ct_name cs" by simp
  with assms cl show ?thesis
    by (auto simp: doWithServers_def init_children_ok close_children_def Let_def error_list_text_def comp_def
        split: sum.split serve_result.split)
qed

definition sample_container :: "nat container" where
  "sample_container = \<lparr>ct_name = ''web'', ct_Servers = [Some 1], ct_HttpServers = [], ct_close = Some (ErrText ''web'')\<rparr>"

theorem doWithServers_closes_witness:
  "collect_servers [sample_container] [] = Inr [1] \<and>
   fst (doWithServers sample_container [(''web'', Inr sample_container)] (\<lambda>s. ServeReturns (Some ErrRepeatRun))) =
     Some (ErrText ''[web]'')"
proof -
  have c: "collect_servers [sample_container] [] = Inr [1]" "ct_name sample_container = ''web''"
    "ct_close sample_container = Some (ErrText ''web'')"
    by (simp_all add: sample_container_def)
  show ?thesis
    using c doWithServers_closes [of "[sample_container]" sample_container
        "\<lambda>s. ServeReturns (Some ErrRepeatRun)" _ _ _ "[1]" _ _ ErrRepeatRun] by simp
qed

end
