(* ===== verification/Server_Group.thy ===== *)
theory Server_Group
  imports Server_Lifecycle Runtime
begin

text \<open>
  The second half of \<^verbatim>\<open>runServers\<close> (\<^verbatim>\<open>utils.go\<close>), after binding: the goroutines that
  serve, shut down and wait for a signal, as one step relation. A step is a return of one of
  the functions of the \<^verbatim>\<open>errgroup\<close>, a start of one, or an event of the surroundings.
\<close>

subsection \<open>The state\<close>

text \<open>
  \<open>gr_phase i\<close> is \<open>None\<close> while \<^verbatim>\<open>Serve\<close> of the server \<open>i\<close> runs and then its
  result; \<open>gr_launched\<close> is how many \<^verbatim>\<open>Shutdown\<close>s the watching goroutine has started
  with \<^verbatim>\<open>g.Go\<close>, in the order of the servers, and \<open>gr_shut i\<close> the result of the one of
  server \<open>i\<close>; \<open>gr_err\<close> is the first error of the group and \<open>gr_cancelled\<close> whether its
  context is done; \<open>gr_waited\<close> is what \<^verbatim>\<open>g.Wait()\<close> has returned, if it has;
  \<open>gr_signal\<close> is what the goroutine of the signals has taken.
\<close>

datatype os_signal = SIGINT | SIGTERM | SIGHUP | SIGABRT

record group =
  gr_phase :: "nat \<Rightarrow> go_error option option"
  gr_launched :: nat
  gr_shut :: "nat \<Rightarrow> go_error option option"
  gr_err :: "go_error option"
  gr_cancelled :: bool
  gr_waited :: "go_error option option"
  gr_signal :: "os_signal option"
  gr_runtime :: implRuntime

definition group_start :: "implRuntime \<Rightarrow> group" where
  "group_start rt = \<lparr>gr_phase = (\<lambda>_. None), gr_launched = 0, gr_shut = (\<lambda>_. None), gr_err = None,
     gr_cancelled = False, gr_waited = None, gr_signal = None, gr_runtime = rt\<rparr>"

text \<open>A function of the group returned: \<^verbatim>\<open>errgroup\<close> keeps the first error and cancels.\<close>

definition group_done :: "go_error option \<Rightarrow> group \<Rightarrow> group" where
  "group_done e g =
     (case e of
        None \<Rightarrow> g
      | Some err \<Rightarrow> if gr_err g = None then g\<lparr>gr_err := Some err, gr_cancelled := True\<rparr> else g)"

text \<open>
  \<^verbatim>\<open>g.Wait()\<close> can return when every function that was started has returned; it
  returns the first error, and it cancels the context of the group as well.
\<close>

definition group_wait :: "nat \<Rightarrow> group \<Rightarrow> go_error option option" where
  "group_wait n g =
     (if (\<forall>i < n. gr_phase g i \<noteq> None) \<and> (\<forall>i < gr_launched g. gr_shut g i \<noteq> None) then Some (gr_err g) else None)"

text \<open>
  \<open>app_shutdown\<close> is a bean of the application that shuts the runtime down; \<open>propagate\<close> is
  the context library passing the end of the runtime on to the context of the group;
  \<open>aborted\<close> is the goroutine of the signals finding the runtime done.
\<close>

inductive group_step :: "nat \<Rightarrow> group \<Rightarrow> group \<Rightarrow> bool" for n where
  serve_returns: "i < n \<Longrightarrow> gr_phase g i = None \<Longrightarrow>
     group_step n g (group_done e (g\<lparr>gr_phase := (gr_phase g)(i := Some e)\<rparr>))"
| launch: "gr_cancelled g \<Longrightarrow> gr_launched g < n \<Longrightarrow> group_step n g (g\<lparr>gr_launched := Suc (gr_launched g)\<rparr>)"
| shutdown_returns: "i < gr_launched g \<Longrightarrow> gr_shut g i = None \<Longrightarrow>
     group_step n g (group_done e (g\<lparr>gr_shut := (gr_shut g)(i := Some e)\<rparr>))"
| signal: "gr_signal g = None \<Longrightarrow> sig \<noteq> SIGABRT \<Longrightarrow> rt_Shutdown (sig = SIGHUP) (gr_runtime g) = Ret () rt' \<Longrightarrow>
     group_step n g (g\<lparr>gr_signal := Some sig, gr_runtime := rt'\<rparr>)"
| aborted: "gr_signal g = None \<Longrightarrow> rt_Done (gr_runtime g) \<Longrightarrow> rt_Shutdown False (gr_runtime g) = Ret () rt' \<Longrightarrow>
     group_step n g (g\<lparr>gr_signal := Some SIGABRT, gr_runtime := rt'\<rparr>)"
| app_shutdown: "\<not> rt_Done (gr_runtime g) \<Longrightarrow> rt_Shutdown b (gr_runtime g) = Ret () rt' \<Longrightarrow>
     group_step n g (g\<lparr>gr_runtime := rt'\<rparr>)"
| propagate: "rt_Done (gr_runtime g) \<Longrightarrow> \<not> gr_cancelled g \<Longrightarrow> group_step n g (g\<lparr>gr_cancelled := True\<rparr>)"
| wait_returns: "gr_waited g = None \<Longrightarrow> group_wait n g = Some e \<Longrightarrow>
     group_step n g (g\<lparr>gr_waited := Some e, gr_cancelled := True\<rparr>)"

inductive_cases group_stepE: "group_step n g g'"

inductive group_reachable :: "nat \<Rightarrow> implRuntime \<Rightarrow> group \<Rightarrow> bool" for n rt where
  g_start: "group_reachable n rt (group_start rt)"
| g_more: "group_reachable n rt g \<Longrightarrow> group_step n g g' \<Longrightarrow> group_reachable n rt g'"

subsection \<open>The invariant\<close>

text \<open>An error that a \<^verbatim>\<open>Serve\<close> or a \<^verbatim>\<open>Shutdown\<close> of the group has returned.\<close>

definition group_failed :: "group \<Rightarrow> go_error \<Rightarrow> bool" where
  "group_failed g e \<longleftrightarrow> (\<exists>i. gr_phase g i = Some (Some e) \<or> gr_shut g i = Some (Some e))"

definition group_inv :: "nat \<Rightarrow> group \<Rightarrow> bool" where
  "group_inv n g \<longleftrightarrow> gr_launched g \<le> n \<and>
     (\<forall>i. gr_shut g i \<noteq> None \<longrightarrow> i < gr_launched g) \<and> (\<forall>i. gr_phase g i \<noteq> None \<longrightarrow> i < n) \<and>
     (0 < gr_launched g \<longrightarrow> gr_cancelled g) \<and> (gr_err g \<noteq> None \<longrightarrow> gr_cancelled g) \<and>
     (gr_cancelled g \<longrightarrow> gr_err g \<noteq> None \<or> rt_Done (gr_runtime g) \<or> gr_waited g \<noteq> None) \<and>
     (gr_waited g \<noteq> None \<longrightarrow> gr_cancelled g) \<and>
     (rt_Restarting (gr_runtime g) \<longrightarrow> rt_Done (gr_runtime g)) \<and>
     (\<forall>e. group_failed g e \<longrightarrow> gr_err g \<noteq> None) \<and> (\<forall>e. gr_err g = Some e \<longrightarrow> group_failed g e) \<and>
     rt_once (gr_runtime g) = rt_Done (gr_runtime g) \<and> (gr_signal g \<noteq> None \<longrightarrow> rt_Done (gr_runtime g))"

lemma group_done_fields [simp]:
  "gr_phase (group_done e g) = gr_phase g" "gr_shut (group_done e g) = gr_shut g"
  "gr_launched (group_done e g) = gr_launched g" "gr_waited (group_done e g) = gr_waited g" "gr_signal (group_done e g) = gr_signal g"
  "gr_runtime (group_done e g) = gr_runtime g"
  "gr_err (group_done e g) = (case gr_err g of Some x \<Rightarrow> Some x | None \<Rightarrow> e)"
  "gr_cancelled (group_done e g) = (gr_cancelled g \<or> gr_err g = None \<and> e \<noteq> None)"
  by (auto simp: group_done_def split: option.split)

lemma Shutdown_Done:
  assumes "rt_Shutdown b t = Ret () t'" and "rt_once t = rt_Done t"
  shows "rt_Done t'" and "rt_once t'"
  using assms by (auto simp: rt_Shutdown_def rt_Done_def rt_close_def split: if_splits)

lemma group_failed_simps [simp]:
  "gr_phase g i = None \<Longrightarrow> group_failed (g\<lparr>gr_phase := (gr_phase g)(i := Some x)\<rparr>) e \<longleftrightarrow> group_failed g e \<or> x = Some e"
  "gr_shut g i = None \<Longrightarrow> group_failed (g\<lparr>gr_shut := (gr_shut g)(i := Some x)\<rparr>) e \<longleftrightarrow> group_failed g e \<or> x = Some e"
  "group_failed (group_done x g) e \<longleftrightarrow> group_failed g e"
  "group_failed (g\<lparr>gr_launched := k\<rparr>) e \<longleftrightarrow> group_failed g e"
  "group_failed (g\<lparr>gr_cancelled := c\<rparr>) e \<longleftrightarrow> group_failed g e"
  "group_failed (g\<lparr>gr_waited := w\<rparr>) e \<longleftrightarrow> group_failed g e"
  "group_failed (g\<lparr>gr_runtime := rt\<rparr>) e \<longleftrightarrow> group_failed g e"
  "group_failed (g\<lparr>gr_signal := sg\<rparr>) e \<longleftrightarrow> group_failed g e"
  by (auto simp: group_failed_def) (metis option.distinct(1))+

lemma group_inv_returns:
  assumes "group_inv n g"
  shows "i < n \<Longrightarrow> gr_phase g i = None \<Longrightarrow> group_inv n (group_done e (g\<lparr>gr_phase := (gr_phase g)(i := Some e)\<rparr>))"
    and "i < gr_launched g \<Longrightarrow> gr_shut g i = None \<Longrightarrow>
      group_inv n (group_done e (g\<lparr>gr_shut := (gr_shut g)(i := Some e)\<rparr>))"
  using assms by (cases "gr_err g"; fastforce simp: group_inv_def)+

lemma group_inv_step: "group_step n g g' \<Longrightarrow> group_inv n g \<Longrightarrow> group_inv n g'"
proof (induction rule: group_step.induct)
  case (signal g sig rt')
  then show ?case using Shutdown_Done [OF signal(3)] by (auto simp: group_inv_def)
next
  case (aborted g rt')
  then show ?case using Shutdown_Done [OF aborted(3)] by (auto simp: group_inv_def)
next
  case (app_shutdown g b rt')
  then show ?case using Shutdown_Done [OF app_shutdown(2)] by (auto simp: group_inv_def)
qed (simp_all add: group_inv_returns, auto simp: group_inv_def)

lemma group_inv_reachable:
  assumes "group_reachable n (NewRuntime home) g"
  shows "group_inv n g"
  using assms
  by induction (auto simp: group_inv_step,
      simp add: group_inv_def group_start_def NewRuntime_def rt_Done_def rt_Restarting_def group_failed_def)

text \<open>What \<^verbatim>\<open>Wait\<close> has returned, the later shutdowns do not change.\<close>

definition wait_inv :: "nat \<Rightarrow> group \<Rightarrow> bool" where
  "wait_inv n g \<longleftrightarrow> (\<forall>r. gr_waited g = Some r \<longrightarrow> (\<forall>i < n. gr_phase g i \<noteq> None) \<and>
     (r = None \<longrightarrow> (\<forall>i < n. gr_phase g i = Some None)) \<and> (\<forall>e. r = Some e \<longrightarrow> gr_err g = Some e))"

lemma wait_inv_waits:
  assumes "group_inv n g" and "group_wait n g = Some e"
  shows "wait_inv n (g\<lparr>gr_waited := Some e, gr_cancelled := True\<rparr>)"
proof -
  have w: "\<forall>i < n. gr_phase g i \<noteq> None" "e = gr_err g"
    using assms(2) by (auto simp: group_wait_def split: if_splits)
  have "gr_phase g i = Some None" if "gr_err g = None" "i < n" for i
  proof -
    from w(1) that(2) obtain x where x: "gr_phase g i = Some x" by blast
    have "\<not> group_failed g e'" for e' using assms(1) that(1) by (auto simp: group_inv_def)
    with x show ?thesis by (cases x) (auto simp: group_failed_def)
  qed
  with w show ?thesis by (auto simp: wait_inv_def)
qed

lemma wait_inv_step: "group_step n g g' \<Longrightarrow> group_inv n g \<Longrightarrow> wait_inv n g \<Longrightarrow> wait_inv n g'"
proof (induction rule: group_step.induct)
  case (wait_returns g e)
  then show ?case using wait_inv_waits by blast
next
  case (serve_returns i g e)
  then have "gr_waited g = None" by (cases "gr_waited g") (force simp: wait_inv_def)+
  then show ?case by (simp add: wait_inv_def)
next
  case (shutdown_returns i g e)
  then show ?case by (simp add: wait_inv_def)
qed (simp_all add: wait_inv_def)

lemma wait_inv_reachable:
  assumes "group_reachable n (NewRuntime home) g"
  shows "wait_inv n g"
  using assms
  by induction (auto intro: wait_inv_step group_inv_reachable, simp add: wait_inv_def group_start_def)

subsection \<open>Runs end\<close>

text \<open>What is left to happen: every part of it happens at most once.\<close>

definition pending :: "nat \<Rightarrow> (nat \<Rightarrow> 'a option) \<Rightarrow> nat" where
  "pending n f = card {i. i < n \<and> f i = None}"

definition group_left :: "nat \<Rightarrow> group \<Rightarrow> nat" where
  "group_left n g = pending n (gr_phase g) + (n - gr_launched g) + pending n (gr_shut g) +
     (if gr_signal g = None then 1 else 0) + (if rt_Done (gr_runtime g) then 0 else 1) +
     (if gr_cancelled g then 0 else 1) + (if gr_waited g = None then 1 else 0)"

lemma pending_update:
  assumes "i < n" and "f i = None"
  shows "pending n (f(i := Some x)) < pending n f"
  unfolding pending_def using assms by (intro psubset_card_mono) auto

lemma group_left_step:
  assumes "group_step n g g'" and "group_inv n g"
  shows "group_left n g' < group_left n g"
  using assms(1)
proof cases
  case (serve_returns i e)
  then show ?thesis using pending_update [of i n "gr_phase g" e] by (simp add: group_left_def)
next
  case (shutdown_returns i e)
  then have "i < n" using assms(2) by (simp add: group_inv_def)
  with shutdown_returns show ?thesis using pending_update [of i n "gr_shut g" e] by (simp add: group_left_def)
next
  case (signal sig rt')
  then show ?thesis using Shutdown_Done [OF signal(4)] assms(2) by (simp add: group_left_def group_inv_def)
next
  case (aborted rt')
  then show ?thesis using Shutdown_Done [OF aborted(4)] assms(2) by (simp add: group_left_def group_inv_def)
next
  case (app_shutdown b rt')
  then show ?thesis using Shutdown_Done [OF app_shutdown(3)] assms(2) by (simp add: group_left_def group_inv_def)
qed (simp_all add: group_left_def)

lemma group_run_bound:
  assumes "(group_step n ^^ k) (group_start (NewRuntime home)) g"
  shows "group_reachable n (NewRuntime home) g \<and> k + group_left n g \<le> group_left n (group_start (NewRuntime home))"
  using assms
proof (induction k arbitrary: g)
  case 0
  then show ?case by (auto intro: group_reachable.g_start)
next
  case (Suc k)
  then obtain h where h: "(group_step n ^^ k) (group_start (NewRuntime home)) h" "group_step n h g" by auto
  with Suc.IH [OF h(1)] have "group_reachable n (NewRuntime home) g" "group_left n g < group_left n h"
    by (auto intro: group_reachable.g_more group_left_step dest: group_inv_reachable)
  with Suc.IH [OF h(1)] show ?case by simp
qed

lemma group_left_start: "group_left n (group_start (NewRuntime home)) = 3 * n + 4"
  by (simp add: group_left_def group_start_def pending_def NewRuntime_def rt_Done_def)

subsection \<open>Properties\<close>

lemma group_clean:
  assumes "group_reachable n (NewRuntime home) g"
    and "\<forall>i < n. gr_phase g i \<noteq> None" and "\<forall>i < gr_launched g. gr_shut g i \<noteq> None"
  shows "gr_err g = None \<longleftrightarrow> (\<forall>i < n. gr_phase g i = Some None) \<and> (\<forall>i < gr_launched g. gr_shut g i = Some None)"
proof -
  note inv = group_inv_reachable [OF assms(1)]
  have "gr_err g = None \<longleftrightarrow> (\<forall>e. \<not> group_failed g e)" using inv unfolding group_inv_def by (metis option.exhaust)
  also have "\<dots> \<longleftrightarrow> (\<forall>i < n. gr_phase g i = Some None) \<and> (\<forall>i < gr_launched g. gr_shut g i = Some None)"
    using assms(2,3) inv unfolding group_inv_def group_failed_def by (metis option.exhaust option.inject option.distinct(1))
  finally show ?thesis .
qed

text \<open>
  C8. The group of servers: no server is shut down before the group is cancelled. The group is
  cancelled by every failure of a server or of a shutdown, by the end of the runtime (as soon
  as that is passed on) and by the return of \<^verbatim>\<open>Wait\<close>, and by nothing else; in
  particular a server that returns without an error does not shut the others down. When all
  functions of the group have returned, the result of \<^verbatim>\<open>Wait\<close> is clean exactly when
  every server, and every shutdown that was started by then, ended cleanly, and an error is one
  that a server or a shutdown returned.
\<close>

theorem group_shutdown_causes:
  assumes "group_reachable n (NewRuntime home) g"
  shows "(0 < gr_launched g \<longrightarrow> gr_cancelled g) \<and>
     (gr_cancelled g \<longrightarrow> gr_err g \<noteq> None \<or> rt_Done (gr_runtime g) \<or> gr_waited g \<noteq> None) \<and>
     (\<forall>i e. gr_phase g i = Some (Some e) \<or> gr_shut g i = Some (Some e) \<longrightarrow> gr_err g \<noteq> None \<and> gr_cancelled g) \<and>
     (\<forall>e. gr_err g = Some e \<longrightarrow> (\<exists>i < n. gr_phase g i = Some (Some e) \<or> gr_shut g i = Some (Some e))) \<and>
     (rt_Done (gr_runtime g) \<longrightarrow> gr_cancelled g \<or> group_step n g (g\<lparr>gr_cancelled := True\<rparr>)) \<and>
     (gr_waited g \<noteq> None \<longrightarrow> gr_cancelled g) \<and>
     (\<forall>r. group_wait n g = Some r \<longrightarrow>
        (r = None \<longleftrightarrow> (\<forall>i < n. gr_phase g i = Some None) \<and> (\<forall>i < gr_launched g. gr_shut g i = Some None)) \<and>
        (\<forall>e. r = Some e \<longrightarrow> (\<exists>i < n. gr_phase g i = Some (Some e) \<or> gr_shut g i = Some (Some e)))) \<and>
     (\<forall>r. gr_waited g = Some r \<longrightarrow>
        (r = None \<longrightarrow> (\<forall>i < n. gr_phase g i = Some None)) \<and>
        (\<forall>e. r = Some e \<longrightarrow> (\<exists>i < n. gr_phase g i = Some (Some e) \<or> gr_shut g i = Some (Some e))))"
proof -
  from assms have inv: "group_inv n g" by (rule group_inv_reachable)
  have err: "\<exists>i < n. gr_phase g i = Some (Some e) \<or> gr_shut g i = Some (Some e)" if "gr_err g = Some e" for e
    using that inv unfolding group_inv_def group_failed_def by (metis option.distinct(1) order_less_le_trans)
  have fields: "0 < gr_launched g \<longrightarrow> gr_cancelled g"
    "gr_cancelled g \<longrightarrow> gr_err g \<noteq> None \<or> rt_Done (gr_runtime g) \<or> gr_waited g \<noteq> None"
    "gr_waited g \<noteq> None \<longrightarrow> gr_cancelled g"
    using inv by (simp_all add: group_inv_def)
  have fails: "\<forall>i e. gr_phase g i = Some (Some e) \<or> gr_shut g i = Some (Some e) \<longrightarrow> gr_err g \<noteq> None \<and> gr_cancelled g"
  proof (intro allI impI)
    fix i e assume "gr_phase g i = Some (Some e) \<or> gr_shut g i = Some (Some e)"
    then have "group_failed g e" unfolding group_failed_def by blast
    with inv have "gr_err g \<noteq> None" unfolding group_inv_def by blast
    with inv show "gr_err g \<noteq> None \<and> gr_cancelled g" by (simp add: group_inv_def)
  qed
  have passed: "rt_Done (gr_runtime g) \<longrightarrow> gr_cancelled g \<or> group_step n g (g\<lparr>gr_cancelled := True\<rparr>)"
    using group_step.propagate by blast
  have wait: "(r = None \<longleftrightarrow> (\<forall>i < n. gr_phase g i = Some None) \<and> (\<forall>i < gr_launched g. gr_shut g i = Some None)) \<and>
        (\<forall>e. r = Some e \<longrightarrow> (\<exists>i < n. gr_phase g i = Some (Some e) \<or> gr_shut g i = Some (Some e)))"
    if "group_wait n g = Some r" for r
  proof -
    from that have r: "r = gr_err g" "\<forall>i < n. gr_phase g i \<noteq> None" "\<forall>i < gr_launched g. gr_shut g i \<noteq> None"
      by (simp_all add: group_wait_def split: if_splits)
    show ?thesis unfolding r(1) using group_clean [OF assms r(2,3)] err by blast
  qed
  have waited: "(r = None \<longrightarrow> (\<forall>i < n. gr_phase g i = Some None)) \<and>
        (\<forall>e. r = Some e \<longrightarrow> (\<exists>i < n. gr_phase g i = Some (Some e) \<or> gr_shut g i = Some (Some e)))"
    if "gr_waited g = Some r" for r
    using wait_inv_reachable [OF assms] that err by (simp add: wait_inv_def)
  from fields fails passed err wait waited show ?thesis by blast
qed

theorem group_shutdown_causes_witness:
  "\<exists>g. group_wait 1 g = Some (Some EADDRINUSE) \<and> gr_cancelled g \<and>
     (gr_err g \<noteq> None \<or> rt_Done (gr_runtime g) \<or> gr_waited g \<noteq> None)"
proof -
  let ?init = "group_start (NewRuntime ''.'')"
  let ?g = "group_done (Some EADDRINUSE) (?init\<lparr>gr_phase := (gr_phase ?init)(0 := Some (Some EADDRINUSE))\<rparr>)"
  have s: "group_step 1 ?init ?g" by (rule group_step.serve_returns) (simp_all add: group_start_def)
  have r: "group_reachable 1 (NewRuntime ''.'') ?g" by (rule group_reachable.g_more [OF group_reachable.g_start s])
  have w: "group_wait 1 ?g = Some (Some EADDRINUSE)" "gr_cancelled ?g" by (simp_all add: group_wait_def group_start_def)
  have "gr_err ?g \<noteq> None \<or> rt_Done (gr_runtime ?g) \<or> gr_waited ?g \<noteq> None"
    by (rule mp [OF conjunct1 [OF conjunct2 [OF group_shutdown_causes [OF r]]] w(2)])
  with w show ?thesis by (intro exI [of _ ?g] conjI)
qed

lemma group_wait_blocked:
  assumes "group_inv n g" and "\<forall>i < n. gr_shut g i \<noteq> None" and "group_wait n g = None"
  shows "\<exists>i < n. gr_phase g i = None"
proof (rule ccontr)
  have le: "gr_launched g \<le> n" using assms(1) by (simp add: group_inv_def)
  assume "\<not> (\<exists>i < n. gr_phase g i = None)"
  then have "group_wait n g \<noteq> None" using assms(2) le by (simp add: group_wait_def)
  with assms(3) show False by contradiction
qed

text \<open>When nothing but a serving loop can move any more.\<close>

lemma group_stuck:
  assumes "group_inv n g" and "gr_cancelled g" and "\<nexists>g'. group_step n g g' \<and> gr_phase g' = gr_phase g"
  shows "\<forall>i < n. gr_shut g i \<noteq> None" and "gr_waited g = None \<Longrightarrow> group_wait n g = None"
proof -
  have "\<not> gr_launched g < n" using group_step.launch [OF assms(2), of n] assms(3) by auto
  moreover have "gr_shut g i \<noteq> None" if "i < gr_launched g" for i
  proof
    let ?g' = "group_done None (g\<lparr>gr_shut := (gr_shut g)(i := Some None)\<rparr>)"
    assume "gr_shut g i = None"
    with that have "group_step n g ?g'" by (rule group_step.shutdown_returns)
    moreover have "gr_phase ?g' = gr_phase g" by simp
    ultimately show False using assms(3) by blast
  qed
  ultimately show "\<forall>i < n. gr_shut g i \<noteq> None" by auto
  show "group_wait n g = None" if w: "gr_waited g = None"
  proof (cases "group_wait n g")
    case (Some e)
    from group_step.wait_returns [OF w this] assms(3) show ?thesis by auto
  qed simp
qed

text \<open>
  C27. The group always comes to its end: no run of it has more than three steps for every
  server and four more (the return of \<^verbatim>\<open>Wait\<close> is one), and once the group is
  cancelled, \<^verbatim>\<open>Wait\<close> is never blocked by anything but the serving loops of servers that
  have been shut down: as soon as nothing else can happen, the shutdown of every server has
  returned, and \<^verbatim>\<open>Wait\<close> has returned unless a serving loop still runs.
\<close>

theorem group_runs_end:
  assumes "(group_step n ^^ k) (group_start (NewRuntime home)) g"
  shows "k \<le> 3 * n + 4 \<and>
     (gr_cancelled g \<and> (\<nexists>g'. group_step n g g' \<and> gr_phase g' = gr_phase g) \<longrightarrow>
        (\<forall>i < n. gr_shut g i \<noteq> None) \<and> (group_wait n g = None \<longrightarrow> (\<exists>i < n. gr_phase g i = None)) \<and>
        (gr_waited g = None \<longrightarrow> (\<exists>i < n. gr_phase g i = None)))"
proof -
  note run = group_run_bound [OF assms]
  then have inv: "group_inv n g" using group_inv_reachable by blast
  have bound: "k \<le> 3 * n + 4" using run group_left_start [of n home] by simp
  have "(\<forall>i < n. gr_shut g i \<noteq> None) \<and> (group_wait n g = None \<longrightarrow> (\<exists>i < n. gr_phase g i = None)) \<and>
        (gr_waited g = None \<longrightarrow> (\<exists>i < n. gr_phase g i = None))"
    if c: "gr_cancelled g" and stuck: "\<nexists>g'. group_step n g g' \<and> gr_phase g' = gr_phase g"
  proof (intro conjI impI)
    note st = group_stuck [OF inv c stuck]
    then show shut: "\<forall>i < n. gr_shut g i \<noteq> None" by blast
    show "\<exists>i < n. gr_phase g i = None" if w: "group_wait n g = None"
      using group_wait_blocked [OF inv shut w] .
    show "\<exists>i < n. gr_phase g i = None" if w: "gr_waited g = None"
      using group_wait_blocked [OF inv shut st(2) [OF w]] .
  qed
  with bound show ?thesis by blast
qed

theorem group_runs_end_witness:
  "(group_step 1 ^^ 1) (group_start (NewRuntime ''.''))
     (group_done None ((group_start (NewRuntime ''.''))\<lparr>gr_phase := (\<lambda>_. None)(0 := Some None)\<rparr>)) \<and> 1 \<le> 3 * 1 + (4 :: nat)"
proof -
  let ?init = "group_start (NewRuntime ''.'')"
  have "group_step 1 ?init (group_done None (?init\<lparr>gr_phase := (gr_phase ?init)(0 := Some None)\<rparr>))"
    by (rule group_step.serve_returns) (simp_all add: group_start_def)
  moreover have "gr_phase ?init = (\<lambda>_. None)" by (simp add: group_start_def)
  ultimately have s: "(group_step 1 ^^ 1) ?init (group_done None (?init\<lparr>gr_phase := (\<lambda>_. None)(0 := Some None)\<rparr>))"
    by (simp only: relpowp_1)
  from group_runs_end [OF this] s show ?thesis by blast
qed

text \<open>
  The group is not all or nothing: there is a run of two servers in which one has returned
  without an error and the other one still serves; the group is not cancelled by that, and no
  step of it shuts the other server down.
\<close>

theorem group_survives_clean_return:
  "\<exists>g. group_reachable 2 (NewRuntime home) g \<and> gr_phase g 0 = Some None \<and> gr_phase g 1 = None \<and>
     \<not> gr_cancelled g \<and> \<not> (\<exists>g'. group_step 2 g g' \<and> 0 < gr_launched g') \<and> group_wait 2 g = None"
proof -
  let ?init = "group_start (NewRuntime home)"
  let ?g = "group_done None (?init\<lparr>gr_phase := (gr_phase ?init)(0 := Some None)\<rparr>)"
  have "group_step 2 ?init ?g" by (rule group_step.serve_returns) (simp_all add: group_start_def)
  then have "group_reachable 2 (NewRuntime home) ?g" by (rule group_reachable.g_more [OF group_reachable.g_start])
  moreover have "gr_launched g' = 0" if "group_step 2 ?g g'" for g'
    using that by (rule group_stepE) (simp_all add: group_start_def)
  ultimately show ?thesis
    by (intro exI [of _ ?g]) (auto simp: group_start_def group_wait_def)
qed

text \<open>After the first shutdown of the runtime no step of the group changes it any more.\<close>

lemma group_runtime_settled:
  assumes "(group_step n)\<^sup>*\<^sup>* g g2" and "rt_once (gr_runtime g)" and "rt_Done (gr_runtime g)"
  shows "gr_runtime g2 = gr_runtime g"
  using assms
proof (induction rule: rtranclp_induct)
  case (step g1 g2)
  from step(2) show ?case by (rule group_stepE) (use step in \<open>auto simp: rt_Shutdown_def\<close>)
qed simp

text \<open>A restart that was asked for stays asked for.\<close>

lemma group_restart_stays:
  assumes "group_inv n g" and "rt_Restarting (gr_runtime g)"
    and "(group_step n)\<^sup>*\<^sup>* (g\<lparr>gr_waited := w, gr_cancelled := c\<rparr>) g2"
  shows "rt_Restarting (gr_runtime g2)"
proof -
  have "rt_Done (gr_runtime g)" "rt_once (gr_runtime g)" using assms(1,2) by (auto simp: group_inv_def)
  with group_runtime_settled [OF assms(3)] assms(2) show ?thesis by simp
qed

end
