(* ===== verification/Run_Command.thy ===== *)
theory Run_Command
  imports Server_Run Server_Group
begin

text \<open>
  \<^verbatim>\<open>run_command.go\<close>: the command that builds the scope of a run, runs the servers of it
  and reports how that ended; and what its result says when the servers are run as a group.
\<close>

subsection \<open>The command\<close>

record 'u implRunCommand =
  rcm_HomeDir :: string
  rcm_Bind :: string
  rcm_beans :: "'u list"

text \<open>With the defaults of the command line.\<close>

definition RunCommand :: "'u list \<Rightarrow> 'u implRunCommand" where
  "RunCommand scan = \<lparr>rcm_HomeDir = ''.'', rcm_Bind = [], rcm_beans = scan\<rparr>"

definition rcm_Command :: string where
  "rcm_Command = ''run''"

definition rcm_Help :: "string \<times> string" where
  "rcm_Help =
     (''Runs the server.'',
      ''This command runs the server in foreground and prints the results to standard output.'' @ [CHR 0x0A] @
      ''This command accepts one argument that is profile, that helps to define how the server is running.'')"

datatype ('u, 'l) run_bean = ScanBean 'u | RuntimeBean implRuntime | LoggerBean 'l

text \<open>
  What a run uses of the container: its logger beans, the container that extending it by
  beans gives, and the result of closing that; \<open>rc_NewDevelopment\<close> is the result of
  \<^verbatim>\<open>zap.NewDevelopment()\<close>.
\<close>

record ('u, 'l, 'c) run_env =
  rc_zapBeans :: "'l list"
  rc_NewDevelopment :: "go_error + 'l"
  rc_Extend :: "('u, 'l) run_bean list \<Rightarrow> go_error + 'c"
  rc_Close :: "'c \<Rightarrow> go_error option"

definition rc_logger :: "('u, 'l, 'c) run_env \<Rightarrow> go_error + 'l \<times> ('u, 'l) run_bean list" where
  "rc_logger env =
     (case rc_zapBeans env of
        [] \<Rightarrow> (case rc_NewDevelopment env of
                Inl e \<Rightarrow> Inl (ErrWrap ''failed to initialize zap logger'' e)
              | Inr logger \<Rightarrow> Inr (logger, [LoggerBean logger]))
      | logger # _ \<Rightarrow> Inr (logger, []))"

text \<open>\<open>run\<close> is \<^verbatim>\<open>runServers\<close> with the runtime as it leaves it; the log is that of the command.\<close>

definition rc_Run ::
  "('u, 'l, 'c) run_env \<Rightarrow> (implRuntime \<Rightarrow> 'c \<Rightarrow> 'l \<Rightarrow> go_error option \<times> implRuntime) \<Rightarrow> 'u implRunCommand
     \<Rightarrow> go_error option \<times> log_entry list" where
  "rc_Run env run t =
     (let runtime = NewRuntime (rcm_HomeDir t);
          beans = map ScanBean (rcm_beans t) @ [RuntimeBean runtime]
      in case rc_logger env of
        Inl e \<Rightarrow> (Some e, [])
      | Inr (logger, extra) \<Rightarrow>
          (case rc_Extend env (beans @ extra) of
             Inl e \<Rightarrow> (Some (ErrWrap (''failed to initialize '' @ quoted rcm_Command @ '' command scope context'') e), [])
           | Inr child \<Rightarrow>
               let (err, runtime') = run runtime child logger;
                   l1 = (case err of
                           Some e \<Rightarrow> [(LError, ''RunServersDone'', [FBool ''restarting'' (rt_Restarting runtime'), FStr ''error'' (Error e)])]
                         | None \<Rightarrow> [(LInfo, ''RunServersDone'', [FBool ''restarting'' (rt_Restarting runtime')])]);
                   l2 = (case rc_Close env child of
                           Some e \<Rightarrow> [(LError, ''ChildContextClose'', [FStr ''error'' (Error e)])] | None \<Rightarrow> [])
               in (if rt_Restarting runtime' then Some ErrRepeatRun else err, l1 @ l2)))"

lemma rc_Run_result:
  assumes "rc_logger env = Inr (logger, extra)"
    and "rc_Extend env (map ScanBean (rcm_beans t) @ [RuntimeBean (NewRuntime (rcm_HomeDir t))] @ extra) = Inr child"
    and "run (NewRuntime (rcm_HomeDir t)) child logger = (err, rt')"
  shows "fst (rc_Run env run t) = (if rt_Restarting rt' then Some ErrRepeatRun else err)"
  using assms by (simp add: rc_Run_def Let_def)

lemma rc_Run_None:
  assumes "fst (rc_Run env run t) = None"
  shows "\<exists>logger extra child rt'. rc_logger env = Inr (logger, extra) \<and>
     rc_Extend env (map ScanBean (rcm_beans t) @ [RuntimeBean (NewRuntime (rcm_HomeDir t))] @ extra) = Inr child \<and>
     run (NewRuntime (rcm_HomeDir t)) child logger = (None, rt') \<and> \<not> rt_Restarting rt'"
  using assms by (auto simp: rc_Run_def Let_def split: sum.splits prod.splits if_splits)

subsection \<open>Running the servers of a container\<close>

text \<open>
  How the run of a container can end: with the servers that bound, the group is run from the
  runtime of the command until \<^verbatim>\<open>Wait\<close> returns, in the state \<open>g\<close>; the group may make
  further steps until the command reads its runtime, in the state \<open>g2\<close>. When nothing gets
  as far as serving, the group is empty.
\<close>

definition scope_containers ::
  "'s container \<Rightarrow> (string \<times> (go_error + 's container)) list \<Rightarrow> go_error + 's container list" where
  "scope_containers core children =
     (if children = [] then Inr [core]
      else (case init_children children [] of (Some e, cs) \<Rightarrow> Inl e | (None, cs) \<Rightarrow> Inr cs))"

definition bound_servers ::
  "'s container \<Rightarrow> (string \<times> (go_error + 's container)) list \<Rightarrow> ('s \<Rightarrow> go_error option \<times> 's) \<Rightarrow> 's list" where
  "bound_servers core children bind =
     (case scope_containers core children of
        Inl e \<Rightarrow> []
      | Inr cs \<Rightarrow>
          (case collect_servers cs [] of
             Inl e \<Rightarrow> []
           | Inr servers \<Rightarrow> (case fst (bindServers bind servers) of Inl e \<Rightarrow> [] | Inr bound \<Rightarrow> bound)))"

definition run_ends ::
  "'s container \<Rightarrow> (string \<times> (go_error + 's container)) list \<Rightarrow> ('s \<Rightarrow> go_error option \<times> 's) \<Rightarrow> implRuntime
     \<Rightarrow> go_error option \<times> implRuntime \<Rightarrow> bool" where
  "run_ends core children bind rt res \<longleftrightarrow>
     (let n = length (bound_servers core children bind) in
      \<exists>g err g2. group_reachable n rt g \<and> gr_waited g = None \<and> group_wait n g = Some err \<and>
        (group_step n)\<^sup>*\<^sup>* (g\<lparr>gr_waited := Some err, gr_cancelled := True\<rparr>) g2 \<and>
        res = (fst (runServers core children bind (\<lambda>_. ServeReturns err)), gr_runtime g2))"

lemma close_children_None:
  assumes "fst (close_children is_core cs res) = None"
  shows "res = ServeReturns None" and "\<not> is_core \<Longrightarrow> c \<in> set cs \<Longrightarrow> ct_close c = None"
proof -
  let ?errs = "concat (map (\<lambda>c. case ct_close c of Some e \<Rightarrow> [e] | None \<Rightarrow> []) (if is_core then [] else cs))"
  show "res = ServeReturns None"
    using assms by (cases res) (auto simp: close_children_def Let_def split: if_splits)
  have "?errs = []" using assms by (auto simp: close_children_def Let_def split: if_splits)
  then show "\<not> is_core \<Longrightarrow> c \<in> set cs \<Longrightarrow> ct_close c = None"
    by (auto split: option.splits if_splits)
qed

lemma run_callback_None:
  assumes "fst (run_callback bind (\<lambda>_. ServeReturns err) servers) = ServeReturns None"
  shows "\<exists>bound b. bindServers bind servers = (Inr bound, b) \<and> bound \<noteq> [] \<and> err = None"
proof -
  obtain bound b where b: "bindServers bind servers = (Inr bound, b)" "err = None"
    using assms by (auto simp: run_callback_def PanicToError_def split: if_splits prod.splits sum.splits)
  then have "bound \<noteq> []" by (auto simp: bindServers_def Let_def split: if_splits)
  with b show ?thesis by blast
qed

lemma runServers_None:
  assumes "fst (runServers core children bind (\<lambda>_. ServeReturns err)) = None"
  shows "\<exists>cs servers bound b. scope_containers core children = Inr cs \<and> collect_servers cs [] = Inr servers \<and>
     bindServers bind servers = (Inr bound, b) \<and> bound \<noteq> [] \<and> err = None \<and>
     (children \<noteq> [] \<longrightarrow> (\<forall>c \<in> set cs. ct_close c = None))"
proof (cases "children = []")
  case True
  let ?res = "case collect_servers [core] [] of Inl x \<Rightarrow> ServeReturns (Some x)
    | Inr servers \<Rightarrow> fst (run_callback bind (\<lambda>_. ServeReturns err) servers)"
  have "fst (close_children True [core] ?res) = None"
    using assms True by (simp add: runServers_def doWithServers_def)
  from close_children_None(1) [OF this] obtain servers where
    s: "collect_servers [core] [] = Inr servers" "fst (run_callback bind (\<lambda>_. ServeReturns err) servers) = ServeReturns None"
    by (auto split: sum.splits)
  from run_callback_None [OF this(2)] s(1) True show ?thesis by (auto simp: scope_containers_def)
next
  case False
  obtain e cs where i: "init_children children [] = (e, cs)" by fastforce
  let ?res = "case e of Some x \<Rightarrow> ServeReturns (Some x)
    | None \<Rightarrow> (case collect_servers cs [] of Inl x \<Rightarrow> ServeReturns (Some x)
        | Inr servers \<Rightarrow> fst (run_callback bind (\<lambda>_. ServeReturns err) servers))"
  have "fst (close_children False cs ?res) = None"
    using assms False i by (auto simp: runServers_def doWithServers_def split: option.splits)
  note cl = close_children_None [OF this]
  from cl(1) obtain servers where s: "e = None" "collect_servers cs [] = Inr servers"
      "fst (run_callback bind (\<lambda>_. ServeReturns err) servers) = ServeReturns None"
    by (auto split: option.splits sum.splits)
  from run_callback_None [OF this(3)] s(1,2) i False cl(2) show ?thesis by (auto simp: scope_containers_def)
qed

subsection \<open>Properties\<close>

text \<open>
  C19. The command never ends quietly without having served. If it reports success, then its
  scope was built, the containers of the servers were initialized and closed without an
  error, at least one server was bound, and the group ran to its end with every serving loop
  and every shutdown that \<^verbatim>\<open>Wait\<close> has waited for returning cleanly, without a restart being
  asked for before the command returns.
\<close>

theorem run_success_means_served:
  assumes "fst (rc_Run env run t) = None"
    and "\<And>rt core logger. run_ends core (children core) bind rt (run rt core logger)"
  shows "\<exists>logger extra core cs servers bound b g g2. rc_logger env = Inr (logger, extra) \<and>
     rc_Extend env (map ScanBean (rcm_beans t) @ [RuntimeBean (NewRuntime (rcm_HomeDir t))] @ extra) = Inr core \<and>
     scope_containers core (children core) = Inr cs \<and> collect_servers cs [] = Inr servers \<and>
     bindServers bind servers = (Inr bound, b) \<and> bound \<noteq> [] \<and>
     (children core \<noteq> [] \<longrightarrow> (\<forall>c \<in> set cs. ct_close c = None)) \<and>
     group_reachable (length bound) (NewRuntime (rcm_HomeDir t)) g \<and> \<not> rt_Restarting (gr_runtime g) \<and>
     group_wait (length bound) g = Some None \<and>
     (group_step (length bound))\<^sup>*\<^sup>* (g\<lparr>gr_waited := Some None, gr_cancelled := True\<rparr>) g2 \<and>
     \<not> rt_Restarting (gr_runtime g2) \<and>
     (\<forall>i < length bound. gr_phase g i = Some None) \<and> (\<forall>i < gr_launched g. gr_shut g i = Some None)"
proof -
  from rc_Run_None [OF assms(1)] obtain logger extra core rt' where env: "rc_logger env = Inr (logger, extra)"
      "rc_Extend env (map ScanBean (rcm_beans t) @ [RuntimeBean (NewRuntime (rcm_HomeDir t))] @ extra) = Inr core"
    and run: "run (NewRuntime (rcm_HomeDir t)) core logger = (None, rt')" "\<not> rt_Restarting rt'" by blast
  let ?n = "length (bound_servers core (children core) bind)"
  from assms(2) [of core "NewRuntime (rcm_HomeDir t)" logger] run(1) obtain g err g2
    where g: "group_reachable ?n (NewRuntime (rcm_HomeDir t)) g" "group_wait ?n g = Some err"
      "(group_step ?n)\<^sup>*\<^sup>* (g\<lparr>gr_waited := Some err, gr_cancelled := True\<rparr>) g2" "rt' = gr_runtime g2"
      "fst (runServers core (children core) bind (\<lambda>_. ServeReturns err)) = None"
    unfolding run_ends_def Let_def by auto
  from runServers_None [OF g(5)] obtain cs servers bound b
    where s: "scope_containers core (children core) = Inr cs" "collect_servers cs [] = Inr servers"
      "bindServers bind servers = (Inr bound, b)" "bound \<noteq> []" "err = None"
      "children core \<noteq> [] \<longrightarrow> (\<forall>c \<in> set cs. ct_close c = None)" by blast
  then have bs: "bound_servers core (children core) bind = bound" by (simp add: bound_servers_def)
  have w: "gr_err g = None" "\<forall>i < length bound. gr_phase g i \<noteq> None" "\<forall>i < gr_launched g. gr_shut g i \<noteq> None"
    using g(2) s(5) by (auto simp: bs group_wait_def split: if_splits)
  with group_clean [OF g(1)] bs have "\<forall>i < length bound. gr_phase g i = Some None" "\<forall>i < gr_launched g. gr_shut g i = Some None"
    by auto
  moreover have "group_reachable (length bound) (NewRuntime (rcm_HomeDir t)) g"
    "group_wait (length bound) g = Some None"
    "(group_step (length bound))\<^sup>*\<^sup>* (g\<lparr>gr_waited := Some None, gr_cancelled := True\<rparr>) g2"
    "\<not> rt_Restarting (gr_runtime g2)"
    using g run(2) bs s(5) by simp_all
  moreover have "\<not> rt_Restarting (gr_runtime g)"
    using group_restart_stays [OF group_inv_reachable [OF g(1)] _ g(3)] g(4) run(2) by auto
  ultimately show ?thesis
    using env s by (intro exI [of _ logger] exI [of _ extra] exI [of _ core] exI [of _ cs] exI [of _ servers]
        exI [of _ bound] exI [of _ b] exI [of _ g] exI [of _ g2] conjI)
qed

definition plain_env :: "(nat, unit, nat container) run_env" where
  "plain_env = \<lparr>rc_zapBeans = [()], rc_NewDevelopment = Inr (),
     rc_Extend = (\<lambda>_. Inr \<lparr>ct_name = ''core'', ct_Servers = [Some 7], ct_HttpServers = [], ct_close = None\<rparr>),
     rc_Close = (\<lambda>_. None)\<rparr>"

text \<open>A run in which every server that binds stops without an error at once.\<close>

definition plain_run :: "implRuntime \<Rightarrow> nat container \<Rightarrow> unit \<Rightarrow> go_error option \<times> implRuntime" where
  "plain_run rt core logger = (fst (runServers core [] (\<lambda>s. (None, s)) (\<lambda>_. ServeReturns None)), rt)"

lemma group_all_return:
  "k \<le> n \<Longrightarrow> group_reachable n rt ((group_start rt)\<lparr>gr_phase := (\<lambda>i. if i < k then Some None else None)\<rparr>)"
proof (induction k)
  case 0
  then show ?case using group_reachable.g_start [of n rt] by (simp add: group_start_def)
next
  case (Suc k)
  let ?g = "(group_start rt)\<lparr>gr_phase := (\<lambda>i. if i < k then Some None else None)\<rparr>"
  have "group_step n ?g (group_done None (?g\<lparr>gr_phase := (gr_phase ?g)(k := Some None)\<rparr>))"
    using Suc.prems by (intro group_step.serve_returns) (auto simp: group_start_def)
  moreover have "(gr_phase ?g)(k := Some None) = (\<lambda>i. if i < Suc k then Some None else None)"
    by (auto simp: fun_eq_iff)
  ultimately show ?case
    using group_reachable.g_more [OF Suc.IH] Suc.prems by (simp add: group_done_def)
qed

lemma plain_run_ends: "run_ends core [] (\<lambda>s. (None, s)) rt (plain_run rt core logger)"
proof -
  let ?n = "length (bound_servers core [] (\<lambda>s. (None, s)))"
  let ?g = "(group_start rt)\<lparr>gr_phase := (\<lambda>i. if i < ?n then Some None else None)\<rparr>"
  have "group_reachable ?n rt ?g" by (rule group_all_return) simp
  moreover have "group_wait ?n ?g = Some None" by (simp add: group_wait_def group_start_def)
  moreover have "gr_waited ?g = None" by (simp add: group_start_def)
  ultimately show ?thesis
    unfolding run_ends_def plain_run_def Let_def
    by (intro exI [of _ ?g] exI [of _ None] exI [of _ "(?g)\<lparr>gr_waited := Some None, gr_cancelled := True\<rparr>"])
      (simp add: group_start_def)
qed

theorem run_success_means_served_witness:
  "fst (rc_Run plain_env plain_run (RunCommand [])) = None \<and>
   (\<exists>servers bound b. bindServers (\<lambda>s :: nat. (None, s)) servers = (Inr bound, b) \<and> bound \<noteq> [])"
proof -
  have ok: "fst (rc_Run plain_env plain_run (RunCommand [])) = None"
    by (simp add: rc_Run_def plain_env_def rc_logger_def RunCommand_def plain_run_def runServers_def doWithServers_def
        run_callback_def bindServers_def close_children_def PanicToError_def NewRuntime_def rt_Restarting_def)
  from run_success_means_served [OF ok, of "\<lambda>_. []" "\<lambda>s. (None, s)"] plain_run_ends ok show ?thesis by blast
qed

text \<open>
  C36. The first signal decides how the command ends: if the runtime is still up when a signal
  arrives, then whatever the servers and the shutdowns do afterwards, and whatever else shuts
  the runtime down, the command asks to be run again when the signal was a hangup, and
  otherwise returns the result of the servers.
\<close>

theorem first_signal_decides:
  assumes "group_reachable n (NewRuntime (rcm_HomeDir t)) g" and "\<not> rt_Done (gr_runtime g)" and "gr_signal g = None"
    and "sig \<noteq> SIGABRT" and "rt_Shutdown (sig = SIGHUP) (gr_runtime g) = Ret () rt1"
    and "(group_step n)\<^sup>*\<^sup>* (g\<lparr>gr_signal := Some sig, gr_runtime := rt1\<rparr>) g2"
    and "rc_logger env = Inr (logger, extra)"
    and "rc_Extend env (map ScanBean (rcm_beans t) @ [RuntimeBean (NewRuntime (rcm_HomeDir t))] @ extra) = Inr child"
    and "run (NewRuntime (rcm_HomeDir t)) child logger = (err, gr_runtime g2)"
  shows "group_step n g (g\<lparr>gr_signal := Some sig, gr_runtime := rt1\<rparr>) \<and> rt_Done (gr_runtime g2) \<and>
     fst (rc_Run env run t) = (if sig = SIGHUP then Some ErrRepeatRun else err)"
proof -
  have o: "rt_once (gr_runtime g) = rt_Done (gr_runtime g)"
    using group_inv_reachable [OF assms(1)] by (simp add: group_inv_def)
  from Shutdown_Done [OF assms(5) o] have d: "rt_Done rt1" "rt_once rt1" by blast+
  then have rt: "gr_runtime g2 = rt1" using group_runtime_settled [OF assms(6)] by simp
  have "rt_Restarting rt1 = (sig = SIGHUP)"
    using assms(2,5) o by (auto simp: rt_Shutdown_def rt_close_def rt_Restarting_def split: if_splits)
  with rc_Run_result [where run = run and t = t, OF assms(7-9)] show ?thesis
    using group_step.signal [OF assms(3-5)] d by (simp add: rt)
qed

theorem first_signal_decides_witness:
  "fst (rc_Run plain_env (\<lambda>rt core l. (None, state_of (rt_Shutdown True rt))) (RunCommand [])) = Some ErrRepeatRun"
proof -
  let ?run = "\<lambda>rt (core :: nat container) (l :: unit). (None :: go_error option, state_of (rt_Shutdown True rt))"
  let ?t = "RunCommand [] :: nat implRunCommand" and ?rt = "state_of (rt_Shutdown True (NewRuntime ''.''))"
  let ?g = "group_start (NewRuntime ''.'')"
  have g: "group_reachable 1 (NewRuntime (rcm_HomeDir ?t)) ?g" by (simp add: RunCommand_def group_reachable.g_start)
  have s: "rt_Shutdown (SIGHUP = SIGHUP) (gr_runtime ?g) = Ret () ?rt" and d: "\<not> rt_Done (gr_runtime ?g)" "gr_signal ?g = None"
    by (simp_all add: rt_Shutdown_def rt_close_def NewRuntime_def group_start_def rt_Done_def)
  let ?g1 = "(?g)\<lparr>gr_signal := Some SIGHUP, gr_runtime := ?rt\<rparr>"
  have e: "rc_logger plain_env = Inr ((), [])" by (simp add: rc_logger_def plain_env_def)
  obtain child where c: "rc_Extend plain_env (map ScanBean (rcm_beans ?t) @ [RuntimeBean (NewRuntime (rcm_HomeDir ?t))] @ []) = Inr child"
    by (simp add: plain_env_def)
  have r: "?run (NewRuntime (rcm_HomeDir ?t)) child () = (None, gr_runtime ?g1)" by (simp add: RunCommand_def)
  have h: "SIGHUP \<noteq> SIGABRT" by simp
  from first_signal_decides [where run = ?run, OF g d h s rtranclp.rtrancl_refl e c r] show ?thesis by simp
qed

text \<open>
  The option \<^verbatim>\<open>--bind\<close> of the command line is never read.
\<close>

theorem bind_option_ignored: "rc_Run env run (t\<lparr>rcm_Bind := addr\<rparr>) = rc_Run env run t"
  by (simp add: rc_Run_def)

end
