(* ===== verification/Example_Http.thy ===== *)
theory Example_Http
  imports Server_Factory Jwt_Provider Health_Handler Scanners Run_Command
begin

text \<open>
  The HTTP applications below \<^verbatim>\<open>examples/\<close>: the beans that their \<^verbatim>\<open>main\<close> functions hand to
  the command line, the handlers they bring, and what the framework makes of them. They are
  clients of the framework: their properties rest on the lemmas of its components alone.
\<close>

subsection \<open>Applications\<close>

text \<open>
  What an application gives to \<^verbatim>\<open>cligo.Main\<close>: property sources, resources, the run command
  with its scanners and child scopes, and the factory of the logger.
\<close>

datatype 'u run_item = HttpScan "'u scanner" | ChildScope string "'u run_item list" | RunBean 'u

datatype 'u top_bean =
    MapPropertySource "(string \<times> string) list"
  | FilePropertySource string
  | ResourceBean string "string list"
  | CommandBean "'u run_item implRunCommand"
  | LoggerFactory implZapLogFactory

text \<open>A property of a map, with the default if it is not there.\<close>

definition map_property :: "(string \<times> string) list \<Rightarrow> string \<Rightarrow> string \<Rightarrow> string" where
  "map_property m k d = (case map_of m k of Some v \<Rightarrow> v | None \<Rightarrow> d)"

definition basic_main :: "'u top_bean list" where
  "basic_main =
     [MapPropertySource [(''http-server.bind-address'', ''0.0.0.0:8000'')],
      CommandBean (RunCommand [HttpScan (HttpServerScanner ''http-server'' [])]),
      LoggerFactory (ZapLogFactory True)]"

definition two_servers_main :: "'u top_bean list" where
  "two_servers_main =
     [MapPropertySource [(''web-server.bind-address'', ''0.0.0.0:8000''), (''cdr-server.bind-address'', ''0.0.0.0:8001'')],
      CommandBean (RunCommand [HttpScan (HttpServerScanner ''web-server'' []), HttpScan (HttpServerScanner ''cdr-server'' [])]),
      LoggerFactory (ZapLogFactory True)]"

definition child_main :: "'u top_bean list" where
  "child_main =
     [MapPropertySource [(''http-server.bind-address'', ''0.0.0.0:8000'')],
      CommandBean (RunCommand [ChildScope ''server'' [HttpScan (HttpServerScanner ''http-server'' [])]])]"

definition props_main :: "'u top_bean list" where
  "props_main =
     [FilePropertySource ''file:./application.properties'',
      CommandBean (RunCommand [ChildScope ''server'' [HttpScan (HttpServerScanner ''http-server'' [])]])]"

text \<open>\<open>AssetNames\<close> is the list of the generated file \<^verbatim>\<open>bindata.go\<close>.\<close>

definition embprops_main :: "string list \<Rightarrow> 'u top_bean list" where
  "embprops_main AssetNames =
     [FilePropertySource ''resources:application.properties'', ResourceBean ''resources'' AssetNames,
      CommandBean (RunCommand [ChildScope ''server'' [HttpScan (HttpServerScanner ''http-server'' [])]])]"

definition vue_main :: "string list \<Rightarrow> 'u top_bean list" where
  "vue_main AssetNames =
     [MapPropertySource [(''http-server.bind-address'', ''0.0.0.0:8000''), (''http-server.options'', ''assets'')],
      ResourceBean ''assets'' AssetNames,
      CommandBean (RunCommand [ChildScope ''server'' [HttpScan (HttpServerScanner ''http-server'' [])]])]"

subsection \<open>The HTTP servers of an application\<close>

fun item_scanners :: "'u run_item \<Rightarrow> 'u scanner list" where
  "item_scanners (HttpScan s) = [s]"
| "item_scanners (ChildScope n is) = concat (map item_scanners is)"
| "item_scanners (RunBean b) = []"

fun app_scanners :: "'u top_bean list \<Rightarrow> 'u scanner list" where
  "app_scanners [] = []"
| "app_scanners (CommandBean c # bs) = concat (map item_scanners (rcm_beans c)) @ app_scanners bs"
| "app_scanners (_ # bs) = app_scanners bs"

fun app_properties :: "'u top_bean list \<Rightarrow> (string \<times> string) list" where
  "app_properties [] = []"
| "app_properties (MapPropertySource m # bs) = m @ app_properties bs"
| "app_properties (_ # bs) = app_properties bs"

text \<open>
  The factory of a scanner as the container documents injection: a slice of an interface gets
  every bean of the scope that implements it, in the order of the beans; \<open>dur\<close> parses
  durations, \<open>handler_of\<close> and \<open>middleware_of\<close> are the beans that implement the two interfaces.
\<close>

definition app_bean_list :: "'u bean list \<Rightarrow> 'u list" where
  "app_bean_list bs = List.map_filter (\<lambda>b. case b of AppBean u \<Rightarrow> Some u | _ \<Rightarrow> None) bs"

definition injected_factory ::
  "(string \<Rightarrow> int \<Rightarrow> int) \<Rightarrow> ('u \<Rightarrow> HttpHandler option) \<Rightarrow> ('u \<Rightarrow> HttpMiddleware option) \<Rightarrow> ResourceSource list
     \<Rightarrow> 'u top_bean list \<Rightarrow> 'u scanner \<Rightarrow> implHttpServerFactory" where
  "injected_factory dur handler_of middleware_of resources app sc =
     (let beans = app_bean_list (http_ScannerBeans sc) in
      \<lparr>hf_Properties = \<lparr>prop_String = map_property (app_properties app), prop_Duration = dur\<rparr>,
       hf_Handlers = List.map_filter handler_of beans,
       hf_Middlewares = map Some (List.map_filter middleware_of beans),
       hf_Resources = resources, hf_TlsConfig = None, hf_beanName = sc_beanName sc\<rparr>)"

subsection \<open>The authentication example\<close>

datatype auth_bean = StatusHandler | MeHandler | AuthMiddlewareBean int | JwtAuthProviderBean | HealthHandlerBean

record me_response =
  me_subject :: string
  me_issuer :: string
  me_roles :: "string list"
  me_scopes :: "string list"
  me_attributes :: "string \<rightharpoonup> string"

text \<open>The JSON texts of the three responses are those of the encoder of the standard library.\<close>

record encoders =
  enc_status :: "(string \<times> string) list \<Rightarrow> string"
  enc_me :: "me_response \<Rightarrow> string"
  enc_health :: "healthResponse \<Rightarrow> string"

definition StatusHandler_ServeHTTP :: "codec \<Rightarrow> encoders \<Rightarrow> handler" where
  "StatusHandler_ServeHTTP G E r =
     on_writer (run_ops G [OpSet ''Content-Type'' ''application/json'', OpWrite (enc_status E [(''status'', ''ok'')])])"

definition me_of :: "AuthInfo \<Rightarrow> me_response" where
  "me_of auth = \<lparr>me_subject = Subject auth, me_issuer = Issuer auth, me_roles = Roles auth, me_scopes = Scopes auth,
     me_attributes = Attributes auth\<rparr>"

definition MeHandler_ServeHTTP :: "codec \<Rightarrow> encoders \<Rightarrow> handler" where
  "MeHandler_ServeHTTP G E r =
     (case AuthFromContext (r_Ctx r) of
        None \<Rightarrow> http_Error G ''auth context missing'' 401
      | Some auth \<Rightarrow>
          on_writer (run_ops G [OpSet ''Content-Type'' ''application/json'', OpWrite (enc_me E (me_of auth))]))"

definition auth_secret :: string where
  "auth_secret = ''change-me-to-a-real-secret-in-production''"

definition auth_main :: "auth_bean top_bean list" where
  "auth_main =
     [MapPropertySource
        [(''http-server.bind-address'', ''0.0.0.0:8000''), (''http-server.options'', ''handlers''),
         (''auth.prefixes'', ''/api''), (''jwt.secret'', auth_secret)],
      CommandBean (RunCommand [HttpScan (HttpServerScanner ''http-server''
        [AppBean StatusHandler, AppBean MeHandler, AppBean (AuthMiddlewareBean 10), AppBean JwtAuthProviderBean,
         AppBean HealthHandlerBean])]),
      LoggerFactory (ZapLogFactory True)]"

fun auth_handler_of :: "codec \<Rightarrow> encoders \<Rightarrow> implRuntime \<Rightarrow> auth_bean \<Rightarrow> HttpHandler option" where
  "auth_handler_of G E rt StatusHandler = Some \<lparr>hb_Pattern = ''/status'', hb_ServeHTTP = StatusHandler_ServeHTTP G E\<rparr>"
| "auth_handler_of G E rt MeHandler = Some \<lparr>hb_Pattern = ''/api/me'', hb_ServeHTTP = MeHandler_ServeHTTP G E\<rparr>"
| "auth_handler_of G E rt HealthHandlerBean =
     Some \<lparr>hb_Pattern = hh_Pattern HealthHandler, hb_ServeHTTP = hh_ServeHTTP G (enc_health E) rt HealthHandler\<rparr>"
| "auth_handler_of G E rt _ = None"

text \<open>\<open>authn\<close> is the authenticator that is injected: the JWT provider of the same beans.\<close>

fun auth_middleware_of :: "codec \<Rightarrow> authenticator \<Rightarrow> auth_bean \<Rightarrow> HttpMiddleware option" where
  "auth_middleware_of G authn (AuthMiddlewareBean n) =
     (let t = (AuthMiddleware n authn)\<lparr>am_Prefixes := [map_property (app_properties auth_main) ''auth.prefixes'' ''/api'']\<rparr>
      in Some \<lparr>mb_BeanOrder = am_beanOrder t, mb_Match = am_Match t, mb_Middleware = auth_Middleware G t\<rparr>)"
| "auth_middleware_of G authn _ = None"

definition auth_factory ::
  "codec \<Rightarrow> encoders \<Rightarrow> implRuntime \<Rightarrow> (string \<Rightarrow> int \<Rightarrow> int) \<Rightarrow> authenticator \<Rightarrow> implHttpServerFactory" where
  "auth_factory G E rt dur authn =
     injected_factory dur (auth_handler_of G E rt) (auth_middleware_of G authn) [] auth_main (hd (app_scanners auth_main))"

definition auth_provider :: implJwtAuthProvider where
  "auth_provider = JwtAuthProvider\<lparr>jp_Secret := map_property (app_properties auth_main) ''jwt.secret'' []\<rparr>"

subsection \<open>What the framework makes of it\<close>

definition auth_guard :: "codec \<Rightarrow> authenticator \<Rightarrow> handler \<Rightarrow> handler" where
  "auth_guard G authn = auth_Middleware G ((AuthMiddleware 10 authn)\<lparr>am_Prefixes := [''/api'']\<rparr>)"

lemma auth_provider_starts:
  "jp_PostConstruct b64 pkix auth_provider = Inr (JwtAuthProvider\<lparr>jp_Secret := auth_secret, jp_keyFunc := Some (hmac_keyFunc auth_secret)\<rparr>)"
  by (simp add: jp_PostConstruct_def auth_provider_def auth_main_def map_property_def JwtAuthProvider_def auth_secret_def)

lemma auth_beans: "app_bean_list (http_ScannerBeans (hd (app_scanners auth_main))) =
     [StatusHandler, MeHandler, AuthMiddlewareBean 10, JwtAuthProviderBean, HealthHandlerBean]"
  by (simp add: auth_main_def RunCommand_def http_ScannerBeans_def HttpServerScanner_def app_bean_list_def map_filter_simps)

lemma auth_properties:
  "map_property (app_properties auth_main) ''http-server.bind-address'' [] = ''0.0.0.0:8000''"
  "map_property (app_properties auth_main) ''http-server.options'' [] = ''handlers''"
  "map_property (app_properties auth_main) ''auth.prefixes'' ''/api'' = ''/api''"
  by (simp_all add: auth_main_def map_property_def)

lemma auth_factory_fields:
  "hf_Handlers (auth_factory G E rt dur authn) =
     [\<lparr>hb_Pattern = ''/status'', hb_ServeHTTP = StatusHandler_ServeHTTP G E\<rparr>,
      \<lparr>hb_Pattern = ''/api/me'', hb_ServeHTTP = MeHandler_ServeHTTP G E\<rparr>,
      \<lparr>hb_Pattern = ''/healthz'', hb_ServeHTTP = hh_ServeHTTP G (enc_health E) rt HealthHandler\<rparr>]"
  "hf_Middlewares (auth_factory G E rt dur authn) =
     [Some \<lparr>mb_BeanOrder = 10, mb_Match = any_prefix [''/api''], mb_Middleware = auth_guard G authn\<rparr>]"
  "prop_String (hf_Properties (auth_factory G E rt dur authn)) = map_property (app_properties auth_main)"
  "hf_beanName (auth_factory G E rt dur authn) = ''http-server''"
  by (simp_all add: auth_factory_def injected_factory_def auth_beans map_filter_simps auth_properties HealthHandler_def hh_Pattern_def
      AuthMiddleware_def am_Match_def auth_guard_def fun_eq_iff Let_def)
    (simp add: auth_main_def RunCommand_def HttpServerScanner_def)

lemma auth_routes:
  assumes "hf_PostConstruct (auth_factory G E rt dur authn) t" and "hf_Object G range_keys t = Inr (srv, lg)"
  shows "mx_routes (sv_Handler srv) =
     [(''/status'', StatusHandler_ServeHTTP G E), (''/api/me'', auth_guard G authn (MeHandler_ServeHTTP G E)),
      (''/healthz'', hh_ServeHTTP G (enc_health E) rt HealthHandler)]"
proof -
  have o: "ParseOptions ''handlers'' = {''handlers''}" by code_simp
  have "t = auth_factory G E rt dur authn"
    using assms(1) by (simp add: hf_PostConstruct_def hf_sorted_def auth_factory_fields)
  with assms(2) show ?thesis
    by (auto simp: hf_Object_def hf_key_def auth_factory_fields auth_properties o Let_def hf_handler_phase_def hf_asset_phase_def
        wrap_middlewares_def split: prod.splits if_splits)
qed

text \<open>A response that was sent in full: its status and its body.\<close>

definition answered :: "(unit, hstate) outcome \<Rightarrow> int \<Rightarrow> string \<Rightarrow> bool" where
  "answered o' st body \<longleftrightarrow> (\<exists>q wd. o' = Ret () (BaseW q, wd) \<and> rs_wrote q \<and> rs_status q = st \<and> rs_body q = body)"

lemma json_answered:
  "answered (on_writer (run_ops G [OpSet ''Content-Type'' ''application/json'', OpWrite body]) (BaseW new_resp, wd)) 200 body"
  by (cases "body = []")
    (auto simp: answered_def on_writer_def new_resp_def base_Write_def base_WriteHeader_def base_accept_def bodyAllowed_def
      hdr_Get_def hdr_Set_def hdr_simps Let_def)

lemma answered_status: "answered o' st body \<Longrightarrow> status_sent o' = Some st"
  by (auto simp: answered_def status_sent_def)

lemma auth_served:
  assumes "hf_PostConstruct (auth_factory G E rt dur authn) t" and "hf_Object G range_keys t = Inr (srv, lg)"
    and "mux_law G mux"
  shows "normal_path (r_Path r) \<Longrightarrow> mux (sv_Handler srv) r s =
      (case map_of [(''/status'', StatusHandler_ServeHTTP G E), (''/api/me'', auth_guard G authn (MeHandler_ServeHTTP G E)),
        (''/healthz'', hh_ServeHTTP G (enc_health E) rt HealthHandler)] (r_Path r) of
         Some h \<Rightarrow> h r s
       | None \<Rightarrow> http_NotFound G s)"
    and "\<not> normal_path (r_Path r) \<Longrightarrow> status_sent (mux (sv_Handler srv) r (BaseW new_resp, wd)) = Some 301"
proof -
  note routes = auth_routes [OF assms(1,2)]
  have "literal_pattern ''/status''" "literal_pattern ''/api/me''" "literal_pattern ''/healthz''" by code_simp+
  then have lit: "literal_pattern p" if "p \<in> fst ` set (mx_routes (sv_Handler srv))" for p
    using that by (auto simp: routes)
  have w: "\<not> rs_wrote new_resp" by (simp add: new_resp_def)
  have t: "t = auth_factory G E rt dur authn"
    using assms(1) by (simp add: hf_PostConstruct_def hf_sorted_def auth_factory_fields)
  have o: "ParseOptions ''handlers'' = {''handlers''}" by code_simp
  have nf: "mx_NotFound (sv_Handler srv) = None"
    using hf_Object_routes(2) [OF assms(2)] by (simp add: t hf_options_def hf_key_def auth_factory_fields auth_properties o hf_spa_def)
  show "normal_path (r_Path r) \<Longrightarrow> mux (sv_Handler srv) r s =
      (case map_of [(''/status'', StatusHandler_ServeHTTP G E), (''/api/me'', auth_guard G authn (MeHandler_ServeHTTP G E)),
        (''/healthz'', hh_ServeHTTP G (enc_health E) rt HealthHandler)] (r_Path r) of
         Some h \<Rightarrow> h r s
       | None \<Rightarrow> http_NotFound G s)"
    using mux_normal [where mx = "sv_Handler srv" and s = s and r = r, OF assms(3) lit]
    by (simp only: dispatch_def routes nf option.case)
  show "\<not> normal_path (r_Path r) \<Longrightarrow> status_sent (mux (sv_Handler srv) r (BaseW new_resp, wd)) = Some 301"
    using mux_redirects [OF assms(3) lit _ w] by blast
qed

lemma auth_normal: "normal_path ''/status''" "normal_path ''/api/me''" "normal_path ''/healthz''"
  by code_simp+

lemma auth_me_route:
  assumes "hf_PostConstruct (auth_factory G E rt dur authn) t" and "hf_Object G range_keys t = Inr (srv, lg)"
    and "mux_law G mux" and "r_Path r = ''/api/me''"
  shows "mux (sv_Handler srv) r s = auth_guard G authn (MeHandler_ServeHTTP G E) r s"
  using auth_served(1) [OF assms(1-3), of r s] auth_normal(2) assms(4) by simp

lemma auth_me_answered:
  assumes "hf_PostConstruct (auth_factory G E rt dur authn) t" and "hf_Object G range_keys t = Inr (srv, lg)"
    and "mux_law G mux"
    and "r_Method r \<noteq> ''OPTIONS''" and "r_Path r = ''/api/me''" and "presented r tok" and "authn tok = Inr i"
  shows "answered (mux (sv_Handler srv) r (BaseW new_resp, wd)) 200 (enc_me E (me_of i))"
proof -
  have "auth_guard G authn (MeHandler_ServeHTTP G E) r s =
      on_writer (run_ops G [OpSet ''Content-Type'' ''application/json'', OpWrite (enc_me E (me_of i))]) s" for s
    using assms(4,6,7) by (simp add: auth_guard_def auth_presented AuthMiddleware_def MeHandler_ServeHTTP_def WithContext_def)
  with json_answered show ?thesis by (simp add: auth_me_route [where mux = mux and r = r, OF assms(1-3,5)])
qed

text \<open>Everything that is not an admitted request is refused: without a token, and as an OPTIONS request.\<close>

lemma auth_me_refused:
  assumes "authn = jp_Authenticate parse prov" and "AuthFromContext (r_Ctx r) = None"
    and "r_Method r = ''OPTIONS'' \<or> (\<forall>tok i. presented r tok \<longrightarrow> authn tok \<noteq> Inr i)"
  shows "status_sent (auth_guard G authn (MeHandler_ServeHTTP G E) r (BaseW new_resp, wd)) = Some 401"
proof -
  have w: "\<not> rs_wrote new_resp" by (simp add: new_resp_def)
  show ?thesis
  proof (cases "r_Method r = ''OPTIONS''")
    case True
    then have "auth_guard G authn (MeHandler_ServeHTTP G E) r (BaseW new_resp, wd) =
        http_Error G ''auth context missing'' 401 (BaseW new_resp, wd)"
      by (simp add: auth_guard_def auth_Middleware_def MeHandler_ServeHTTP_def assms(2))
    with http_Error_status(1) [OF w, of 401 G "''auth context missing''" wd] show ?thesis by (simp add: bodyAllowed_def)
  next
    case False
    have a: "am_Authenticator ((AuthMiddleware 10 authn)\<lparr>am_Prefixes := [''/api'']\<rparr>) = authn" by (simp add: AuthMiddleware_def)
    from jwt_provider.guarded [OF a [unfolded assms(1)] False, of G "MeHandler_ServeHTTP G E" "(BaseW new_resp, wd)"] False assms(3)
    obtain msg where "auth_guard G authn (MeHandler_ServeHTTP G E) r (BaseW new_resp, wd) = refuse_bearer G msg (BaseW new_resp, wd)"
      unfolding auth_guard_def assms(1) by metis
    with refuse_bearer_status(1) [OF w] show ?thesis by simp
  qed
qed

subsection \<open>Properties\<close>

text \<open>
  C22. The example application protects what it says it protects. Built from its own beans and
  properties, behind a router with the documented behaviour, it answers as follows a request
  that comes without an identity in its context. \<^verbatim>\<open>/status\<close> is answered for everybody. On
  \<^verbatim>\<open>/api/me\<close> a request of any method but OPTIONS whose token the configured provider admits
  gets the identity of that token; every other request for it gets 401, an OPTIONS request too,
  with whatever token: the authentication lets it pass unauthenticated and the handler refuses
  it. Any other path than these and \<^verbatim>\<open>/healthz\<close> gets 404, or a redirect if it is not clean.
  (The body of a HEAD request is not sent, so nothing is said of it.)
\<close>

theorem auth_example_protects:
  assumes "jp_PostConstruct b64 pkix auth_provider = Inr prov"
    and "hf_PostConstruct (auth_factory G E rt dur (jp_Authenticate parse prov)) t"
    and "hf_Object G range_keys t = Inr (srv, lg)"
    and "mux_law G mux"
    and "AuthFromContext (r_Ctx r) = None"
    and "res = mux (sv_Handler srv) r (BaseW new_resp, wd)"
  shows "(r_Path r = ''/status'' \<longrightarrow> status_sent res = Some 200 \<and>
       (r_Method r \<noteq> ''HEAD'' \<longrightarrow> answered res 200 (enc_status E [(''status'', ''ok'')]))) \<and>
     (r_Path r = ''/api/me'' \<longrightarrow>
       (\<forall>tok i. r_Method r \<noteq> ''OPTIONS'' \<and> presented r tok \<and> jp_Authenticate parse prov tok = Inr i \<longrightarrow>
          status_sent res = Some 200 \<and> (r_Method r \<noteq> ''HEAD'' \<longrightarrow> answered res 200 (enc_me E (me_of i)))) \<and>
       (r_Method r = ''OPTIONS'' \<or> (\<forall>tok i. presented r tok \<longrightarrow> jp_Authenticate parse prov tok \<noteq> Inr i) \<longrightarrow>
          status_sent res = Some 401)) \<and>
     (r_Path r \<notin> {''/status'', ''/api/me'', ''/healthz''} \<longrightarrow>
       status_sent res = Some (if normal_path (r_Path r) then 404 else 301))"
proof (intro conjI impI)
  let ?authn = "jp_Authenticate parse prov"
  note served = auth_served [OF assms(2-4)]
  have w: "\<not> rs_wrote new_resp" by (simp add: new_resp_def)
  { assume "r_Path r = ''/status''"
    then have "res = StatusHandler_ServeHTTP G E r (BaseW new_resp, wd)" using served(1) [of r] auth_normal(1) assms(6) by simp
    then have "answered res 200 (enc_status E [(''status'', ''ok'')])"
      using json_answered by (simp add: StatusHandler_ServeHTTP_def)
    then show "status_sent res = Some 200" and "answered res 200 (enc_status E [(''status'', ''ok'')])"
      using answered_status by blast+ }
  { assume p: "r_Path r = ''/api/me''"
    have ok: "answered res 200 (enc_me E (me_of i))"
      if "r_Method r \<noteq> ''OPTIONS''" and "presented r tok" and "?authn tok = Inr i" for tok i
      unfolding assms(6) by (rule auth_me_answered [where mux = mux, OF assms(2-4) that(1) p that(2,3)])
    then show "\<forall>tok i. r_Method r \<noteq> ''OPTIONS'' \<and> presented r tok \<and> ?authn tok = Inr i \<longrightarrow>
          status_sent res = Some 200 \<and> (r_Method r \<noteq> ''HEAD'' \<longrightarrow> answered res 200 (enc_me E (me_of i)))"
      using answered_status by blast
    assume "r_Method r = ''OPTIONS'' \<or> (\<forall>tok i. presented r tok \<longrightarrow> ?authn tok \<noteq> Inr i)"
    from auth_me_refused [OF refl assms(5) this]
    show "status_sent res = Some 401"
      by (simp only: assms(6) auth_me_route [where mux = mux and r = r, OF assms(2-4) p]) }
  assume n: "r_Path r \<notin> {''/status'', ''/api/me'', ''/healthz''}"
  have "status_sent (http_NotFound G (BaseW new_resp, wd)) = Some 404"
    using http_Error_status(1) [OF w, of 404 G "''404 page not found''" wd]
    by (simp add: http_NotFound_def http_NotFound_ops_def http_Error_def bodyAllowed_def)
  with n served show "status_sent res = Some (if normal_path (r_Path r) then 404 else 301)"
    unfolding assms(6) by simp
qed

definition path_request :: "string \<Rightarrow> request" where
  "path_request p = \<lparr>r_Method = ''GET'', r_Path = p, r_RawPath = [], r_RawQuery = [], r_RemoteAddr = ''10.0.0.1:5'',
     r_Header = Map.empty, r_Body = [], r_BodyErr = False, r_Ctx = []\<rparr>"

definition sample_encoders :: encoders where
  "sample_encoders = \<lparr>enc_status = (\<lambda>m. concat (map snd m)), enc_me = me_subject, enc_health = hr_Status\<rparr>"

theorem auth_example_protects_witness:
  "\<exists>srv lg. hf_Object stored_codec (\<lambda>c. []) (auth_factory stored_codec sample_encoders (NewRuntime ''.'') (\<lambda>k d. d)
       (jp_Authenticate sample_parse (JwtAuthProvider\<lparr>jp_Secret := auth_secret, jp_keyFunc := Some (hmac_keyFunc auth_secret)\<rparr>))) = Inr (srv, lg) \<and>
     answered (literal_mux stored_codec (sv_Handler srv) (path_request ''/status'') (BaseW new_resp, initial_world)) 200 ''ok'' \<and>
     status_sent (literal_mux stored_codec (sv_Handler srv) (path_request ''/api/me'') (BaseW new_resp, initial_world)) = Some 401"
proof -
  let ?prov = "JwtAuthProvider\<lparr>jp_Secret := auth_secret, jp_keyFunc := Some (hmac_keyFunc auth_secret)\<rparr>"
  let ?t = "auth_factory stored_codec sample_encoders (NewRuntime ''.'') (\<lambda>k d. d) (jp_Authenticate sample_parse ?prov)"
  have p: "hf_PostConstruct ?t ?t" by (auto simp: hf_PostConstruct_def hf_sorted_def auth_factory_fields)
  obtain srv lg where o: "hf_Object stored_codec (\<lambda>c. []) ?t = Inr (srv, lg)"
    by (simp add: hf_Object_def hf_key_def auth_factory_fields auth_properties Let_def case_prod_unfold)
  have n: "\<not> presented (path_request ''/api/me'') tok" for tok by (simp add: presented_def path_request_def hdr_Get_def)
  have c: "AuthFromContext (r_Ctx (path_request q)) = None" for q by (simp add: path_request_def AuthFromContext_def ctx_Value_def)
  note th = auth_example_protects [OF auth_provider_starts [of Inr "\<lambda>d. Inr (EcdsaPub d)"] p o literal_mux_law c refl]
  have "answered (literal_mux stored_codec (sv_Handler srv) (path_request ''/status'') (BaseW new_resp, initial_world)) 200 ''ok''"
    using th [of "''/status''" initial_world, THEN conjunct1] by (simp add: path_request_def sample_encoders_def)
  moreover have "status_sent (literal_mux stored_codec (sv_Handler srv) (path_request ''/api/me'') (BaseW new_resp, initial_world)) = Some 401"
    using th [of "''/api/me''" initial_world, THEN conjunct2, THEN conjunct1] n by (simp add: path_request_def)
  ultimately show ?thesis using o by blast
qed

text \<open>The two servers of their example listen on different addresses, each the one of its name.\<close>

lemma two_servers_addresses:
  assumes "hf_Object G range_keys (injected_factory dur h m [] two_servers_main (app_scanners two_servers_main ! 0)) = Inr (web, l1)"
    and "hf_Object G range_keys (injected_factory dur h m [] two_servers_main (app_scanners two_servers_main ! 1)) = Inr (cdr, l2)"
  shows "sv_Addr web = ''0.0.0.0:8000'' \<and> sv_Addr cdr = ''0.0.0.0:8001''"
  using assms
  by (auto simp: hf_Object_def hf_key_def injected_factory_def two_servers_main_def RunCommand_def HttpServerScanner_def
      map_property_def Let_def case_prod_unfold split: if_splits)

subsection \<open>The websocket example\<close>

text \<open>
  The connection is what its two calls give, one after the other: \<open>reads\<close> are the results of
  \<^verbatim>\<open>ReadMessage\<close> and \<open>writes\<close> those of \<^verbatim>\<open>WriteMessage\<close>; when one of the lists is used
  up the call does not return. The result is \<open>None\<close> if the handler does not return;
  \<open>ws_written\<close> are the messages given to \<^verbatim>\<open>WriteMessage\<close>, \<open>ws_log\<close> what is logged or printed.
\<close>

record ws_run =
  ws_written :: "string list"
  ws_log :: "string list"
  ws_closed :: bool

definition ws_note :: "string \<Rightarrow> ws_run \<Rightarrow> ws_run" where
  "ws_note l s = s\<lparr>ws_log := ws_log s @ [l]\<rparr>"

fun ws_loop :: "(go_error + string) list \<Rightarrow> go_error option list \<Rightarrow> ws_run \<Rightarrow> ws_run option" where
  "ws_loop [] writes s = None"
| "ws_loop (Inl e # reads) writes s = Some (ws_note (''Read error: '' @ Error e) s)"
| "ws_loop (Inr msg # reads) [] s = None"
| "ws_loop (Inr msg # reads) (w # writes) s =
     (let s1 = (ws_note (''Received: '' @ msg) s)\<lparr>ws_written := ws_written s @ [msg]\<rparr> in
      case w of
        Some e \<Rightarrow> Some (ws_note (''Write error: '' @ Error e) s1)
      | None \<Rightarrow> ws_loop reads writes s1)"

definition ws_ServeHTTP :: "go_error option \<Rightarrow> (go_error + string) list \<Rightarrow> go_error option list \<Rightarrow> ws_run option" where
  "ws_ServeHTTP upgrade reads writes =
     (let s = \<lparr>ws_written = [], ws_log = [], ws_closed = False\<rparr> in
      case upgrade of
        Some e \<Rightarrow> Some (ws_note (''[WebSocket] Error upgrading connection: '' @ Error e) s)
      | None \<Rightarrow>
          map_option (\<lambda>s. (ws_note ''Client disconnected'' s)\<lparr>ws_closed := True\<rparr>)
            (ws_loop reads writes (ws_note ''Client connected'' s)))"

definition ws_Pattern :: string where
  "ws_Pattern = ''/v1/examples/websocket''"

datatype websocket_bean = WebsocketHander

definition websocket_main :: "websocket_bean top_bean list" where
  "websocket_main =
     [MapPropertySource [(''http-server.bind-address'', ''0.0.0.0:8000''), (''http-server.options'', ''handlers'')],
      CommandBean (RunCommand [HttpScan (HttpServerScanner ''http-server'' []), RunBean WebsocketHander]),
      LoggerFactory (ZapLogFactory True)]"

lemma ws_loop_echo:
  "ws_loop (map Inr msgs @ Inl e # rest) (replicate (length msgs) None @ others) s =
     Some (ws_note (''Read error: '' @ Error e)
       (s\<lparr>ws_written := ws_written s @ msgs, ws_log := ws_log s @ map (\<lambda>m. ''Received: '' @ m) msgs\<rparr>))"
  by (induction msgs arbitrary: s) (simp_all add: ws_note_def)

text \<open>
  The websocket handler is an echo: as long as the writes succeed, it sends back exactly the
  messages it received, in their order, until the client is gone, and then returns with the
  connection closed; and it never sends anything it has not received.
\<close>

theorem websocket_echoes:
  assumes "reads = map Inr msgs @ Inl e # rest" and "writes = replicate (length msgs) None @ others"
  shows "\<exists>s. ws_ServeHTTP None reads writes = Some s \<and> ws_written s = msgs \<and> ws_closed s"
  using assms by (simp add: ws_ServeHTTP_def ws_loop_echo) (simp add: ws_note_def)

theorem websocket_echoes_witness:
  "\<exists>s. ws_ServeHTTP None [Inr ''a'', Inr ''b'', Inl ErrRepeatRun] [None, None] = Some s \<and> ws_written s = [''a'', ''b''] \<and> ws_closed s"
  using websocket_echoes [of _ "[''a'', ''b'']" ErrRepeatRun "[]" _ "[]"] by simp

lemma ws_loop_prefix:
  "ws_loop reads writes s = Some s1 \<Longrightarrow>
     \<exists>ms. ws_written s1 = ws_written s @ ms \<and> prefix (map Inr ms) reads"
proof (induction reads writes s rule: ws_loop.induct)
  case (4 msg reads w writes s)
  then show ?case by (cases w) (fastforce simp: Let_def ws_note_def)+
qed (auto simp: ws_note_def)

end
