(* ===== verification/Vrpc.thy ===== *)
theory Vrpc
  imports Server_Lifecycle
begin

text \<open>
  The value-rpc module: \<^verbatim>\<open>vrpc/value_server.go\<close>, \<^verbatim>\<open>vrpc/obfs.go\<close>,
  \<^verbatim>\<open>vrpc/resilience.go\<close>, \<^verbatim>\<open>vrpc/value_client_factory.go\<close>. The libraries
  \<^verbatim>\<open>value-rpc\<close> and \<^verbatim>\<open>obfs\<close> are parameters.
\<close>

subsection \<open>Transports\<close>

text \<open>
  A shaping policy, as far as the sources set its fields: the size of the cells or the range
  it is drawn from, the period of the cover traffic, and the window and count of the padding
  in front. The module passes it on and never inspects it.
\<close>

record policy =
  pol_CellSize :: int
  pol_SizeSampler :: "(int \<times> int) option"
  pol_CoverEvery :: int
  pol_Front :: "(int \<times> int) option"

datatype transport_kind = ByTransport | ByObfs policy | ByScheme int

record vlistener =
  vl_kind :: transport_kind
  vl_network :: string
  vl_addr :: string
  vl_writeTimeout :: int

text \<open>
  \<open>parse_address\<close> is \<^verbatim>\<open>valuerpc.ParseAddress\<close>; the names of its networks have nothing
  that \<^verbatim>\<open>%q\<close> escapes.
\<close>

definition streamNetwork :: "(string \<Rightarrow> string \<times> string) \<Rightarrow> string \<Rightarrow> go_error + string \<times> string" where
  "streamNetwork parse_address address =
     (let (network, addr) = parse_address address in
      if network \<in> {''tcp'', ''tcp4'', ''tcp6'', ''unix'', ''unixpacket''} then Inr (network, addr)
      else Inl (ErrText (''obfs shaping requires a stream transport (tcp:// or unix://), not '' @
        CHR 0x22 # network @ [CHR 0x22])))"

definition cell_policy :: policy where
  "cell_policy = \<lparr>pol_CellSize = 512, pol_SizeSampler = None, pol_CoverEvery = 0, pol_Front = None\<rparr>"

record staticObfsProfile =
  sop_policy :: policy

definition StaticObfsProfile :: "policy \<Rightarrow> staticObfsProfile" where
  "StaticObfsProfile p = \<lparr>sop_policy = p\<rparr>"

definition sop_ObfsPolicy :: "staticObfsProfile \<Rightarrow> policy" where
  "sop_ObfsPolicy p = sop_policy p"

definition obfsListener ::
  "(string \<Rightarrow> string \<times> string) \<Rightarrow> (string \<Rightarrow> string \<Rightarrow> go_error + listener) \<Rightarrow> string \<Rightarrow> policy \<Rightarrow> int
     \<Rightarrow> go_error + vlistener" where
  "obfsListener parse_address net_Listen address p writeTimeout =
     (case streamNetwork parse_address address of
        Inl e \<Rightarrow> Inl e
      | Inr (network, addr) \<Rightarrow>
          (case net_Listen network addr of
             Inl e \<Rightarrow> Inl e
           | Inr base \<Rightarrow> Inr \<lparr>vl_kind = ByObfs p, vl_network = l_Network base, vl_addr = l_String base,
               vl_writeTimeout = writeTimeout\<rparr>))"

record vdialer =
  vd_kind :: transport_kind
  vd_network :: string
  vd_addr :: string
  vd_writeTimeout :: int

definition obfsDialer :: "(string \<Rightarrow> string \<times> string) \<Rightarrow> string \<Rightarrow> policy \<Rightarrow> int \<Rightarrow> go_error + vdialer" where
  "obfsDialer parse_address address p writeTimeout =
     (case streamNetwork parse_address address of
        Inl e \<Rightarrow> Inl e
      | Inr (network, addr) \<Rightarrow>
          Inr \<lparr>vd_kind = ByObfs p, vd_network = network, vd_addr = addr, vd_writeTimeout = writeTimeout\<rparr>)"

subsection \<open>The server\<close>

record value_srv =
  vsv_listener :: vlistener
  vsv_authorizer :: bool
  vsv_authenticator :: bool
  vsv_services :: "string list"
  vsv_open :: bool

text \<open>\<open>vs_closed\<close> are the listeners that \<^verbatim>\<open>Bind\<close> closed again.\<close>

record implValueServer =
  vs_String :: "string \<Rightarrow> string \<Rightarrow> string"
  vs_Duration :: "string \<Rightarrow> int \<Rightarrow> int"
  vs_Services :: "(string \<times> go_error option) list"
  vs_Authorizer :: bool
  vs_Authenticator :: bool
  vs_Obfs :: "policy option"
  vs_Transport :: "(string \<Rightarrow> int \<Rightarrow> go_error + vlistener) option"
  vs_beanName :: string
  vs_srv :: "value_srv option"
  vs_closed :: "vlistener list"
  vs_alive :: bool
  vs_once :: bool
  vs_shutdownCh :: bool
  vs_log :: "log_entry list"

text \<open>What the libraries do: address parsing, listening, and the defaults of their constants.\<close>

record vrpc_lib =
  lib_ParseAddress :: "string \<Rightarrow> string \<times> string"
  lib_net_Listen :: "string \<Rightarrow> string \<Rightarrow> go_error + listener"
  lib_NewListener :: "string \<Rightarrow> int \<Rightarrow> int \<Rightarrow> go_error + vlistener"
  lib_NewServer :: "vlistener \<Rightarrow> go_error option"
  lib_KeepAlivePeriod :: int
  lib_DefaultTimeout :: int
  lib_ClientTimeout :: int

definition ValueServer ::
  "(string \<Rightarrow> string \<Rightarrow> string) \<Rightarrow> (string \<Rightarrow> int \<Rightarrow> int) \<Rightarrow> string \<Rightarrow> implValueServer" where
  "ValueServer str dur beanName = \<lparr>vs_String = str, vs_Duration = dur, vs_Services = [], vs_Authorizer = False,
     vs_Authenticator = False, vs_Obfs = None, vs_Transport = None, vs_beanName = beanName, vs_srv = None, vs_closed = [],
     vs_alive = False, vs_once = False, vs_shutdownCh = False, vs_log = []\<rparr>"

definition vs_PostConstruct :: "implValueServer \<Rightarrow> implValueServer" where
  "vs_PostConstruct t = t\<lparr>vs_alive := False\<rparr>"

definition vs_listener :: "vrpc_lib \<Rightarrow> implValueServer \<Rightarrow> string \<Rightarrow> go_error + vlistener" where
  "vs_listener L t listenAddr =
     (let keepAlive = vs_Duration t (vs_beanName t @ ''.keep-alive'') (lib_KeepAlivePeriod L);
          writeTimeout = vs_Duration t (vs_beanName t @ ''.write-timeout'') (lib_DefaultTimeout L)
      in case vs_Transport t of
           Some tr \<Rightarrow> tr listenAddr writeTimeout
         | None \<Rightarrow>
             (case vs_Obfs t of
                Some p \<Rightarrow> obfsListener (lib_ParseAddress L) (lib_net_Listen L) listenAddr p writeTimeout
              | None \<Rightarrow> lib_NewListener L listenAddr keepAlive writeTimeout))"

text \<open>The services register one after the other; the first failure ends the bind.\<close>

fun register_services ::
  "(string \<times> go_error option) list \<Rightarrow> value_srv \<Rightarrow> go_error option \<times> value_srv" where
  "register_services [] srv = (None, srv)"
| "register_services ((ty, None) # rest) srv = register_services rest (srv\<lparr>vsv_services := vsv_services srv @ [ty]\<rparr>)"
| "register_services ((ty, Some e) # rest) srv = (Some (ErrWrap (''registering value service '' @ ty) e), srv)"

definition vs_logs :: "log_level \<Rightarrow> string \<Rightarrow> log_field list \<Rightarrow> implValueServer \<Rightarrow> implValueServer" where
  "vs_logs l m fs t = t\<lparr>vs_log := vs_log t @ [(l, m, fs)]\<rparr>"

definition vs_Bind :: "vrpc_lib \<Rightarrow> implValueServer \<Rightarrow> go_error option \<times> implValueServer" where
  "vs_Bind L t =
     (let listenAddr = vs_String t (vs_beanName t @ ''.bind-address'') [] in
      if listenAddr = [] then
        (Some (ErrText (''property '' @ quoted (vs_beanName t @ ''.bind-address'') @ '' not found in server context'')), t)
      else
        (case vs_listener L t listenAddr of
           Inl e \<Rightarrow> (Some (ErrWrap (''can not bind to '' @ quoted listenAddr) e), t)
         | Inr lis \<Rightarrow>
             (case lib_NewServer L lis of
                Some e \<Rightarrow> (Some e, t\<lparr>vs_closed := vs_closed t @ [lis]\<rparr>)
              | None \<Rightarrow>
                  let srv = \<lparr>vsv_listener = lis, vsv_authorizer = vs_Authorizer t,
                        vsv_authenticator = vs_Authenticator t, vsv_services = [], vsv_open = True\<rparr>
                  in case register_services (vs_Services t) srv of
                       (Some e, srv1) \<Rightarrow> (Some e, t\<lparr>vs_srv := Some srv1\<rparr>)
                     | (None, srv1) \<Rightarrow>
                         (None, vs_logs LInfo ''ValueServerBind''
                            [FStr ''bean'' (vs_beanName t), FStr ''addr'' (vl_addr lis),
                             FInt ''services'' (int (length (vs_Services t))), FBool ''authorizer'' (vs_Authorizer t),
                             FBool ''authenticator'' (vs_Authenticator t), FBool ''obfs'' (vs_Obfs t \<noteq> None),
                             FBool ''transport'' (vs_Transport t \<noteq> None)]
                            (t\<lparr>vs_srv := Some srv1\<rparr>)))))"

definition vs_Alive :: "implValueServer \<Rightarrow> bool" where
  "vs_Alive t = vs_alive t"

definition vs_ShutdownCh :: "implValueServer \<Rightarrow> bool" where
  "vs_ShutdownCh t = vs_shutdownCh t"

definition vs_ListenAddress :: "implValueServer \<Rightarrow> string \<times> string" where
  "vs_ListenAddress t =
     (case vs_srv t of Some s \<Rightarrow> (vl_network (vsv_listener s), vl_addr (vsv_listener s)) | None \<Rightarrow> EmptyAddr)"

definition vs_Serve_begin :: "implValueServer \<Rightarrow> go_error option \<times> implValueServer" where
  "vs_Serve_begin t =
     (case vs_srv t of
        None \<Rightarrow> (Some (ErrText (''value server '' @ quoted (vs_beanName t) @ '' is not bound'')), t)
      | Some s \<Rightarrow>
          let addr = vs_ListenAddress t in
          (None, (vs_logs LInfo ''ValueServerServe''
             [FStr ''bean'' (vs_beanName t), FStr ''addr'' (snd addr), FStr ''network'' (fst addr)] t)\<lparr>vs_alive := True\<rparr>))"

definition vs_Serve_end :: "serve_result \<Rightarrow> implValueServer \<Rightarrow> go_error option \<times> implValueServer" where
  "vs_Serve_end res t =
     (case res of
        ServePanics v stack \<Rightarrow> (PanicToError res, t)
      | ServeReturns err \<Rightarrow> (err, t\<lparr>vs_alive := False\<rparr>))"

text \<open>\<open>close_err\<close> is the result of closing the library's server.\<close>

definition vs_Shutdown :: "go_error option \<Rightarrow> implValueServer \<Rightarrow> (go_error option, implValueServer) outcome" where
  "vs_Shutdown close_err t =
     (if vs_once t then Ret None t
      else
        let addr = vs_ListenAddress t;
            t1 = vs_logs LInfo ''ValueServerShutdown'' [FStr ''addr'' (snd addr), FStr ''network'' (fst addr)]
                   (t\<lparr>vs_once := True\<rparr>)
        in case close_chan (vs_shutdownCh t1) of
             Panic ch \<Rightarrow> Panic t1
           | Ret _ ch \<Rightarrow>
               (case vs_srv t1 of
                  Some s \<Rightarrow> Ret close_err (t1\<lparr>vs_shutdownCh := ch, vs_srv := Some (s\<lparr>vsv_open := False\<rparr>)\<rparr>)
                | None \<Rightarrow> Ret None (t1\<lparr>vs_shutdownCh := ch\<rparr>)))"

definition vs_Destroy :: "go_error option \<Rightarrow> implValueServer \<Rightarrow> (go_error option, implValueServer) outcome" where
  "vs_Destroy close_err t = bindO (vs_Shutdown close_err t) (\<lambda>_. Ret None)"

definition vs_wf :: "implValueServer \<Rightarrow> bool" where
  "vs_wf t \<longleftrightarrow> vs_shutdownCh t = vs_once t"

lemma vs_Shutdown_first:
  assumes "vs_wf t" and "\<not> vs_shutdownCh t"
  shows "\<exists>t1. vs_Shutdown ce t = Ret (if vs_srv t = None then None else ce) t1 \<and> vs_shutdownCh t1 \<and> vs_wf t1 \<and>
     (\<forall>s. vs_srv t1 = Some s \<longrightarrow> \<not> vsv_open s)"
  using assms
  by (cases "vs_srv t") (simp_all add: vs_wf_def vs_Shutdown_def vs_logs_def close_chan_def Let_def)

interpretation vrpc_lifecycle: server_lifecycle "vs_Shutdown ce" "vs_Destroy ce" vs_shutdownCh vs_wf for ce
proof unfold_locales
  fix t assume "vs_wf t" "\<not> vs_shutdownCh t"
  then show "\<exists>e s'. vs_Shutdown ce t = Ret e s' \<and> vs_shutdownCh s' \<and> vs_wf s'"
    using vs_Shutdown_first [of t ce] by blast
next
  fix t assume "vs_wf t" "vs_shutdownCh t"
  then show "vs_Shutdown ce t = Ret None t" by (simp add: vs_wf_def vs_Shutdown_def)
next
  fix t e t' assume "vs_Shutdown ce t = Ret e t'"
  then show "vs_Destroy ce t = Ret None t'" by (simp add: vs_Destroy_def)
qed

subsection \<open>The client\<close>

datatype interceptor =
    RateLimit int int
  | Bulkhead int
  | CircuitBreaker int int
  | Retry int int int
  | Timeout int

text \<open>\<^verbatim>\<open>time.Duration(n) * time.Millisecond\<close> in 64 bits.\<close>

definition millis :: "int \<Rightarrow> int" where
  "millis n = wrap64 (n * 1000000)"

definition resilience_Object :: "(string \<Rightarrow> int \<Rightarrow> int) \<Rightarrow> string \<Rightarrow> interceptor list" where
  "resilience_Object getInt beanName =
     (let prop = (\<lambda>suffix. getInt (beanName @ ''.resilience.'' @ suffix));
          perSec = prop ''rate-limit.per-second'' 0;
          maxConc = prop ''bulkhead.max-concurrent'' 0;
          threshold = prop ''circuit-breaker.threshold'' 0;
          maxAttempts = prop ''retry.max-attempts'' 0;
          timeoutMls = prop ''timeout-ms'' 0
      in (if 0 < perSec then [RateLimit perSec (prop ''rate-limit.burst'' 1)] else [])
       @ (if 0 < maxConc then [Bulkhead maxConc] else [])
       @ (if 0 < threshold then [CircuitBreaker threshold (millis (prop ''circuit-breaker.cooldown-ms'' 10000))] else [])
       @ (if 1 < maxAttempts
          then [Retry maxAttempts (millis (prop ''retry.backoff-ms'' 50)) (millis (prop ''retry.max-backoff-ms'' 1000))] else [])
       @ (if 0 < timeoutMls then [Timeout (millis timeoutMls)] else []))"

text \<open>The policy bean of the factory, and the one that an application makes itself.\<close>

record staticResiliencePolicy =
  srp_interceptors :: "interceptor list"

definition StaticResiliencePolicy :: "interceptor list \<Rightarrow> staticResiliencePolicy" where
  "StaticResiliencePolicy interceptors = \<lparr>srp_interceptors = interceptors\<rparr>"

definition srp_Interceptors :: "staticResiliencePolicy \<Rightarrow> interceptor list" where
  "srp_Interceptors p = srp_interceptors p"

record implResiliencePolicyFactory =
  rpf_Int :: "string \<Rightarrow> int \<Rightarrow> int"
  rpf_beanName :: string

definition ResiliencePolicyFactory :: "(string \<Rightarrow> int \<Rightarrow> int) \<Rightarrow> string \<Rightarrow> implResiliencePolicyFactory" where
  "ResiliencePolicyFactory getInt beanName = \<lparr>rpf_Int = getInt, rpf_beanName = beanName\<rparr>"

definition rpf_Object :: "implResiliencePolicyFactory \<Rightarrow> staticResiliencePolicy" where
  "rpf_Object t = StaticResiliencePolicy (resilience_Object (rpf_Int t) (rpf_beanName t))"

definition rpf_ObjectName :: "implResiliencePolicyFactory \<Rightarrow> string" where
  "rpf_ObjectName t = rpf_beanName t @ ''.resilience''"

definition vrpc_localizeAddr :: "string \<Rightarrow> string" where
  "vrpc_localizeAddr bindAddr =
     (if Contains bindAddr ''://'' then bindAddr
      else if HasPrefix bindAddr ''0.0.0.0:'' then ''127.0.0.1'' @ drop (length ''0.0.0.0'') bindAddr
      else if HasPrefix bindAddr '':'' then ''127.0.0.1'' @ bindAddr
      else bindAddr)"

record implValueClientFactory =
  vc_String :: "string \<Rightarrow> string \<Rightarrow> string"
  vc_Int :: "string \<Rightarrow> int \<Rightarrow> int"
  vc_Obfs :: "policy option"
  vc_Transport :: "(string \<Rightarrow> int \<Rightarrow> go_error + vdialer) option"
  vc_Resilience :: "interceptor list option"
  vc_beanName :: string

datatype client_option = WithInterceptors "interceptor list" | WithMetadata

datatype client_target = ByDialer vdialer | ByAddress string string

record value_client =
  vcl_target :: client_target
  vcl_opts :: "client_option list"
  vcl_timeout :: "int option"

definition ValueClientFactory ::
  "(string \<Rightarrow> string \<Rightarrow> string) \<Rightarrow> (string \<Rightarrow> int \<Rightarrow> int) \<Rightarrow> string \<Rightarrow> implValueClientFactory" where
  "ValueClientFactory str getInt beanName = \<lparr>vc_String = str, vc_Int = getInt, vc_Obfs = None, vc_Transport = None,
     vc_Resilience = None, vc_beanName = beanName\<rparr>"

definition client_opts :: "implValueClientFactory \<Rightarrow> client_option list" where
  "client_opts t =
     (case vc_Resilience t of
        Some ics \<Rightarrow> if 0 < length ics then [WithInterceptors ics] else []
      | None \<Rightarrow> []) @ [WithMetadata]"

definition client_target_of :: "vrpc_lib \<Rightarrow> implValueClientFactory \<Rightarrow> string \<Rightarrow> go_error + client_target" where
  "client_target_of L t connectAddr =
     (case vc_Transport t of
        Some tr \<Rightarrow> (case tr connectAddr (lib_ClientTimeout L) of Inl e \<Rightarrow> Inl e | Inr d \<Rightarrow> Inr (ByDialer d))
      | None \<Rightarrow>
          (case vc_Obfs t of
             Some p \<Rightarrow> (case obfsDialer (lib_ParseAddress L) connectAddr p (lib_ClientTimeout L) of
                          Inl e \<Rightarrow> Inl e | Inr d \<Rightarrow> Inr (ByDialer d))
           | None \<Rightarrow> Inr (ByAddress connectAddr (vc_String t (vc_beanName t @ ''.socks5'') []))))"

definition vc_connectAddr :: "implValueClientFactory \<Rightarrow> go_error + string" where
  "vc_connectAddr t =
     (let connectAddr = vc_String t (vc_beanName t @ ''.connect-address'') [] in
      if connectAddr = [] then
        let serverBean = ReplaceAll (vc_beanName t) ''client'' ''server'';
            bindAddr = vc_String t (serverBean @ ''.bind-address'') []
        in if bindAddr = []
           then Inl (ErrText (''neither property '' @ quoted (vc_beanName t @ ''.connect-address'') @ '' nor '' @
             quoted (serverBean @ ''.bind-address'') @ '' is found in context''))
           else Inr (vrpc_localizeAddr bindAddr)
      else Inr connectAddr)"

definition client_log :: "implValueClientFactory \<Rightarrow> string \<Rightarrow> log_entry" where
  "client_log t connectAddr =
     (LInfo, ''ValueClientFactory'', [FStr ''bean'' (vc_beanName t), FStr ''connectAddr'' connectAddr,
        FBool ''obfs'' (vc_Obfs t \<noteq> None), FBool ''transport'' (vc_Transport t \<noteq> None),
        FBool ''resilience'' (0 < length (client_opts t))])"

definition vc_Object :: "vrpc_lib \<Rightarrow> implValueClientFactory \<Rightarrow> (go_error + value_client) \<times> log_entry list" where
  "vc_Object L t =
     (case vc_connectAddr t of
        Inl e \<Rightarrow> (Inl e, [])
      | Inr connectAddr \<Rightarrow>
          (case client_target_of L t connectAddr of
             Inl e \<Rightarrow> (Inl e, [client_log t connectAddr])
           | Inr target \<Rightarrow>
               let timeoutMls = vc_Int t (vc_beanName t @ ''.timeout-ms'') 0
               in (Inr \<lparr>vcl_target = target, vcl_opts = client_opts t,
                     vcl_timeout = (if 0 < timeoutMls then Some timeoutMls else None)\<rparr>, [client_log t connectAddr])))"

text \<open>
  A service that cannot be registered fails the bind, but the server stays open behind it:
  \<^verbatim>\<open>Bind\<close> has stored it and does not close it.
\<close>

lemma failed_registration_stays_open:
  assumes "vs_String t (vs_beanName t @ ''.bind-address'') [] = a" and "a \<noteq> []"
    and "vs_listener L t a = Inr lis" and "lib_NewServer L lis = None" and "vs_Services t = (ty, Some e) # rest"
  shows "\<exists>err srv t1. vs_Bind L t = (Some err, t1) \<and> vs_srv t1 = Some srv \<and> vsv_open srv \<and> vsv_listener srv = lis"
  using assms by (simp add: vs_Bind_def Let_def)

subsection \<open>Properties\<close>

lemma register_all:
  "register_services ss srv = (None, srv1) \<Longrightarrow>
     srv1 = srv\<lparr>vsv_services := vsv_services srv @ map fst ss\<rparr> \<and> (\<forall>x \<in> set ss. snd x = None)"
  by (induction ss srv rule: register_services.induct) auto

text \<open>
  C30. A bound value-rpc server is complete: it listens through the application's transport if
  there is one, else through the shaped stream transport if a shaping profile is there, else
  by the scheme of its address; the connection authorizer and the authenticator that its
  context has are installed; and every service is registered, in order.
\<close>

theorem vrpc_bind_complete:
  assumes "vs_Bind L t = (None, t1)"
  shows "\<exists>srv. vs_srv t1 = Some srv \<and> vsv_authorizer srv = vs_Authorizer t \<and>
     vsv_authenticator srv = vs_Authenticator t \<and> vsv_services srv = map fst (vs_Services t) \<and>
     (case vs_Transport t of
        Some tr \<Rightarrow> tr (vs_String t (vs_beanName t @ ''.bind-address'') [])
          (vs_Duration t (vs_beanName t @ ''.write-timeout'') (lib_DefaultTimeout L)) = Inr (vsv_listener srv)
      | None \<Rightarrow>
          (case vs_Obfs t of
             Some p \<Rightarrow> vl_kind (vsv_listener srv) = ByObfs p \<and>
               fst (lib_ParseAddress L (vs_String t (vs_beanName t @ ''.bind-address'') []))
                 \<in> {''tcp'', ''tcp4'', ''tcp6'', ''unix'', ''unixpacket''}
           | None \<Rightarrow> lib_NewListener L (vs_String t (vs_beanName t @ ''.bind-address'') [])
               (vs_Duration t (vs_beanName t @ ''.keep-alive'') (lib_KeepAlivePeriod L))
               (vs_Duration t (vs_beanName t @ ''.write-timeout'') (lib_DefaultTimeout L)) = Inr (vsv_listener srv)))"
proof -
  let ?a = "vs_String t (vs_beanName t @ ''.bind-address'') []"
  from assms obtain lis where lis: "vs_listener L t ?a = Inr lis" and a: "?a \<noteq> []"
    by (auto simp: vs_Bind_def Let_def split: if_splits sum.splits)
  let ?srv = "\<lparr>vsv_listener = lis, vsv_authorizer = vs_Authorizer t, vsv_authenticator = vs_Authenticator t,
     vsv_services = [], vsv_open = True\<rparr>"
  obtain srv1 where reg: "register_services (vs_Services t) ?srv = (None, srv1)" and t1: "vs_srv t1 = Some srv1"
    using assms lis a by (auto simp: vs_Bind_def vs_logs_def Let_def split: option.splits prod.splits)
  have fields: "vsv_listener srv1 = lis" "vsv_authorizer srv1 = vs_Authorizer t"
    "vsv_authenticator srv1 = vs_Authenticator t" "vsv_services srv1 = map fst (vs_Services t)"
    using register_all [OF reg] by simp_all
  have "case vs_Transport t of
        Some tr \<Rightarrow> tr ?a (vs_Duration t (vs_beanName t @ ''.write-timeout'') (lib_DefaultTimeout L)) = Inr lis
      | None \<Rightarrow>
          (case vs_Obfs t of
             Some p \<Rightarrow> vl_kind lis = ByObfs p \<and>
               fst (lib_ParseAddress L ?a) \<in> {''tcp'', ''tcp4'', ''tcp6'', ''unix'', ''unixpacket''}
           | None \<Rightarrow> lib_NewListener L ?a (vs_Duration t (vs_beanName t @ ''.keep-alive'') (lib_KeepAlivePeriod L))
               (vs_Duration t (vs_beanName t @ ''.write-timeout'') (lib_DefaultTimeout L)) = Inr lis)"
    using lis by (auto simp: vs_listener_def obfsListener_def streamNetwork_def Let_def
        split: option.split sum.splits prod.splits if_splits)
  then show ?thesis using t1 fields unfolding fields(1) [symmetric] by blast
qed

definition sample_lib :: vrpc_lib where
  "sample_lib = \<lparr>lib_ParseAddress = (\<lambda>a. (''tcp'', a)),
     lib_net_Listen = (\<lambda>n a. Inr \<lparr>l_Network = n, l_String = a, l_tls = False, l_open = True\<rparr>),
     lib_NewListener = (\<lambda>a ka wt. Inr \<lparr>vl_kind = ByScheme ka, vl_network = ''tcp'', vl_addr = a, vl_writeTimeout = wt\<rparr>),
     lib_NewServer = (\<lambda>l. None), lib_KeepAlivePeriod = 15, lib_DefaultTimeout = 10, lib_ClientTimeout = 10\<rparr>"

definition sample_vserver :: implValueServer where
  "sample_vserver = (ValueServer (\<lambda>k d. '':9999'') (\<lambda>k d. d) ''value-server'')
     \<lparr>vs_Authenticator := True, vs_Obfs := Some cell_policy, vs_Services := [(''greeter'', None)]\<rparr>"

theorem vrpc_bind_complete_witness:
  "\<exists>t1 srv. vs_Bind sample_lib sample_vserver = (None, t1) \<and> vs_srv t1 = Some srv \<and> vsv_authenticator srv \<and>
     vsv_services srv = [''greeter''] \<and> vl_kind (vsv_listener srv) = ByObfs cell_policy"
proof -
  obtain t1 where b: "vs_Bind sample_lib sample_vserver = (None, t1)"
    by (simp add: vs_Bind_def sample_lib_def sample_vserver_def ValueServer_def vs_listener_def obfsListener_def
        streamNetwork_def Let_def)
  from vrpc_bind_complete [OF b] b show ?thesis
    by (auto simp: sample_vserver_def ValueServer_def)
qed

text \<open>
  Shutting down a value-rpc server closes the library's server and reports its error; any
  further shutdowns and destructions, in any order, are without effect; and a server that was
  never bound can be shut down, but refuses to serve.
\<close>

theorem vrpc_shutdown_idempotent:
  assumes "vs_wf t" and "\<not> vs_shutdownCh t"
  shows "\<exists>t1. stops (vs_Shutdown ce) (vs_Destroy ce) (StopShutdown # xs) t =
       Ret ((if vs_srv t = None then None else ce) # map (\<lambda>_. None) xs) t1 \<and> vs_shutdownCh t1 \<and>
     (\<forall>s. vs_srv t1 = Some s \<longrightarrow> \<not> vsv_open s) \<and>
     (vs_srv t = None \<longrightarrow> fst (vs_Serve_begin t) \<noteq> None \<and> snd (vs_Serve_begin t) = t)"
proof -
  obtain t1 where t1: "vs_Shutdown ce t = Ret (if vs_srv t = None then None else ce) t1" "vs_shutdownCh t1" "vs_wf t1"
    "\<forall>s. vs_srv t1 = Some s \<longrightarrow> \<not> vsv_open s"
    using vs_Shutdown_first [OF assms, of ce] by blast
  moreover have "vs_srv t = None \<longrightarrow> fst (vs_Serve_begin t) \<noteq> None \<and> snd (vs_Serve_begin t) = t"
    by (simp add: vs_Serve_begin_def)
  ultimately show ?thesis
    using vrpc_lifecycle.stops_down [OF t1(3,2), of ce xs] by (intro exI [of _ t1]) simp
qed

theorem vrpc_shutdown_idempotent_witness:
  "\<exists>t1. stops (vs_Shutdown (Some EADDRINUSE)) (vs_Destroy (Some EADDRINUSE)) [StopShutdown, StopDestroy]
      sample_vserver = Ret [None, None] t1 \<and> vs_shutdownCh t1"
  using vrpc_shutdown_idempotent [of sample_vserver "Some EADDRINUSE" "[StopDestroy]"]
  by (auto simp: sample_vserver_def ValueServer_def vs_wf_def)

fun rank :: "interceptor \<Rightarrow> nat" where
  "rank (RateLimit a b) = 0"
| "rank (Bulkhead a) = 1"
| "rank (CircuitBreaker a b) = 2"
| "rank (Retry a b c) = 3"
| "rank (Timeout a) = 4"

lemma governed_order:
  fixes i j k l m n p q r :: int
  defines "xs \<equiv> \<lambda>a b c d e. (if a then [RateLimit i j] else []) @ (if b then [Bulkhead k] else [])
     @ (if c then [CircuitBreaker l m] else []) @ (if d then [Retry n p q] else []) @ (if e then [Timeout r] else [])"
  shows "sorted_wrt (<) (map rank (xs a b c d e))"
    and "0 \<in> rank ` set (xs a b c d e) \<longleftrightarrow> a" and "1 \<in> rank ` set (xs a b c d e) \<longleftrightarrow> b"
    and "2 \<in> rank ` set (xs a b c d e) \<longleftrightarrow> c" and "3 \<in> rank ` set (xs a b c d e) \<longleftrightarrow> d"
    and "4 \<in> rank ` set (xs a b c d e) \<longleftrightarrow> e"
  unfolding xs_def by (cases a; cases b; cases c; cases d; cases e; simp)+

text \<open>
  The governance of a client is composed in its documented order whatever properties are
  set: rate limit, bulkhead, circuit breaker, retry, timeout, each at most once and each
  exactly when its property enables it; without any property nothing is installed.
\<close>

theorem resilience_order:
  "sorted_wrt (<) (map rank (resilience_Object getInt bean)) \<and>
   (0 \<in> rank ` set (resilience_Object getInt bean) \<longleftrightarrow> 0 < getInt (bean @ ''.resilience.rate-limit.per-second'') 0) \<and>
   (1 \<in> rank ` set (resilience_Object getInt bean) \<longleftrightarrow> 0 < getInt (bean @ ''.resilience.bulkhead.max-concurrent'') 0) \<and>
   (2 \<in> rank ` set (resilience_Object getInt bean) \<longleftrightarrow> 0 < getInt (bean @ ''.resilience.circuit-breaker.threshold'') 0) \<and>
   (3 \<in> rank ` set (resilience_Object getInt bean) \<longleftrightarrow> 1 < getInt (bean @ ''.resilience.retry.max-attempts'') 0) \<and>
   (4 \<in> rank ` set (resilience_Object getInt bean) \<longleftrightarrow> 0 < getInt (bean @ ''.resilience.timeout-ms'') 0) \<and>
   resilience_Object (\<lambda>k d. d) bean = []"
  unfolding resilience_Object_def Let_def by (intro conjI) (simp_all only: governed_order, simp_all)

text \<open>
  The factory's policy reaches the client it governs: the client has an interceptor option
  exactly when one of the five properties enables something, with the factory's list.
\<close>

lemma governed_client_opts:
  "client_opts ((ValueClientFactory str getInt bean)
       \<lparr>vc_Resilience := Some (srp_Interceptors (rpf_Object (ResiliencePolicyFactory getInt bean)))\<rparr>) =
     (if resilience_Object getInt bean = [] then [WithMetadata]
      else [WithInterceptors (resilience_Object getInt bean), WithMetadata])"
  by (simp add: client_opts_def srp_Interceptors_def rpf_Object_def StaticResiliencePolicy_def ResiliencePolicyFactory_def)

text \<open>
  The client's factory logs that governance is installed even when there is no policy at
  all: the flag counts the options, and the metadata option is always there.
\<close>

theorem resilience_flag_always_true:
  "FBool ''resilience'' True \<in> set (snd (snd (client_log (t\<lparr>vc_Resilience := None\<rparr>) addr))) \<and>
   client_opts (t\<lparr>vc_Resilience := None\<rparr>) = [WithMetadata]"
  by (simp add: client_log_def client_opts_def)

text \<open>
  A shaping profile never lets a connection through unshaped: with a profile and no
  transport of the application, a client that is created dials through the shaping dialer
  with that profile's policy and a stream network, and an address of any other network is an
  error; a proxy is not consulted.
\<close>

theorem vrpc_client_shaped:
  assumes "vc_Transport t = None" and "vc_Obfs t = Some p" and "vc_Object L t = (res, lg)"
  shows "case res of
     Inr cl \<Rightarrow> \<exists>d. vcl_target cl = ByDialer d \<and> vd_kind d = ByObfs p \<and>
       vd_network d \<in> {''tcp'', ''tcp4'', ''tcp6'', ''unix'', ''unixpacket''}
   | Inl e \<Rightarrow> vc_connectAddr t = Inl e \<or>
       (\<exists>addr. vc_connectAddr t = Inr addr \<and>
          fst (lib_ParseAddress L addr) \<notin> {''tcp'', ''tcp4'', ''tcp6'', ''unix'', ''unixpacket''})"
  using assms
  by (auto simp: vc_Object_def client_target_of_def obfsDialer_def streamNetwork_def Let_def
      split: sum.splits prod.splits if_splits)

theorem vrpc_client_shaped_witness:
  "\<exists>cl lg d. vc_Object sample_lib \<lparr>vc_String = (\<lambda>k d. '':9999''), vc_Int = (\<lambda>k d. d), vc_Obfs = Some cell_policy,
      vc_Transport = None, vc_Resilience = None, vc_beanName = ''value-client''\<rparr> = (Inr cl, lg) \<and>
      vcl_target cl = ByDialer d \<and> vd_kind d = ByObfs cell_policy"
proof -
  let ?t = "\<lparr>vc_String = (\<lambda>k d. '':9999''), vc_Int = (\<lambda>k d. d), vc_Obfs = Some cell_policy,
      vc_Transport = None, vc_Resilience = None, vc_beanName = ''value-client''\<rparr> :: implValueClientFactory"
  obtain cl lg where o: "vc_Object sample_lib ?t = (Inr cl, lg)"
    by (simp add: vc_Object_def vc_connectAddr_def client_target_of_def obfsDialer_def streamNetwork_def sample_lib_def)
  from vrpc_client_shaped [OF _ _ o] o show ?thesis by auto
qed

end
