(* ===== verification/Base64.thy ===== *)
theory Base64
  imports Go_Errors
begin

text \<open>
  \<^verbatim>\<open>base64.StdEncoding\<close> of the standard library, in which \<^verbatim>\<open>cmd/jwttool\<close> prints keys
  and \<^verbatim>\<open>jwt_auth_provider.go\<close> reads them.
\<close>

subsection \<open>Digits\<close>

definition b64_digit :: "nat \<Rightarrow> char" where
  "b64_digit n =
     (if n < 26 then char_of (65 + n) else if n < 52 then char_of (71 + n)
      else if n < 62 then char_of (n - 4) else if n = 62 then CHR ''+'' else CHR ''/'')"

definition b64_value :: "char \<Rightarrow> nat option" where
  "b64_value c =
     (let b = byte c in
      if 65 \<le> b \<and> b \<le> 90 then Some (b - 65) else if 97 \<le> b \<and> b \<le> 122 then Some (b - 71)
      else if 48 \<le> b \<and> b \<le> 57 then Some (b + 4) else if b = 43 then Some 62
      else if b = 47 then Some 63 else None)"

lemma byte_char_of: "n < 256 \<Longrightarrow> byte (char_of n) = n"
  by (simp add: byte_def)

lemma byte_b64_digit:
  "n < 64 \<Longrightarrow> byte (b64_digit n) =
     (if n < 26 then 65 + n else if n < 52 then 71 + n else if n < 62 then n - 4 else if n = 62 then 43 else 47)"
  by (simp add: b64_digit_def byte_char_of) (simp add: byte_def)

lemma b64_value_digit [simp]: "n < 64 \<Longrightarrow> b64_value (b64_digit n) = Some n"
  by (simp add: b64_value_def byte_b64_digit Let_def) arith

lemma b64_value_special: "b64_value CHR ''='' = None" "b64_value CHR 0x0A = None" "b64_value CHR 0x0D = None"
  by (simp_all add: b64_value_def byte_def)

lemma b64_digit_neq [simp]:
  assumes "n < 64"
  shows "b64_digit n \<noteq> CHR ''=''" and "b64_digit n \<noteq> CHR 0x0A" and "b64_digit n \<noteq> CHR 0x0D"
  using b64_value_digit [OF assms] b64_value_special by auto

subsection \<open>Encoding and decoding\<close>

text \<open>Three bytes are four digits of six bits; one or two last bytes are padded.\<close>

fun EncodeToString :: "string \<Rightarrow> string" where
  "EncodeToString [] = []"
| "EncodeToString [a] = [b64_digit (byte a div 4), b64_digit (byte a mod 4 * 16), CHR ''='', CHR ''='']"
| "EncodeToString [a, b] =
     [b64_digit (byte a div 4), b64_digit (byte a mod 4 * 16 + byte b div 16), b64_digit (byte b mod 16 * 4), CHR ''='']"
| "EncodeToString (a # b # c # r) =
     b64_digit (byte a div 4) # b64_digit (byte a mod 4 * 16 + byte b div 16) #
     b64_digit (byte b mod 16 * 4 + byte c div 64) # b64_digit (byte c mod 64) # EncodeToString r"

text \<open>
  A quantum of four digits gives three bytes; padding is allowed in the last quantum only, and
  the unused bits of a padded quantum are ignored.
\<close>

fun b64_quanta :: "string \<Rightarrow> string option" where
  "b64_quanta [] = Some []"
| "b64_quanta (a # b # c # d # r) =
     (case (b64_value a, b64_value b) of
        (Some x, Some y) \<Rightarrow>
          if c = CHR ''='' then if d = CHR ''='' \<and> r = [] then Some [char_of (x * 4 + y div 16)] else None
          else
            (case b64_value c of
               None \<Rightarrow> None
             | Some z \<Rightarrow>
                 if d = CHR ''='' then
                   if r = [] then Some [char_of (x * 4 + y div 16), char_of (y mod 16 * 16 + z div 4)] else None
                 else
                   (case b64_value d of
                      None \<Rightarrow> None
                    | Some w \<Rightarrow>
                        map_option (\<lambda>t. char_of (x * 4 + y div 16) # char_of (y mod 16 * 16 + z div 4) #
                          char_of (z mod 4 * 64 + w) # t) (b64_quanta r)))
      | _ \<Rightarrow> None)"
| "b64_quanta _ = None"

text \<open>Line breaks are skipped wherever they are; \<open>corrupt\<close> is the error of the library.\<close>

definition DecodeString :: "(string \<Rightarrow> go_error) \<Rightarrow> string \<Rightarrow> go_error + string" where
  "DecodeString corrupt s =
     (case b64_quanta (filter (\<lambda>c. c \<noteq> CHR 0x0A \<and> c \<noteq> CHR 0x0D) s) of
        None \<Rightarrow> Inl (corrupt s)
      | Some d \<Rightarrow> Inr d)"

subsection \<open>What was encoded is decoded\<close>

lemma char_of_byte [simp]: "char_of (byte c) = c"
  by (simp add: byte_def)

lemma high_bits [simp]:
  "byte c div 4 < 64" "byte c div 16 < 16" "byte c div 64 < 4"
  using byte_less [of c] by (simp_all add: less_mult_imp_div_less)

lemma six_bits [simp]: "(x :: nat) < 16 \<Longrightarrow> n mod 4 * 16 + x < 64" "(x :: nat) < 4 \<Longrightarrow> n mod 16 * 4 + x < 64"
  using mod_less_divisor [of 4 n] mod_less_divisor [of 16 n] by linarith+

lemma last_bits [simp]: "n mod 4 * 16 < (64 :: nat)" "n mod 16 * 4 < (64 :: nat)"
  using mod_less_divisor [of 4 n] mod_less_divisor [of 16 n] by linarith+

lemma quanta_encode: "b64_quanta (EncodeToString s) = Some s"
  by (induction s rule: EncodeToString.induct) simp_all

lemma encode_no_breaks: "filter (\<lambda>c. c \<noteq> CHR 0x0A \<and> c \<noteq> CHR 0x0D) (EncodeToString s) = EncodeToString s"
  by (induction s rule: EncodeToString.induct) simp_all

lemma Decode_Encode [simp]: "DecodeString corrupt (EncodeToString s) = Inr s"
  by (simp add: DecodeString_def quanta_encode encode_no_breaks)

end
