(* ===== verification/Jwttool.thy ===== *)
theory Jwttool
  imports Jwt_Provider Base64
begin

text \<open>
  \<^verbatim>\<open>cmd/jwttool/main.go\<close>: the command that makes keys and signs tokens for the JWT provider.
  The flag library, the lines typed at its prompts and the cryptography are arguments; what
  the command makes of them, prints and exits with is modelled. The quoted values in error
  texts (\<^verbatim>\<open>%q\<close>) are those of values that need no escape.
\<close>

subsection \<open>Helpers\<close>

definition splitTrim :: "string \<Rightarrow> string list" where
  "splitTrim s = filter (\<lambda>p. p \<noteq> []) (map TrimSpace (Split CHR '','' s))"

text \<open>\<^verbatim>\<open>strings.Cut(s, "=")\<close>.\<close>

fun cut_eq :: "string \<Rightarrow> (string \<times> string) option" where
  "cut_eq [] = None"
| "cut_eq (c # r) = (if c = CHR ''='' then Some ([], r) else map_option (\<lambda>(a, b). (c # a, b)) (cut_eq r))"

text \<open>
  \<^verbatim>\<open>fmt.Sscanf(s, "%d", &days)\<close>: white space other than a line break is skipped, then an
  optional sign and decimal digits are read; what follows them is not looked at.
\<close>

definition scan_int :: "string \<Rightarrow> int option" where
  "scan_int s =
     (let s1 = dropWhile (\<lambda>c. ascii_space c \<and> byte c \<noteq> 10) s;
          (neg, s2) = (case s1 of c # r \<Rightarrow> if c = CHR ''-'' then (True, r) else if c = CHR ''+'' then (False, r) else (False, s1)
                       | [] \<Rightarrow> (False, []))
      in case parse_nat (takeWhile is_digit s2) of
           None \<Rightarrow> None
         | Some n \<Rightarrow> let v = (if neg then - int n else int n) in if in_int64 v then Some v else None)"

text \<open>\<open>std\<close> is \<^verbatim>\<open>time.ParseDuration\<close>. The product of days is taken in 64 bits.\<close>

definition parseDuration :: "(string \<Rightarrow> go_error + int) \<Rightarrow> string \<Rightarrow> go_error + int" where
  "parseDuration std s =
     (if HasSuffix s ''d'' then
        let s' = take (length s - 1) s in
        (case scan_int s' of
           None \<Rightarrow> Inl (ErrText (''invalid days: '' @ s'))
         | Some days \<Rightarrow> Inr (wrap64 (wrap64 (days * 24) * 3600000000000)))
      else std s)"

subsection \<open>The command\<close>

record token_flags =
  fl_privateKey :: string
  fl_secret :: string
  fl_subject :: string
  fl_issuer :: string
  fl_audience :: string
  fl_roles :: string
  fl_scopes :: string
  fl_expiry :: string
  fl_attrs :: "string list"
  fl_interactive :: bool

text \<open>\<^verbatim>\<open>readLine\<close> on the lines of the input; after the last one it gives empty lines.\<close>

definition readLine :: "string list \<Rightarrow> string \<times> string list" where
  "readLine ls = (case ls of [] \<Rightarrow> ([], []) | l # r \<Rightarrow> (TrimSpace l, r))"

text \<open>A prompt: the text is printed on the standard output and a line is read.\<close>

type_synonym terminal = "string list \<times> string"

definition prompt :: "string \<Rightarrow> terminal \<Rightarrow> string \<times> terminal" where
  "prompt txt s = (let (v, ls) = readLine (fst s) in (v, ls, snd s @ txt))"

definition prompt_key :: "token_flags \<times> terminal \<Rightarrow> token_flags \<times> terminal" where
  "prompt_key s =
     (let (f, io) = s in
      if fl_privateKey f = [] \<and> fl_secret f = [] then
        let (m, io1) = prompt ''Signing method (ecdsa/hmac) [ecdsa]: '' io in
        if m = [] \<or> m = ''ecdsa''
        then let (v, io2) = prompt ''Private key (base64): '' io1 in (f\<lparr>fl_privateKey := v\<rparr>, io2)
        else let (v, io2) = prompt ''HMAC secret: '' io1 in (f\<lparr>fl_secret := v\<rparr>, io2)
      else (f, io))"

definition prompt_if ::
  "(token_flags \<Rightarrow> bool) \<Rightarrow> (token_flags \<Rightarrow> string) \<Rightarrow> (string \<Rightarrow> token_flags \<Rightarrow> token_flags)
     \<Rightarrow> token_flags \<times> terminal \<Rightarrow> token_flags \<times> terminal" where
  "prompt_if missing txt upd s =
     (let (f, io) = s in
      if missing f then let (v, io1) = prompt (txt f) io in (upd v f, io1) else (f, io))"

definition interactive_fill :: "token_flags \<Rightarrow> string list \<Rightarrow> token_flags \<times> terminal" where
  "interactive_fill f ls =
     (let s1 = prompt_key (f, ls, []);
          s2 = prompt_if (\<lambda>f. fl_subject f = []) (\<lambda>f. ''Subject (sub): '') (\<lambda>v f. f\<lparr>fl_subject := v\<rparr>) s1;
          s3 = prompt_if (\<lambda>f. fl_issuer f = []) (\<lambda>f. ''Issuer (iss) []: '') (\<lambda>v f. f\<lparr>fl_issuer := v\<rparr>) s2;
          s4 = prompt_if (\<lambda>f. fl_audience f = []) (\<lambda>f. ''Audience (aud) []: '') (\<lambda>v f. f\<lparr>fl_audience := v\<rparr>) s3;
          s5 = prompt_if (\<lambda>f. fl_roles f = []) (\<lambda>f. ''Roles (comma-separated) []: '') (\<lambda>v f. f\<lparr>fl_roles := v\<rparr>) s4;
          s6 = prompt_if (\<lambda>f. fl_scopes f = []) (\<lambda>f. ''Scopes (comma-separated) []: '') (\<lambda>v f. f\<lparr>fl_scopes := v\<rparr>) s5;
          s7 = prompt_if (\<lambda>f. length (fl_attrs f) = 0) (\<lambda>f. ''Attributes (key=value, comma-separated) []: '')
                 (\<lambda>v f. if v \<noteq> [] then f\<lparr>fl_attrs := Split CHR '','' v\<rparr> else f) s6
      in prompt_if (\<lambda>f. True) (\<lambda>f. ''Expiry ['' @ fl_expiry f @ '']: '')
           (\<lambda>v f. if v \<noteq> [] then f\<lparr>fl_expiry := v\<rparr> else f) s7)"

fun add_attrs :: "string list \<Rightarrow> MapClaims \<Rightarrow> go_error + MapClaims" where
  "add_attrs [] claims = Inr claims"
| "add_attrs (attr # rest) claims =
     (case cut_eq (TrimSpace attr) of
        None \<Rightarrow> Inl (ErrText (''invalid attribute '' @ CHR 0x22 # attr @ CHR 0x22 # '', expected key=value''))
      | Some (k, v) \<Rightarrow> add_attrs rest (claims(TrimSpace k \<mapsto> JStr (TrimSpace v))))"

text \<open>
  \<open>date\<close> is \<^verbatim>\<open>jwt.NewNumericDate\<close> in JSON, \<open>now1\<close> and \<open>now2\<close> the two readings of the
  clock.
\<close>

definition base_claims :: "(int \<Rightarrow> json) \<Rightarrow> int \<Rightarrow> int \<Rightarrow> token_flags \<Rightarrow> int \<Rightarrow> MapClaims" where
  "base_claims date now1 now2 f dur =
     (let c0 = [''sub'' \<mapsto> JStr (fl_subject f), ''exp'' \<mapsto> date (now1 + dur), ''iat'' \<mapsto> date now2];
          c1 = (if fl_issuer f \<noteq> [] then c0(''iss'' \<mapsto> JStr (fl_issuer f)) else c0);
          c2 = (if fl_audience f \<noteq> [] then c1(''aud'' \<mapsto> JStr (fl_audience f)) else c1);
          c3 = (if fl_roles f \<noteq> [] then c2(''roles'' \<mapsto> JArr (map JStr (splitTrim (fl_roles f)))) else c2)
      in if fl_scopes f \<noteq> [] then c3(''scope'' \<mapsto> JStr (Join (splitTrim (fl_scopes f)) '' '')) else c3)"

definition token_claims ::
  "(string \<Rightarrow> go_error + int) \<Rightarrow> (int \<Rightarrow> json) \<Rightarrow> int \<Rightarrow> int \<Rightarrow> token_flags \<Rightarrow> go_error + MapClaims" where
  "token_claims std date now1 now2 f =
     (if fl_privateKey f = [] \<and> fl_secret f = [] then Inl (ErrText ''either --private-key or --secret is required'')
      else if fl_privateKey f \<noteq> [] \<and> fl_secret f \<noteq> [] then Inl (ErrText ''--private-key and --secret are mutually exclusive'')
      else if fl_subject f = [] then Inl (ErrText ''--subject is required'')
      else
        (case parseDuration std (fl_expiry f) of
           Inl e \<Rightarrow> Inl (ErrWrap (''invalid expiry '' @ CHR 0x22 # fl_expiry f @ [CHR 0x22]) e)
         | Inr dur \<Rightarrow> add_attrs (fl_attrs f) (base_claims date now1 now2 f dur)))"

text \<open>
  The signing of the library: \<open>sign m k c\<close> is the token of the claims \<open>c\<close> under the method
  and key.
\<close>

datatype private_key = EcdsaPriv string | OtherPriv string

record signer =
  sg_base64 :: "string \<Rightarrow> go_error + string"
  sg_pkcs8 :: "string \<Rightarrow> go_error + private_key"
  sg_ES256 :: "string \<Rightarrow> MapClaims \<Rightarrow> go_error + string"
  sg_HS256 :: "string \<Rightarrow> MapClaims \<Rightarrow> go_error + string"

definition signECDSA :: "signer \<Rightarrow> string \<Rightarrow> MapClaims \<Rightarrow> go_error + string" where
  "signECDSA S privB64 claims =
     (case sg_base64 S privB64 of
        Inl e \<Rightarrow> Inl (ErrWrap ''base64 decode private key'' e)
      | Inr der \<Rightarrow>
          (case sg_pkcs8 S der of
             Inl e \<Rightarrow> Inl (ErrWrap ''parse private key'' e)
           | Inr (OtherPriv ty) \<Rightarrow> Inl (ErrText (''key is not ECDSA, got '' @ ty))
           | Inr (EcdsaPriv key) \<Rightarrow> sg_ES256 S key claims))"

definition signHMAC :: "signer \<Rightarrow> string \<Rightarrow> MapClaims \<Rightarrow> go_error + string" where
  "signHMAC S secret claims = sg_HS256 S secret claims"

definition cmdGenerateToken ::
  "signer \<Rightarrow> (string \<Rightarrow> go_error + int) \<Rightarrow> (int \<Rightarrow> json) \<Rightarrow> int \<Rightarrow> int \<Rightarrow> string list \<Rightarrow> token_flags \<Rightarrow> go_error + string" where
  "cmdGenerateToken S std date now1 now2 stdin flags =
     (let f = (if fl_interactive flags then fst (interactive_fill flags stdin) else flags) in
      case token_claims std date now1 now2 f of
        Inl e \<Rightarrow> Inl e
      | Inr claims \<Rightarrow>
          (case (if fl_privateKey f \<noteq> [] then signECDSA S (fl_privateKey f) claims else signHMAC S (fl_secret f) claims) of
             Inl e \<Rightarrow> Inl (ErrWrap ''sign token'' e)
           | Inr tok \<Rightarrow> Inr tok))"

subsection \<open>Keys\<close>

text \<open>
  What \<^verbatim>\<open>generate-keys\<close> uses of the libraries: a new P-256 key, its public key, and the two
  DER encodings.
\<close>

record keygen =
  kg_GenerateKey :: "go_error + string"
  kg_PublicKey :: "string \<Rightarrow> string"
  kg_PKCS8 :: "string \<Rightarrow> go_error + string"
  kg_PKIX :: "string \<Rightarrow> go_error + string"

text \<open>The lines it prints; \<^verbatim>\<open>fatal\<close> ends it with an error.\<close>

definition cmdGenerateKeys :: "keygen \<Rightarrow> go_error + string list" where
  "cmdGenerateKeys K =
     (case kg_GenerateKey K of
        Inl e \<Rightarrow> Inl (ErrWrap ''generate key'' e)
      | Inr priv \<Rightarrow>
          (case kg_PKCS8 K priv of
             Inl e \<Rightarrow> Inl (ErrWrap ''marshal private key'' e)
           | Inr privDER \<Rightarrow>
               (case kg_PKIX K (kg_PublicKey K priv) of
                  Inl e \<Rightarrow> Inl (ErrWrap ''marshal public key'' e)
                | Inr pubDER \<Rightarrow>
                    Inr [''# ECDSA P-256 key pair'',
                         ''# Keep the private key secret. Use the public key in jwt.public-key property.'',
                         [], ''private-key='' @ EncodeToString privDER,
                         [], ''public-key='' @ EncodeToString pubDER])))"

text \<open>The choice of the command by \<^verbatim>\<open>main\<close> from \<^verbatim>\<open>os.Args\<close>.\<close>

datatype jwttool_command = GenerateKeys "string list" | GenerateToken "string list" | Usage | Unknown "string option"

definition jwttool_main :: "string list \<Rightarrow> jwttool_command" where
  "jwttool_main args =
     (if length args < 2 then Unknown None
      else if args ! 1 = ''generate-keys'' then GenerateKeys (drop 2 args)
      else if args ! 1 = ''generate-token'' then GenerateToken (drop 2 args)
      else if args ! 1 \<in> {''help'', ''--help'', ''-h''} then Usage
      else Unknown (Some (args ! 1)))"

text \<open>
  How the process ends: what it wrote on its two outputs and the exit code. \<open>tl_parse_keys\<close> and
  \<open>tl_parse_token\<close> are the flag library, which ends the process itself for a request for help
  and for flags it does not know.
\<close>

record process_end =
  pe_stdout :: string
  pe_stderr :: string
  pe_exit :: int

record jwttool_env =
  tl_parse_keys :: "string list \<Rightarrow> process_end option"
  tl_parse_token :: "string list \<Rightarrow> process_end + token_flags"
  tl_keygen :: keygen
  tl_signer :: signer
  tl_ParseDuration :: "string \<Rightarrow> go_error + int"
  tl_NumericDate :: "int \<Rightarrow> json"
  tl_now :: "int \<times> int"

definition newline :: string where
  "newline = [CHR 0x0A]"

definition lines :: "string list \<Rightarrow> string" where
  "lines ls = concat (map (\<lambda>l. l @ newline) ls)"

definition usage_text :: string where
  "usage_text = lines
     [''jwttool '' @ [CHR 0xE2, CHR 0x80, CHR 0x94] @ '' JWT key and token management for Servion'', [],
      ''Usage:'', ''  jwttool <command> [flags]'', [], ''Commands:'',
      ''  generate-keys    Generate an ECDSA P-256 key pair (base64 DER)'',
      ''  generate-token   Generate a signed JWT token'', [],
      ''Run '' @ [CHR 0x22] @ ''jwttool <command> --help'' @ [CHR 0x22] @ '' for details.'']"

text \<open>The usage of the two commands; \<open>defaults\<close> is what \<^verbatim>\<open>PrintDefaults\<close> prints.\<close>

definition keys_usage :: string where
  "keys_usage = lines
     [''Generate an ECDSA P-256 key pair.'', [],
      ''Outputs the private key and public key as base64-encoded DER strings,'',
      ''ready to use in Servion configuration (jwt.public-key property).'', [],
      ''Usage:'', ''  jwttool generate-keys'', []]"

definition token_usage :: "string \<Rightarrow> string" where
  "token_usage defaults =
     lines
       [''Generate a signed JWT token.'', [], ''Supports ECDSA (--private-key) or HMAC (--secret) signing.'',
        ''Use --interactive to be prompted for values.'', [], ''Usage:'', ''  jwttool generate-token [flags]'', [], ''Flags:'']
     @ defaults
     @ lines
       [[], ''Examples:'', ''  # ECDSA token'',
        ''  jwttool generate-token -k <base64-private-key> -s user@example.com -r admin,editor -e 24h'', [],
        ''  # HMAC token'', ''  jwttool generate-token --secret my-secret -s service-account -e 8760h'', [],
        ''  # Interactive mode'', ''  jwttool generate-token -I'']"

text \<open>The flags that are not given.\<close>

definition token_defaults :: token_flags where
  "token_defaults = \<lparr>fl_privateKey = [], fl_secret = [], fl_subject = [], fl_issuer = [], fl_audience = [], fl_roles = [],
     fl_scopes = [], fl_expiry = ''1h'', fl_attrs = [], fl_interactive = False\<rparr>"

definition fatal :: "string \<Rightarrow> go_error \<Rightarrow> process_end" where
  "fatal printed e = \<lparr>pe_stdout = printed, pe_stderr = ''error: '' @ Error e @ newline, pe_exit = 1\<rparr>"

definition token_prompts :: "token_flags \<Rightarrow> string list \<Rightarrow> string" where
  "token_prompts flags stdin = (if fl_interactive flags then snd (snd (interactive_fill flags stdin)) else [])"

definition jwttool :: "jwttool_env \<Rightarrow> string list \<Rightarrow> string list \<Rightarrow> process_end" where
  "jwttool L args stdin =
     (case jwttool_main args of
        Unknown None \<Rightarrow> \<lparr>pe_stdout = [], pe_stderr = usage_text, pe_exit = 1\<rparr>
      | Unknown (Some c) \<Rightarrow>
          \<lparr>pe_stdout = [], pe_stderr = ''unknown command: '' @ c @ newline @ newline @ usage_text, pe_exit = 1\<rparr>
      | Usage \<Rightarrow> \<lparr>pe_stdout = [], pe_stderr = usage_text, pe_exit = 0\<rparr>
      | GenerateKeys rest \<Rightarrow>
          (case tl_parse_keys L rest of
             Some pe \<Rightarrow> pe
           | None \<Rightarrow>
               (case cmdGenerateKeys (tl_keygen L) of
                  Inl e \<Rightarrow> fatal [] e
                | Inr out \<Rightarrow> \<lparr>pe_stdout = lines out, pe_stderr = [], pe_exit = 0\<rparr>))
      | GenerateToken rest \<Rightarrow>
          (case tl_parse_token L rest of
             Inl pe \<Rightarrow> pe
           | Inr flags \<Rightarrow>
               (case cmdGenerateToken (tl_signer L) (tl_ParseDuration L) (tl_NumericDate L) (fst (tl_now L)) (snd (tl_now L)) stdin flags of
                  Inl e \<Rightarrow> fatal (token_prompts flags stdin) e
                | Inr tok \<Rightarrow> \<lparr>pe_stdout = token_prompts flags stdin @ tok @ newline, pe_stderr = [], pe_exit = 0\<rparr>)))"

lemma jwttool_token_run:
  assumes "jwttool_main args = GenerateToken rest" and "tl_parse_token L rest = Inr flags" and "pe_exit (jwttool L args stdin) = 0"
  shows "\<exists>tok. cmdGenerateToken (tl_signer L) (tl_ParseDuration L) (tl_NumericDate L) (fst (tl_now L)) (snd (tl_now L)) stdin flags = Inr tok \<and>
     pe_stdout (jwttool L args stdin) = token_prompts flags stdin @ tok @ newline"
  using assms by (auto simp: jwttool_def fatal_def split: sum.splits)

subsection \<open>Reading back the claims\<close>

lemma splitTrim_parts: "splitTrim s = trimmed_parts CHR '','' s"
  by (simp add: splitTrim_def trimmed_parts_def)

lemma json_strings_map: "json_strings (map JStr ws) = ws"
  by (induction ws) auto

lemma add_attrs_keeps:
  assumes "add_attrs as c = Inr c1" and "\<forall>a \<in> set as. \<forall>k v. cut_eq (TrimSpace a) = Some (k, v) \<longrightarrow> TrimSpace k \<noteq> key"
  shows "c1 key = c key"
  using assms by (induction as arbitrary: c) (auto split: option.splits prod.splits)

lemma base_claims_scope:
  assumes "fl_scopes f \<noteq> []" and "\<forall>w \<in> set (splitTrim (fl_scopes f)). CHR '' '' \<notin> set w"
  shows "parseScopeClaim (base_claims date n1 n2 f dur) ''scope'' = splitTrim (fl_scopes f)"
proof -
  have "splitClaimString (Join (splitTrim (fl_scopes f)) '' '') = splitTrim (fl_scopes f)"
    using assms(2) trimmed_parts_ok [of _ "CHR '',''" "fl_scopes f"]
    by (intro splitClaimString_Join) (auto simp: splitTrim_parts)
  with assms(1) show ?thesis by (simp add: base_claims_def parseScopeClaim_def Let_def)
qed

lemma base_claims_roles:
  "fl_roles f \<noteq> [] \<Longrightarrow> claimStringSlice (base_claims date n1 n2 f dur) ''roles'' = splitTrim (fl_roles f)"
  by (simp add: base_claims_def claimStringSlice_def json_strings_map Let_def)

lemma base_claims_sub:
  "claimString (base_claims date n1 n2 f dur) ''sub'' = fl_subject f"
  "claimString (base_claims date n1 n2 f dur) ''iss'' = fl_issuer f"
  by (auto simp: base_claims_def claimString_def Let_def)

lemma trimmed_parts_Nil [simp]: "trimmed_parts c [] = []"
proof -
  have "TrimSpace [] = []" by code_simp
  then show ?thesis by (simp add: trimmed_parts_def)
qed

lemma base_claims_exp [simp]: "base_claims date n1 n2 f dur ''exp'' = Some (date (n1 + dur))"
  by (simp add: base_claims_def Let_def)

lemma base_claims_lists:
  assumes "\<forall>w \<in> set (splitTrim (fl_scopes f)). CHR '' '' \<notin> set w"
  shows "claimStringSlice (base_claims date n1 n2 f dur) ''roles'' = trimmed_parts CHR '','' (fl_roles f)"
    and "parseScopeClaim (base_claims date n1 n2 f dur) ''scope'' = trimmed_parts CHR '','' (fl_scopes f)"
proof -
  show "claimStringSlice (base_claims date n1 n2 f dur) ''roles'' = trimmed_parts CHR '','' (fl_roles f)"
    using base_claims_roles [of f date n1 n2 dur]
    by (cases "fl_roles f = []") (auto simp: splitTrim_parts base_claims_def claimStringSlice_def Let_def)
  show "parseScopeClaim (base_claims date n1 n2 f dur) ''scope'' = trimmed_parts CHR '','' (fl_scopes f)"
    using base_claims_scope [OF _ assms, of date n1 n2 dur]
    by (cases "fl_scopes f = []") (auto simp: splitTrim_parts base_claims_def parseScopeClaim_def Let_def)
qed

subsection \<open>Properties\<close>

text \<open>
  What the tool puts into a token is what the provider reads from it: for scopes without a
  blank inside, the claims that the tool builds give the provider, with its default claim
  names, the subject, issuer, roles and scopes of the command line, the lists in their order
  and without the white space around the entries.
\<close>

theorem jwttool_claims_roundtrip:
  assumes "token_claims std date n1 n2 f = Inr c"
    and "\<forall>w \<in> set (splitTrim (fl_scopes f)). CHR '' '' \<notin> set w" and "fl_attrs f = []"
  shows "claimString c ''sub'' = fl_subject f \<and> claimString c ''iss'' = fl_issuer f \<and> fl_subject f \<noteq> [] \<and>
     claimStringSlice c ''roles'' = trimmed_parts CHR '','' (fl_roles f) \<and>
     parseScopeClaim c ''scope'' = trimmed_parts CHR '','' (fl_scopes f) \<and> c ''exp'' \<noteq> None"
proof -
  obtain dur where c: "c = base_claims date n1 n2 f dur" "fl_subject f \<noteq> []"
    using assms(1,3) by (auto simp: token_claims_def split: if_splits sum.splits)
  with base_claims_lists [OF assms(2)] base_claims_sub show ?thesis by simp
qed

definition sample_flags :: token_flags where
  "sample_flags = \<lparr>fl_privateKey = [], fl_secret = ''k'', fl_subject = ''bob'', fl_issuer = [], fl_audience = [],
     fl_roles = ''admin, user'', fl_scopes = ''read,write'', fl_expiry = ''7d'', fl_attrs = [], fl_interactive = False\<rparr>"

theorem jwttool_claims_roundtrip_witness:
  "\<exists>c. token_claims (\<lambda>s. Inl EADDRINUSE) (\<lambda>t. JNum (Itoa t)) 0 0 sample_flags = Inr c \<and> claimString c ''sub'' = ''bob'' \<and>
     claimStringSlice c ''roles'' = [''admin'', ''user''] \<and> parseScopeClaim c ''scope'' = [''read'', ''write'']"
proof -
  have d: "parseDuration (\<lambda>s. Inl EADDRINUSE) ''7d'' = Inr 604800000000000" by code_simp
  obtain c where c: "token_claims (\<lambda>s. Inl EADDRINUSE) (\<lambda>t. JNum (Itoa t)) 0 0 sample_flags = Inr c"
    using d by (simp add: token_claims_def sample_flags_def)
  have s: "\<forall>w \<in> set (splitTrim (fl_scopes sample_flags)). CHR '' '' \<notin> set w" by code_simp
  have p: "trimmed_parts CHR '','' ''admin, user'' = [''admin'', ''user'']"
    "trimmed_parts CHR '','' ''read,write'' = [''read'', ''write'']" by code_simp+
  show ?thesis
    using c jwttool_claims_roundtrip [OF c s] p by (auto simp: sample_flags_def)
qed

text \<open>
  A scope with a blank in it does not survive: the tool joins scopes with blanks, so the
  provider reads the one scope \<^verbatim>\<open>read all\<close> as two.
\<close>

theorem jwttool_blank_scope_splits:
  "splitTrim ''read all'' = [''read all''] \<and>
   parseScopeClaim (base_claims date n1 n2 (f\<lparr>fl_scopes := ''read all''\<rparr>) dur) ''scope'' = [''read'', ''all'']"
proof -
  have "splitTrim ''read all'' = [''read all'']" "splitClaimString ''read all'' = [''read'', ''all'']" by code_simp+
  then show ?thesis by (simp add: base_claims_def parseScopeClaim_def Let_def)
qed

text \<open>
  Days are exact up to 106751 of them: such a number followed by \<^verbatim>\<open>d\<close> gives that many
  times 24 hours.
\<close>

theorem parseDuration_days:
  assumes "n \<le> 106751"
  shows "parseDuration std (Itoa (int n) @ ''d'') = Inr (int n * 86400000000000)"
proof -
  have dig: "list_all is_digit (Itoa (int n))" using nat_digits_digits by (simp add: Itoa_def)
  have ne: "Itoa (int n) \<noteq> []" by (simp add: Itoa_def)
  then obtain c r where cr: "Itoa (int n) = c # r" "is_digit c" using dig by (cases "Itoa (int n)") auto
  then have c: "\<not> ascii_space c" "c \<noteq> CHR ''-''" "c \<noteq> CHR ''+''"
    by (auto simp: is_digit_def ascii_space_def byte_def)
  have tw: "takeWhile is_digit r = r"
    using dig cr(1) by (simp add: takeWhile_eq_all_conv list_all_iff)
  have "parse_nat (Itoa (int n)) = Some n" by simp
  moreover have "in_int64 (int n)" "in_int64 (int n * 24)" "in_int64 (int n * 24 * 3600000000000)"
    using assms by (simp_all add: in_int64_def min_int64_def max_int64_def)
  ultimately have "scan_int (Itoa (int n)) = Some (int n)"
    using cr c by (simp add: scan_int_def Let_def tw)
  then show ?thesis
    using \<open>in_int64 (int n * 24)\<close> \<open>in_int64 (int n * 24 * 3600000000000)\<close>
    by (simp add: parseDuration_def)
qed

theorem parseDuration_days_witness: "parseDuration (\<lambda>s. Inl EADDRINUSE) ''365d'' = Inr 31536000000000000"
proof -
  have "Itoa (int 365) @ ''d'' = ''365d''" by code_simp
  then show ?thesis using parseDuration_days [of 365 "\<lambda>s. Inl EADDRINUSE"] by simp
qed

text \<open>
  Beyond that the duration wraps around, and text after the number is ignored: 106752 days
  are a negative duration, so the token is expired when it is made, and \<^verbatim>\<open>1h30d\<close> is read
  as one day.
\<close>

theorem parseDuration_days_wrap:
  "parseDuration std ''106752d'' = Inr (-9223371273709551616) \<and>
   parseDuration std ''1h30d'' = Inr 86400000000000"
proof -
  have "scan_int ''106752'' = Some 106752" "scan_int ''1h30'' = Some 1"
    by (simp_all add: scan_int_def parse_nat_def is_digit_def ascii_space_def byte_def
          in_int64_def min_int64_def max_int64_def Let_def)
  moreover have "suffix ''d'' ''106752d''" "suffix ''d'' ''1h30d''" by code_simp+
  moreover have "wrap64 (wrap64 (106752 * 24) * 3600000000000) = -9223371273709551616"
    "wrap64 (wrap64 (1 * 24) * 3600000000000) = 86400000000000"
    by (simp_all add: wrap64_def)
  ultimately show ?thesis by (simp add: parseDuration_def)
qed

lemma cut_eq_None: "cut_eq s = None \<longleftrightarrow> CHR ''='' \<notin> set s"
  by (induction s) auto

lemma add_attrs_outcome:
  "add_attrs as c = Inl e \<Longrightarrow> \<exists>a. find (\<lambda>a. CHR ''='' \<notin> set (TrimSpace a)) as = Some a \<and>
     e = ErrText (''invalid attribute '' @ CHR 0x22 # a @ CHR 0x22 # '', expected key=value'')"
  "add_attrs as c = Inr c1 \<Longrightarrow> find (\<lambda>a. CHR ''='' \<notin> set (TrimSpace a)) as = None"
proof (induction as arbitrary: c)
  case (Cons a as)
  {
    case 1
    with Cons.IH(1) cut_eq_None [of "TrimSpace a"] show ?case
      by (cases "cut_eq (TrimSpace a)") (auto split: prod.splits)
  next
    case 2
    with Cons.IH(2) cut_eq_None [of "TrimSpace a"] show ?case
      by (cases "cut_eq (TrimSpace a)") (auto split: prod.splits)
  }
qed simp_all

text \<open>What is signed, and with which key.\<close>

definition token_signed :: "signer \<Rightarrow> token_flags \<Rightarrow> MapClaims \<Rightarrow> go_error + string" where
  "token_signed S f c = (if fl_privateKey f \<noteq> [] then signECDSA S (fl_privateKey f) c else signHMAC S (fl_secret f) c)"

text \<open>The first thing that is wrong with the flags, before anything is signed.\<close>

definition flag_error :: "(string \<Rightarrow> go_error + int) \<Rightarrow> token_flags \<Rightarrow> string \<Rightarrow> bool" where
  "flag_error std f msg \<longleftrightarrow>
     fl_privateKey f = [] \<and> fl_secret f = [] \<and> msg = ''either --private-key or --secret is required''
   \<or> fl_privateKey f \<noteq> [] \<and> fl_secret f \<noteq> [] \<and> msg = ''--private-key and --secret are mutually exclusive''
   \<or> (fl_privateKey f = []) \<noteq> (fl_secret f = []) \<and>
      (fl_subject f = [] \<and> msg = ''--subject is required''
     \<or> fl_subject f \<noteq> [] \<and>
        (case parseDuration std (fl_expiry f) of
           Inl e \<Rightarrow> msg = ''invalid expiry '' @ CHR 0x22 # fl_expiry f @ CHR 0x22 # '': '' @ Error e
         | Inr d \<Rightarrow> (\<exists>a. find (\<lambda>a. CHR ''='' \<notin> set (TrimSpace a)) (fl_attrs f) = Some a \<and>
             msg = ''invalid attribute '' @ CHR 0x22 # a @ CHR 0x22 # '', expected key=value'')))"

lemma token_defaults_error:
  "flag_error std token_defaults msg \<longleftrightarrow> msg = ''either --private-key or --secret is required''"
  by (auto simp: flag_error_def token_defaults_def)

lemma token_claims_outcome:
  "token_claims std date n1 n2 f = Inl e \<Longrightarrow> flag_error std f (Error e)"
  "token_claims std date n1 n2 f = Inr c \<Longrightarrow> \<not> flag_error std f msg"
  by (auto simp: token_claims_def flag_error_def split: if_splits sum.splits dest!: add_attrs_outcome)

text \<open>
  C13. The tool fails loudly and cleanly: from flags alone it either prints one token and
  nothing else and exits with 0, which it does exactly when the flags are in order and the
  signing succeeds; or it prints nothing on the standard output, exactly one error line, which
  names the first thing that is wrong, and exits with 1.
\<close>

theorem jwttool_errors:
  assumes "jwttool_main args = GenerateToken rest" and "tl_parse_token L rest = Inr f" and "\<not> fl_interactive f"
    and "r = jwttool L args stdin" and "std = tl_ParseDuration L"
    and "claims = token_claims std (tl_NumericDate L) (fst (tl_now L)) (snd (tl_now L)) f"
  shows "(pe_exit r = 0 \<longleftrightarrow> (\<forall>msg. \<not> flag_error std f msg) \<and> \<not> isl (token_signed (tl_signer L) f (projr claims))) \<and>
     (if pe_exit r = 0 then pe_stderr r = [] \<and> pe_stdout r = projr (token_signed (tl_signer L) f (projr claims)) @ newline
      else pe_exit r = 1 \<and> pe_stdout r = [] \<and>
        (\<exists>msg. pe_stderr r = ''error: '' @ msg @ newline \<and>
           (if \<exists>m. flag_error std f m then flag_error std f msg
            else msg = ''sign token: '' @ Error (projl (token_signed (tl_signer L) f (projr claims))))))"
proof (cases claims)
  case (Inl e)
  then have m: "flag_error std f (Error e)"
    using token_claims_outcome assms(6) by metis
  have "r = fatal [] e"
    using Inl assms by (simp add: jwttool_def cmdGenerateToken_def token_prompts_def)
  with m show ?thesis by (auto simp: fatal_def)
next
  case (Inr c)
  then have m: "\<forall>msg. \<not> flag_error std f msg"
    using token_claims_outcome assms(6) by metis
  show ?thesis
  proof (cases "token_signed (tl_signer L) f c")
    case (Inl e)
    then have "r = fatal [] (ErrWrap ''sign token'' e)"
      using Inr assms by (simp add: jwttool_def cmdGenerateToken_def token_prompts_def token_signed_def)
    with m Inl Inr show ?thesis by (simp add: fatal_def)
  next
    case (Inr tok)
    then have "r = \<lparr>pe_stdout = tok @ newline, pe_stderr = [], pe_exit = 0\<rparr>"
      using \<open>claims = Inr c\<close> assms by (simp add: jwttool_def cmdGenerateToken_def token_prompts_def token_signed_def)
    with m Inr \<open>claims = Inr c\<close> show ?thesis by simp
  qed
qed

definition sample_env :: "token_flags \<Rightarrow> jwttool_env" where
  "sample_env f =
     \<lparr>tl_parse_keys = (\<lambda>as. None), tl_parse_token = (\<lambda>as. Inr f),
      tl_keygen = \<lparr>kg_GenerateKey = Inl EADDRINUSE, kg_PublicKey = id, kg_PKCS8 = Inr, kg_PKIX = Inr\<rparr>,
      tl_signer = \<lparr>sg_base64 = (\<lambda>s. Inl EADDRINUSE), sg_pkcs8 = (\<lambda>s. Inl EADDRINUSE), sg_ES256 = (\<lambda>k c. Inl EADDRINUSE),
        sg_HS256 = (\<lambda>k c. Inr ''tok'')\<rparr>,
      tl_ParseDuration = (\<lambda>s. Inl EADDRINUSE), tl_NumericDate = (\<lambda>t. JNum (Itoa t)), tl_now = (0, 0)\<rparr>"

theorem jwttool_errors_witness:
  "jwttool (sample_env (sample_flags\<lparr>fl_subject := []\<rparr>)) [''jwttool'', ''generate-token''] [] =
     \<lparr>pe_stdout = [], pe_stderr = ''error: --subject is required'' @ newline, pe_exit = 1\<rparr> \<and>
   pe_exit (jwttool (sample_env sample_flags) [''jwttool'', ''generate-token''] []) = 0"
proof -
  have m: "jwttool_main [''jwttool'', ''generate-token''] = GenerateToken []" by (simp add: jwttool_main_def)
  have p: "tl_parse_token (sample_env f) [] = Inr f" for f by (simp add: sample_env_def)
  have d: "parseDuration (tl_ParseDuration (sample_env f)) ''7d'' = Inr 604800000000000" for f by code_simp
  let ?bad = "sample_flags\<lparr>fl_subject := []\<rparr>"
  have n: "\<not> fl_interactive sample_flags" "\<not> fl_interactive ?bad" by (simp_all add: sample_flags_def)
  have e: "flag_error std ?bad msg \<longleftrightarrow> msg = ''--subject is required''" for std msg
    by (auto simp: flag_error_def sample_flags_def)
  have g: "\<not> flag_error (tl_ParseDuration (sample_env f)) sample_flags msg" for f msg
    using d by (simp add: flag_error_def sample_flags_def)
  have t: "token_signed (tl_signer (sample_env f)) sample_flags c = Inr ''tok''" for f c
    by (simp add: token_signed_def sample_flags_def sample_env_def signHMAC_def)
  have "pe_exit (jwttool (sample_env sample_flags) [''jwttool'', ''generate-token''] []) = 0"
    using jwttool_errors [OF m p n(1) refl refl refl, where stdin = "[]"] g t by simp
  moreover have "pe_exit (jwttool (sample_env ?bad) [''jwttool'', ''generate-token''] []) = 1 \<and>
      pe_stdout (jwttool (sample_env ?bad) [''jwttool'', ''generate-token''] []) = [] \<and>
      pe_stderr (jwttool (sample_env ?bad) [''jwttool'', ''generate-token''] []) = ''error: --subject is required'' @ newline"
    using jwttool_errors [OF m p n(2) refl refl refl, where stdin = "[]"] unfolding e by (auto split: if_splits)
  ultimately show ?thesis by (simp add: process_end.equality)
qed

text \<open>
  In the interactive mode the prompts are written to the standard output as well, so that the
  output is not the token: it starts with a prompt.
\<close>

theorem jwttool_prompts_precede_token:
  assumes "fl_interactive flags"
  shows "\<exists>before after. token_prompts flags stdin = before @ ''Expiry ['' @ after"
proof -
  have "\<exists>before after. snd (snd (prompt_if (\<lambda>f. True) (\<lambda>f. ''Expiry ['' @ fl_expiry f @ '']: '') upd s)) =
      before @ ''Expiry ['' @ after" for upd s
    by (auto simp: prompt_if_def prompt_def split: prod.splits)
  then show ?thesis using assms by (simp add: token_prompts_def interactive_fill_def Let_def)
qed

theorem jwttool_prompts_precede_token_witness:
  "\<exists>before after. token_prompts (sample_flags\<lparr>fl_interactive := True\<rparr>) [] = before @ ''Expiry ['' @ after"
  by (rule jwttool_prompts_precede_token) simp

end
