(* ===== verification/Example_Rpc.thy ===== *)
theory Example_Rpc
  imports Scanners Vrpc Jwttool
begin

text \<open>
  The applications below \<^verbatim>\<open>grpc/examples/\<close> and \<^verbatim>\<open>vrpc/examples/\<close>: their services, the
  properties they are configured with and their clients.
\<close>

subsection \<open>The gRPC echo service\<close>

definition echo_Say :: "grpc_ctx \<Rightarrow> string \<Rightarrow> grpc_status + string" where
  "echo_Say c message =
     (let subject = (case AuthFromContext (gx_values c) of
                       Some info \<Rightarrow> if Subject info \<noteq> [] then Subject info else ''anonymous''
                     | None \<Rightarrow> ''anonymous'')
      in Inr (''echo: '' @ message @ '' (from '' @ subject @ '')''))"

definition echo_properties :: "(string \<times> string) list" where
  "echo_properties = [(''grpc-server.bind-address'', ''0.0.0.0:9090''), (''grpc-server.options'', ''health;reflection'')]"

text \<open>The beans of the gRPC and value-rpc examples, and what their programs put together.\<close>

datatype rpc_bean =
    EchoService
  | GreeterService
  | FlakyService
  | ProfileBean staticObfsProfile
  | ResilienceBean string

datatype rpc_item =
    PropertyMap "(string \<times> string) list"
  | RunGrpc "rpc_bean scanner"
  | RunValue "rpc_bean scanner"
  | GrpcClients "rpc_bean scanner"
  | ValueClients "rpc_bean scanner"
  | ContainerBean rpc_bean
  | LoggerBean implZapLogFactory

definition echo_scanner :: "rpc_bean scanner" where
  "echo_scanner = GrpcServerScanner ''grpc-server'' [AppBean EchoService]"

definition echo_main :: "rpc_item list" where
  "echo_main = [PropertyMap echo_properties, RunGrpc echo_scanner, LoggerBean (ZapLogFactory True)]"

subsection \<open>Clients\<close>

text \<open>
  A client takes its argument from the command line or a default, builds its container
  (\<open>new\<close>), connects where the transport needs that, makes one call and prints its result. It
  ends with 1 at the first error, which it prints on the standard output.
\<close>

definition client_fails :: "go_error \<Rightarrow> process_end" where
  "client_fails e = \<lparr>pe_stdout = ''Error: '' @ Error e @ newline, pe_stderr = [], pe_exit = 1\<rparr>"

definition argument :: "string \<Rightarrow> string list \<Rightarrow> string" where
  "argument d args = (if 1 < length args then args ! 1 else d)"

definition echo_client :: "go_error option \<Rightarrow> (string \<Rightarrow> go_error + string) \<Rightarrow> string list \<Rightarrow> process_end" where
  "echo_client new say args =
     (let message = argument ''hello'' args in
      case new of
        Some e \<Rightarrow> client_fails e
      | None \<Rightarrow>
          (case say message of
             Inl e \<Rightarrow> client_fails e
           | Inr reply \<Rightarrow> \<lparr>pe_stdout = reply @ newline, pe_stderr = [], pe_exit = 0\<rparr>))"

definition value_client_main ::
  "string \<Rightarrow> string \<Rightarrow> go_error option \<Rightarrow> go_error option \<Rightarrow> (string \<Rightarrow> string \<Rightarrow> go_error + string) \<Rightarrow> string list \<Rightarrow> process_end" where
  "value_client_main function d new connect call args =
     (let name = argument d args in
      case new of
        Some e \<Rightarrow> client_fails e
      | None \<Rightarrow>
          (case connect of
             Some e \<Rightarrow> client_fails e
           | None \<Rightarrow>
               (case call function name of
                  Inl e \<Rightarrow> client_fails e
                | Inr resp \<Rightarrow> \<lparr>pe_stdout = resp @ newline, pe_stderr = [], pe_exit = 0\<rparr>)))"

definition greeter_client ::
  "go_error option \<Rightarrow> go_error option \<Rightarrow> (string \<Rightarrow> string \<Rightarrow> go_error + string) \<Rightarrow> string list \<Rightarrow> process_end" where
  "greeter_client = value_client_main ''greet'' ''World''"

definition obfs_client ::
  "go_error option \<Rightarrow> go_error option \<Rightarrow> (string \<Rightarrow> string \<Rightarrow> go_error + string) \<Rightarrow> string list \<Rightarrow> process_end" where
  "obfs_client = value_client_main ''greet'' ''World''"

definition resilience_client ::
  "go_error option \<Rightarrow> go_error option \<Rightarrow> (string \<Rightarrow> string \<Rightarrow> go_error + string) \<Rightarrow> string list \<Rightarrow> process_end" where
  "resilience_client = value_client_main ''fetch'' ''report''"

definition echo_client_properties :: "(string \<times> string) list" where
  "echo_client_properties = [(''grpc-client.connect-address'', ''127.0.0.1:9090'')]"

definition greeter_client_properties :: "(string \<times> string) list" where
  "greeter_client_properties = [(''value-client.connect-address'', ''127.0.0.1:9100'')]"

definition obfs_client_properties :: "(string \<times> string) list" where
  "obfs_client_properties = [(''value-client.connect-address'', ''127.0.0.1:9200'')]"

definition resilience_client_properties :: "(string \<times> string) list" where
  "resilience_client_properties =
     [(''value-client.connect-address'', ''127.0.0.1:9100''),
      (''value-client.resilience.retry.max-attempts'', ''5''), (''value-client.resilience.retry.backoff-ms'', ''20''),
      (''value-client.resilience.retry.max-backoff-ms'', ''500''),
      (''value-client.resilience.circuit-breaker.threshold'', ''10''), (''value-client.resilience.timeout-ms'', ''2000'')]"

subsection \<open>The value-rpc services\<close>

definition greeter_properties :: "(string \<times> string) list" where
  "greeter_properties = [(''value-server.bind-address'', ''0.0.0.0:9100'')]"

definition obfs_properties :: "(string \<times> string) list" where
  "obfs_properties = [(''value-server.bind-address'', ''0.0.0.0:9200'')]"

definition resilience_properties :: "(string \<times> string) list" where
  "resilience_properties = [(''value-server.bind-address'', ''0.0.0.0:9100'')]"

definition greet :: "string \<Rightarrow> go_error + string" where
  "greet name = Inr (''Hello, '' @ name @ ''!'')"

text \<open>
  \<open>fetch\<close> counts its calls in 64 bits and fails unless the count is a multiple of three; the
  result is the code and text of the failure or the value. Go's \<^verbatim>\<open>%\<close> is zero exactly when
  \<open>mod\<close> is.
\<close>

record flakyService =
  fs_calls :: int
  fs_log :: "log_entry list"

definition fetch :: "string \<Rightarrow> flakyService \<Rightarrow> (string \<times> string + string) \<times> flakyService" where
  "fetch arg t =
     (let n = wrap64 (fs_calls t + 1); t1 = t\<lparr>fs_calls := n\<rparr> in
      if n mod 3 \<noteq> 0
      then (Inl (''CodeUnavailable'', ''temporarily unavailable (call '' @ Itoa n @ '')''),
            t1\<lparr>fs_log := fs_log t @ [(LWarn, ''fetch transient failure'', [FInt ''call'' n, FStr ''arg'' arg])]\<rparr>)
      else (Inr (''fetched '' @ arg),
            t1\<lparr>fs_log := fs_log t @ [(LInfo, ''fetch served'', [FInt ''call'' n, FStr ''arg'' arg])]\<rparr>))"

text \<open>The policy of the obfuscation example; a duration is in nanoseconds.\<close>

definition ObfsPolicy :: policy where
  "ObfsPolicy = \<lparr>pol_CellSize = 0, pol_SizeSampler = Some (256, 1024), pol_CoverEvery = 100 * 1000000, pol_Front = None\<rparr>"

definition obfsPolicy :: policy where
  "obfsPolicy = \<lparr>pol_CellSize = 0, pol_SizeSampler = Some (256, 1024), pol_CoverEvery = 100 * 1000000, pol_Front = None\<rparr>"

definition greeter_main :: "rpc_item list" where
  "greeter_main = [PropertyMap greeter_properties, RunValue (ValueServerScanner ''value-server'' [AppBean GreeterService]),
     LoggerBean (ZapLogFactory True)]"

definition obfs_main :: "rpc_item list" where
  "obfs_main = [PropertyMap obfs_properties,
     RunValue (ValueServerScanner ''value-server'' [AppBean (ProfileBean (StaticObfsProfile ObfsPolicy)), AppBean GreeterService]),
     LoggerBean (ZapLogFactory True)]"

definition resilience_main :: "rpc_item list" where
  "resilience_main = [PropertyMap resilience_properties, RunValue (ValueServerScanner ''value-server'' [AppBean FlakyService]),
     LoggerBean (ZapLogFactory True)]"

text \<open>The containers of the clients.\<close>

definition echo_client_container :: "rpc_item list" where
  "echo_client_container = [PropertyMap echo_client_properties, LoggerBean (ZapLogFactory True),
     GrpcClients (GrpcClientScanner ''grpc-client'' [])]"

definition greeter_client_container :: "rpc_item list" where
  "greeter_client_container = [PropertyMap greeter_client_properties, LoggerBean (ZapLogFactory True),
     ValueClients (ValueClientScanner ''value-client'' [])]"

definition obfs_client_container :: "rpc_item list" where
  "obfs_client_container = [PropertyMap obfs_client_properties, LoggerBean (ZapLogFactory True),
     ContainerBean (ProfileBean (StaticObfsProfile obfsPolicy)), ValueClients (ValueClientScanner ''value-client'' [])]"

definition resilience_client_container :: "rpc_item list" where
  "resilience_client_container = [PropertyMap resilience_client_properties, LoggerBean (ZapLogFactory True),
     ValueClients (ValueClientScanner ''value-client'' [AppBean (ResilienceBean ''value-client'')])]"

text \<open>
  \<open>add\<close> is \<^verbatim>\<open>AddFunction\<close> of the library with the names of the argument and result types.
\<close>

definition greeter_RegisterFunctions ::
  "(string \<Rightarrow> string \<Rightarrow> string \<Rightarrow> (string \<Rightarrow> go_error + string) \<Rightarrow> 't) \<Rightarrow> 't"
where
  "greeter_RegisterFunctions add = add ''greet'' ''String'' ''String'' greet"

definition flaky_RegisterFunctions ::
  "(string \<Rightarrow> string \<Rightarrow> string \<Rightarrow> (string \<Rightarrow> flakyService \<Rightarrow> (string \<times> string + string) \<times> flakyService) \<Rightarrow> 't) \<Rightarrow> 't"
where
  "flaky_RegisterFunctions add = add ''fetch'' ''String'' ''String'' fetch"

text \<open>
  A bean by the name of its type and its methods; the container injects into a slice of an
  interface the beans that have all of its methods. \<open>register\<close> is the result of the
  registration by a bean of that type.
\<close>

record value_bean =
  vb_type :: string
  vb_methods :: "string list"

definition ValueService_methods :: "string list" where
  "ValueService_methods = [''RegisterFunctions'']"

definition injected_services :: "(string \<Rightarrow> go_error option) \<Rightarrow> value_bean list \<Rightarrow> (string \<times> go_error option) list" where
  "injected_services register bs =
     map (\<lambda>b. (vb_type b, register (vb_type b))) (filter (\<lambda>b. list_all (\<lambda>m. m \<in> set (vb_methods b)) ValueService_methods) bs)"

datatype value_example = Greeter | Obfs | Resilience | Tlscamo | Quic | Reality | Xreality | Xrayreality

fun example_beans :: "value_example \<Rightarrow> value_bean list" where
  "example_beans Greeter = [\<lparr>vb_type = ''*main.greeterService'', vb_methods = [''RegisterFunctions'', ''greet'']\<rparr>]"
| "example_beans Obfs = [\<lparr>vb_type = ''*servionvrpc.staticObfsProfile'', vb_methods = [''ObfsPolicy'']\<rparr>,
     \<lparr>vb_type = ''*main.greeterService'', vb_methods = [''RegisterFunctions'', ''greet'']\<rparr>]"
| "example_beans Resilience = [\<lparr>vb_type = ''*main.flakyService'', vb_methods = [''RegisterFunctions'', ''fetch'']\<rparr>]"
| "example_beans Tlscamo = [\<lparr>vb_type = ''*main.tlscamoTransport'', vb_methods = [''Listener'', ''Dialer'']\<rparr>,
     \<lparr>vb_type = ''*main.greeterService'', vb_methods = [''RegisterValue'']\<rparr>]"
| "example_beans Quic = [\<lparr>vb_type = ''*main.quicTransport'', vb_methods = [''Listener'', ''Dialer'']\<rparr>,
     \<lparr>vb_type = ''*main.greeterService'', vb_methods = [''RegisterValue'']\<rparr>]"
| "example_beans Reality = [\<lparr>vb_type = ''*main.realityTransport'', vb_methods = [''Listener'', ''Dialer'']\<rparr>,
     \<lparr>vb_type = ''*main.greeterService'', vb_methods = [''RegisterValue'']\<rparr>]"
| "example_beans Xreality = [\<lparr>vb_type = ''*main.realityTransport'', vb_methods = [''Listener'', ''Dialer'']\<rparr>,
     \<lparr>vb_type = ''*main.greeterService'', vb_methods = [''RegisterValue'']\<rparr>]"
| "example_beans Xrayreality = [\<lparr>vb_type = ''*main.xrayTransport'', vb_methods = [''Listener'', ''Dialer'']\<rparr>,
     \<lparr>vb_type = ''*main.greeterService'', vb_methods = [''RegisterValue'']\<rparr>]"

subsection \<open>Properties\<close>

lemma registered_services:
  "register_services ss srv = (None, srv1) \<Longrightarrow> vsv_services srv1 = vsv_services srv @ map fst ss"
  by (induction ss srv rule: register_services.induct) auto

lemma bound_services:
  assumes "vs_Bind L t = (None, t1)"
  shows "\<exists>srv. vs_srv t1 = Some srv \<and> vsv_services srv = map fst (vs_Services t)"
  using assms registered_services [of "vs_Services t"]
  by (auto simp: vs_Bind_def vs_logs_def Let_def split: if_splits sum.splits option.splits prod.splits)

text \<open>
  Of the eight value-rpc examples only three serve anything: the services of the others have
  a method \<^verbatim>\<open>RegisterValue\<close>, as the documentation of the interface says, and not
  \<^verbatim>\<open>RegisterFunctions\<close>, as the interface does, so the container does not take them for
  services; their servers bind without an error and without a function.
\<close>

theorem example_services_registered:
  assumes "vs_Services t = injected_services register (example_beans x)" and "vs_Bind L t = (None, t1)"
  shows "\<exists>srv. vs_srv t1 = Some srv \<and>
     vsv_services srv = (case x of Greeter \<Rightarrow> [''*main.greeterService''] | Obfs \<Rightarrow> [''*main.greeterService'']
       | Resilience \<Rightarrow> [''*main.flakyService''] | _ \<Rightarrow> [])"
  using bound_services [OF assms(2)] assms(1)
  by (cases x) (simp_all add: injected_services_def ValueService_methods_def)

theorem example_services_registered_witness:
  "\<exists>t1 srv. vs_Bind sample_lib (sample_vserver\<lparr>vs_Services := injected_services (\<lambda>_. None) (example_beans Quic)\<rparr>) = (None, t1) \<and>
     vs_srv t1 = Some srv \<and> vsv_services srv = []"
proof -
  let ?t = "sample_vserver\<lparr>vs_Services := injected_services (\<lambda>_. None) (example_beans Quic)\<rparr>"
  have "vs_Services ?t = injected_services (\<lambda>_. None) (example_beans Quic)" by simp
  moreover obtain t1 where "vs_Bind sample_lib ?t = (None, t1)"
    by (simp add: vs_Bind_def sample_lib_def sample_vserver_def ValueServer_def vs_listener_def obfsListener_def
        streamNetwork_def injected_services_def ValueService_methods_def Let_def)
  ultimately show ?thesis using example_services_registered [of ?t "\<lambda>_. None" Quic] by auto
qed

lemma fetch_result:
  assumes "fetch a t = (r, t1)" and "in_int64 (fs_calls t + 1)"
  shows "fs_calls t1 = fs_calls t + 1" and "(\<exists>v. r = Inr v) \<longleftrightarrow> (fs_calls t + 1) mod 3 = 0"
proof -
  have w: "wrap64 (fs_calls t + 1) = fs_calls t + 1" using assms(2) by (rule wrap64_id)
  note f = assms(1) [unfolded fetch_def w Let_def]
  show "fs_calls t1 = fs_calls t + 1" using f by (cases "(fs_calls t + 1) mod 3 = 0") (simp_all only: if_True if_False not_not prod.inject, auto)
  show "(\<exists>v. r = Inr v) \<longleftrightarrow> (fs_calls t + 1) mod 3 = 0"
    using f by (cases "(fs_calls t + 1) mod 3 = 0") (simp_all only: if_True if_False not_not prod.inject, auto)
qed

text \<open>Every third call of the flaky service succeeds: of three calls in a row exactly one does.\<close>

theorem flaky_one_in_three:
  assumes "0 \<le> fs_calls t" and "fs_calls t + 3 \<le> max_int64"
    and "fetch a t = (r1, t1)" and "fetch b t1 = (r2, t2)" and "fetch c t2 = (r3, t3)"
  shows "length (filter (\<lambda>r. \<exists>v. r = Inr v) [r1, r2, r3]) = 1 \<and> fs_calls t3 = fs_calls t + 3"
proof -
  let ?x = "fs_calls t"
  have i: "in_int64 (?x + 1)" "in_int64 (?x + 1 + 1)" "in_int64 (?x + 1 + 1 + 1)"
    using assms(1,2) by (auto simp: in_int64_def min_int64_def)
  note f1 = fetch_result [OF assms(3) i(1)]
  note f2 = fetch_result [OF assms(4), unfolded f1(1), OF i(2)]
  note f3 = fetch_result [OF assms(5), unfolded f2(1), OF i(3)]
  have "(?x + 1) mod 3 = 0 \<and> (?x + 1 + 1) mod 3 \<noteq> 0 \<and> (?x + 1 + 1 + 1) mod 3 \<noteq> 0 \<or>
     (?x + 1) mod 3 \<noteq> 0 \<and> (?x + 1 + 1) mod 3 = 0 \<and> (?x + 1 + 1 + 1) mod 3 \<noteq> 0 \<or>
     (?x + 1) mod 3 \<noteq> 0 \<and> (?x + 1 + 1) mod 3 \<noteq> 0 \<and> (?x + 1 + 1 + 1) mod 3 = 0" by presburger
  then have "length (filter (\<lambda>r. \<exists>v. r = Inr v) [r1, r2, r3]) = 1" by (elim disjE conjE) (simp_all only: filter.simps f1(2) f2(2) f3(2), simp_all)
  with f3(1) show ?thesis by simp
qed

definition map_int :: "(string \<times> string) list \<Rightarrow> string \<Rightarrow> int \<Rightarrow> int" where
  "map_int m k d = (case map_of m k of Some v \<Rightarrow> (case parse_nat v of Some n \<Rightarrow> int n | None \<Rightarrow> d) | None \<Rightarrow> d)"

text \<open>
  The chain of the resilient client is the one its documentation gives: circuit breaker,
  retry, timeout, from the outside.
\<close>

theorem resilience_example_chain:
  "resilience_Object (map_int resilience_client_properties) ''value-client'' =
     [CircuitBreaker 10 10000000000, Retry 5 20000000 500000000, Timeout 2000000000]"
proof -
  have n: "parse_nat ''5'' = Some 5" "parse_nat ''20'' = Some 20" "parse_nat ''500'' = Some 500"
      "parse_nat ''10'' = Some 10" "parse_nat ''2000'' = Some 2000"
    by (simp_all add: parse_nat_def is_digit_def byte_def)
  show ?thesis
    by (simp add: resilience_Object_def map_int_def resilience_client_properties_def n millis_def wrap64_def Let_def)
qed

text \<open>The clients connect to the address that their servers bind, on this host.\<close>

lemma example_clients_reach:
  "map_of echo_client_properties ''grpc-client.connect-address'' =
     map_option localizeAddr (map_of echo_properties ''grpc-server.bind-address'')"
  "map_of greeter_client_properties ''value-client.connect-address'' =
     map_option vrpc_localizeAddr (map_of greeter_properties ''value-server.bind-address'')"
  "map_of obfs_client_properties ''value-client.connect-address'' =
     map_option vrpc_localizeAddr (map_of obfs_properties ''value-server.bind-address'')"
  "map_of resilience_client_properties ''value-client.connect-address'' =
     map_option vrpc_localizeAddr (map_of resilience_properties ''value-server.bind-address'')"
  by code_simp+

text \<open>
  Both ends of the obfuscation example shape their traffic with equal policies, and both draw
  the sizes of their cells, which the two ends have to agree on.
\<close>

fun profiles :: "rpc_item \<Rightarrow> policy list" where
  "profiles (RunValue sc) =
     List.map_filter (\<lambda>b. case b of AppBean (ProfileBean p) \<Rightarrow> Some (sop_ObfsPolicy p) | _ \<Rightarrow> None) (value_ScannerBeans sc)"
| "profiles (ContainerBean (ProfileBean p)) = [sop_ObfsPolicy p]"
| "profiles _ = []"

lemma obfs_ends_agree:
  "concat (map profiles obfs_main) = [ObfsPolicy]" "concat (map profiles obfs_client_container) = [ObfsPolicy]"
  "pol_SizeSampler ObfsPolicy \<noteq> None"
  by (simp_all add: obfs_main_def obfs_client_container_def value_ScannerBeans_def ValueServerScanner_def map_filter_simps
      sop_ObfsPolicy_def StaticObfsProfile_def ObfsPolicy_def obfsPolicy_def)

text \<open>Behind the interceptor the echo service names the subject of the token.\<close>

lemma echo_names_subject:
  assumes "bearerFromContext c = Inr tok" and "ai_Authenticator t tok = Inr i" and "Subject i \<noteq> []"
    and "prefix ''/'' m" and "\<not> isExempt t m"
  shows "ai_UnaryInterceptor t c message m echo_Say = Inr (''echo: '' @ message @ '' (from '' @ Subject i @ '')'')"
proof -
  have "length m \<noteq> 0" "m ! 0 = CHR ''/''" using assms(4) by (auto simp: prefix_def)
  with assms show ?thesis
    by (simp add: ai_UnaryInterceptor_def ai_authenticate_def echo_Say_def grpc_WithAuth_def)
qed

end
