(* ===== verification/Example_Tunnels.thy ===== *)
theory Example_Tunnels
  imports Example_Http Example_Rpc
begin

text \<open>
  The five self-contained demonstrations of transports below \<^verbatim>\<open>vrpc/examples/\<close>
  (\<^verbatim>\<open>tlscamo\<close>, \<^verbatim>\<open>quic\<close>, \<^verbatim>\<open>reality\<close>, \<^verbatim>\<open>xreality\<close>, \<^verbatim>\<open>xrayreality\<close>): their
  certificates, their transport beans, the sites they show to probes, and their main
  functions, run on the server and client of the value-rpc module. The tunnelling libraries
  are parameters; a listener or dialer carries the configuration that it is made with.
\<close>

subsection \<open>Certificates\<close>

record cert_template =
  x5_SerialNumber :: int
  x5_CommonName :: string
  x5_NotBefore :: int
  x5_NotAfter :: int
  x5_KeyUsage :: "string list"
  x5_ExtKeyUsage :: "string list"
  x5_BasicConstraintsValid :: bool
  x5_IsCA :: bool
  x5_DNSNames :: "string list"
  x5_IPAddresses :: "string list"

record tls_certificate =
  tc_Certificate :: string
  tc_PrivateKey :: string
  tc_Leaf :: "cert_template option"

text \<open>Cryptography: a new key, signing a template, parsing, and the two clock readings.\<close>

record crypto =
  cx_GenerateKey :: "go_error + string"
  cx_CreateCertificate :: "cert_template \<Rightarrow> string \<Rightarrow> go_error + string"
  cx_ParseCertificate :: "string \<Rightarrow> go_error + cert_template"
  cx_now :: "int \<times> int"

text \<open>\<open>Fatal\<close> is \<^verbatim>\<open>log.Fatal\<close>, which ends the process without the deferred calls.\<close>

datatype 'a step = Done 'a | Fatal go_error | Crash string

definition hour :: int where
  "hour = 3600000000000"

definition cert_template_of :: "string \<Rightarrow> string list \<Rightarrow> int \<times> int \<Rightarrow> cert_template" where
  "cert_template_of name ips now = \<lparr>x5_SerialNumber = 1, x5_CommonName = name, x5_NotBefore = fst now - hour,
     x5_NotAfter = snd now + 24 * hour, x5_KeyUsage = [''DigitalSignature'', ''CertSign''], x5_ExtKeyUsage = [''ServerAuth''],
     x5_BasicConstraintsValid = True, x5_IsCA = True, x5_DNSNames = [name], x5_IPAddresses = ips\<rparr>"

definition self_signed :: "crypto \<Rightarrow> string \<Rightarrow> string list \<Rightarrow> tls_certificate step" where
  "self_signed X name ips =
     (case cx_GenerateKey X of
        Inl e \<Rightarrow> Fatal e
      | Inr key \<Rightarrow>
          (case cx_CreateCertificate X (cert_template_of name ips (cx_now X)) key of
             Inl e \<Rightarrow> Fatal e
           | Inr der \<Rightarrow>
               let leaf = (case cx_ParseCertificate X der of Inl e \<Rightarrow> None | Inr c \<Rightarrow> Some c)
               in Done \<lparr>tc_Certificate = der, tc_PrivateKey = key, tc_Leaf = leaf\<rparr>))"

text \<open>\<^verbatim>\<open>AddCert\<close> panics on the nil certificate of a failed parse.\<close>

definition self_signed_pool :: "crypto \<Rightarrow> string \<Rightarrow> (tls_certificate \<times> cert_template list) step" where
  "self_signed_pool X name =
     (case self_signed X name [''127.0.0.1''] of
        Fatal e \<Rightarrow> Fatal e
      | Crash v \<Rightarrow> Crash v
      | Done c \<Rightarrow>
          (case tc_Leaf c of
             None \<Rightarrow> Crash ''adding nil Certificate to CertPool''
           | Some leaf \<Rightarrow> Done (c, [leaf])))"

definition serverName :: string where
  "serverName = ''localhost''"

definition borrowedName :: string where
  "borrowedName = ''www.realsite.com''"

definition tlscamo_genCert :: "crypto \<Rightarrow> (tls_certificate \<times> cert_template list) step" where
  "tlscamo_genCert X = self_signed_pool X serverName"

definition quic_genCert :: "crypto \<Rightarrow> (tls_certificate \<times> cert_template list) step" where
  "quic_genCert X = self_signed_pool X serverName"

definition reality_genCert :: "crypto \<Rightarrow> (tls_certificate \<times> cert_template list) step" where
  "reality_genCert X = self_signed_pool X ''localhost''"

definition xreality_genCert :: "crypto \<Rightarrow> string \<Rightarrow> tls_certificate step" where
  "xreality_genCert X name = self_signed X name []"

definition xray_genCert :: "crypto \<Rightarrow> string \<Rightarrow> tls_certificate step" where
  "xray_genCert X name = self_signed X name []"

subsection \<open>Transports\<close>

record tls_config =
  tls_Certificates :: "tls_certificate list"
  tls_RootCAs :: "cert_template list"
  tls_ServerName :: string
  tls_InsecureSkipVerify :: bool
  tls_MinVersion :: int

definition server_tls :: "tls_certificate \<Rightarrow> tls_config" where
  "server_tls cert = \<lparr>tls_Certificates = [cert], tls_RootCAs = [], tls_ServerName = [], tls_InsecureSkipVerify = False,
     tls_MinVersion = 0\<rparr>"

definition client_tls :: "cert_template list \<Rightarrow> string \<Rightarrow> tls_config" where
  "client_tls pool name = \<lparr>tls_Certificates = [], tls_RootCAs = pool, tls_ServerName = name, tls_InsecureSkipVerify = False,
     tls_MinVersion = 0\<rparr>"

definition shaping :: policy where
  "shaping = \<lparr>pol_CellSize = 512, pol_SizeSampler = None, pol_CoverEvery = 0, pol_Front = Some (500000000, 6)\<rparr>"

text \<open>The two ends of a tunnel with the configuration that each is made with.\<close>

datatype server_end =
    TlsServer tls_config
  | QuicServer tls_config
  | RealityServer tls_config string string
  | XrealityServer string "string list" tls_config string int policy
  | XrayServer string "string list" "string list" string int

datatype client_end =
    CamoClient string string "cert_template list"
  | QuicClient tls_config
  | RealityClient string "cert_template list" string string
  | XrealityClient string string string policy
  | XrayClient string string string

record demo_lib =
  dl_net_Listen :: "string \<Rightarrow> string \<Rightarrow> go_error + listener"
  dl_tls_Listen :: "string \<Rightarrow> string \<Rightarrow> tls_config \<Rightarrow> go_error + listener"
  dl_quic_NewListener :: "string \<Rightarrow> tls_config \<Rightarrow> int \<Rightarrow> go_error + vlistener"
  dl_quic_NewDialer :: "string \<Rightarrow> tls_config \<Rightarrow> int \<Rightarrow> vdialer"
  dl_X25519 :: "go_error + string"
  dl_PublicKey :: "string \<Rightarrow> string"
  dl_GenerateKeyPair :: "go_error + string \<times> string"
  dl_vrpc :: vrpc_lib
  dl_server_ctx :: "go_error option"
  dl_client_ctx :: "go_error option"
  dl_factory_error :: "go_error \<Rightarrow> go_error"
  dl_register :: "string \<Rightarrow> go_error option"
  dl_Connect :: "value_client \<Rightarrow> go_error option"
  dl_CallFunction :: "string list \<Rightarrow> value_client \<Rightarrow> string \<Rightarrow> string \<Rightarrow> go_error + string"
  dl_close :: "go_error option"
  dl_tls_Dial :: "string \<Rightarrow> tls_config \<Rightarrow> string \<Rightarrow> go_error + string \<times> string list"
  dl_quote :: "string \<Rightarrow> string"

text \<open>\<^verbatim>\<open>valuerpc.NewAcceptListener\<close> and \<^verbatim>\<open>NewFuncDialer\<close> on a listener and an address.\<close>

definition accept_listener :: "listener \<Rightarrow> int \<Rightarrow> vlistener" where
  "accept_listener ln wt = \<lparr>vl_kind = ByTransport, vl_network = l_Network ln, vl_addr = l_String ln, vl_writeTimeout = wt\<rparr>"

definition func_dialer :: "string \<Rightarrow> int \<Rightarrow> vdialer" where
  "func_dialer addr wt = \<lparr>vd_kind = ByTransport, vd_network = ''tcp'', vd_addr = addr, vd_writeTimeout = wt\<rparr>"

record tlscamoTransport =
  tt_serverTLS :: tls_config
  tt_rootCAs :: "cert_template list"

definition tlscamo_Listener :: "demo_lib \<Rightarrow> tlscamoTransport \<Rightarrow> string \<Rightarrow> int \<Rightarrow> go_error + vlistener \<times> server_end" where
  "tlscamo_Listener D t addr wt =
     (case dl_tls_Listen D ''tcp'' addr (tt_serverTLS t) of
        Inl e \<Rightarrow> Inl e
      | Inr ln \<Rightarrow> Inr (accept_listener ln wt, TlsServer (tt_serverTLS t)))"

definition tlscamo_Dialer :: "tlscamoTransport \<Rightarrow> string \<Rightarrow> int \<Rightarrow> go_error + vdialer \<times> client_end" where
  "tlscamo_Dialer t addr wt = Inr (func_dialer addr wt, CamoClient serverName ''Chrome'' (tt_rootCAs t))"

record quicTransport =
  qt_serverTLS :: tls_config
  qt_clientTLS :: tls_config

definition quic_Listener :: "demo_lib \<Rightarrow> quicTransport \<Rightarrow> string \<Rightarrow> int \<Rightarrow> go_error + vlistener \<times> server_end" where
  "quic_Listener D t addr wt =
     (case dl_quic_NewListener D addr (qt_serverTLS t) wt of
        Inl e \<Rightarrow> Inl e
      | Inr lis \<Rightarrow> Inr (lis, QuicServer (qt_serverTLS t)))"

definition quic_Dialer :: "demo_lib \<Rightarrow> quicTransport \<Rightarrow> string \<Rightarrow> int \<Rightarrow> go_error + vdialer \<times> client_end" where
  "quic_Dialer D t addr wt = Inr (dl_quic_NewDialer D addr (qt_clientTLS t) wt, QuicClient (qt_clientTLS t))"

record realityTransport =
  rt_serverTLS :: tls_config
  rt_token :: string
  rt_fallback :: string
  rt_serverName :: string
  rt_rootCAs :: "cert_template list"

definition reality_Listener :: "demo_lib \<Rightarrow> realityTransport \<Rightarrow> string \<Rightarrow> int \<Rightarrow> go_error + vlistener \<times> server_end" where
  "reality_Listener D t addr wt =
     (case dl_net_Listen D ''tcp'' addr of
        Inl e \<Rightarrow> Inl e
      | Inr base \<Rightarrow> Inr (accept_listener base wt, RealityServer (rt_serverTLS t) (rt_token t) (rt_fallback t)))"

definition reality_Dialer :: "realityTransport \<Rightarrow> string \<Rightarrow> int \<Rightarrow> go_error + vdialer \<times> client_end" where
  "reality_Dialer t addr wt =
     Inr (func_dialer addr wt, RealityClient (rt_serverName t) (rt_rootCAs t) ''Chrome'' (rt_token t))"

record xrealityTransport =
  xt_priv :: string
  xt_pub :: string
  xt_shortID :: string
  xt_serverTL :: tls_config
  xt_dest :: string

definition xreality_Listener :: "demo_lib \<Rightarrow> xrealityTransport \<Rightarrow> string \<Rightarrow> int \<Rightarrow> go_error + vlistener \<times> server_end" where
  "xreality_Listener D t addr wt =
     (case dl_net_Listen D ''tcp'' addr of
        Inl e \<Rightarrow> Inl e
      | Inr base \<Rightarrow>
          Inr (accept_listener base wt,
            XrealityServer (xt_priv t) [xt_shortID t] (xt_serverTL t) (xt_dest t) 90000000000 shaping))"

definition xreality_Dialer :: "xrealityTransport \<Rightarrow> string \<Rightarrow> int \<Rightarrow> go_error + vdialer \<times> client_end" where
  "xreality_Dialer t addr wt = Inr (func_dialer addr wt, XrealityClient (xt_pub t) (xt_shortID t) borrowedName shaping)"

record xrayTransport =
  xy_priv :: string
  xy_pub :: string
  xy_shortID :: string
  xy_dest :: string

definition xray_Listener :: "demo_lib \<Rightarrow> xrayTransport \<Rightarrow> string \<Rightarrow> int \<Rightarrow> go_error + vlistener \<times> server_end" where
  "xray_Listener D t addr wt =
     (case dl_net_Listen D ''tcp'' addr of
        Inl e \<Rightarrow> Inl e
      | Inr base \<Rightarrow>
          Inr (accept_listener base wt, XrayServer (xy_priv t) [xy_shortID t] [borrowedName] (xy_dest t) 60000000000))"

definition xray_Dialer :: "xrayTransport \<Rightarrow> string \<Rightarrow> int \<Rightarrow> go_error + vdialer \<times> client_end" where
  "xray_Dialer t addr wt = Inr (func_dialer addr wt, XrayClient (xy_pub t) (xy_shortID t) borrowedName)"

subsection \<open>The sites that probes see\<close>

definition crlf :: string where
  "crlf = [CHR 0x0D, CHR 0x0A]"

definition site_headers :: "string list" where
  "site_headers = [''HTTP/1.1 200 OK'', ''Content-Type: text/plain'', ''Content-Length: 21'']"

text \<open>What a connection is answered, whatever it sent: the read and its error are ignored.\<close>

definition site_conn :: "string \<Rightarrow> string \<Rightarrow> string" where
  "site_conn body request = concat (map (\<lambda>h. h @ crlf) site_headers) @ crlf @ body"

definition startFallback :: "demo_lib \<Rightarrow> (string \<times> (string \<Rightarrow> string)) step" where
  "startFallback D =
     (case dl_net_Listen D ''tcp'' ''127.0.0.1:0'' of
        Inl e \<Rightarrow> Fatal e
      | Inr ln \<Rightarrow> Done (l_String ln, site_conn ''Fallback real website''))"

definition borrowed_site :: "demo_lib \<Rightarrow> tls_config \<Rightarrow> (string \<times> (string \<Rightarrow> string)) step" where
  "borrowed_site D cfg =
     (case dl_tls_Listen D ''tcp'' ''127.0.0.1:0'' cfg of
        Inl e \<Rightarrow> Fatal e
      | Inr ln \<Rightarrow> Done (l_String ln, site_conn ''Borrowed real website''))"

definition xreality_startBorrowedSite :: "crypto \<Rightarrow> demo_lib \<Rightarrow> (string \<times> (string \<Rightarrow> string)) step" where
  "xreality_startBorrowedSite X D =
     (case xreality_genCert X borrowedName of
        Fatal e \<Rightarrow> Fatal e
      | Crash v \<Rightarrow> Crash v
      | Done cert \<Rightarrow> borrowed_site D (server_tls cert))"

definition VersionTLS13 :: int where
  "VersionTLS13 = 0x0304"

definition xray_startBorrowedSite :: "crypto \<Rightarrow> demo_lib \<Rightarrow> (string \<times> (string \<Rightarrow> string)) step" where
  "xray_startBorrowedSite X D =
     (case xray_genCert X borrowedName of
        Fatal e \<Rightarrow> Fatal e
      | Crash v \<Rightarrow> Crash v
      | Done cert \<Rightarrow> borrowed_site D ((server_tls cert)\<lparr>tls_MinVersion := VersionTLS13\<rparr>))"

subsection \<open>Waiting for the detection\<close>

text \<open>
  The library's table holds a placeholder under a key while the detection runs, and the
  lengths when it is done. \<open>clock i\<close> and \<open>load i\<close> are the clock and the table in the
  iteration \<open>i\<close>; the result is the iteration in which the function returns.
\<close>

datatype detection = Placeholder | Lengths

definition detection_ready :: "string \<Rightarrow> (string \<Rightarrow> detection option) \<Rightarrow> bool" where
  "detection_ready dest load \<longleftrightarrow>
     list_all (\<lambda>alpn. load (dest @ '' '' @ borrowedName @ '' '' @ alpn) = Some Lengths) [''0'', ''1'', ''2'']"

partial_function (option) detection_loop ::
  "string \<Rightarrow> int \<Rightarrow> (nat \<Rightarrow> int) \<Rightarrow> (nat \<Rightarrow> string \<Rightarrow> detection option) \<Rightarrow> nat \<Rightarrow> nat option" where
  "detection_loop dest deadline clock load i =
     (if clock i < deadline
      then if detection_ready dest (load i) then Some i else detection_loop dest deadline clock load (Suc i)
      else Some i)"

definition waitForDetection ::
  "string \<Rightarrow> int \<Rightarrow> (nat \<Rightarrow> int) \<Rightarrow> (nat \<Rightarrow> string \<Rightarrow> detection option) \<Rightarrow> nat option" where
  "waitForDetection dest start clock load = detection_loop dest (start + 5000000000) clock load 0"

subsection \<open>The main functions\<close>

text \<open>
  How a demonstration ends: with its deferred calls, which shut the server down and close its
  context, by \<^verbatim>\<open>log.Fatal\<close> after what it has printed, by a panic, or not at all.
\<close>

datatype demo_end =
    Finished string "(go_error option, implValueServer) outcome"
  | FatalExit string go_error
  | Crashed string
  | Hangs

definition forget_end :: "(string \<Rightarrow> int \<Rightarrow> go_error + 'a \<times> 'e) \<Rightarrow> string \<Rightarrow> int \<Rightarrow> go_error + 'a" where
  "forget_end f addr wt = map_sum id fst (f addr wt)"

text \<open>
  The server of the context: the value-rpc server that its scanner brings, the only bean of
  the context that is a server, with the transport and the services among the given beans.
\<close>

definition tunnel_server ::
  "demo_lib \<Rightarrow> value_bean list \<Rightarrow> (string \<Rightarrow> int \<Rightarrow> go_error + vlistener) \<Rightarrow> go_error + implValueServer" where
  "tunnel_server D beans listen =
     (case dl_server_ctx D of
        Some e \<Rightarrow> Inl e
      | None \<Rightarrow>
          (let t = (ValueServer (map_property [(''value-server.bind-address'', ''127.0.0.1:0'')]) (\<lambda>k d. d) ''value-server'')
                 \<lparr>vs_Services := injected_services (dl_register D) beans, vs_Transport := Some listen\<rparr>
           in case vs_Bind (dl_vrpc D) (vs_PostConstruct t) of
                (Some e, t1) \<Rightarrow> Inl e
              | (None, t1) \<Rightarrow> Inr t1))"

definition tunnel_client ::
  "demo_lib \<Rightarrow> string \<Rightarrow> (string \<Rightarrow> int \<Rightarrow> go_error + vdialer) \<Rightarrow> go_error + value_client" where
  "tunnel_client D addr dial =
     (case dl_client_ctx D of
        Some e \<Rightarrow> Inl e
      | None \<Rightarrow>
          (let f = \<lparr>vc_String = map_property [(''value-client.connect-address'', addr)], vc_Int = (\<lambda>k d. d), vc_Obfs = None,
                 vc_Transport = Some dial, vc_Resilience = None, vc_beanName = ''value-client''\<rparr>
           in case fst (vc_Object (dl_vrpc D) f) of
                Inl e \<Rightarrow> Inl (dl_factory_error D e)
              | Inr c \<Rightarrow> (case dl_Connect D c of Some e \<Rightarrow> Inl e | None \<Rightarrow> Inr c)))"

definition served :: "implValueServer \<Rightarrow> string list" where
  "served t = (case vs_srv t of Some srv \<Rightarrow> vsv_services srv | None \<Rightarrow> [])"

definition tunnel_run ::
  "demo_lib \<Rightarrow> value_bean list \<Rightarrow> (string \<Rightarrow> int \<Rightarrow> go_error + vlistener) \<Rightarrow> (string \<Rightarrow> int \<Rightarrow> go_error + vdialer)
     \<Rightarrow> nat option \<Rightarrow> (string \<Rightarrow> string) \<Rightarrow> (string \<Rightarrow> go_error + string) \<Rightarrow> demo_end" where
  "tunnel_run D beans listen dial waited greeting probe =
     (case tunnel_server D beans listen of
        Inl e \<Rightarrow> FatalExit [] e
      | Inr t \<Rightarrow>
          if waited = None then Hangs
          else
            (let addr = snd (vs_ListenAddress t) in
             case tunnel_client D addr dial of
               Inl e \<Rightarrow> FatalExit [] e
             | Inr c \<Rightarrow>
                 (case dl_CallFunction D (served t) c ''greet'' ''World'' of
                    Inl e \<Rightarrow> FatalExit [] e
                  | Inr resp \<Rightarrow>
                      (case probe addr of
                         Inl e \<Rightarrow> FatalExit (greeting resp) e
                       | Inr seen \<Rightarrow>
                           Finished (greeting resp @ seen)
                             (bindO (vs_Shutdown (dl_close D) t) (\<lambda>_. vs_Destroy (dl_close D)))))))"

fun start_demo :: "'a step \<Rightarrow> ('a \<Rightarrow> demo_end) \<Rightarrow> demo_end" where
  "start_demo (Done x) f = f x"
| "start_demo (Fatal e) f = FatalExit [] e"
| "start_demo (Crash v) f = Crashed v"

definition no_probe :: "string \<Rightarrow> go_error + string" where
  "no_probe addr = Inr []"

definition tlscamo_transport :: "tls_certificate \<Rightarrow> cert_template list \<Rightarrow> tlscamoTransport" where
  "tlscamo_transport cert pool = \<lparr>tt_serverTLS = server_tls cert, tt_rootCAs = pool\<rparr>"

definition tlscamo_main :: "crypto \<Rightarrow> demo_lib \<Rightarrow> demo_end" where
  "tlscamo_main X D =
     start_demo (tlscamo_genCert X) (\<lambda>(cert, pool).
       let transport = tlscamo_transport cert pool in
       tunnel_run D (example_beans Tlscamo) (forget_end (tlscamo_Listener D transport)) (forget_end (tlscamo_Dialer transport))
         (Some 0) (\<lambda>resp. newline @ ''client (Chrome-mimicking ClientHello) -> '' @ resp @ newline) no_probe)"

definition quic_transport :: "tls_certificate \<Rightarrow> cert_template list \<Rightarrow> quicTransport" where
  "quic_transport cert pool = \<lparr>qt_serverTLS = server_tls cert, qt_clientTLS = client_tls pool serverName\<rparr>"

definition quic_main :: "crypto \<Rightarrow> demo_lib \<Rightarrow> demo_end" where
  "quic_main X D =
     start_demo (quic_genCert X) (\<lambda>(cert, pool).
       let transport = quic_transport cert pool in
       tunnel_run D (example_beans Quic) (forget_end (quic_Listener D transport)) (forget_end (quic_Dialer D transport))
         (Some 0) (\<lambda>resp. newline @ ''client over QUIC -> '' @ resp @ newline) no_probe)"

definition probe_request :: "string \<Rightarrow> string" where
  "probe_request host = ''GET / HTTP/1.1'' @ crlf @ ''Host: '' @ host @ crlf @ crlf"

text \<open>
  The probe reads at most 256 bytes of what \<open>dl_tls_Dial\<close> gives for the connection (the page
  and the names of the certificates of the peer).
\<close>

definition reality_probe :: "demo_lib \<Rightarrow> cert_template list \<Rightarrow> string \<Rightarrow> go_error + string" where
  "reality_probe D pool addr =
     (case dl_tls_Dial D addr (client_tls pool ''localhost'') (probe_request ''localhost'') of
        Inl e \<Rightarrow> Inl e
      | Inr (page, certs) \<Rightarrow> Inr (''active probe (no token) -> '' @ dl_quote D (take 256 page) @ newline))"

definition reality_token :: string where
  "reality_token = ''a-32-byte-pre-shared-reality-key''"

definition reality_transport :: "tls_certificate \<Rightarrow> cert_template list \<Rightarrow> string \<Rightarrow> realityTransport" where
  "reality_transport cert pool fallback = \<lparr>rt_serverTLS = server_tls cert, rt_token = reality_token, rt_fallback = fallback,
     rt_serverName = ''localhost'', rt_rootCAs = pool\<rparr>"

definition reality_main :: "crypto \<Rightarrow> demo_lib \<Rightarrow> demo_end" where
  "reality_main X D =
     start_demo (reality_genCert X) (\<lambda>(cert, pool).
       start_demo (startFallback D) (\<lambda>(fallback, site).
         let transport = reality_transport cert pool fallback in
         tunnel_run D (example_beans Reality) (forget_end (reality_Listener D transport)) (forget_end (reality_Dialer transport))
           (Some 0) (\<lambda>resp. newline @ ''authenticated client -> '' @ resp @ newline) (reality_probe D pool)))"

definition borrowed_probe :: "demo_lib \<Rightarrow> int \<Rightarrow> string \<Rightarrow> go_error + string" where
  "borrowed_probe D version addr =
     (case dl_tls_Dial D addr ((client_tls [] borrowedName)\<lparr>tls_InsecureSkipVerify := True, tls_MinVersion := version\<rparr>)
             (probe_request borrowedName) of
        Inl e \<Rightarrow> Inl e
      | Inr (page, certs) \<Rightarrow>
          Inr (''active probe (no auth) -> '' @ dl_quote D (take 256 page) @ newline @
            (case certs of [] \<Rightarrow> [] | c # _ \<Rightarrow> ''active probe sees certificate for: '' @ c @ newline)))"

definition xreality_transport :: "demo_lib \<Rightarrow> string \<Rightarrow> tls_certificate \<Rightarrow> string \<Rightarrow> xrealityTransport" where
  "xreality_transport D priv cert dest = \<lparr>xt_priv = priv, xt_pub = dl_PublicKey D priv, xt_shortID = ''democoho'',
     xt_serverTL = server_tls cert, xt_dest = dest\<rparr>"

definition xreality_main :: "crypto \<Rightarrow> crypto \<Rightarrow> demo_lib \<Rightarrow> demo_end" where
  "xreality_main X1 X2 D =
     (case dl_X25519 D of
        Inl e \<Rightarrow> FatalExit [] e
      | Inr priv \<Rightarrow>
          start_demo (xreality_startBorrowedSite X1 D) (\<lambda>(dest, site).
            start_demo (xreality_genCert X2 borrowedName) (\<lambda>cert.
              let transport = xreality_transport D priv cert dest in
              tunnel_run D (example_beans Xreality) (forget_end (xreality_Listener D transport)) (forget_end (xreality_Dialer transport))
                (Some 0)
                (\<lambda>resp. newline @ ''authenticated client -> '' @ resp @ newline @
                  ''   (value-rpc traffic shaped inside the tunnel: '' @ Itoa (pol_CellSize shaping) @ ''-byte cells + FRONT padding)'' @ newline)
                (borrowed_probe D 0))))"

definition xray_transport :: "string \<times> string \<Rightarrow> string \<Rightarrow> xrayTransport" where
  "xray_transport keys dest = \<lparr>xy_priv = fst keys, xy_pub = snd keys, xy_shortID = ''xraydemo'', xy_dest = dest\<rparr>"

definition xrayreality_main ::
  "crypto \<Rightarrow> demo_lib \<Rightarrow> int \<Rightarrow> (nat \<Rightarrow> int) \<Rightarrow> (nat \<Rightarrow> string \<Rightarrow> detection option) \<Rightarrow> demo_end" where
  "xrayreality_main X D start clock load =
     (case dl_GenerateKeyPair D of
        Inl e \<Rightarrow> FatalExit [] e
      | Inr keys \<Rightarrow>
          start_demo (xray_startBorrowedSite X D) (\<lambda>(dest, site).
            let transport = xray_transport keys dest in
            tunnel_run D (example_beans Xrayreality) (forget_end (xray_Listener D transport)) (forget_end (xray_Dialer transport))
              (waitForDetection dest start clock load)
              (\<lambda>resp. newline @ ''authenticated client (Xray-compatible) -> '' @ resp @ newline)
              (borrowed_probe D VersionTLS13)))"

subsection \<open>The two ends of a tunnel\<close>

text \<open>
  What the libraries document for a handshake to succeed: a certificate of the server that the
  client trusts for the name it asks for at that time; the same token; the public key of the
  server's private key and a short identifier the server knows; and the same shaping on both
  sides.
\<close>

definition trusted :: "cert_template list \<Rightarrow> string \<Rightarrow> int \<Rightarrow> tls_config \<Rightarrow> bool" where
  "trusted pool name now cfg \<longleftrightarrow> (\<exists>c \<in> set (tls_Certificates cfg). \<exists>leaf \<in> set pool. tc_Leaf c = Some leaf \<and>
     name \<in> set (x5_DNSNames leaf) \<and> ''ServerAuth'' \<in> set (x5_ExtKeyUsage leaf) \<and>
     x5_NotBefore leaf \<le> now \<and> now \<le> x5_NotAfter leaf)"

fun ends_match :: "(string \<Rightarrow> string) \<Rightarrow> int \<Rightarrow> server_end \<Rightarrow> client_end \<Rightarrow> bool" where
  "ends_match public now (TlsServer cfg) (CamoClient name fp pool) \<longleftrightarrow> trusted pool name now cfg"
| "ends_match public now (QuicServer cfg) (QuicClient c) \<longleftrightarrow> trusted (tls_RootCAs c) (tls_ServerName c) now cfg"
| "ends_match public now (RealityServer cfg token fallback) (RealityClient name pool fp token') \<longleftrightarrow>
     trusted pool name now cfg \<and> token = token'"
| "ends_match public now (XrealityServer priv ids cfg dest skew sh) (XrealityClient pub sid name sh') \<longleftrightarrow>
     pub = public priv \<and> sid \<in> set ids \<and> sh = sh'"
| "ends_match public now (XrayServer priv ids names dest diff) (XrayClient pub sid name) \<longleftrightarrow>
     pub = public priv \<and> sid \<in> set ids \<and> name \<in> set names"
| "ends_match public now s c \<longleftrightarrow> False"

text \<open>Parsing a certificate gives the template that was signed.\<close>

definition cert_law :: "crypto \<Rightarrow> bool" where
  "cert_law X \<longleftrightarrow> (\<forall>tmpl key der. cx_CreateCertificate X tmpl key = Inr der \<longrightarrow> cx_ParseCertificate X der = Inr tmpl)"

lemma self_signed_trusted:
  assumes "cert_law X" and "self_signed_pool X name = Done (cert, pool)"
    and "fst (cx_now X) \<le> now" and "now \<le> snd (cx_now X) + 24 * hour"
  shows "trusted pool name now (server_tls cert)"
proof -
  let ?tmpl = "cert_template_of name [''127.0.0.1''] (cx_now X)"
  obtain key der where k: "cx_CreateCertificate X ?tmpl key = Inr der"
      "cert = \<lparr>tc_Certificate = der, tc_PrivateKey = key, tc_Leaf = tc_Leaf cert\<rparr>" "tc_Leaf cert = Some (hd pool)" "pool = [hd pool]"
      "tc_Leaf cert = (case cx_ParseCertificate X der of Inl e \<Rightarrow> None | Inr c \<Rightarrow> Some c)"
    using assms(2) by (auto simp: self_signed_pool_def self_signed_def Let_def split: sum.splits option.splits step.splits)
  moreover from k(1) assms(1) have "cx_ParseCertificate X der = Inr ?tmpl" by (auto simp: cert_law_def)
  ultimately have "tc_Leaf cert = Some ?tmpl" "pool = [?tmpl]" by auto
  then show ?thesis
    using assms(3,4) by (simp add: trusted_def server_tls_def cert_template_of_def hour_def)
qed

text \<open>
  In each of the five demonstrations the dialer of the transport fits its listener: on the day
  after the start, the connection that the client opens meets what the server was configured
  with.
\<close>

theorem tunnel_ends_match:
  assumes "cert_law X" and "self_signed_pool X ''localhost'' = Done (cert, pool)"
    and "fst (cx_now X) \<le> now" and "now \<le> snd (cx_now X) + 24 * hour"
    and "snd keys = dl_PublicKey D (fst keys)"
  shows "(tlscamo_Listener D (tlscamo_transport cert pool) addr wt = Inr (l1, s1) \<and>
        tlscamo_Dialer (tlscamo_transport cert pool) addr' wt' = Inr (d1, c1) \<longrightarrow> ends_match (dl_PublicKey D) now s1 c1) \<and>
     (quic_Listener D (quic_transport cert pool) addr wt = Inr (l2, s2) \<and>
        quic_Dialer D (quic_transport cert pool) addr' wt' = Inr (d2, c2) \<longrightarrow> ends_match (dl_PublicKey D) now s2 c2) \<and>
     (reality_Listener D (reality_transport cert pool fb) addr wt = Inr (l3, s3) \<and>
        reality_Dialer (reality_transport cert pool fb) addr' wt' = Inr (d3, c3) \<longrightarrow> ends_match (dl_PublicKey D) now s3 c3) \<and>
     (xreality_Listener D (xreality_transport D priv cert' dest) addr wt = Inr (l4, s4) \<and>
        xreality_Dialer (xreality_transport D priv cert' dest) addr' wt' = Inr (d4, c4) \<longrightarrow> ends_match (dl_PublicKey D) now s4 c4) \<and>
     (xray_Listener D (xray_transport keys dest) addr wt = Inr (l5, s5) \<and>
        xray_Dialer (xray_transport keys dest) addr' wt' = Inr (d5, c5) \<longrightarrow> ends_match (dl_PublicKey D) now s5 c5)"
  using self_signed_trusted [OF assms(1-4)] assms(5)
  by (auto simp: tlscamo_Listener_def tlscamo_Dialer_def tlscamo_transport_def quic_Listener_def quic_Dialer_def quic_transport_def
      reality_Listener_def reality_Dialer_def reality_transport_def xreality_Listener_def xreality_Dialer_def xreality_transport_def
      xray_Listener_def xray_Dialer_def xray_transport_def client_tls_def serverName_def split: sum.splits)

subsection \<open>The wait ends\<close>

lemma detection_loop_returns:
  assumes "\<And>i. clock i + 20000000 \<le> clock (Suc i)" and "deadline \<le> clock i + 20000000 * int k"
  shows "\<exists>j \<le> i + k. detection_loop dest deadline clock load i = Some j \<and>
     (detection_ready dest (load j) \<or> deadline \<le> clock j)"
  using assms(2)
proof (induction k arbitrary: i)
  case 0
  then show ?case by (subst detection_loop.simps) auto
next
  case (Suc k)
  show ?case
  proof (cases "clock i < deadline \<and> \<not> detection_ready dest (load i)")
    case True
    have "deadline \<le> clock (Suc i) + 20000000 * int k" using Suc.prems assms(1) [of i] by simp
    from Suc.IH [OF this] True show ?thesis
      by (subst detection_loop.simps) auto
  next
    case False
    then show ?thesis by (subst detection_loop.simps) (auto intro: exI [of _ i])
  qed
qed

text \<open>
  The wait for the detection returns: when every iteration takes at least the 20 milliseconds
  it sleeps, after at most 250 of them, and it returns before its deadline only when the
  lengths for all three protocols are there.
\<close>

theorem waitForDetection_returns:
  assumes "\<And>i. clock i + 20000000 \<le> clock (Suc i)" and "start \<le> clock 0"
  shows "\<exists>i \<le> 250. waitForDetection dest start clock load = Some i \<and>
     (detection_ready dest (load i) \<or> start + 5000000000 \<le> clock i)"
  using detection_loop_returns [of clock "start + 5000000000" 0 250 dest load] assms by (auto simp: waitForDetection_def)

theorem waitForDetection_returns_witness:
  "\<exists>i \<le> 250. waitForDetection ''d'' 0 (\<lambda>i. int i * 20000000) (\<lambda>i k. if i < 3 then Some Placeholder else Some Lengths) = Some i"
proof -
  have "int i * 20000000 + 20000000 \<le> int (Suc i) * 20000000" for i by simp
  from waitForDetection_returns [of "\<lambda>i. int i * 20000000", OF this, of 0] show ?thesis by fastforce
qed

subsection \<open>What the demonstrations print\<close>

text \<open>A server without a function answers every call with an error.\<close>

definition unknown_function_law :: "demo_lib \<Rightarrow> bool" where
  "unknown_function_law D \<longleftrightarrow> (\<forall>c f a. \<exists>e. dl_CallFunction D [] c f a = Inl e)"

fun demo_fails :: "demo_end \<Rightarrow> bool" where
  "demo_fails (Finished p s) = False"
| "demo_fails (FatalExit p e) = (p = [])"
| "demo_fails (Crashed v) = True"
| "demo_fails Hangs = True"

lemma tunnel_server_serves:
  assumes "tunnel_server D beans listen = Inr t"
  shows "served t = map fst (injected_services (dl_register D) beans)"
  using assms bound_services [of "dl_vrpc D"]
  by (fastforce simp: tunnel_server_def served_def vs_PostConstruct_def Let_def split: option.splits prod.splits)

lemma tunnel_run_unserved:
  assumes "unknown_function_law D" and "injected_services (dl_register D) beans = []"
  shows "demo_fails (tunnel_run D beans listen dial waited greeting probe)"
proof -
  have n: "dl_CallFunction D [] c f a \<noteq> Inr x" for c f a x
    using assms(1) by (metis unknown_function_law_def sum.distinct(1))
  show ?thesis
    using tunnel_server_serves [of D beans listen] assms(2)
    by (auto simp: tunnel_run_def Let_def n split: sum.splits)
qed

lemma start_demo_fails:
  "(\<And>x. a = Done x \<Longrightarrow> demo_fails (f x)) \<Longrightarrow> demo_fails (start_demo a f)"
  by (cases a) auto

lemma tunnel_beans_unserved:
  "x \<in> {Tlscamo, Quic, Reality, Xreality, Xrayreality} \<Longrightarrow> injected_services r (example_beans x) = []"
  by (auto simp: injected_services_def ValueService_methods_def)

text \<open>
  As they are, the five demonstrations do not get to their output: whatever the libraries do
  otherwise, the server has no function, so the call of \<^verbatim>\<open>greet\<close> fails and nothing is printed
  of what their documentation shows.
\<close>

theorem tunnel_demos_fail:
  assumes "unknown_function_law D"
  shows "demo_fails (tlscamo_main X D) \<and> demo_fails (quic_main X D) \<and> demo_fails (reality_main X D) \<and>
     demo_fails (xreality_main X X' D) \<and> demo_fails (xrayreality_main X D start clock load)"
proof -
  note run = tunnel_run_unserved [OF assms tunnel_beans_unserved]
  note defs = tlscamo_main_def quic_main_def reality_main_def xreality_main_def xrayreality_main_def Let_def
  show ?thesis
    by (intro conjI) (auto simp only: defs split: prod.splits sum.splits intro!: start_demo_fails run insertCI demo_fails.simps(2)[THEN iffD2])
qed

text \<open>
  With a service that is registered the same flow works: when binding, dialling, connecting and
  the probe succeed and the library calls the service's function, it prints the greeting and
  what the probe saw, and returns with the server shut down.
\<close>

theorem tunnel_run_greets:
  assumes "dl_server_ctx D = None" and "dl_client_ctx D = None"
    and "injected_services (dl_register D) beans = [(''*main.greeterService'', None)]"
    and "\<And>wt. \<exists>lis. listen ''127.0.0.1:0'' wt = Inr lis \<and> vl_addr lis = addr \<and> lib_NewServer (dl_vrpc D) lis = None"
    and "addr \<noteq> []" and "\<And>wt. \<exists>d. dial addr wt = Inr d" and "\<And>c. dl_Connect D c = None"
    and "\<And>c. dl_CallFunction D [''*main.greeterService''] c ''greet'' ''World'' = greet ''World''"
    and "probe addr = Inr seen" and "waited \<noteq> None"
  shows "\<exists>t srv. tunnel_run D beans listen dial waited greeting probe = Finished (greeting ''Hello, World!'' @ seen) (Ret None t) \<and>
     vs_srv t = Some srv \<and> \<not> vsv_open srv"
proof -
  let ?wt = "lib_DefaultTimeout (dl_vrpc D)"
  obtain lis where lis: "listen ''127.0.0.1:0'' ?wt = Inr lis" "vl_addr lis = addr" "lib_NewServer (dl_vrpc D) lis = None"
    using assms(4) by blast
  obtain t srv where t: "tunnel_server D beans listen = Inr t" "vs_srv t = Some srv" "vsv_listener srv = lis"
      "vsv_services srv = [''*main.greeterService'']" "\<not> vs_once t" "\<not> vs_shutdownCh t"
    using assms(1,3) lis
    by (simp add: tunnel_server_def vs_Bind_def vs_listener_def ValueServer_def vs_PostConstruct_def map_property_def vs_logs_def Let_def)
  then have a: "snd (vs_ListenAddress t) = addr" "served t = [''*main.greeterService'']"
    using lis(2) by (simp_all add: vs_ListenAddress_def served_def)
  obtain d where "dial addr (lib_ClientTimeout (dl_vrpc D)) = Inr d" using assms(6) by blast
  then obtain c where c: "tunnel_client D addr dial = Inr c"
    using assms(2,5,7) by (simp add: tunnel_client_def vc_Object_def vc_connectAddr_def map_property_def client_target_of_def Let_def)
  have w: "vs_wf t" using t(5,6) by (simp add: vs_wf_def)
  from vs_Shutdown_first [OF w t(6), of "dl_close D"] obtain t1
    where t1: "vs_Shutdown (dl_close D) t = Ret (dl_close D) t1" "vs_shutdownCh t1" "vs_wf t1"
      "\<forall>s. vs_srv t1 = Some s \<longrightarrow> \<not> vsv_open s"
    using t(2) by auto
  have "\<exists>s. vs_srv t1 = Some s"
    using t1(1) t(2,5,6) by (auto simp: vs_Shutdown_def vs_logs_def close_chan_def Let_def)
  moreover have "vs_Destroy (dl_close D) t1 = Ret None t1" using t1(2,3) by (simp add: vs_Destroy_def vs_Shutdown_def vs_wf_def)
  ultimately show ?thesis
    using t1 a c t(1) assms(8-10) by (auto simp: tunnel_run_def greet_def)
qed

text \<open>Libraries with which every step of the flow succeeds, for a service of any name.\<close>

definition sample_demo :: demo_lib where
  "sample_demo = \<lparr>dl_net_Listen = (\<lambda>n a. Inr \<lparr>l_Network = n, l_String = a, l_tls = False, l_open = True\<rparr>),
     dl_tls_Listen = (\<lambda>n a c. Inr \<lparr>l_Network = n, l_String = a, l_tls = True, l_open = True\<rparr>),
     dl_quic_NewListener = (\<lambda>a c wt. Inr \<lparr>vl_kind = ByTransport, vl_network = ''udp'', vl_addr = a, vl_writeTimeout = wt\<rparr>),
     dl_quic_NewDialer = (\<lambda>a c wt. \<lparr>vd_kind = ByTransport, vd_network = ''udp'', vd_addr = a, vd_writeTimeout = wt\<rparr>),
     dl_X25519 = Inr ''k'', dl_PublicKey = id, dl_GenerateKeyPair = Inr (''k'', ''k''), dl_vrpc = sample_lib,
     dl_server_ctx = None, dl_client_ctx = None, dl_factory_error = id, dl_register = (\<lambda>_. None), dl_Connect = (\<lambda>_. None),
     dl_CallFunction = (\<lambda>ss c f a. if ss = [] then Inl (ErrText ''function not found'') else greet a), dl_close = None,
     dl_tls_Dial = (\<lambda>a c q. Inr (''page'', [])), dl_quote = id\<rparr>"

definition sample_crypto :: crypto where
  "sample_crypto = \<lparr>cx_GenerateKey = Inr ''k'', cx_CreateCertificate = (\<lambda>t k. if t = cert_template_of ''localhost'' [''127.0.0.1''] (0, 0)
     then Inr ''der'' else Inl (ErrText ''none'')), cx_ParseCertificate = (\<lambda>d. Inr (cert_template_of ''localhost'' [''127.0.0.1''] (0, 0))),
     cx_now = (0, 0)\<rparr>"

theorem tunnel_demos_fail_witness: "demo_fails (tlscamo_main sample_crypto sample_demo)"
  using tunnel_demos_fail [of sample_demo] by (simp add: unknown_function_law_def sample_demo_def)

theorem tunnel_run_greets_witness:
  "\<exists>t. tunnel_run sample_demo (example_beans Greeter) (\<lambda>a wt. Inr \<lparr>vl_kind = ByTransport, vl_network = ''tcp'', vl_addr = a, vl_writeTimeout = wt\<rparr>)
     (\<lambda>a wt. Inr (func_dialer a wt)) (Some 0) id no_probe = Finished ''Hello, World!'' (Ret None t)"
proof -
  let ?listen = "\<lambda>a wt. Inr \<lparr>vl_kind = ByTransport, vl_network = ''tcp'', vl_addr = a, vl_writeTimeout = wt\<rparr>"
  have i: "injected_services (dl_register sample_demo) (example_beans Greeter) = [(''*main.greeterService'', None)]"
    by (simp add: injected_services_def ValueService_methods_def sample_demo_def)
  have "\<exists>t srv. tunnel_run sample_demo (example_beans Greeter) ?listen (\<lambda>a wt. Inr (func_dialer a wt)) (Some 0) id no_probe =
      Finished (id ''Hello, World!'' @ []) (Ret None t) \<and> vs_srv t = Some srv \<and> \<not> vsv_open srv"
    by (rule tunnel_run_greets [where addr = "''127.0.0.1:0''", OF _ _ i]) (simp_all add: sample_demo_def sample_lib_def no_probe_def)
  then show ?thesis by auto
qed

theorem tunnel_ends_match_witness:
  "\<exists>cert pool l s d c. self_signed_pool sample_crypto ''localhost'' = Done (cert, pool) \<and>
     tlscamo_Listener sample_demo (tlscamo_transport cert pool) ''a'' 1 = Inr (l, s) \<and>
     tlscamo_Dialer (tlscamo_transport cert pool) ''a'' 1 = Inr (d, c) \<and> ends_match id 5 s c"
proof -
  have l: "cert_law sample_crypto" by (simp add: cert_law_def sample_crypto_def)
  obtain cert pool where c: "self_signed_pool sample_crypto ''localhost'' = Done (cert, pool)"
    by (simp add: self_signed_pool_def self_signed_def sample_crypto_def)
  have k: "snd (''k'', ''k'') = dl_PublicKey sample_demo (fst (''k'', ''k''))" by (simp add: sample_demo_def)
  have n: "fst (cx_now sample_crypto) \<le> 5" "5 \<le> snd (cx_now sample_crypto) + 24 * hour"
    by (simp_all add: sample_crypto_def hour_def)
  obtain ln s where s: "tlscamo_Listener sample_demo (tlscamo_transport cert pool) ''a'' 1 = Inr (ln, s)"
    by (simp add: tlscamo_Listener_def sample_demo_def)
  obtain d e where d: "tlscamo_Dialer (tlscamo_transport cert pool) ''a'' 1 = Inr (d, e)" by (simp add: tlscamo_Dialer_def)
  have "dl_PublicKey sample_demo = id" by (simp add: sample_demo_def)
  with tunnel_ends_match [OF l c n k, THEN conjunct1, of "''a''" 1 ln s "''a''" 1 d e] s d have "ends_match id 5 s e" by simp
  with c s d show ?thesis by blast
qed

end
