(* ===== verification/Bindata.thy ===== *)
theory Bindata
  imports Go_Paths Prelude "HOL-Library.Word" "HOL-Library.Multiset"
begin

text \<open>
  The embedded files of \<^verbatim>\<open>bindata.go\<close> in the examples \<^verbatim>\<open>embprops\<close> and
  \<^verbatim>\<open>vue_server\<close>: a table of assets by name and a tree of the same assets by path, the file
  system over them that is given to the HTTP file server, and the functions that write them
  to disk. The code of the two files is the same; the two values that differ, the table and
  the tree, are the record \<open>bindata\<close>. The order in which \<^verbatim>\<open>range\<close> visits a map is a
  function \<open>ord\<close> that permutes its keys.
\<close>

unbundle bit_operations_syntax

subsection \<open>Assets\<close>

record file_info =
  fi_name :: string
  fi_size :: int
  fi_mode :: "32 word"
  fi_modTime :: "int option"

text \<open>\<^verbatim>\<open>os.ModeDir\<close> is the highest bit of a mode.\<close>

definition fi_IsDir :: "file_info \<Rightarrow> bool" where
  "fi_IsDir fi \<longleftrightarrow> fi_mode fi AND push_bit 31 1 \<noteq> 0"

record asset =
  as_bytes :: string
  as_info :: file_info

definition bindataRead :: "string \<Rightarrow> string \<Rightarrow> go_error + string" where
  "bindataRead data name = Inr data"

text \<open>A generated function that makes an asset from its data, its name, its size and its time.\<close>

definition make_asset :: "string \<Rightarrow> string \<Rightarrow> int \<Rightarrow> int \<Rightarrow> go_error + asset" where
  "make_asset data name sz unix =
     (case bindataRead data name of
        Inl e \<Rightarrow> Inl e
      | Inr bytes \<Rightarrow>
          Inr \<lparr>as_bytes = bytes, as_info = \<lparr>fi_name = name, fi_size = sz, fi_mode = 420, fi_modTime = Some unix\<rparr>\<rparr>)"

datatype bintree = Bintree "(go_error + asset) option" "(string \<times> bintree) list"

record bindata =
  bd_bindata :: "(string \<times> (go_error + asset)) list"
  bd_bintree :: bintree

definition cannonicalName :: "string \<Rightarrow> string" where
  "cannonicalName name = ReplaceAll name [CHR 0x5C] ''/''"

definition Asset :: "bindata \<Rightarrow> string \<Rightarrow> go_error + string" where
  "Asset B name =
     (case map_of (bd_bindata B) (cannonicalName name) of
        Some f \<Rightarrow>
          (case f of
             Inl e \<Rightarrow> Inl (ErrText (''Asset '' @ name @ '' can'' @ [CHR 0x27] @ ''t read by error: '' @ Error e))
           | Inr a \<Rightarrow> Inr (as_bytes a))
      | None \<Rightarrow> Inl (ErrText (''Asset '' @ name @ '' not found'')))"

text \<open>The text of the panic is left in the place of a state.\<close>

definition MustAsset :: "bindata \<Rightarrow> string \<Rightarrow> (string, string) outcome" where
  "MustAsset B name =
     (case Asset B name of
        Inl e \<Rightarrow> Panic (''asset: Asset('' @ name @ ''): '' @ Error e)
      | Inr a \<Rightarrow> Ret a [])"

definition AssetInfo :: "bindata \<Rightarrow> string \<Rightarrow> go_error + file_info" where
  "AssetInfo B name =
     (case map_of (bd_bindata B) (cannonicalName name) of
        Some f \<Rightarrow>
          (case f of
             Inl e \<Rightarrow> Inl (ErrText (''AssetInfo '' @ name @ '' can'' @ [CHR 0x27] @ ''t read by error: '' @ Error e))
           | Inr a \<Rightarrow> Inr (as_info a))
      | None \<Rightarrow> Inl (ErrText (''AssetInfo '' @ name @ '' not found'')))"

definition AssetNames :: "(string list \<Rightarrow> string list) \<Rightarrow> bindata \<Rightarrow> string list" where
  "AssetNames ord B = ord (map fst (bd_bindata B))"

subsection \<open>Directories\<close>

fun find_node :: "bintree \<Rightarrow> string list \<Rightarrow> bintree option" where
  "find_node nd [] = Some nd"
| "find_node (Bintree f cs) (p # ps) = (case map_of cs p of None \<Rightarrow> None | Some nd \<Rightarrow> find_node nd ps)"

definition AssetDir :: "(string list \<Rightarrow> string list) \<Rightarrow> bindata \<Rightarrow> string \<Rightarrow> go_error + string list" where
  "AssetDir ord B name =
     (let missing = Inl (ErrText (''Asset '' @ name @ '' not found'')) in
      case (if length name \<noteq> 0 then find_node (bd_bintree B) (Split CHR ''/'' (cannonicalName name)) else Some (bd_bintree B)) of
        None \<Rightarrow> missing
      | Some (Bintree f cs) \<Rightarrow> if f \<noteq> None then missing else Inr (ord (map fst cs)))"

subsection \<open>The file system\<close>

text \<open>\<open>af_Reader\<close> is the content that is left to read; a directory has no reader.\<close>

record assetFile =
  af_Reader :: "string option"
  af_name :: string
  af_childInfos :: "file_info list"
  af_childInfoOffset :: int

definition newDirFileInfo :: "string \<Rightarrow> file_info" where
  "newDirFileInfo name = \<lparr>fi_name = name, fi_size = 0, fi_mode = 2147484068, fi_modTime = None\<rparr>"

definition child_info :: "bindata \<Rightarrow> string \<Rightarrow> string \<Rightarrow> file_info" where
  "child_info B name child =
     (case AssetInfo B (filepath_Join [name, child]) of
        Inr info \<Rightarrow> info
      | Inl e \<Rightarrow> newDirFileInfo (filepath_Join [name, child]))"

definition bd_Open :: "(string list \<Rightarrow> string list) \<Rightarrow> bindata \<Rightarrow> string \<Rightarrow> go_error + assetFile" where
  "bd_Open ord B path =
     (let name = (if 0 < length path \<and> path ! 0 = CHR ''/'' then drop 1 path else path) in
      case Asset B name of
        Inr content \<Rightarrow> Inr \<lparr>af_Reader = Some content, af_name = name, af_childInfos = [], af_childInfoOffset = 0\<rparr>
      | Inl _ \<Rightarrow>
          (case AssetDir ord B name of
             Inr children \<Rightarrow>
               Inr \<lparr>af_Reader = None, af_name = name, af_childInfos = map (child_info B name) children, af_childInfoOffset = 0\<rparr>
           | Inl err \<Rightarrow> if Contains (Error err) ''not found'' then Inl ErrNotExist else Inl err))"

definition af_Stat :: "bindata \<Rightarrow> assetFile \<Rightarrow> go_error + file_info" where
  "af_Stat B f = (if length (af_childInfos f) \<noteq> 0 then Inr (newDirFileInfo (af_name f)) else AssetInfo B (af_name f))"

text \<open>Slicing panics out of bounds; the offset and its sum with the count are 64-bit integers.\<close>

definition af_Readdir :: "int \<Rightarrow> assetFile \<Rightarrow> (go_error + file_info list, assetFile) outcome" where
  "af_Readdir cnt f =
     (if length (af_childInfos f) = 0 then Ret (Inl ErrNotExist) f
      else if cnt \<le> 0 then Ret (Inr (af_childInfos f)) f
      else
        let len = int (length (af_childInfos f)); offset = af_childInfoOffset f;
            n = (if len < wrap64 (offset + cnt) then len - offset else cnt);
            end' = wrap64 (offset + n); f1 = f\<lparr>af_childInfoOffset := end'\<rparr>
        in if 0 \<le> offset \<and> offset \<le> end' \<and> end' \<le> len
           then Ret (Inr (take (nat (end' - offset)) (drop (nat offset) (af_childInfos f)))) f1
           else Panic f1)"

definition af_Close :: "assetFile \<Rightarrow> go_error option" where
  "af_Close f = None"

subsection \<open>Writing the assets to disk\<close>

text \<open>The functions of \<^verbatim>\<open>os\<close> on a state \<open>'fs\<close> of the files.\<close>

record 'fs os_files =
  os_MkdirAll :: "string \<Rightarrow> 32 word \<Rightarrow> 'fs \<Rightarrow> go_error option \<times> 'fs"
  os_WriteFile :: "string \<Rightarrow> string \<Rightarrow> 32 word \<Rightarrow> 'fs \<Rightarrow> go_error option \<times> 'fs"
  os_Chtimes :: "string \<Rightarrow> int option \<Rightarrow> 'fs \<Rightarrow> go_error option \<times> 'fs"

definition filePath :: "string \<Rightarrow> string \<Rightarrow> string" where
  "filePath dir name = filepath_Join (dir # Split CHR ''/'' (cannonicalName name))"

definition RestoreAsset :: "'fs os_files \<Rightarrow> bindata \<Rightarrow> string \<Rightarrow> string \<Rightarrow> 'fs \<Rightarrow> go_error option \<times> 'fs" where
  "RestoreAsset F B dir name s =
     (case Asset B name of
        Inl e \<Rightarrow> (Some e, s)
      | Inr data \<Rightarrow>
          (case AssetInfo B name of
             Inl e \<Rightarrow> (Some e, s)
           | Inr info \<Rightarrow>
               (case os_MkdirAll F (filePath dir (Dir name)) 493 s of
                  (Some e, s1) \<Rightarrow> (Some e, s1)
                | (None, s1) \<Rightarrow>
                    (case os_WriteFile F (filePath dir name) data (fi_mode info) s1 of
                       (Some e, s2) \<Rightarrow> (Some e, s2)
                     | (None, s2) \<Rightarrow> os_Chtimes F (filePath dir name) (fi_modTime info) s2))))"

fun restore_children ::
  "(string \<Rightarrow> 'fs \<Rightarrow> (go_error option \<times> 'fs) option) \<Rightarrow> string list \<Rightarrow> 'fs \<Rightarrow> (go_error option \<times> 'fs) option" where
  "restore_children f [] s = Some (None, s)"
| "restore_children f (c # cs) s =
     (case f c s of
        None \<Rightarrow> None
      | Some (Some e, s1) \<Rightarrow> Some (Some e, s1)
      | Some (None, s1) \<Rightarrow> restore_children f cs s1)"

text \<open>
  The recursion follows joined names and not the tree, so it is bounded by a depth; \<open>None\<close>
  is a call that goes deeper.
\<close>

fun RestoreAssets ::
  "nat \<Rightarrow> (string list \<Rightarrow> string list) \<Rightarrow> 'fs os_files \<Rightarrow> bindata \<Rightarrow> string \<Rightarrow> string \<Rightarrow> 'fs \<Rightarrow> (go_error option \<times> 'fs) option"
where
  "RestoreAssets 0 ord F B dir name s = None"
| "RestoreAssets (Suc n) ord F B dir name s =
     (case AssetDir ord B name of
        Inl _ \<Rightarrow> Some (RestoreAsset F B dir name s)
      | Inr children \<Rightarrow> restore_children (\<lambda>c. RestoreAssets n ord F B dir (filepath_Join [name, c])) children s)"

subsection \<open>Well-formed tables and trees\<close>

fun leaves :: "bintree \<Rightarrow> (string list \<times> (go_error + asset)) list" where
  "leaves (Bintree (Some f) cs) = [([], f)]"
| "leaves (Bintree None cs) = concat (map (\<lambda>(c, nd). map (\<lambda>(p, f). (c # p, f)) (leaves nd)) cs)"

fun tree_ok :: "bintree \<Rightarrow> bool" where
  "tree_ok (Bintree (Some f) cs) \<longleftrightarrow> cs = []"
| "tree_ok (Bintree None cs) \<longleftrightarrow> distinct (map fst cs) \<and> (\<forall>(c, nd) \<in> set cs. plain_name c \<and> leaves nd \<noteq> [] \<and> tree_ok nd)"

fun depth :: "bintree \<Rightarrow> nat" where
  "depth (Bintree f cs) = Suc (fold max (map (\<lambda>(c, nd). depth nd) cs) 0)"

definition bindata_ok :: "bindata \<Rightarrow> bool" where
  "bindata_ok B \<longleftrightarrow> distinct (map fst (bd_bindata B)) \<and> tree_ok (bd_bintree B) \<and>
     (case bd_bintree B of Bintree f cs \<Rightarrow> f = None) \<and>
     set (map (\<lambda>(p, f). (path_of p, f)) (leaves (bd_bintree B))) = set (bd_bindata B)"

definition range_order :: "(string list \<Rightarrow> string list) \<Rightarrow> bool" where
  "range_order ord \<longleftrightarrow> (\<forall>xs. mset (ord xs) = mset xs)"


subsection \<open>The tree and the table\<close>

abbreviation plain :: "string list \<Rightarrow> bool" where
  "plain ps \<equiv> \<forall>p \<in> set ps. plain_name p"

lemma ReplaceAll_absent: "c \<notin> set s \<Longrightarrow> ReplaceAll s [c] new = s"
  by (induction s) (simp_all add: ReplaceAll.simps)

lemma path_of_no_backslash: "plain ps \<Longrightarrow> CHR 0x5C \<notin> set (path_of ps)"
proof (induction ps)
  case (Cons p ps)
  then show ?case by (cases "ps = []") (auto simp: path_of_Cons dest: plain_nameD(5))
qed simp

lemma cannonicalName_path [simp]: "plain ps \<Longrightarrow> cannonicalName (path_of ps) = path_of ps"
  by (simp add: cannonicalName_def ReplaceAll_absent path_of_no_backslash)

lemma leaves_dir:
  "(xs, f) \<in> set (leaves (Bintree None cs)) \<longleftrightarrow>
     (\<exists>c q nd. xs = c # q \<and> (c, nd) \<in> set cs \<and> (q, f) \<in> set (leaves nd))" (is "?l \<longleftrightarrow> ?r")
proof
  assume ?r
  then obtain c q nd where "xs = c # q" "(c, nd) \<in> set cs" "(q, f) \<in> set (leaves nd)" by blast
  then show ?l by (auto intro!: bexI [of _ "(c, nd)"] image_eqI [of _ _ "(q, f)"])
qed auto

lemma leaves_find:
  "tree_ok nd \<Longrightarrow> (ps @ q, f) \<in> set (leaves nd) \<longleftrightarrow> (\<exists>nd'. find_node nd ps = Some nd' \<and> (q, f) \<in> set (leaves nd'))"
proof (induction nd ps rule: find_node.induct)
  case (2 g cs p ps)
  show ?case
  proof (cases g)
    case None
    have d: "distinct (map fst cs)" using 2(2) None by simp
    have "(p # ps @ q, f) \<in> set (leaves (Bintree None cs)) \<longleftrightarrow> (\<exists>nd. (p, nd) \<in> set cs \<and> (ps @ q, f) \<in> set (leaves nd))"
      by (simp only: leaves_dir list.inject) blast
    also have "\<dots> \<longleftrightarrow> (\<exists>nd. map_of cs p = Some nd \<and> (ps @ q, f) \<in> set (leaves nd))"
      using d by simp
    finally show ?thesis using 2 None by (cases "map_of cs p") (auto dest: map_of_SomeD)
  qed (use 2(2) in auto)
qed simp

lemma tree_ok_find: "find_node nd ps = Some nd' \<Longrightarrow> tree_ok nd \<Longrightarrow> tree_ok nd'"
proof (induction nd ps rule: find_node.induct)
  case (2 g cs p ps)
  then show ?case by (cases g) (auto split: option.splits dest: map_of_SomeD)
qed simp

lemma leaves_plain: "tree_ok nd \<Longrightarrow> (p, f) \<in> set (leaves nd) \<Longrightarrow> plain p"
proof (induction nd arbitrary: p rule: leaves.induct)
  case (2 cs)
  then show ?case by (fastforce simp: leaves_dir simp del: leaves.simps)
qed simp

lemma find_node_Nil [simp]: "find_node nd [] = Some nd"
  by (cases nd) simp

lemma find_node_append:
  "find_node nd (ps @ qs) = (case find_node nd ps of None \<Rightarrow> None | Some m \<Rightarrow> find_node m qs)"
  by (induction nd ps rule: find_node.induct) (auto split: option.splits)

lemma fold_max_le: "m \<le> fold max xs (m :: nat) \<and> (\<forall>x \<in> set xs. x \<le> fold max xs m)"
  by (induction xs arbitrary: m) (auto, (metis le_trans max.cobounded1 max.cobounded2)+)

lemma depth_child: "(c, m) \<in> set cs \<Longrightarrow> depth m < depth (Bintree g cs)"
  using fold_max_le [of 0 "map (\<lambda>(c, nd). depth nd) cs"] by (force simp: less_Suc_eq_le)

lemma depth_find: "find_node nd ps = Some m \<Longrightarrow> depth m \<le> depth nd"
proof (induction nd ps rule: find_node.induct)
  case (2 f cs p ps)
  then show ?case by (fastforce split: option.splits dest: map_of_SomeD depth_child intro: le_trans less_imp_le)
qed simp

text \<open>What is in the table, by the parts of its names.\<close>

definition table :: "bindata \<Rightarrow> string list \<Rightarrow> (go_error + asset) option" where
  "table B ps = map_of (bd_bindata B) (path_of ps)"

lemma table_leaves:
  assumes "bindata_ok B" and "plain ps"
  shows "table B ps = Some f \<longleftrightarrow> (ps, f) \<in> set (leaves (bd_bintree B))"
proof -
  have t: "tree_ok (bd_bintree B)" and d: "distinct (map fst (bd_bindata B))"
    and e: "set (bd_bindata B) = (\<lambda>(p, f). (path_of p, f)) ` set (leaves (bd_bintree B))"
    using assms(1) by (simp_all add: bindata_ok_def)
  have n: "p \<noteq> []" if "(p, f) \<in> set (leaves (bd_bintree B))" for p f
    using that assms(1) by (cases "bd_bintree B") (auto simp: bindata_ok_def leaves_dir simp del: leaves.simps)
  have "table B ps = Some f \<longleftrightarrow> (path_of ps, f) \<in> set (bd_bindata B)"
    using d by (simp add: table_def)
  also have "\<dots> \<longleftrightarrow> (\<exists>p. (p, f) \<in> set (leaves (bd_bintree B)) \<and> path_of p = path_of ps)"
    unfolding e by force
  also have "\<dots> \<longleftrightarrow> (ps, f) \<in> set (leaves (bd_bintree B))"
  proof
    assume "\<exists>p. (p, f) \<in> set (leaves (bd_bintree B)) \<and> path_of p = path_of ps"
    then obtain p where p: "(p, f) \<in> set (leaves (bd_bintree B))" "path_of p = path_of ps" by blast
    have pl: "plain p" using leaves_plain [OF t p(1)] .
    have "ps \<noteq> []" using p n pl path_of_eq_Nil [of p] by auto
    have "\<forall>x \<in> set p \<union> set ps. CHR ''/'' \<notin> set x" using pl assms(2) by (auto dest: plain_nameD(4))
    then have "p = ps" using n [OF p(1)] \<open>ps \<noteq> []\<close> p(2) by (rule path_of_inj)
    with p show "(ps, f) \<in> set (leaves (bd_bintree B))" by simp
  qed blast
  finally show ?thesis .
qed

text \<open>The names that a directory has according to the table alone.\<close>

definition entries :: "bindata \<Rightarrow> string list \<Rightarrow> string set" where
  "entries B ps = {c. plain_name c \<and> (\<exists>q. plain q \<and> table B (ps @ c # q) \<noteq> None)}"

lemma AssetDir_eq:
  assumes "plain ps"
  shows "AssetDir ord B (path_of ps) =
    (case find_node (bd_bintree B) ps of
       Some (Bintree None cs) \<Rightarrow> Inr (ord (map fst cs))
     | _ \<Rightarrow> Inl (ErrText (''Asset '' @ path_of ps @ '' not found'')))"
proof -
  have "(if length (path_of ps) \<noteq> 0
      then find_node (bd_bintree B) (Split CHR ''/'' (cannonicalName (path_of ps))) else Some (bd_bintree B))
    = find_node (bd_bintree B) ps"
    using assms by (simp add: path_of_eq_Nil Split_path)
  then show ?thesis by (simp only: AssetDir_def Let_def) (auto split: option.splits bintree.splits)
qed

lemma table_find:
  assumes "bindata_ok B" and "plain ps" and "plain q"
  shows "table B (ps @ q) = Some f \<longleftrightarrow> (\<exists>nd. find_node (bd_bintree B) ps = Some nd \<and> (q, f) \<in> set (leaves nd))"
  using assms table_leaves [of B "ps @ q" f] leaves_find [of "bd_bintree B" ps q f]
  by (auto simp: bindata_ok_def)

lemma entries_find:
  assumes "bindata_ok B" and "plain ps"
  shows "entries B ps =
    (case find_node (bd_bintree B) ps of Some (Bintree None cs) \<Rightarrow> fst ` set cs | _ \<Rightarrow> {})"
proof -
  have e: "c \<in> entries B ps \<longleftrightarrow>
    (\<exists>nd f q. plain_name c \<and> plain q \<and> find_node (bd_bintree B) ps = Some nd \<and> (c # q, f) \<in> set (leaves nd))" for c
  proof -
    have "table B (ps @ c # q) = Some f \<longleftrightarrow>
      (\<exists>nd. find_node (bd_bintree B) ps = Some nd \<and> (c # q, f) \<in> set (leaves nd))"
      if "plain_name c" "plain q" for q f
      using table_find [OF assms, of "c # q" f] that by simp
    moreover have "c \<in> entries B ps \<longleftrightarrow> plain_name c \<and> (\<exists>q. plain q \<and> (\<exists>f. table B (ps @ c # q) = Some f))"
      by (simp add: entries_def)
    ultimately show ?thesis by blast
  qed
  show ?thesis
  proof (cases "find_node (bd_bintree B) ps")
    case (Some nd)
    have t: "tree_ok nd" using tree_ok_find [OF Some] assms(1) by (simp add: bindata_ok_def)
    obtain g cs where nd: "nd = Bintree g cs" by (cases nd)
    show ?thesis
    proof (cases g)
      case None
      have "c \<in> entries B ps \<longleftrightarrow> c \<in> fst ` set cs" for c
      proof
        assume "c \<in> fst ` set cs"
        then obtain m where m: "(c, m) \<in> set cs" by force
        then obtain q f where q: "(q, f) \<in> set (leaves m)" using t nd None by (cases "leaves m") fastforce+
        then have "(c # q, f) \<in> set (leaves nd)" using m nd None by (auto simp: leaves_dir simp del: leaves.simps)
        with leaves_plain [OF t this] Some show "c \<in> entries B ps" unfolding e by auto
      qed (use e Some nd None in \<open>force simp: leaves_dir simp del: leaves.simps\<close>)
      then show ?thesis using Some nd None by auto
    qed (use e Some nd in auto)
  qed (use e in auto)
qed

lemma range_order_set: "range_order ord \<Longrightarrow> set (ord xs) = set xs"
  unfolding range_order_def by (metis set_mset_mset)

lemma range_order_distinct: "range_order ord \<Longrightarrow> distinct (ord xs) \<longleftrightarrow> distinct xs"
  unfolding range_order_def by (metis mset_eq_imp_distinct_iff)

lemma AssetDir_entries:
  assumes "bindata_ok B" and "range_order ord" and "plain ps"
  shows "case AssetDir ord B (path_of ps) of
           Inr cs \<Rightarrow> distinct cs \<and> set cs = entries B ps
         | Inl e \<Rightarrow> ps \<noteq> [] \<and> entries B ps = {} \<and> e = ErrText (''Asset '' @ path_of ps @ '' not found'')"
proof -
  have r: "\<exists>cs. bd_bintree B = Bintree None cs" using assms(1) by (cases "bd_bintree B") (simp add: bindata_ok_def)
  show ?thesis
  proof (cases "find_node (bd_bintree B) ps")
    case None
    then have "ps \<noteq> []" by auto
    with None show ?thesis using assms by (simp add: AssetDir_eq entries_find)
  next
    case (Some nd)
    obtain g cs where nd: "nd = Bintree g cs" by (cases nd)
    show ?thesis
    proof (cases g)
      case None
      have "tree_ok nd" using tree_ok_find [OF Some] assms(1) by (simp add: bindata_ok_def)
      then have "distinct (map fst cs)" using nd None by simp
      then show ?thesis
        using Some nd None assms by (simp add: AssetDir_eq entries_find range_order_set range_order_distinct)
    next
      case (Some f)
      then have "ps \<noteq> []" using r nd \<open>find_node _ _ = _\<close> by auto
      then show ?thesis using Some nd \<open>find_node _ _ = _\<close> assms by (simp add: AssetDir_eq entries_find)
    qed
  qed
qed

text \<open>A listed directory is no file, and its entries are nodes of a smaller depth.\<close>

lemma AssetDir_no_file:
  assumes "bindata_ok B" and "plain ps" and "AssetDir ord B (path_of ps) = Inr cs"
  shows "table B ps = None"
proof -
  obtain kids where "find_node (bd_bintree B) ps = Some (Bintree None kids)"
    using assms(2,3) by (auto simp: AssetDir_eq split: option.splits bintree.splits)
  then show ?thesis
    using table_find [OF assms(1,2), of "[]"] by (auto simp: leaves_dir simp del: leaves.simps)
qed

lemma AssetDir_child:
  assumes "bindata_ok B" and "range_order ord" and "plain ps" and "AssetDir ord B (path_of ps) = Inr cs" and "c \<in> set cs"
  shows "plain_name c" and "\<exists>m. find_node (bd_bintree B) (ps @ [c]) = Some m \<and>
    (\<forall>nd. find_node (bd_bintree B) ps = Some nd \<longrightarrow> depth m < depth nd)"
proof -
  have c: "c \<in> entries B ps" using AssetDir_entries [OF assms(1-3)] assms(4,5) by simp
  then show "plain_name c" by (simp add: entries_def)
  obtain kids where k: "find_node (bd_bintree B) ps = Some (Bintree None kids)"
    using assms(3,4) by (auto simp: AssetDir_eq split: option.splits bintree.splits)
  have "c \<in> fst ` set kids" using c entries_find [OF assms(1,3)] k by simp
  then obtain m where m: "map_of kids c = Some m" by (metis domIff dom_map_of_conv_image_fst not_None_eq)
  show "\<exists>m. find_node (bd_bintree B) (ps @ [c]) = Some m \<and>
    (\<forall>nd. find_node (bd_bintree B) ps = Some nd \<longrightarrow> depth m < depth nd)"
    using k m depth_child [OF map_of_SomeD [OF m]] by (simp add: find_node_append del: depth.simps)
qed

lemma Asset_path:
  "plain ps \<Longrightarrow> Asset B (path_of ps) =
     (case table B ps of
        Some (Inr a) \<Rightarrow> Inr (as_bytes a)
      | Some (Inl e) \<Rightarrow> Inl (ErrText (''Asset '' @ path_of ps @ '' can'' @ [CHR 0x27] @ ''t read by error: '' @ Error e))
      | None \<Rightarrow> Inl (ErrText (''Asset '' @ path_of ps @ '' not found'')))"
  by (simp add: Asset_def table_def split: option.splits sum.splits)

lemma AssetInfo_path:
  "plain ps \<Longrightarrow> AssetInfo B (path_of ps) =
     (case table B ps of
        Some (Inr a) \<Rightarrow> Inr (as_info a)
      | Some (Inl e) \<Rightarrow> Inl (ErrText (''AssetInfo '' @ path_of ps @ '' can'' @ [CHR 0x27] @ ''t read by error: '' @ Error e))
      | None \<Rightarrow> Inl (ErrText (''AssetInfo '' @ path_of ps @ '' not found'')))"
  by (simp add: AssetInfo_def table_def split: option.splits sum.splits)

subsection \<open>Opening\<close>

lemma AssetDir_error: "AssetDir ord B name = Inl e \<Longrightarrow> Contains (Error e) ''not found''"
proof -
  assume "AssetDir ord B name = Inl e"
  then have "e = ErrText (''Asset '' @ name @ '' not found'')"
    by (auto simp: AssetDir_def Let_def split: option.splits bintree.splits if_splits)
  then show ?thesis by (simp add: sublist_def) (metis append.assoc append_Cons append_Nil append_Nil2)
qed

lemma bd_Open_cases:
  "bd_Open ord B path =
     (let name = (if 0 < length path \<and> path ! 0 = CHR ''/'' then drop 1 path else path) in
      case Asset B name of
        Inr c \<Rightarrow> Inr \<lparr>af_Reader = Some c, af_name = name, af_childInfos = [], af_childInfoOffset = 0\<rparr>
      | Inl _ \<Rightarrow>
          (case AssetDir ord B name of
             Inr cs \<Rightarrow> Inr \<lparr>af_Reader = None, af_name = name, af_childInfos = map (child_info B name) cs, af_childInfoOffset = 0\<rparr>
           | Inl _ \<Rightarrow> Inl ErrNotExist))"
  by (auto simp: bd_Open_def Let_def dest: AssetDir_error split: sum.splits)

text \<open>
  What the HTTP file server asks of its file system so that a missing file is a 404 and a file
  that opens is served: the only error of opening is the one for a missing file, and what opens
  as a file has its information.
\<close>

locale http_file_system =
  fixes fopen :: "string \<Rightarrow> go_error + assetFile" and stat :: "assetFile \<Rightarrow> go_error + file_info"
  assumes only_missing: "fopen p = Inl e \<Longrightarrow> e = ErrNotExist"
    and file_stat: "fopen p = Inr f \<Longrightarrow> af_Reader f = Some c \<Longrightarrow> \<exists>i. stat f = Inr i"
begin

text \<open>The status that the server documents for the errors of opening and of the information.\<close>

definition error_status :: "string \<Rightarrow> int option" where
  "error_status p =
     (case fopen p of
        Inl e \<Rightarrow> Some (if errors_Is e ErrNotExist then 404 else 500)
      | Inr f \<Rightarrow> (case stat f of Inl e \<Rightarrow> Some (if errors_Is e ErrNotExist then 404 else 500) | Inr i \<Rightarrow> None))"

lemma no_internal_error: "error_status p = Some 500 \<Longrightarrow> \<exists>f. fopen p = Inr f \<and> af_Reader f = None"
  using only_missing [of p] file_stat [of p]
  by (auto simp: error_status_def split: sum.splits if_splits) (metis not_None_eq sum.distinct(1))

end

lemma Asset_has_info: "Asset B n = Inr c \<Longrightarrow> \<exists>i. AssetInfo B n = Inr i"
  by (auto simp: Asset_def AssetInfo_def split: option.splits sum.splits)

interpretation embedded: http_file_system "bd_Open ord B" "af_Stat B" for ord B
  by unfold_locales (auto simp: bd_Open_cases Let_def af_Stat_def Asset_has_info split: sum.splits)

text \<open>The file information of the entry \<open>c\<close> of a directory, by the table alone.\<close>

definition entry_info :: "bindata \<Rightarrow> string list \<Rightarrow> string \<Rightarrow> file_info" where
  "entry_info B ps c =
     (case table B (ps @ [c]) of Some (Inr a) \<Rightarrow> as_info a | _ \<Rightarrow> newDirFileInfo (path_of (ps @ [c])))"

lemma child_info_path:
  "plain ps \<Longrightarrow> plain_name c \<Longrightarrow> child_info B (path_of ps) c = entry_info B ps c"
  by (simp only: child_info_def join_child)
    (simp add: AssetInfo_path entry_info_def split: option.splits sum.splits)

text \<open>A directory that lists something has information as well, so nothing embedded is a 500.\<close>

lemma embedded_no_500:
  assumes "bd_Open ord B p = Inr f" and "af_Reader f = None" and "af_childInfos f \<noteq> []"
  shows "embedded.error_status ord B p = None"
  using assms by (simp add: embedded.error_status_def af_Stat_def)

lemma embedded_500_empty:
  "embedded.error_status ord B p = Some 500 \<Longrightarrow> \<exists>f. bd_Open ord B p = Inr f \<and> af_Reader f = None \<and> af_childInfos f = []"
  using embedded.no_internal_error [of ord B p] embedded_no_500 [of ord B p] by fastforce

lemma entries_plain: "c \<in> entries B ps \<Longrightarrow> plain_name c"
  by (simp add: entries_def)

lemma bd_Open_path:
  assumes "plain ps" and "slash \<in> {[], ''/''}"
  shows "bd_Open ord B (slash @ path_of ps) =
      (case Asset B (path_of ps) of
        Inr c \<Rightarrow> Inr \<lparr>af_Reader = Some c, af_name = path_of ps, af_childInfos = [], af_childInfoOffset = 0\<rparr>
      | Inl _ \<Rightarrow>
          (case AssetDir ord B (path_of ps) of
             Inr cs \<Rightarrow> Inr \<lparr>af_Reader = None, af_name = path_of ps,
               af_childInfos = map (child_info B (path_of ps)) cs, af_childInfoOffset = 0\<rparr>
           | Inl _ \<Rightarrow> Inl ErrNotExist))"
proof -
  have "(if 0 < length (slash @ path_of ps) \<and> (slash @ path_of ps) ! 0 = CHR ''/''
      then drop 1 (slash @ path_of ps) else slash @ path_of ps) = path_of ps"
  proof (cases "slash = []")
    case True
    have "path_of ps ! 0 \<noteq> CHR ''/''" if "path_of ps \<noteq> []"
    proof -
      from that have "ps \<noteq> []" by auto
      then obtain p qs where ps: "ps = p # qs" by (cases ps) auto
      then obtain x xs where "p = x # xs" "x \<noteq> CHR ''/''"
        using assms(1) plain_nameD(1,4) [of p] by (cases p) auto
      then show ?thesis using ps by (cases "qs = []") (simp_all add: path_of_Cons)
    qed
    with True show ?thesis by auto
  qed (use assms(2) in simp)
  then show ?thesis unfolding bd_Open_cases by (simp only: Let_def)
qed

subsection \<open>Reading directories\<close>

text \<open>The pages that \<open>k\<close> calls of \<^verbatim>\<open>Readdir\<close> return; \<open>None\<close> if one of them fails.\<close>

fun read_pages :: "nat \<Rightarrow> int \<Rightarrow> assetFile \<Rightarrow> file_info list list option" where
  "read_pages 0 n f = Some []"
| "read_pages (Suc k) n f =
     (case af_Readdir n f of
        Ret (Inr xs) f' \<Rightarrow> map_option ((#) xs) (read_pages k n f')
      | _ \<Rightarrow> None)"

lemma af_Readdir_page:
  assumes "0 < n" and "int n + int (length (af_childInfos f)) \<le> max_int64"
    and "af_childInfos f \<noteq> []" and "af_childInfoOffset f = int off" and "off \<le> length (af_childInfos f)"
  shows "af_Readdir (int n) f =
    Ret (Inr (take n (drop off (af_childInfos f))))
      (f\<lparr>af_childInfoOffset := int (min (off + n) (length (af_childInfos f)))\<rparr>)"
proof -
  have w: "wrap64 (int off + m) = int off + m" if "0 \<le> m" "m \<le> int n" for m
    using assms that by (intro wrap64_id) (simp add: in_int64_def min_int64_def)
  let ?len = "length (af_childInfos f)"
  show ?thesis
  proof (cases "?len < off + n")
    case True
    have "wrap64 (int off + (int ?len - int off)) = int ?len"
      using w [of "int ?len - int off"] True assms(5) by simp
    moreover have "nat (int ?len - int off) = ?len - off" using assms(5) by simp
    ultimately show ?thesis using True assms w [of "int n"] by (simp add: af_Readdir_def Let_def)
  next
    case False
    then show ?thesis using assms w [of "int n"] by (simp add: af_Readdir_def Let_def)
  qed
qed

lemma read_pages_from:
  assumes "0 < n" and "int n + int (length (af_childInfos f)) \<le> max_int64"
    and "af_childInfos f \<noteq> []" and "af_childInfoOffset f = int off" and "off \<le> length (af_childInfos f)"
  shows "read_pages k (int n) f = Some (map (\<lambda>i. take n (drop (off + i * n) (af_childInfos f))) [0..<k])"
  using assms
proof (induction k arbitrary: f off)
  case (Suc k)
  let ?len = "length (af_childInfos f)"
  let ?f = "f\<lparr>af_childInfoOffset := int (min (off + n) ?len)\<rparr>"
  have "read_pages k (int n) ?f =
    Some (map (\<lambda>i. take n (drop (min (off + n) ?len + i * n) (af_childInfos f))) [0..<k])"
    using Suc.IH [of ?f "min (off + n) ?len"] Suc.prems by simp
  also have "\<dots> = Some (map (\<lambda>i. take n (drop (off + Suc i * n) (af_childInfos f))) [0..<k])"
    by (cases "off + n \<le> ?len") (simp_all add: algebra_simps)
  finally show ?case
    using af_Readdir_page [OF Suc.prems] by (simp add: upt_conv_Cons map_Suc_upt [symmetric] comp_def del: upt_Suc)
qed simp

lemma concat_pages: "concat (map (\<lambda>i. take n (drop (i * n) xs)) [0..<k]) = take (k * n) xs"
  by (induction k) (simp_all add: take_add [symmetric] add.commute)

lemma readdir_huge_count_panics:
  assumes "0 < af_childInfoOffset f" and "af_childInfoOffset f \<le> int (length (af_childInfos f))"
    and "int (length (af_childInfos f)) \<le> max_int64"
    and "cnt \<le> max_int64" and "max_int64 < af_childInfoOffset f + cnt"
  shows "\<exists>f'. af_Readdir cnt f = Panic f'"
proof -
  let ?x = "af_childInfoOffset f + cnt"
  have "0 \<le> ?x - 2 ^ 63" "?x - 2 ^ 63 < 2 ^ 63" using assms by (simp_all add: max_int64_def)
  moreover have "(?x + 2 ^ 63) mod 2 ^ 64 = (?x - 2 ^ 63) mod 2 ^ 64"
    using mod_add_self2 [of "?x - 2 ^ 63" "2 ^ 64"] by (simp add: add.commute)
  ultimately have w: "wrap64 ?x < 0" by (simp add: wrap64_def)
  have "af_childInfos f \<noteq> []" "0 < cnt" using assms by auto
  with w show ?thesis by (simp add: af_Readdir_def Let_def)
qed

subsection \<open>Restoring\<close>

text \<open>
  What \<open>RestoreAssets\<close> relies on: \<open>rd\<close> is the content of the file at a path, and below the
  directory \<open>dir\<close>, which holds no links, a write changes the file at its path only and sets it
  when it succeeds; making directories and setting times change no content.
\<close>

definition files_law :: "'fs os_files \<Rightarrow> ('fs \<Rightarrow> string \<Rightarrow> string option) \<Rightarrow> string \<Rightarrow> bool" where
  "files_law F rd dir \<longleftrightarrow>
     (\<forall>p m s. rd (snd (os_MkdirAll F p m s)) = rd s) \<and>
     (\<forall>p t s. rd (snd (os_Chtimes F p t s)) = rd s) \<and>
     (\<forall>ps qs d m s. plain ps \<and> plain qs \<and> ps \<noteq> [] \<and> qs \<noteq> [] \<longrightarrow>
        (case os_WriteFile F (below dir ps) d m s of
           (None, s') \<Rightarrow> rd s' (below dir qs) = (if ps = qs then Some d else rd s (below dir qs))
         | (Some e, s') \<Rightarrow> ps \<noteq> qs \<longrightarrow> rd s' (below dir qs) = rd s (below dir qs)))"

lemma filePath_path: "plain ps \<Longrightarrow> ps \<noteq> [] \<Longrightarrow> filePath dir (path_of ps) = below dir ps"
  by (simp add: filePath_def Split_path join_below del: filepath_Join.simps)

lemma RestoreAsset_missing: "plain ps \<Longrightarrow> table B ps = None \<Longrightarrow>
  RestoreAsset F B dir (path_of ps) s = (Some (ErrText (''Asset '' @ path_of ps @ '' not found'')), s)"
  by (simp add: RestoreAsset_def Asset_path)

lemma files_law_write:
  assumes "files_law F rd dir" and "plain ps" and "ps \<noteq> []" and "plain q" and "q \<noteq> []"
  shows "case os_WriteFile F (below dir ps) d m s of
           (None, s') \<Rightarrow> rd s' (below dir q) = (if ps = q then Some d else rd s (below dir q))
         | (Some e, s') \<Rightarrow> ps \<noteq> q \<longrightarrow> rd s' (below dir q) = rd s (below dir q)"
proof -
  have "\<forall>ps qs d m s. plain ps \<and> plain qs \<and> ps \<noteq> [] \<and> qs \<noteq> [] \<longrightarrow>
      (case os_WriteFile F (below dir ps) d m s of
         (None, s') \<Rightarrow> rd s' (below dir qs) = (if ps = qs then Some d else rd s (below dir qs))
       | (Some e, s') \<Rightarrow> ps \<noteq> qs \<longrightarrow> rd s' (below dir qs) = rd s (below dir qs))"
    using assms(1) unfolding files_law_def by (elim conjE)
  from this [rule_format, where ps = ps and qs = q and d = d and m = m and s = s] assms(2-5) show ?thesis by simp
qed

text \<open>What one asset does to the files below the directory.\<close>

lemma RestoreAsset_files:
  assumes "files_law F rd dir" and "plain ps" and "ps \<noteq> []" and "RestoreAsset F B dir (path_of ps) s = (r, s')"
  shows "r = None \<Longrightarrow> \<exists>a. table B ps = Some (Inr a) \<and> rd s' (below dir ps) = Some (as_bytes a)"
    and "plain qs \<Longrightarrow> qs \<noteq> [] \<Longrightarrow> qs \<noteq> ps \<or> table B ps = None \<Longrightarrow> rd s' (below dir qs) = rd s (below dir qs)"
proof -
  obtain r1 s1 where m: "os_MkdirAll F (filePath dir (Dir (path_of ps))) 493 s = (r1, s1)" by force
  have k: "rd s1 = rd s" using assms(1) m unfolding files_law_def by (metis snd_conv)
  have t: "rd (snd (os_Chtimes F p u x)) = rd x" for p u x using assms(1) unfolding files_law_def by blast
  note w = files_law_write [OF assms(1-3)]
  show "\<exists>a. table B ps = Some (Inr a) \<and> rd s' (below dir ps) = Some (as_bytes a)" if rn: "r = None"
  proof (cases "table B ps")
    case (Some f)
    then obtain a where a: "f = Inr a" using assms(2-4) rn
      by (cases f) (auto simp: RestoreAsset_def Asset_path AssetInfo_path)
    obtain r2 s2 where x: "os_WriteFile F (below dir ps) (as_bytes a) (fi_mode (as_info a)) s1 = (r2, s2)" by force
    with w [OF assms(2,3), where d = "as_bytes a" and m = "fi_mode (as_info a)" and s = s1]
    have "r2 = None \<Longrightarrow> rd s2 (below dir ps) = Some (as_bytes a)" by simp
    then show ?thesis
      using assms(2-4) rn Some a m x t [of "below dir ps" "fi_modTime (as_info a)" s2]
      by (cases r1; cases r2) (auto simp: RestoreAsset_def Asset_path AssetInfo_path filePath_path)
  qed (use assms(2,4) rn in \<open>simp add: RestoreAsset_missing\<close>)
  show "rd s' (below dir qs) = rd s (below dir qs)" if q: "plain qs" "qs \<noteq> []" "qs \<noteq> ps \<or> table B ps = None"
  proof (cases "table B ps")
    case None
    with assms(2,4) show ?thesis by (simp add: RestoreAsset_missing)
  next
    case (Some f)
    show ?thesis
    proof (cases f)
      case (Inr a)
      obtain r2 s2 where x: "os_WriteFile F (below dir ps) (as_bytes a) (fi_mode (as_info a)) s1 = (r2, s2)" by force
      with w [OF q(1,2), where d = "as_bytes a" and m = "fi_mode (as_info a)" and s = s1] q(3) Some
      have "rd s2 (below dir qs) = rd s1 (below dir qs)" by (cases r2) auto
      then show ?thesis
        using assms(2-4) Some Inr m x k t [of "below dir ps" "fi_modTime (as_info a)" s2]
        by (cases r1; cases r2) (auto simp: RestoreAsset_def Asset_path AssetInfo_path filePath_path)
    qed (use assms(2,4) Some in \<open>auto simp: RestoreAsset_def Asset_path\<close>)
  qed
qed

text \<open>
  All the assets at or below a path are on disk, and only their files changed.
\<close>

definition stored :: "bindata \<Rightarrow> ('fs \<Rightarrow> string \<Rightarrow> string option) \<Rightarrow> string \<Rightarrow> string list \<Rightarrow> 'fs \<Rightarrow> bool" where
  "stored B rd dir ps s \<longleftrightarrow>
     (\<forall>q f. plain q \<and> table B (ps @ q) = Some f \<longrightarrow>
        (\<exists>a. f = Inr a \<and> rd s (below dir (ps @ q)) = Some (as_bytes a)))"

definition confined ::
  "bindata \<Rightarrow> ('fs \<Rightarrow> string \<Rightarrow> string option) \<Rightarrow> string \<Rightarrow> string list \<Rightarrow> 'fs \<Rightarrow> 'fs \<Rightarrow> bool"
where
  "confined B rd dir ps s s' \<longleftrightarrow>
     (\<forall>qs. plain qs \<and> qs \<noteq> [] \<and> rd s' (below dir qs) \<noteq> rd s (below dir qs) \<longrightarrow>
        (\<exists>q. qs = ps @ q \<and> table B qs \<noteq> None))"

lemma stored_split:
  "stored B rd dir ps s \<longleftrightarrow>
     (\<forall>f. table B ps = Some f \<longrightarrow> (\<exists>a. f = Inr a \<and> rd s (below dir ps) = Some (as_bytes a))) \<and>
     (\<forall>c \<in> entries B ps. stored B rd dir (ps @ [c]) s)" (is "_ \<longleftrightarrow> ?r")
proof
  assume ?r
  show "stored B rd dir ps s"
    unfolding stored_def
  proof (intro allI impI)
    fix q f assume q: "plain q \<and> table B (ps @ q) = Some f"
    show "\<exists>a. f = Inr a \<and> rd s (below dir (ps @ q)) = Some (as_bytes a)"
    proof (cases q)
      case (Cons c q')
      with q have "c \<in> entries B ps" by (auto simp: entries_def)
      with \<open>?r\<close> have "stored B rd dir (ps @ [c]) s" by blast
      with q Cons show ?thesis unfolding stored_def by (metis append.assoc append_Cons append_Nil list.set_intros(2))
    qed (use \<open>?r\<close> q in simp)
  qed
next
  assume s: "stored B rd dir ps s"
  have "stored B rd dir (ps @ [c]) s" if "c \<in> entries B ps" for c
    unfolding stored_def
  proof (intro allI impI)
    fix q f assume "plain q \<and> table B ((ps @ [c]) @ q) = Some f"
    then show "\<exists>a. f = Inr a \<and> rd s (below dir ((ps @ [c]) @ q)) = Some (as_bytes a)"
      using s [unfolded stored_def, rule_format, of "c # q" f] entries_plain [OF that] by simp
  qed
  moreover have "\<exists>a. f = Inr a \<and> rd s (below dir ps) = Some (as_bytes a)" if "table B ps = Some f" for f
    using s [unfolded stored_def, rule_format, of "[]" f] that by simp
  ultimately show ?r by blast
qed

lemma stored_keep:
  assumes "stored B rd dir (ps @ [c]) s" and "confined B rd dir (ps @ [d]) s s'" and "c \<noteq> d" and "plain ps" and "plain_name c"
  shows "stored B rd dir (ps @ [c]) s'"
  unfolding stored_def
proof (intro allI impI)
  fix q f assume q: "plain q \<and> table B ((ps @ [c]) @ q) = Some f"
  let ?p = "(ps @ [c]) @ q"
  have "rd s' (below dir ?p) = rd s (below dir ?p)"
    using assms(2) [unfolded confined_def, rule_format, of ?p] assms(3-5) q by fastforce
  with assms(1) q show "\<exists>a. f = Inr a \<and> rd s' (below dir ?p) = Some (as_bytes a)" unfolding stored_def by metis
qed

lemma confined_trans: "confined B rd dir ps s s1 \<Longrightarrow> confined B rd dir ps s1 s2 \<Longrightarrow> confined B rd dir ps s s2"
  unfolding confined_def by metis

lemma confined_up: "confined B rd dir (ps @ [c]) s s' \<Longrightarrow> confined B rd dir ps s s'"
  unfolding confined_def by fastforce

lemma restore_children_files:
  assumes "\<And>c s. c \<in> set cs \<Longrightarrow>
      \<exists>r s'. step c s = Some (r, s') \<and> (r = None \<longrightarrow> stored B rd dir (ps @ [c]) s') \<and> confined B rd dir (ps @ [c]) s s'"
    and "distinct cs" and "plain ps" and "plain cs"
  shows "\<exists>r s'. restore_children step cs s = Some (r, s') \<and>
      (r = None \<longrightarrow> (\<forall>c \<in> set cs. stored B rd dir (ps @ [c]) s')) \<and>
      (\<forall>c. plain_name c \<and> c \<notin> set cs \<and> stored B rd dir (ps @ [c]) s \<longrightarrow> stored B rd dir (ps @ [c]) s') \<and>
      confined B rd dir ps s s'"
  using assms
proof (induction cs arbitrary: s)
  case Nil
  then show ?case by (simp add: confined_def)
next
  case (Cons c cs)
  obtain r1 s1 where s1: "step c s = Some (r1, s1)" "r1 = None \<Longrightarrow> stored B rd dir (ps @ [c]) s1"
    "confined B rd dir (ps @ [c]) s s1" using Cons.prems(1) [of c s] by auto
  have k1: "stored B rd dir (ps @ [d]) s1" if "plain_name d" "d \<noteq> c" "stored B rd dir (ps @ [d]) s" for d
    using stored_keep [OF that(3) s1(3) that(2) Cons.prems(3) that(1)] .
  show ?case
  proof (cases r1)
    case (Some e)
    with s1 k1 confined_up [OF s1(3)] show ?thesis by simp
  next
    case None
    obtain r2 s2 where s2: "restore_children step cs s1 = Some (r2, s2)"
      "r2 = None \<Longrightarrow> \<forall>c \<in> set cs. stored B rd dir (ps @ [c]) s2"
      "\<forall>d. plain_name d \<and> d \<notin> set cs \<and> stored B rd dir (ps @ [d]) s1 \<longrightarrow> stored B rd dir (ps @ [d]) s2"
      "confined B rd dir ps s1 s2"
      using Cons.IH [of s1] Cons.prems by auto
    have "stored B rd dir (ps @ [c]) s2" using s2(3) s1(2) None Cons.prems(2,4) by simp
    moreover have "stored B rd dir (ps @ [d]) s2"
      if "plain_name d" "d \<notin> set (c # cs)" "stored B rd dir (ps @ [d]) s" for d
      using s2(3) k1 that by auto
    moreover have "confined B rd dir ps s s2" using confined_trans [OF confined_up [OF s1(3)] s2(4)] .
    ultimately show ?thesis using s1(1) None s2(1,2) by simp
  qed
qed

lemma RestoreAssets_files:
  assumes "bindata_ok B" and "range_order ord" and "files_law F rd dir"
  shows "plain ps \<Longrightarrow> 0 < n \<Longrightarrow> (\<forall>nd. find_node (bd_bintree B) ps = Some nd \<longrightarrow> depth nd \<le> n) \<Longrightarrow>
    \<exists>r s'. RestoreAssets n ord F B dir (path_of ps) s = Some (r, s') \<and>
      (r = None \<longrightarrow> stored B rd dir ps s') \<and> confined B rd dir ps s s'"
proof (induction n arbitrary: ps s)
  case (Suc n)
  note e = AssetDir_entries [OF assms(1,2) Suc.prems(1)]
  show ?case
  proof (cases "AssetDir ord B (path_of ps)")
    case (Inl x)
    obtain r s' where r: "RestoreAsset F B dir (path_of ps) s = (r, s')" by force
    note f = RestoreAsset_files [OF assms(3) Suc.prems(1) _ r]
    have n: "ps \<noteq> []" "entries B ps = {}" using e Inl by simp_all
    have "confined B rd dir ps s s'"
      unfolding confined_def using f(2) [OF n(1)] by fastforce
    moreover have "stored B rd dir ps s'" if "r = None"
      using f(1) [OF n(1) that] n(2) by (auto simp: stored_split [of B rd dir ps])
    ultimately show ?thesis using Inl r by simp
  next
    case (Inr cs)
    then have cs: "distinct cs" "set cs = entries B ps" using e by simp_all
    define step where "step = (\<lambda>c. RestoreAssets n ord F B dir (filepath_Join [path_of ps, c]))"
    have step: "\<exists>r s'. step c s = Some (r, s') \<and> (r = None \<longrightarrow> stored B rd dir (ps @ [c]) s') \<and>
        confined B rd dir (ps @ [c]) s s'" if c: "c \<in> set cs" for c s
    proof -
      note k = AssetDir_child [OF assms(1,2) Suc.prems(1) Inr c]
      obtain m where m: "find_node (bd_bintree B) (ps @ [c]) = Some m" "depth m \<le> n"
        using k(2) Suc.prems(3) AssetDir_eq [OF Suc.prems(1), of ord B] Inr by (fastforce split: option.splits)
      moreover have "0 < depth m" by (cases m) simp
      moreover have "plain (ps @ [c])" using Suc.prems(1) k(1) by auto
      ultimately show ?thesis
        unfolding step_def join_child [OF Suc.prems(1) k(1)] by (intro Suc.IH) auto
    qed
    have "plain cs" using cs(2) entries_plain by blast
    from restore_children_files [OF step cs(1) Suc.prems(1) this, of s]
    obtain r s' where r: "restore_children step cs s = Some (r, s')"
      "r = None \<Longrightarrow> \<forall>c \<in> set cs. stored B rd dir (ps @ [c]) s'" "confined B rd dir ps s s'" by blast
    have "table B ps = None" using AssetDir_no_file [OF assms(1) Suc.prems(1) Inr] .
    then have "stored B rd dir ps s'" if "r = None"
      using r(2) that cs(2) by (simp add: stored_split [of B rd dir ps])
    moreover have "RestoreAssets (Suc n) ord F B dir (path_of ps) s = restore_children step cs s"
      using Inr by (simp add: step_def del: filepath_Join.simps)
    ultimately show ?thesis using r by auto
  qed
qed simp

end
