(* ===== verification/Example_Assets.thy ===== *)
theory Example_Assets
  imports Bindata Example_Http
begin

text \<open>
  The embedded files of the examples \<^verbatim>\<open>embprops\<close> and \<^verbatim>\<open>vue_server\<close>: their tables and
  trees, and what the framework makes of the application that serves them. The contents of
  the two assets that a bundler generated and of the icon are parameters: nothing depends on
  them.
\<close>

subsection \<open>The assets of the properties example\<close>

definition applicationProperties :: "go_error + asset" where
  "applicationProperties =
     make_asset (''http-server.bind-address=0.0.0.0:8000'' @ [CHR 0x0A]) ''application.properties'' 38 1742713166"

definition embprops_table :: "(string \<times> (go_error + asset)) list" where
  "embprops_table = [(''application.properties'', applicationProperties)]"

definition embprops_tree :: bintree where
  "embprops_tree = Bintree None [(''application.properties'', Bintree (Some applicationProperties) [])]"

definition embprops_bindata :: bindata where
  "embprops_bindata = \<lparr>bd_bindata = embprops_table, bd_bintree = embprops_tree\<rparr>"

lemmas embprops_defs = embprops_bindata_def embprops_table_def embprops_tree_def

subsection \<open>The assets of the single-page application\<close>

record vue_contents =
  vc_IndexBuylyqyfJs :: string
  vc_IndexCyvfn59tCss :: string
  vc_faviconIco :: string

definition assetsIndexBuylyqyfJs :: "vue_contents \<Rightarrow> go_error + asset" where
  "assetsIndexBuylyqyfJs V = make_asset (vc_IndexBuylyqyfJs V) ''assets/index-BuylyqYf.js'' 70461 1781420874"

definition assetsIndexCyvfn59tCss :: "vue_contents \<Rightarrow> go_error + asset" where
  "assetsIndexCyvfn59tCss V = make_asset (vc_IndexCyvfn59tCss V) ''assets/index-CyVfN59t.css'' 3560 1781420874"

definition faviconIco :: "vue_contents \<Rightarrow> go_error + asset" where
  "faviconIco V = make_asset (vc_faviconIco V) ''favicon.ico'' 4286 1781420874"

definition indexHtml_text :: string where
  "indexHtml_text = concat (map (\<lambda>l. l @ [CHR 0x0A])
    [''<!DOCTYPE html>'',
     ''<html lang=\"\">'',
     ''  <head>'',
     ''    <meta charset=\"UTF-8\">'',
     ''    <link rel=\"icon\" href=\"./favicon.ico\">'',
     ''    <meta name=\"viewport\" content=\"width=device-width, initial-scale=1.0\">'',
     ''    <title>Vite App</title>'',
     ''    <script type=\"module\" crossorigin src=\"./assets/index-BuylyqYf.js\"></script>'',
     ''    <link rel=\"stylesheet\" crossorigin href=\"./assets/index-CyVfN59t.css\">'',
     ''  </head>'',
     ''  <body>'',
     ''    <div id=\"app\"></div>'',
     ''  </body>'',
     ''</html>''])"

definition indexHtml :: "go_error + asset" where
  "indexHtml = make_asset indexHtml_text ''index.html'' 431 1781420874"

definition vue_assets :: "vue_contents \<Rightarrow> (string \<times> (go_error + asset)) list" where
  "vue_assets V =
     [(''assets/index-BuylyqYf.js'', assetsIndexBuylyqyfJs V), (''assets/index-CyVfN59t.css'', assetsIndexCyvfn59tCss V),
      (''favicon.ico'', faviconIco V), (''index.html'', indexHtml)]"

definition vue_tree :: "vue_contents \<Rightarrow> bintree" where
  "vue_tree V =
     Bintree None
       [(''assets'', Bintree None
          [(''index-BuylyqYf.js'', Bintree (Some (assetsIndexBuylyqyfJs V)) []),
           (''index-CyVfN59t.css'', Bintree (Some (assetsIndexCyvfn59tCss V)) [])]),
        (''favicon.ico'', Bintree (Some (faviconIco V)) []),
        (''index.html'', Bintree (Some indexHtml) [])]"

definition vue_bindata :: "vue_contents \<Rightarrow> bindata" where
  "vue_bindata V = \<lparr>bd_bindata = vue_assets V, bd_bintree = vue_tree V\<rparr>"

lemmas vue_defs = vue_bindata_def vue_assets_def vue_tree_def

text \<open>The sizes are those of the texts, and the trees are those of the tables.\<close>

lemma embedded_sizes: "length (''http-server.bind-address=0.0.0.0:8000'' @ [CHR 0x0A]) = 38" "length indexHtml_text = 431"
  by code_simp+

lemma embprops_ok: "bindata_ok embprops_bindata"
  by (simp add: bindata_ok_def embprops_defs plain_name_def)

lemma vue_ok: "bindata_ok (vue_bindata V)"
  by (auto simp: bindata_ok_def vue_defs plain_name_def path_of_Cons)

subsection \<open>Properties of embedded files\<close>

definition vue_AssetDir :: "(string list \<Rightarrow> string list) \<Rightarrow> vue_contents \<Rightarrow> string \<Rightarrow> go_error + string list" where
  "vue_AssetDir ord V = AssetDir ord (vue_bindata V)"

definition vue_Asset :: "vue_contents \<Rightarrow> string \<Rightarrow> go_error + string" where
  "vue_Asset V = Asset (vue_bindata V)"

definition vue_AssetInfo :: "vue_contents \<Rightarrow> string \<Rightarrow> go_error + file_info" where
  "vue_AssetInfo V = AssetInfo (vue_bindata V)"

definition vue_Open :: "(string list \<Rightarrow> string list) \<Rightarrow> vue_contents \<Rightarrow> string \<Rightarrow> go_error + assetFile" where
  "vue_Open ord V = bd_Open ord (vue_bindata V)"

definition vue_AssetNames :: "(string list \<Rightarrow> string list) \<Rightarrow> vue_contents \<Rightarrow> string list" where
  "vue_AssetNames ord V = AssetNames ord (vue_bindata V)"

definition vue_RestoreAssets ::
  "nat \<Rightarrow> (string list \<Rightarrow> string list) \<Rightarrow> 'fs os_files \<Rightarrow> vue_contents \<Rightarrow> string \<Rightarrow> string \<Rightarrow> 'fs \<Rightarrow> (go_error option \<times> 'fs) option"
where
  "vue_RestoreAssets n ord F V = RestoreAssets n ord F (vue_bindata V)"

definition sample_contents :: vue_contents where
  "sample_contents = \<lparr>vc_IndexBuylyqyfJs = ''js'', vc_IndexCyvfn59tCss = ''css'', vc_faviconIco = ''ico''\<rparr>"

text \<open>\<open>AssetInfo\<close> knows the sizes of the assets that are written out here.\<close>

lemma embedded_index: "vue_Asset V ''index.html'' = Inr indexHtml_text"
  "\<exists>i. vue_AssetInfo V ''index.html'' = Inr i \<and> fi_size i = int (length indexHtml_text) \<and> \<not> fi_IsDir i"
  by (simp_all add: vue_Asset_def vue_AssetInfo_def Asset_def AssetInfo_def cannonicalName_def ReplaceAll_absent vue_defs
      indexHtml_def make_asset_def bindataRead_def embedded_sizes fi_IsDir_def)

lemma embprops_content:
  "\<exists>f. bd_Open ord embprops_bindata ''application.properties'' = Inr f \<and>
     af_Reader f = Some (''http-server.bind-address=0.0.0.0:8000'' @ [CHR 0x0A])"
  using bd_Open_path [of "[''application.properties'']" "[]" ord embprops_bindata]
  by (simp add: plain_name_def Asset_def cannonicalName_def ReplaceAll_absent embprops_defs
      applicationProperties_def make_asset_def bindataRead_def)

lemma range_order_id: "range_order (\<lambda>xs. xs)" "range_order rev"
  by (simp_all add: range_order_def)

text \<open>
  C40. The tree of embedded directories refines the flat table of names: \<open>AssetDir\<close> lists,
  each once, exactly the next parts of the names of the table that lie below the directory,
  the root is always a directory, and everything else, a file included, is not found.
\<close>

theorem asset_dir_lists:
  assumes "bindata_ok B" and "range_order ord" and "\<forall>p \<in> set ps. plain_name p"
  shows "case AssetDir ord B (path_of ps) of
           Inr cs \<Rightarrow> distinct cs \<and> set cs = entries B ps \<and> table B ps = None
         | Inl e \<Rightarrow> ps \<noteq> [] \<and> entries B ps = {} \<and> e = ErrText (''Asset '' @ path_of ps @ '' not found'')"
proof -
  show ?thesis using AssetDir_entries [OF assms] AssetDir_no_file [OF assms(1,3)] by (auto split: sum.splits)
qed

theorem asset_dir_lists_witness:
  "\<exists>cs. vue_AssetDir rev sample_contents ''assets'' = Inr cs \<and>
     set cs = {''index-BuylyqYf.js'', ''index-CyVfN59t.css''} \<and> distinct cs \<and>
     set cs = entries (vue_bindata sample_contents) [''assets'']"
proof -
  have p: "\<forall>p \<in> set [''assets'']. plain_name p" by (simp add: plain_name_def)
  have d: "AssetDir rev (vue_bindata sample_contents) (path_of [''assets'']) =
      Inr [''index-CyVfN59t.css'', ''index-BuylyqYf.js'']"
    using p by (simp only: AssetDir_eq) (simp add: vue_defs)
  have "case AssetDir rev (vue_bindata sample_contents) (path_of [''assets'']) of
           Inr cs \<Rightarrow> distinct cs \<and> set cs = entries (vue_bindata sample_contents) [''assets''] \<and>
             table (vue_bindata sample_contents) [''assets''] = None
         | Inl e \<Rightarrow> [''assets''] \<noteq> [] \<and> entries (vue_bindata sample_contents) [''assets''] = {} \<and>
             e = ErrText (''Asset '' @ path_of [''assets''] @ '' not found'')"
    by (rule asset_dir_lists [OF vue_ok range_order_id(2) p])
  with d show ?thesis by (auto simp: vue_AssetDir_def)
qed

text \<open>
  C39. Opening an embedded path: it gives the content of the file that the table has there, or
  the directory with the information of each of its entries once, and in every other case
  the one error that the HTTP file server turns into a 404. No path at all, however it is
  written, gives another error or bytes that are not those of an asset.
\<close>

theorem open_embedded:
  assumes "bindata_ok B" and "range_order ord" and "\<forall>p \<in> set ps. plain_name p" and "slash \<in> {[], ''/''}"
  shows "(case bd_Open ord B (slash @ path_of ps) of
       Inl e \<Rightarrow> e = ErrNotExist \<and> ps \<noteq> [] \<and> entries B ps = {} \<and> (\<forall>a. table B ps \<noteq> Some (Inr a))
     | Inr f \<Rightarrow>
         af_name f = path_of ps \<and> af_childInfoOffset f = 0 \<and>
         (case af_Reader f of
            Some c \<Rightarrow> af_childInfos f = [] \<and> (\<exists>a. table B ps = Some (Inr a) \<and> c = as_bytes a)
          | None \<Rightarrow> (\<forall>a. table B ps \<noteq> Some (Inr a)) \<and>
              (\<exists>cs. distinct cs \<and> set cs = entries B ps \<and> af_childInfos f = map (entry_info B ps) cs))) \<and>
     (\<forall>path. case bd_Open ord B path of
        Inl e \<Rightarrow> e = ErrNotExist
      | Inr f \<Rightarrow> (\<forall>c. af_Reader f = Some c \<longrightarrow> (\<exists>n a. (n, Inr a) \<in> set (bd_bindata B) \<and> c = as_bytes a)))"
proof (intro conjI allI)
  have c: "map (child_info B (path_of ps)) cs = map (entry_info B ps) cs" if "set cs = entries B ps" for cs
    using that entries_plain [of _ B ps] assms(3) by (auto simp: child_info_path)
  show "case bd_Open ord B (slash @ path_of ps) of
       Inl e \<Rightarrow> e = ErrNotExist \<and> ps \<noteq> [] \<and> entries B ps = {} \<and> (\<forall>a. table B ps \<noteq> Some (Inr a))
     | Inr f \<Rightarrow>
         af_name f = path_of ps \<and> af_childInfoOffset f = 0 \<and>
         (case af_Reader f of
            Some c \<Rightarrow> af_childInfos f = [] \<and> (\<exists>a. table B ps = Some (Inr a) \<and> c = as_bytes a)
          | None \<Rightarrow> (\<forall>a. table B ps \<noteq> Some (Inr a)) \<and>
              (\<exists>cs. distinct cs \<and> set cs = entries B ps \<and> af_childInfos f = map (entry_info B ps) cs))"
    using AssetDir_entries [OF assms(1-3)] c
    by (auto simp: bd_Open_path [OF assms(3,4)] Asset_path [OF assms(3)] split: sum.splits option.splits)
  show "case bd_Open ord B path of
        Inl e \<Rightarrow> e = ErrNotExist
      | Inr f \<Rightarrow> (\<forall>c. af_Reader f = Some c \<longrightarrow> (\<exists>n a. (n, Inr a) \<in> set (bd_bindata B) \<and> c = as_bytes a))" for path
    by (auto simp: bd_Open_cases Let_def Asset_def split: sum.splits option.splits dest!: map_of_SomeD)
qed

theorem open_embedded_witness:
  "(\<exists>f. vue_Open rev sample_contents ''/assets/index-BuylyqYf.js'' = Inr f \<and> af_Reader f = Some ''js'') \<and>
   vue_Open rev sample_contents ''/../etc/passwd'' = Inl ErrNotExist"
proof -
  let ?ps = "[''assets'', ''index-BuylyqYf.js'']"
  have p: "\<forall>p \<in> set ?ps. plain_name p" by (simp add: plain_name_def)
  have t: "table (vue_bindata sample_contents) ?ps = Some (assetsIndexBuylyqyfJs sample_contents)"
    by (simp add: table_def vue_defs path_of_Cons)
  have a: "assetsIndexBuylyqyfJs sample_contents = Inr \<lparr>as_bytes = ''js'', as_info =
      \<lparr>fi_name = ''assets/index-BuylyqYf.js'', fi_size = 70461, fi_mode = 420, fi_modTime = Some 1781420874\<rparr>\<rparr>"
    by (simp add: assetsIndexBuylyqyfJs_def make_asset_def bindataRead_def sample_contents_def)
  have n: "''/'' @ path_of ?ps = ''/assets/index-BuylyqYf.js''" by (simp add: path_of_Cons)
  note o = open_embedded [OF vue_ok [of sample_contents] range_order_id(2) p, of "''/''", simplified n]
  have e: "entries (vue_bindata sample_contents) ?ps = {}"
    using entries_find [OF vue_ok p, of sample_contents] by (simp add: vue_defs)
  have i: "isl (vue_Open rev sample_contents ''/../etc/passwd'')" by code_simp
  with o [THEN conjunct2, THEN spec, of "''/../etc/passwd''"]
  have "vue_Open rev sample_contents ''/../etc/passwd'' = Inl ErrNotExist"
    by (simp add: vue_Open_def split: sum.splits)
  moreover have "\<exists>f. vue_Open rev sample_contents ''/assets/index-BuylyqYf.js'' = Inr f \<and> af_Reader f = Some ''js''"
    using o [THEN conjunct1] t a e by (auto simp: vue_Open_def split: sum.splits option.splits)
  ultimately show ?thesis by blast
qed

text \<open>
  Reading a directory in pages: \<open>k\<close> calls that ask for \<open>n\<close> entries each return, in the
  order of the directory and without loss or repetition, the first \<open>k * n\<close> entries in pages
  of at most \<open>n\<close>; a call after the last entry returns an empty page and no error, so a caller
  that waits for the end of the directory as an error never sees it.
\<close>

theorem readdir_pages:
  assumes "bd_Open ord B path = Inr f" and "af_childInfos f \<noteq> []" and "0 < n"
    and "int n + int (length (af_childInfos f)) \<le> max_int64"
  shows "\<exists>pages. read_pages k (int n) f = Some pages \<and> length pages = k \<and> concat pages = take (k * n) (af_childInfos f) \<and>
     (\<forall>i < k. length (pages ! i) \<le> n \<and> (length (af_childInfos f) \<le> i * n \<longrightarrow> pages ! i = []))"
proof -
  have "af_childInfoOffset f = int 0"
    using assms(1) by (auto simp: bd_Open_cases Let_def split: sum.splits)
  from read_pages_from [OF assms(3,4,2) this, of k] show ?thesis by (simp add: concat_pages)
qed

theorem readdir_pages_witness:
  "\<exists>f pages. vue_Open rev sample_contents ''/'' = Inr f \<and> read_pages 3 2 f = Some pages \<and>
     map (map fi_name) pages = [[''index.html'', ''favicon.ico''], [''assets''], []]"
proof -
  obtain f where f: "f = projr (vue_Open rev sample_contents ''/'')" by blast
  have o: "bd_Open rev (vue_bindata sample_contents) ''/'' = Inr f" unfolding f by code_simp
  have l: "length (af_childInfos f) = 3" unfolding f by code_simp
  then have "af_childInfos f \<noteq> []" "0 < (2 :: nat)" "int 2 + int (length (af_childInfos f)) \<le> max_int64"
    by (auto simp: max_int64_def)
  from readdir_pages [OF o this, of 3] obtain pages where p: "read_pages 3 2 f = Some pages" by auto
  have "map_option (map (map fi_name)) (read_pages 3 2 f) = Some [[''index.html'', ''favicon.ico''], [''assets''], []]"
    unfolding f by code_simp
  with p have "map (map fi_name) pages = [[''index.html'', ''favicon.ico''], [''assets''], []]" by (simp only: option.map option.inject)
  with o p show ?thesis unfolding vue_Open_def by (intro exI conjI)
qed

text \<open>
  C15. Restoring embedded files: on a tree that agrees with its table the recursion ends within
  the depth of the tree, whatever the file system does. If it reports no error, every asset
  at or below the name is at its path below the directory with its own bytes; and whether it
  does or not, no other file below the directory is changed.
\<close>

theorem restore_assets:
  assumes "bindata_ok B" and "range_order ord" and "files_law F rd dir" and "\<forall>p \<in> set ps. plain_name p"
    and "depth (bd_bintree B) \<le> n"
  shows "\<exists>r s'. RestoreAssets n ord F B dir (path_of ps) s = Some (r, s') \<and>
     (r = None \<longrightarrow> stored B rd dir ps s') \<and> confined B rd dir ps s s'"
proof -
  have "0 < depth (bd_bintree B)" by (cases "bd_bintree B") simp
  moreover have "depth nd \<le> depth (bd_bintree B)" if "find_node (bd_bintree B) ps = Some nd" for nd
    using that by (rule depth_find)
  ultimately show ?thesis
    using assms(5) by (intro RestoreAssets_files assms(1-4)) (auto intro: le_trans)
qed

text \<open>A file system in memory.\<close>

definition memory_files :: "(string \<rightharpoonup> string) os_files" where
  "memory_files =
     \<lparr>os_MkdirAll = \<lambda>p m s. (None, s), os_WriteFile = \<lambda>p d m s. (None, s(p \<mapsto> d)), os_Chtimes = \<lambda>p t s. (None, s)\<rparr>"

lemma memory_files_law: "files_law memory_files (\<lambda>s. s) dir"
  by (auto simp: files_law_def memory_files_def dest: below_inj [rotated 3])

theorem restore_assets_witness:
  "\<exists>s'. vue_RestoreAssets 3 rev memory_files sample_contents ''/srv/www'' ''assets'' Map.empty = Some (None, s') \<and>
     s' ''/srv/www/assets/index-BuylyqYf.js'' = Some ''js'' \<and> s' ''/srv/www/favicon.ico'' = None"
proof -
  let ?B = "vue_bindata sample_contents"
  have p: "\<forall>p \<in> set [''assets'']. plain_name p" by (simp add: plain_name_def)
  have d: "depth (bd_bintree ?B) \<le> 3" by (simp add: vue_defs)
  obtain r s' where r: "RestoreAssets 3 rev memory_files ?B ''/srv/www'' (path_of [''assets'']) Map.empty = Some (r, s')"
    "r = None \<longrightarrow> stored ?B (\<lambda>s. s) ''/srv/www'' [''assets''] s'" "confined ?B (\<lambda>s. s) ''/srv/www'' [''assets''] Map.empty s'"
    using restore_assets [OF vue_ok range_order_id(2) memory_files_law p d] by blast
  have "map_option fst (RestoreAssets 3 rev memory_files ?B ''/srv/www'' (path_of [''assets'']) Map.empty) = Some None"
    by code_simp
  then have n: "r = None" using r(1) by simp
  have t: "table ?B ([''assets''] @ [''index-BuylyqYf.js'']) = Some (assetsIndexBuylyqyfJs sample_contents)"
    by (simp add: table_def vue_defs path_of_Cons)
  have b: "below ''/srv/www'' [''assets'', ''index-BuylyqYf.js''] = ''/srv/www/assets/index-BuylyqYf.js''"
    "below ''/srv/www'' [''favicon.ico''] = ''/srv/www/favicon.ico''" by code_simp+
  have "s' ''/srv/www/assets/index-BuylyqYf.js'' = Some ''js''"
    using r(2) n t b(1) unfolding stored_def
    by (auto simp: assetsIndexBuylyqyfJs_def make_asset_def bindataRead_def sample_contents_def plain_name_def
        dest!: spec [of _ "[''index-BuylyqYf.js'']"])
  moreover have "s' ''/srv/www/favicon.ico'' = None"
    using r(3) b(2) unfolding confined_def
    by (auto simp: plain_name_def dest!: spec [of _ "[''favicon.ico'']"])
  ultimately show ?thesis using r(1) n by (auto simp: vue_RestoreAssets_def)
qed

subsection \<open>The application that serves them\<close>

text \<open>
  What \<^verbatim>\<open>http.FileServer\<close> documents for a GET without header fields: a clean path that
  opens as a file gets its content, the root gets its index page, and a path that ends with
  the index page is redirected to its directory.
\<close>

definition opens_file :: "(string \<Rightarrow> go_error + assetFile) \<Rightarrow> (assetFile \<Rightarrow> go_error + file_info) \<Rightarrow> string \<Rightarrow> string \<Rightarrow> bool" where
  "opens_file fopen stat p c \<longleftrightarrow>
     (case fopen p of
        Inl e \<Rightarrow> False
      | Inr f \<Rightarrow> (case stat f of Inl e \<Rightarrow> False | Inr i \<Rightarrow> \<not> fi_IsDir i) \<and> af_Reader f = Some c)"

definition opens_dir :: "(string \<Rightarrow> go_error + assetFile) \<Rightarrow> (assetFile \<Rightarrow> go_error + file_info) \<Rightarrow> string \<Rightarrow> bool" where
  "opens_dir fopen stat p \<longleftrightarrow>
     (case fopen p of Inl e \<Rightarrow> False | Inr f \<Rightarrow> (case stat f of Inl e \<Rightarrow> False | Inr i \<Rightarrow> fi_IsDir i))"

definition file_server_law ::
  "(string \<Rightarrow> go_error + assetFile) \<Rightarrow> (assetFile \<Rightarrow> go_error + file_info) \<Rightarrow> handler \<Rightarrow> bool"
where
  "file_server_law fopen stat fs \<longleftrightarrow>
     (\<forall>r wd c. r_Method r = ''GET'' \<and> r_Header r = Map.empty \<longrightarrow>
        (r_Path r = ''/'' \<and> opens_dir fopen stat ''/'' \<and> opens_file fopen stat ''/index.html'' c \<longrightarrow>
           answered (fs r (BaseW new_resp, wd)) 200 c) \<and>
        (HasSuffix (r_Path r) ''/index.html'' \<longrightarrow> status_sent (fs r (BaseW new_resp, wd)) = Some 301) \<and>
        (HasPrefix (r_Path r) ''/'' \<and> r_Path r \<noteq> ''/'' \<and> Clean (r_Path r) = r_Path r \<and> \<not> HasSuffix (r_Path r) ''/index.html'' \<and>
           opens_file fopen stat (r_Path r) c \<longrightarrow> answered (fs r (BaseW new_resp, wd)) 200 c))"

definition vue_Stat :: "vue_contents \<Rightarrow> assetFile \<Rightarrow> go_error + file_info" where
  "vue_Stat V = af_Stat (vue_bindata V)"

definition vue_factory ::
  "(string \<Rightarrow> int \<Rightarrow> int) \<Rightarrow> (string list \<Rightarrow> string list) \<Rightarrow> vue_contents \<Rightarrow> handler \<Rightarrow> implHttpServerFactory"
where
  "vue_factory dur ord V fs =
     (let app = vue_main (vue_AssetNames ord V) :: unit top_bean list in
      injected_factory dur (\<lambda>b. None) (\<lambda>b. None)
        [\<lparr>res_Name = ''assets'', res_AssetNames = vue_AssetNames ord V, res_FileServer = fs\<rparr>] app (hd (app_scanners app)))"

subsection \<open>The cache of one resource\<close>

lemma plain_cache:
  assumes "prefix ''assets'' (res_Name res)" and "\<not> suffix ''gzip'' (res_Name res)"
    and "cache = fst (groupAssets [res])"
  shows "p \<in> dom cache \<longleftrightarrow> (\<exists>n \<in> set (res_AssetNames res). p = ''/'' @ n) \<or> ''index.html'' \<in> set (res_AssetNames res) \<and> p = ''/''"
    and "p \<in> dom cache \<Longrightarrow> sa_ServeHTTP G (the (cache p)) r s = res_FileServer res r s"
proof -
  have v: "variants cache p =
    (if (\<exists>n \<in> set (res_AssetNames res). p = ''/'' @ n) \<or> ''index.html'' \<in> set (res_AssetNames res) \<and> p = ''/''
     then Some (Some (res_FileServer res), None) else None)"
    using assms by (simp add: groupAssets_def add_names_variants) (simp add: variants_def put_variant_def)
  then show "p \<in> dom cache \<longleftrightarrow> (\<exists>n \<in> set (res_AssetNames res). p = ''/'' @ n) \<or> ''index.html'' \<in> set (res_AssetNames res) \<and> p = ''/''"
    by (auto simp: variants_def split: if_splits)
  show "sa_ServeHTTP G (the (cache p)) r s = res_FileServer res r s" if "p \<in> dom cache"
    using v that by (auto simp: variants_def sa_ServeHTTP_def split: if_splits)
qed

lemma vue_names: "range_order ord \<Longrightarrow> set (vue_AssetNames ord V) =
  {''assets/index-BuylyqYf.js'', ''assets/index-CyVfN59t.css'', ''favicon.ico'', ''index.html''}"
  by (simp add: vue_AssetNames_def AssetNames_def range_order_set vue_defs)

lemma vue_factory_fields:
  "hf_Resources (vue_factory dur ord V fs) =
     [\<lparr>res_Name = ''assets'', res_AssetNames = vue_AssetNames ord V, res_FileServer = fs\<rparr>]"
  "hf_Handlers (vue_factory dur ord V fs) = []" "hf_Middlewares (vue_factory dur ord V fs) = []"
  "hf_beanName (vue_factory dur ord V fs) = ''http-server''"
  "prop_String (hf_Properties (vue_factory dur ord V fs)) ''http-server.bind-address'' [] = ''0.0.0.0:8000''"
  "prop_String (hf_Properties (vue_factory dur ord V fs)) ''http-server.options'' [] = ''assets''"
  by (simp_all add: vue_factory_def injected_factory_def vue_main_def RunCommand_def http_ScannerBeans_def HttpServerScanner_def
      app_bean_list_def map_filter_simps map_property_def Let_def)

abbreviation vue_paths :: "string list" where
  "vue_paths \<equiv> [''/'', ''/index.html'', ''/favicon.ico'', ''/assets/index-BuylyqYf.js'', ''/assets/index-CyVfN59t.css'']"

definition vue_cache ::
  "(string \<Rightarrow> int \<Rightarrow> int) \<Rightarrow> (string list \<Rightarrow> string list) \<Rightarrow> vue_contents \<Rightarrow> handler \<Rightarrow> (string \<rightharpoonup> servingAsset)"
where
  "vue_cache dur ord V fs = fst (groupAssets (hf_Resources (vue_factory dur ord V fs)))"

lemma vue_cache:
  assumes "range_order ord"
  shows "dom (vue_cache dur ord V fs) = set vue_paths"
    and "p \<in> set vue_paths \<Longrightarrow> sa_ServeHTTP G (the (vue_cache dur ord V fs p)) r s = fs r s"
proof -
  let ?res = "\<lparr>res_Name = ''assets'', res_AssetNames = vue_AssetNames ord V, res_FileServer = fs\<rparr>"
  have g: "\<not> suffix ''gzip'' (res_Name ?res)" "prefix ''assets'' (res_Name ?res)" by (simp_all, code_simp)
  have c: "vue_cache dur ord V fs = fst (groupAssets [?res])" by (simp add: vue_cache_def vue_factory_fields)
  note k = plain_cache [OF g(2,1) c]
  have "dom (vue_cache dur ord V fs) = (\<lambda>n. ''/'' @ n) ` set (vue_AssetNames ord V) \<union>
      (if ''index.html'' \<in> set (vue_AssetNames ord V) then {''/''} else {})"
    using k(1) by (intro set_eqI) (simp add: image_iff)
  then show d: "dom (vue_cache dur ord V fs) = set vue_paths" by (simp add: vue_names [OF assms(1)] insert_commute)
  show "sa_ServeHTTP G (the (vue_cache dur ord V fs p)) r s = fs r s" if "p \<in> set vue_paths"
    using k(2) that d by simp
qed

lemma vue_server:
  assumes "range_order ord" and "set (range_keys (vue_cache dur ord V fs)) = dom (vue_cache dur ord V fs)"
    and "hf_PostConstruct (vue_factory dur ord V fs) t" and "hf_Object G range_keys t = Inr (srv, lg)"
    and "mux_law G mux"
  shows "normal_path (r_Path r) \<Longrightarrow>
      mux (sv_Handler srv) r s = (if r_Path r \<in> set vue_paths then fs r s else http_NotFound G s)"
    and "\<not> normal_path (r_Path r) \<Longrightarrow> status_sent (mux (sv_Handler srv) r (BaseW new_resp, wd)) = Some 301"
    and "sv_Addr srv = ''0.0.0.0:8000''"
proof -
  let ?c = "vue_cache dur ord V fs"
  have o: "ParseOptions ''assets'' = {''assets''}" by code_simp
  have t: "t = vue_factory dur ord V fs"
    using assms(3) by (simp add: hf_PostConstruct_def hf_sorted_def vue_factory_fields)
  have h: "mx_routes (sv_Handler srv) = bs_routes (add_assets G ?c (range_keys ?c)
        \<lparr>bs_visited = {}, bs_patterns = [], bs_routes = [], bs_log = []\<rparr>) \<and> mx_NotFound (sv_Handler srv) = None \<and>
      sv_Addr srv = ''0.0.0.0:8000''"
    using assms(4) unfolding t
    by (auto simp: hf_Object_def hf_key_def vue_factory_fields o Let_def hf_handler_phase_def hf_asset_phase_def hf_spa_def
        case_prod_unfold vue_cache_def)
  then show "sv_Addr srv = ''0.0.0.0:8000''" by blast
  have m: "map_of (mx_routes (sv_Handler srv)) p =
      (if p \<in> set vue_paths then Some (sa_ServeHTTP G (the (?c p))) else None)" for p
    using h by (simp only: add_assets_route assms(2) vue_cache(1) [OF assms(1)]) simp
  have "list_all literal_pattern vue_paths" by code_simp
  moreover have "p \<in> set vue_paths" if "p \<in> fst ` set (mx_routes (sv_Handler srv))" for p
    using m [of p] that by (metis map_of_eq_None_iff)
  ultimately have lit: "literal_pattern p" if "p \<in> fst ` set (mx_routes (sv_Handler srv))" for p
    using that by (simp only: list_all_iff)
  have w: "\<not> rs_wrote new_resp" by (simp add: new_resp_def)
  show "normal_path (r_Path r) \<Longrightarrow>
      mux (sv_Handler srv) r s = (if r_Path r \<in> set vue_paths then fs r s else http_NotFound G s)"
  proof -
    assume np: "normal_path (r_Path r)"
    have "mux (sv_Handler srv) r s = dispatch G (sv_Handler srv) r s"
      by (rule mux_normal [OF assms(5) _ np]) (rule lit)
    moreover have "mx_NotFound (sv_Handler srv) = None" using h by blast
    ultimately show ?thesis
      using vue_cache(2) [OF assms(1)] by (cases "r_Path r \<in> set vue_paths") (simp_all only: dispatch_def m if_True if_False option.case)
  qed
  show "\<not> normal_path (r_Path r) \<Longrightarrow> status_sent (mux (sv_Handler srv) r (BaseW new_resp, wd)) = Some 301"
    using mux_redirects [OF assms(5) lit _ w] by blast
qed

lemma vue_table:
  "table (vue_bindata V) [''assets'', ''index-BuylyqYf.js''] = Some (assetsIndexBuylyqyfJs V)"
  "table (vue_bindata V) [''assets'', ''index-CyVfN59t.css''] = Some (assetsIndexCyvfn59tCss V)"
  "table (vue_bindata V) [''favicon.ico''] = Some (faviconIco V)"
  "table (vue_bindata V) [''index.html''] = Some indexHtml"
  by (simp_all add: table_def vue_defs path_of_Cons)

lemma vue_opens_file:
  assumes "plain ps" and "table (vue_bindata V) ps = Some f" and "f = make_asset c n z u"
  shows "opens_file (vue_Open ord V) (vue_Stat V) (''/'' @ path_of ps) c"
  using assms bd_Open_path [OF assms(1), of "''/''" ord "vue_bindata V"]
  by (simp add: opens_file_def vue_Open_def Asset_path make_asset_def bindataRead_def vue_Stat_def af_Stat_def AssetInfo_path
      fi_IsDir_def)

lemma vue_opens_root:
  assumes "range_order ord"
  shows "opens_dir (vue_Open ord V) (vue_Stat V) ''/''"
proof -
  have e: "entries (vue_bindata V) [] \<noteq> {}" using entries_find [OF vue_ok, of "[]" V] by (simp add: vue_defs)
  have t: "table (vue_bindata V) [] = None" by (simp add: table_def vue_defs)
  obtain cs where d: "AssetDir ord (vue_bindata V) [] = Inr cs" "set cs = entries (vue_bindata V) []"
    using AssetDir_entries [OF vue_ok [of V] assms, of "[]"] by (auto split: sum.splits)
  with e have "cs \<noteq> []" by auto
  have a: "\<exists>x. Asset (vue_bindata V) [] = Inl x" using Asset_path [of "[]" "vue_bindata V"] t by simp
  have f: "fi_IsDir (newDirFileInfo n)" for n by (simp add: fi_IsDir_def newDirFileInfo_def)
  show ?thesis
    using bd_Open_path [of "[]" "''/''" ord "vue_bindata V"] a d(1) \<open>cs \<noteq> []\<close> f
    by (auto simp: opens_dir_def vue_Open_def vue_Stat_def af_Stat_def)
qed

text \<open>
  C14. The example serves its embedded application. Built from its own beans, properties and
  assets, behind a router and over a file server with their documented behaviour, the server on
  \<^verbatim>\<open>0.0.0.0:8000\<close> answers a GET without header fields like this: the root gets the index page;
  every other embedded asset, so the icon, the script and the style sheet that the page refers
  to, gets that asset's bytes; the page's own path is redirected; of the other paths the clean
  ones get 404 and the others, such as \<^verbatim>\<open>//favicon.ico\<close>, the redirect of the router.
\<close>

theorem vue_example_serves:
  assumes "range_order ord" and "set (range_keys (vue_cache dur ord V fs)) = dom (vue_cache dur ord V fs)"
    and "file_server_law (vue_Open ord V) (vue_Stat V) fs"
    and "hf_PostConstruct (vue_factory dur ord V fs) t" and "hf_Object G range_keys t = Inr (srv, lg)"
    and "mux_law G mux"
    and "r_Method r = ''GET''" and "r_Header r = Map.empty"
  shows "sv_Addr srv = ''0.0.0.0:8000'' \<and>
    (let o' = mux (sv_Handler srv) r (BaseW new_resp, wd); p = r_Path r in
     if p = ''/'' then answered o' 200 indexHtml_text
     else if p = ''/assets/index-BuylyqYf.js'' then answered o' 200 (vc_IndexBuylyqyfJs V)
     else if p = ''/assets/index-CyVfN59t.css'' then answered o' 200 (vc_IndexCyvfn59tCss V)
     else if p = ''/favicon.ico'' then answered o' 200 (vc_faviconIco V)
     else status_sent o' = Some (if p = ''/index.html'' \<or> \<not> normal_path p then 301 else 404))"
proof -
  note sv = vue_server(1,2) [where mux = mux and r = r, OF assms(1,2,4-6)]
    and addr = vue_server(3) [OF assms(1,2,4-6)]
  note law = assms(3) [unfolded file_server_law_def, rule_format, OF conjI [OF assms(7,8)]]
  have p: "plain [''assets'', ''index-BuylyqYf.js'']" "plain [''assets'', ''index-CyVfN59t.css'']" "plain [''favicon.ico'']"
    "plain [''index.html'']" by (simp_all add: plain_name_def)
  have n: "''/'' @ path_of [''assets'', ''index-BuylyqYf.js''] = ''/assets/index-BuylyqYf.js''"
    "''/'' @ path_of [''assets'', ''index-CyVfN59t.css''] = ''/assets/index-CyVfN59t.css''"
    "''/'' @ path_of [''favicon.ico''] = ''/favicon.ico''" "''/'' @ path_of [''index.html''] = ''/index.html''"
    by (simp_all add: path_of_Cons)
  let ?o = "opens_file (vue_Open ord V) (vue_Stat V)"
  have o: "?o ''/assets/index-BuylyqYf.js'' (vc_IndexBuylyqyfJs V)" "?o ''/assets/index-CyVfN59t.css'' (vc_IndexCyvfn59tCss V)"
    "?o ''/favicon.ico'' (vc_faviconIco V)" "?o ''/index.html'' indexHtml_text"
    using vue_opens_file [OF p(1) vue_table(1) assetsIndexBuylyqyfJs_def] vue_opens_file [OF p(2) vue_table(2) assetsIndexCyvfn59tCss_def]
      vue_opens_file [OF p(3) vue_table(3) faviconIco_def] vue_opens_file [OF p(4) vue_table(4) indexHtml_def]
    unfolding n by blast+
  have served: "answered (fs r (BaseW new_resp, wd)) 200 c"
    if "r_Path r = q" "?o q c" "Clean q = q" "prefix ''/'' q" "\<not> suffix ''/index.html'' q" "q \<noteq> ''/''" for q c
    using law [of c wd] that by blast
  have clean: "Clean ''/assets/index-BuylyqYf.js'' = ''/assets/index-BuylyqYf.js''"
    "Clean ''/assets/index-CyVfN59t.css'' = ''/assets/index-CyVfN59t.css''" "Clean ''/favicon.ico'' = ''/favicon.ico''"
    "\<not> suffix ''/index.html'' ''/assets/index-BuylyqYf.js''" "\<not> suffix ''/index.html'' ''/assets/index-CyVfN59t.css''"
    "\<not> suffix ''/index.html'' ''/favicon.ico''" by code_simp+
  have missing: "status_sent (http_NotFound G (BaseW new_resp, wd)) = Some 404"
    using http_Error_status(1) [of new_resp 404 G "''404 page not found''" wd]
    by (simp add: http_NotFound_def http_NotFound_ops_def http_Error_def bodyAllowed_def new_resp_def)
  have root: "answered (fs r (BaseW new_resp, wd)) 200 indexHtml_text" if "r_Path r = ''/''"
    using law [of indexHtml_text wd] that o(4) vue_opens_root [OF assms(1)] by blast
  have index: "status_sent (fs r (BaseW new_resp, wd)) = Some 301" if "r_Path r = ''/index.html''"
    using law [of "[]" wd] that by simp
  have "list_all normal_path vue_paths" by code_simp
  then have np: "normal_path (r_Path r)" if "r_Path r \<in> set vue_paths" using that by (simp only: list_all_iff)
  note got = served [OF _ o(1) clean(1) _ clean(4)] served [OF _ o(2) clean(2) _ clean(5)] served [OF _ o(3) clean(3) _ clean(6)]
  show ?thesis
  proof (cases "normal_path (r_Path r)")
    case True
    show ?thesis unfolding Let_def sv(1) [OF True] using True addr root index missing got by simp
  next
    case False
    with np have "r_Path r \<notin> set vue_paths" by blast
    then show ?thesis using False sv(2) addr by (simp add: Let_def)
  qed
qed

text \<open>A file server that answers by the file system alone, for the requests of the law.\<close>

definition sample_file_server ::
  "codec \<Rightarrow> (string \<Rightarrow> go_error + assetFile) \<Rightarrow> (assetFile \<Rightarrow> go_error + file_info) \<Rightarrow> handler"
where
  "sample_file_server G fopen stat r =
     (if HasSuffix (r_Path r) ''/index.html'' then on_writer (run_ops G [OpSet ''Location'' ''./'', OpWriteHeader 301])
      else case fopen (if r_Path r = ''/'' then ''/index.html'' else r_Path r) of
        Inl e \<Rightarrow> http_NotFound G
      | Inr f \<Rightarrow>
          (case af_Reader f of
             None \<Rightarrow> http_NotFound G
           | Some c \<Rightarrow> on_writer (run_ops G [OpSet ''Content-Type'' ''application/octet-stream'', OpWrite c])))"

lemma sample_file_server_law: "file_server_law fopen stat (sample_file_server G fopen stat)"
proof -
  have a: "answered (on_writer (run_ops G [OpSet ''Content-Type'' t, OpWrite body]) (BaseW new_resp, wd)) 200 body" for t body wd
    by (cases "body = []")
      (auto simp: answered_def on_writer_def new_resp_def base_Write_def base_WriteHeader_def base_accept_def bodyAllowed_def
        hdr_Get_def hdr_Set_def hdr_simps Let_def)
  have k: "CanonicalKey ''Location'' = ''Location''" by code_simp
  have b: "status_sent (on_writer (run_ops G [OpSet ''Location'' ''./'', OpWriteHeader 301]) (BaseW new_resp, wd)) = Some 301" for wd
    by (auto simp: status_sent_def on_writer_def new_resp_def base_WriteHeader_def hdr_Get_def hdr_Set_def hdr_simps k Let_def)
  have "\<not> suffix ''/index.html'' ''/''" by code_simp
  then show ?thesis
    using a b by (auto simp: file_server_law_def sample_file_server_def opens_file_def opens_dir_def split: sum.splits)
qed

theorem vue_example_serves_witness:
  "\<exists>srv lg. hf_Object stored_codec (\<lambda>m. vue_paths)
       (vue_factory (\<lambda>k d. d) rev sample_contents
         (sample_file_server stored_codec (vue_Open rev sample_contents) (vue_Stat sample_contents))) = Inr (srv, lg) \<and>
     answered (literal_mux stored_codec (sv_Handler srv) (path_request ''/'') (BaseW new_resp, initial_world))
       200 indexHtml_text \<and>
     status_sent (literal_mux stored_codec (sv_Handler srv) (path_request ''/secret'')
       (BaseW new_resp, initial_world)) = Some 404 \<and>
     status_sent (literal_mux stored_codec (sv_Handler srv) (path_request ''//favicon.ico'')
       (BaseW new_resp, initial_world)) = Some 301"
proof -
  let ?fs = "sample_file_server stored_codec (vue_Open rev sample_contents) (vue_Stat sample_contents)"
  let ?t = "vue_factory (\<lambda>k d. d) rev sample_contents ?fs"
  have k: "set vue_paths = dom (vue_cache (\<lambda>k d. d) rev sample_contents ?fs)" by (rule vue_cache(1) [OF range_order_id(2), symmetric])
  have p: "hf_PostConstruct ?t ?t" by (auto simp: hf_PostConstruct_def hf_sorted_def vue_factory_fields)
  obtain srv lg where o: "hf_Object stored_codec (\<lambda>m. vue_paths) ?t = Inr (srv, lg)"
    by (simp add: hf_Object_def hf_key_def vue_factory_fields Let_def case_prod_unfold)
  note th = vue_example_serves [OF range_order_id(2) k sample_file_server_law p o literal_mux_law]
  have "r_Method (path_request q) = ''GET''" "r_Header (path_request q) = Map.empty" "r_Path (path_request q) = q" for q
    by (simp_all add: path_request_def)
  moreover have "normal_path ''/secret''" "\<not> normal_path ''//favicon.ico''" by code_simp+
  ultimately show ?thesis
    using th [of "path_request ''/''" initial_world] th [of "path_request ''/secret''" initial_world]
      th [of "path_request ''//favicon.ico''" initial_world] o
    by (simp add: Let_def)
qed

end
