(* ===== verification/Echo_Pb.thy ===== *)
theory Echo_Pb
  imports Example_Rpc
begin

text \<open>
  The generated stubs of the echo service, \<^verbatim>\<open>grpc/examples/echo/echopb/echo_grpc.pb.go\<close>,
  and a whole call of the example, from the command line of its client through credentials,
  metadata, interceptors and handler to what is printed. A message is its one field: the
  encoding of \<^verbatim>\<open>echo.pb.go\<close> is not modelled. The dispatch of gRPC is a parameter, of which
  its documented behaviour is assumed (\<open>dispatch_law\<close>): a method of a registered service is
  called through its handler with the metadata of the call and one interceptor, the chain of
  the configured ones, the first outermost.
\<close>

subsection \<open>The stubs\<close>

definition Echo_Say_FullMethodName :: string where
  "Echo_Say_FullMethodName = ''/servion.example.echo.Echo/Say''"

type_synonym unary_handler = "grpc_ctx \<Rightarrow> string \<Rightarrow> grpc_status + string"

type_synonym unary_interceptor = "grpc_ctx \<Rightarrow> string \<Rightarrow> string \<Rightarrow> unary_handler \<Rightarrow> grpc_status + string"

text \<open>\<open>invoke\<close> is the connection's \<^verbatim>\<open>Invoke\<close> with a context; the result is the reply.\<close>

definition echoClient_Say :: "(string \<Rightarrow> string \<Rightarrow> grpc_status + string) \<Rightarrow> string \<Rightarrow> grpc_status + string" where
  "echoClient_Say invoke message =
     (case invoke Echo_Say_FullMethodName message of Inl err \<Rightarrow> Inl err | Inr out \<Rightarrow> Inr out)"

definition UnimplementedEchoServer_Say :: unary_handler where
  "UnimplementedEchoServer_Say c message = Inl (Unimplemented, ''method Say not implemented'')"

text \<open>\<open>dec\<close> is the result of decoding the request; \<open>say\<close> is the method of the server.\<close>

definition Echo_Say_Handler ::
  "unary_handler \<Rightarrow> grpc_ctx \<Rightarrow> grpc_status + string \<Rightarrow> unary_interceptor option \<Rightarrow> grpc_status + string"
where
  "Echo_Say_Handler say c dec interceptor =
     (case dec of
        Inl err \<Rightarrow> Inl err
      | Inr message \<Rightarrow>
          (case interceptor of
             None \<Rightarrow> say c message
           | Some i \<Rightarrow> i c message Echo_Say_FullMethodName (\<lambda>c req. say c req)))"

type_synonym method_handler = "unary_handler \<Rightarrow> grpc_ctx \<Rightarrow> grpc_status + string \<Rightarrow> unary_interceptor option \<Rightarrow> grpc_status + string"

record service_desc =
  sd_ServiceName :: string
  sd_Methods :: "(string \<times> method_handler) list"
  sd_Streams :: "string list"
  sd_Metadata :: string

definition Echo_ServiceDesc :: service_desc where
  "Echo_ServiceDesc =
     \<lparr>sd_ServiceName = ''servion.example.echo.Echo'', sd_Methods = [(''Say'', Echo_Say_Handler)], sd_Streams = [],
      sd_Metadata = ''echopb/echo.proto''\<rparr>"

text \<open>The services of a server: their descriptions with the implementations.\<close>

type_synonym registry = "(service_desc \<times> unary_handler) list"

definition RegisterEchoServer :: "registry \<Rightarrow> unary_handler \<Rightarrow> registry" where
  "RegisterEchoServer s srv = s @ [(Echo_ServiceDesc, srv)]"

subsection \<open>The example\<close>

text \<open>The service of the example overrides the method of the embedded one.\<close>

definition echo_RegisterGrpc :: "registry \<Rightarrow> registry" where
  "echo_RegisterGrpc s = RegisterEchoServer s echo_Say"

text \<open>
  gRPC serves a unary call: from the registered services, the configured interceptors, the
  metadata of the call, its full method name and its message to the reply or a status. What
  the example relies on is that a method of a registered description, under the name
  \<^verbatim>\<open>/service/method\<close> that no other has, is called through its handler, with no interceptor if
  none is configured and with their chain otherwise.
\<close>

type_synonym unary_server =
  "registry \<Rightarrow> unary_interceptor list \<Rightarrow> (string \<times> string) list \<Rightarrow> string \<Rightarrow> string \<Rightarrow> grpc_status + string"

definition method_table :: "registry \<Rightarrow> (string \<times> method_handler \<times> unary_handler) list" where
  "method_table s = concat (map (\<lambda>(d, srv).
     map (\<lambda>(n, h). (CHR ''/'' # sd_ServiceName d @ CHR ''/'' # n, (h, srv))) (sd_Methods d)) s)"

definition is_chain :: "unary_interceptor list \<Rightarrow> unary_interceptor option \<Rightarrow> bool" where
  "is_chain is ci \<longleftrightarrow>
     (case ci of
        None \<Rightarrow> is = []
      | Some i \<Rightarrow> is \<noteq> [] \<and> (\<forall>c req m h. i c req m h = foldr (\<lambda>i h. \<lambda>c req. i c req m h) is h c req))"

definition dispatch_law :: "unary_server \<Rightarrow> bool" where
  "dispatch_law serve \<longleftrightarrow>
     (\<forall>s is kvs m message h srv. distinct (map fst (method_table s)) \<longrightarrow> (m, h, srv) \<in> set (method_table s) \<longrightarrow>
        (\<exists>ci. is_chain is ci \<and> serve s is kvs m message = h srv (delivered kvs) (Inr message) ci))"

text \<open>A server that has this behaviour; \<open>unknown\<close> is its status of a method that is not registered.\<close>

definition chain_unary :: "unary_interceptor list \<Rightarrow> unary_interceptor option" where
  "chain_unary is =
     (if is = [] then None
      else Some (\<lambda>c req m h. foldr (\<lambda>i h. \<lambda>c req. i c req m h) is h c req))"

definition table_server :: "(string \<Rightarrow> grpc_status) \<Rightarrow> unary_server" where
  "table_server unknown s is kvs m message =
     (case map_of (method_table s) m of
        None \<Rightarrow> Inl (unknown m)
      | Some (h, srv) \<Rightarrow> h srv (delivered kvs) (Inr message) (chain_unary is))"

lemma table_server_law: "dispatch_law (table_server unknown)"
proof -
  have "is_chain is (chain_unary is)" for "is" by (simp add: is_chain_def chain_unary_def)
  then show ?thesis by (auto simp: dispatch_law_def table_server_def)
qed

lemma dispatched:
  assumes "dispatch_law serve" and "method_table s = [(m, h, srv)]"
  shows "\<exists>ci. is_chain is ci \<and> serve s is kvs m message = h srv (delivered kvs) (Inr message) ci"
proof -
  have "distinct (map fst (method_table s))" "(m, h, srv) \<in> set (method_table s)" using assms(2) by simp_all
  with assms(1) show ?thesis unfolding dispatch_law_def by blast
qed

lemma chain_runs:
  assumes "is_chain is ci"
  shows "(case ci of None \<Rightarrow> h c req | Some i \<Rightarrow> i c req m h) = foldr (\<lambda>i h. \<lambda>c req. i c req m h) is h c req"
  using assms by (simp add: is_chain_def split: option.splits)

text \<open>
  The client of the example on this server, with credentials or none; \<open>status_err\<close> is the
  error of a status.
\<close>

definition credential_metadata :: "tokenAuth option \<Rightarrow> (string \<times> string) list" where
  "credential_metadata cred = (case cred of None \<Rightarrow> [] | Some t \<Rightarrow> GetRequestMetadata t)"

definition echo_example_run ::
  "unary_server \<Rightarrow> (grpc_status \<Rightarrow> go_error) \<Rightarrow> unary_interceptor list \<Rightarrow> tokenAuth option \<Rightarrow> string list \<Rightarrow> process_end"
where
  "echo_example_run serve status_err is cred args =
     echo_client None
       (\<lambda>message.
          case echoClient_Say (serve (echo_RegisterGrpc []) is (credential_metadata cred)) message of
            Inl st \<Rightarrow> Inl (status_err st)
          | Inr reply \<Rightarrow> Inr reply)
       args"

lemma echo_served:
  assumes "dispatch_law serve"
  shows "echoClient_Say (serve (echo_RegisterGrpc []) is kvs) message =
     foldr (\<lambda>i h. \<lambda>c req. i c req Echo_Say_FullMethodName h) is echo_Say (delivered kvs) message"
proof -
  have "method_table (echo_RegisterGrpc []) = [(Echo_Say_FullMethodName, Echo_Say_Handler, echo_Say)]"
    by (simp add: method_table_def echo_RegisterGrpc_def RegisterEchoServer_def Echo_ServiceDesc_def Echo_Say_FullMethodName_def)
  then obtain ci where "is_chain is ci"
    and "serve (echo_RegisterGrpc []) is kvs Echo_Say_FullMethodName message =
      Echo_Say_Handler echo_Say (delivered kvs) (Inr message) ci"
    using dispatched [OF assms] by blast
  then show ?thesis
    using chain_runs [where h = echo_Say and c = "delivered kvs" and req = message and m = Echo_Say_FullMethodName]
    by (simp add: echoClient_Say_def Echo_Say_Handler_def split: sum.split)
qed

lemma unimplemented_served:
  assumes "dispatch_law serve"
  shows "serve (RegisterEchoServer [] UnimplementedEchoServer_Say) [] kvs Echo_Say_FullMethodName message =
     Inl (Unimplemented, ''method Say not implemented'')"
proof -
  have "method_table (RegisterEchoServer [] UnimplementedEchoServer_Say) =
      [(Echo_Say_FullMethodName, Echo_Say_Handler, UnimplementedEchoServer_Say)]"
    by (simp add: method_table_def RegisterEchoServer_def Echo_ServiceDesc_def Echo_Say_FullMethodName_def)
  then obtain ci where "is_chain [] ci"
    and "serve (RegisterEchoServer [] UnimplementedEchoServer_Say) [] kvs Echo_Say_FullMethodName message =
      Echo_Say_Handler UnimplementedEchoServer_Say (delivered kvs) (Inr message) ci"
    using dispatched [OF assms] by blast
  then show ?thesis
    by (simp add: is_chain_def Echo_Say_Handler_def UnimplementedEchoServer_Say_def split: option.splits)
qed

subsection \<open>Properties\<close>

definition printed_reply :: "string \<Rightarrow> string \<Rightarrow> process_end" where
  "printed_reply message who =
     \<lparr>pe_stdout = ''echo: '' @ message @ '' (from '' @ who @ '')'' @ newline, pe_stderr = [], pe_exit = 0\<rparr>"

definition refusal_status :: "go_error \<Rightarrow> grpc_status" where
  "refusal_status e =
     (if errors_Is e ErrUnauthorized then Unauthenticated else if errors_Is e ErrServiceUnavailable then Unavailable else Internal,
      Error e)"

lemma echo_client_run: "dispatch_law serve \<Longrightarrow> echo_example_run serve status_err is cred args =
    (case foldr (\<lambda>i h. \<lambda>c req. i c req Echo_Say_FullMethodName h) is echo_Say (delivered (credential_metadata cred)) (argument ''hello'' args) of
       Inl st \<Rightarrow> client_fails (status_err st)
     | Inr reply \<Rightarrow> \<lparr>pe_stdout = reply @ newline, pe_stderr = [], pe_exit = 0\<rparr>)"
  by (simp add: echo_example_run_def echo_client_def echo_served split: sum.split)

lemma guarded_echo:
  assumes "\<not> isExempt t Echo_Say_FullMethodName"
  shows "ai_UnaryInterceptor t c req Echo_Say_FullMethodName echo_Say =
    (case bearerFromContext c of
       Inl st \<Rightarrow> Inl st
     | Inr tok \<Rightarrow>
         (case ai_Authenticator t tok of Inl e \<Rightarrow> Inl (refusal_status e) | Inr i \<Rightarrow> echo_Say (grpc_WithAuth c i) req))"
proof -
  have "length Echo_Say_FullMethodName \<noteq> 0" "Echo_Say_FullMethodName ! 0 = CHR ''/''"
    by (simp_all add: Echo_Say_FullMethodName_def)
  with assms show ?thesis
    by (simp add: ai_UnaryInterceptor_def ai_authenticate_def refusal_status_def split: sum.split)
qed

lemma echo_not_exempt:
  assumes "\<forall>p \<in> set (trimmed_parts CHR '','' exempt). \<not> prefix p Echo_Say_FullMethodName"
  shows "\<not> isExempt (ai_PostConstruct exempt (AuthInterceptor authn n)) Echo_Say_FullMethodName"
proof -
  have "\<not> prefix ''/grpc.health.v1.Health/'' Echo_Say_FullMethodName" "\<not> prefix ''/grpc.reflection.'' Echo_Say_FullMethodName"
    by code_simp+
  with assms show ?thesis by (auto simp: exempt_iff ai_PostConstruct_def trimmed_parts_def defaultAuthExempt_def)
qed

text \<open>
  C16. A call of the echo example, from its client's command line to what is printed: the
  example as it is answers everybody as anonymous; behind the authentication interceptor, if
  the method is not configured as exempt, the client's token credentials make it print the
  reply with the subject of its own token exactly when the authenticator admits the token,
  and otherwise end with 1 and the error of the status the refusal maps to; a client without
  credentials is refused.
\<close>

theorem echo_example_call:
  assumes "\<forall>p \<in> set (trimmed_parts CHR '','' exempt). \<not> prefix p Echo_Say_FullMethodName"
    and "no_space (ta_token ta)" and "ta_token ta \<noteq> []"
    and "guard = ai_UnaryInterceptor (ai_PostConstruct exempt (AuthInterceptor authn n))"
    and "m = argument ''hello'' args"
    and "dispatch_law serve"
  shows "echo_example_run serve status_err [] cred args = printed_reply m ''anonymous'' \<and>
     echo_example_run serve status_err [guard] (Some ta) args =
       (case authn (ta_token ta) of
          Inr i \<Rightarrow> printed_reply m (if Subject i \<noteq> [] then Subject i else ''anonymous'')
        | Inl e \<Rightarrow> client_fails (status_err (refusal_status e))) \<and>
     echo_example_run serve status_err [guard] None args =
       client_fails (status_err (Unauthenticated, ''missing authorization header''))"
proof -
  let ?t = "ai_PostConstruct exempt (AuthInterceptor authn n)"
  note g = guarded_echo [OF echo_not_exempt [OF assms(1), of authn n]]
  have a: "ai_Authenticator ?t = authn" by (simp add: ai_PostConstruct_def AuthInterceptor_def)
  have b: "bearerFromContext (delivered (GetRequestMetadata ta)) = Inr (ta_token ta)"
    using bearer_delivered [OF assms(2,3), of "ta_secure ta"] by (cases ta) simp
  have "AuthFromContext (gx_values (delivered kvs)) = None" for kvs
    by (simp add: delivered_def AuthFromContext_def ctx_Value_def)
  then have e: "echo_Say (delivered kvs) msg = Inr (''echo: '' @ msg @ '' (from anonymous)'')" for kvs msg
    by (simp add: echo_Say_def)
  have w: "echo_Say (grpc_WithAuth c i) msg =
      Inr (''echo: '' @ msg @ '' (from '' @ (if Subject i \<noteq> [] then Subject i else ''anonymous'') @ '')'')" for c i msg
    by (simp add: echo_Say_def grpc_WithAuth_def)
  have n: "bearerFromContext (delivered []) = Inl (Unauthenticated, ''missing authorization header'')"
    by (simp add: bearerFromContext_def delivered_def)
  show ?thesis
    unfolding assms(4,5) echo_client_run [OF assms(6)] credential_metadata_def
    by (simp add: g a b e w n printed_reply_def split: sum.split)
qed

theorem echo_example_call_witness:
  "echo_example_run (table_server (\<lambda>m. (Unimplemented, m))) (\<lambda>st. ErrText (snd st))
     [ai_UnaryInterceptor (ai_PostConstruct [] (AuthInterceptor (\<lambda>tok. Inr (empty_AuthInfo\<lparr>Subject := ''bob''\<rparr>)) 10))]
     (Some \<lparr>ta_token = ''abc'', ta_secure = True\<rparr>) [''client'', ''hi''] = printed_reply ''hi'' ''bob''"
proof -
  have p: "\<forall>p \<in> set (trimmed_parts CHR '','' []). \<not> prefix p Echo_Say_FullMethodName" by simp
  have t: "no_space (ta_token \<lparr>ta_token = ''abc'', ta_secure = True\<rparr>)" "ta_token \<lparr>ta_token = ''abc'', ta_secure = True\<rparr> \<noteq> []"
    by code_simp+
  have a: "''hi'' = argument ''hello'' [''client'', ''hi'']" by (simp add: argument_def)
  show ?thesis
    using echo_example_call [OF p t refl a table_server_law, of "\<lambda>m. (Unimplemented, m)" "\<lambda>st. ErrText (snd st)" None
        "\<lambda>tok. Inr (empty_AuthInfo\<lparr>Subject := ''bob''\<rparr>)" 10]
    by simp
qed

end
