(* ===== verification/Middleware_Beans.thy ===== *)
theory Middleware_Beans
  imports Server_Factory Rate_Limiter Gzip_Middleware Cors_Middleware Metrics Request_Id Grpc_Auth
begin

text \<open>
  The middlewares of the framework as beans of the server's factory: what each answers as its
  order, its match and its wrapping. Beans of different orders have exactly one chain, whatever
  the order in which the container injected them.
\<close>

subsection \<open>The beans\<close>

definition rl_BeanOrder :: "implRateLimiterMiddleware \<Rightarrow> int" where
  "rl_BeanOrder t = rl_beanOrder t"

definition gz_BeanOrder :: "implGzipMiddleware \<Rightarrow> int" where
  "gz_BeanOrder t = gm_beanOrder t"

definition cm_BeanOrder :: "implCorsMiddleware \<Rightarrow> int" where
  "cm_BeanOrder t = cm_beanOrder t"

definition mm_BeanOrder :: "implMetricsMiddleware \<Rightarrow> int" where
  "mm_BeanOrder t = mm_beanOrder t"

definition al_BeanOrder :: "implAccessLogMiddleware \<Rightarrow> int" where
  "al_BeanOrder t = al_beanOrder t"

definition rim_BeanOrder :: "implRequestIDMiddleware \<Rightarrow> int" where
  "rim_BeanOrder t = rim_beanOrder t"

definition am_BeanOrder :: "implAuthMiddleware \<Rightarrow> int" where
  "am_BeanOrder t = am_beanOrder t"

definition ai_BeanOrder :: "implAuthInterceptor \<Rightarrow> int" where
  "ai_BeanOrder t = ai_beanOrder t"

definition rate_limiter_bean :: "codec \<Rightarrow> implRateLimiterMiddleware \<Rightarrow> HttpMiddleware" where
  "rate_limiter_bean G t = \<lparr>mb_BeanOrder = rl_BeanOrder t, mb_Match = rl_Match t, mb_Middleware = rl_Middleware G t\<rparr>"

definition gzip_bean :: "codec \<Rightarrow> implGzipMiddleware \<Rightarrow> HttpMiddleware" where
  "gzip_bean G t = \<lparr>mb_BeanOrder = gz_BeanOrder t, mb_Match = gz_Match t, mb_Middleware = gz_Middleware G t\<rparr>"

definition cors_bean :: "implCorsMiddleware \<Rightarrow> HttpMiddleware" where
  "cors_bean t = \<lparr>mb_BeanOrder = cm_BeanOrder t, mb_Match = cm_Match t, mb_Middleware = cors_Middleware t\<rparr>"

definition metrics_bean :: "(string \<Rightarrow> bool) \<Rightarrow> implMetricsMiddleware \<Rightarrow> HttpMiddleware" where
  "metrics_bean valid t = \<lparr>mb_BeanOrder = mm_BeanOrder t, mb_Match = mm_Match t, mb_Middleware = mm_Middleware valid t\<rparr>"

definition access_log_bean :: "implAccessLogMiddleware \<Rightarrow> HttpMiddleware" where
  "access_log_bean t = \<lparr>mb_BeanOrder = al_BeanOrder t, mb_Match = al_Match t, mb_Middleware = al_Middleware t\<rparr>"

definition request_id_bean :: "implRequestIDMiddleware \<Rightarrow> HttpMiddleware" where
  "request_id_bean t = \<lparr>mb_BeanOrder = rim_BeanOrder t, mb_Match = rim_Match t, mb_Middleware = rid_Middleware t\<rparr>"

definition auth_middleware_bean :: "codec \<Rightarrow> implAuthMiddleware \<Rightarrow> HttpMiddleware" where
  "auth_middleware_bean G t = \<lparr>mb_BeanOrder = am_BeanOrder t, mb_Match = am_Match t, mb_Middleware = auth_Middleware G t\<rparr>"

lemmas bean_defs = rate_limiter_bean_def gzip_bean_def cors_bean_def metrics_bean_def access_log_bean_def request_id_bean_def
  auth_middleware_bean_def rl_BeanOrder_def gz_BeanOrder_def cm_BeanOrder_def mm_BeanOrder_def al_BeanOrder_def rim_BeanOrder_def
  am_BeanOrder_def

text \<open>Where the beans apply with their default prefixes.\<close>

lemma default_matches:
  "mb_Match (auth_middleware_bean G (AuthMiddleware n authn)) p \<longleftrightarrow> prefix ''/api'' p"
  "mb_Match (rate_limiter_bean G (RateLimiterMiddleware n addr)) p \<longleftrightarrow> prefix ''/api'' p"
  "mb_Match (request_id_bean (RequestIDMiddleware n)) p \<longleftrightarrow> prefix ''/'' p"
  "mb_Match (access_log_bean (AccessLogMiddleware n)) p \<longleftrightarrow> prefix ''/'' p"
  "mb_Match (cors_bean (CorsMiddleware n)) p \<longleftrightarrow> prefix ''/'' p"
  "mb_Match (metrics_bean valid (MetricsMiddleware n)) p \<longleftrightarrow> prefix ''/'' p"
  by (simp_all add: bean_defs am_Match_def AuthMiddleware_def rl_Match_def RateLimiterMiddleware_def rim_Match_def
      RequestIDMiddleware_def al_Match_def AccessLogMiddleware_def cm_Match_def CorsMiddleware_def mm_Match_def
      MetricsMiddleware_def any_prefix_iff)

subsection \<open>One chain for different orders\<close>

lemma hf_sorted_unique:
  assumes "hf_sorted ms ms'" and "mset ms = mset (map Some ys)" and "sorted (map mb_BeanOrder ys)" and "distinct (map mb_BeanOrder ys)"
  shows "ms' = map Some ys"
proof -
  let ?f = "\<lambda>m. mb_BeanOrder (the m)"
  have f: "map ?f (map Some ys) = map mb_BeanOrder ys" by simp
  have "mset ms' = mset ms \<and> sorted (map ?f ms')"
  proof (cases "1 < length ms")
    case True
    with assms(1) show ?thesis by (simp only: hf_sorted_def if_True)
  next
    case False
    then have "sorted (map ?f ms)" by (cases ms rule: remdups_adj.cases) simp_all
    with assms(1) False show ?thesis by (simp only: hf_sorted_def if_False)
  qed
  with assms(2) have m: "mset ms' = mset (map Some ys)" and s: "sorted (map ?f ms')" by (simp_all only:)
  have "mset (map ?f ms') = mset (map mb_BeanOrder ys)" using m f by (metis mset_map)
  then have d: "distinct (map ?f ms')" using assms(4) mset_eq_imp_distinct_iff by blast
  have st: "set ms' = set (map Some ys)" using m by (metis set_mset_mset)
  then have "inj_on ?f (set ms' \<union> set (map Some ys))" using d by (simp only: distinct_map Un_absorb)
  then show ?thesis
    by (rule map_sorted_distinct_set_unique) (use s d st assms(3,4) f in \<open>simp_all only:\<close>)
qed

text \<open>A bean whose order is smaller than that of every other one is the first of the chain.\<close>

lemma hf_sorted_first:
  assumes "hf_sorted (xs @ Some m # ys) ms'" and "None \<notin> set (xs @ ys)"
    and "\<And>m'. Some m' \<in> set (xs @ ys) \<Longrightarrow> mb_BeanOrder m < mb_BeanOrder m'"
  shows "\<exists>zs. ms' = Some m # zs"
proof (cases "1 < length (xs @ Some m # ys)")
  case True
  with assms(1) have ms: "mset ms' = mset (xs @ Some m # ys)" and s: "sorted (map (\<lambda>m. mb_BeanOrder (the m)) ms')"
    by (simp_all only: hf_sorted_def if_True)
  from ms have st: "set ms' = insert (Some m) (set (xs @ ys))" by (metis set_mset_mset Un_insert_right list.simps(15) set_append)
  then obtain z zs where z: "ms' = z # zs" by (cases ms') auto
  have "z = Some m"
  proof (rule ccontr)
    assume n: "z \<noteq> Some m"
    with st z have "z \<in> set (xs @ ys)" by auto
    moreover with assms(2) obtain k where "z = Some k" by (cases z) auto
    ultimately have "mb_BeanOrder m < mb_BeanOrder (the z)" using assms(3) by simp
    moreover have "Some m \<in> set zs" using n st z by auto
    then have "mb_BeanOrder (the z) \<le> mb_BeanOrder m" using s z by force
    ultimately show False by simp
  qed
  with z show ?thesis by blast
next
  case False
  then have "ms' = [Some m]" using assms(1) by (cases xs; cases ys) (simp_all add: hf_sorted_def)
  then show ?thesis by blast
qed

subsection \<open>A request for a handler\<close>

lemma handler_served:
  assumes "hf_PostConstruct t0 t" and "hf_Object G range_keys t = Inr (srv, lg)" and "''handlers'' \<in> hf_options t0"
    and "mux_law G mux" and "\<forall>p \<in> fst ` set (mx_routes (sv_Handler srv)). literal_pattern p"
    and "r_Path r \<in> hb_Pattern ` set (hf_Handlers t0)" and "normal_path (r_Path r)"
  shows "\<exists>hb \<in> set (hf_Handlers t0). \<forall>s.
     mux (sv_Handler srv) r s = wrap_middlewares (hf_Middlewares t) (r_Path r) (hb_ServeHTTP hb) r s"
proof -
  from assms(1) have t: "''handlers'' \<in> hf_options t" "hf_Handlers t = hf_Handlers t0"
    using assms(3) by (auto simp: hf_PostConstruct_def hf_options_def hf_key_def)
  obtain hb where hb: "find (\<lambda>hb. hb_Pattern hb = r_Path r) (hf_Handlers t0) = Some hb"
    "map_of (mx_routes (sv_Handler srv)) (r_Path r) = Some (wrap_middlewares (hf_Middlewares t) (r_Path r) (hb_ServeHTTP hb))"
    using handler_route [OF assms(2) t(1), of "r_Path r"] assms(6) unfolding t(2) by blast
  from hb(1) have "hb \<in> set (hf_Handlers t0)" by (auto simp: find_Some_iff)
  moreover have "mux (sv_Handler srv) r s = wrap_middlewares (hf_Middlewares t) (r_Path r) (hb_ServeHTTP hb) r s" for s
    by (simp only: mux_normal [OF assms(4) bspec [OF assms(5)] assms(7)] dispatch_def hb(2) option.case)
  ultimately show ?thesis by blast
qed

end
