(* ===== verification/Spec2Isabelle.thy ===== *)
theory Spec2Isabelle
  imports Rate_Limiter Gzip_Middleware Cors_Middleware Metrics Token_Provider Example_Tunnels Example_Assets Echo_Pb
    Middleware_Beans
begin

text \<open>
  \<^bold>\<open>Servion: a model of the framework and its correctness.\<close>

  Servion is a Go framework that assembles servers out of beans: an application lists beans
  (handlers, middlewares, authenticators, services), a dependency-injection library (glue)
  puts them into containers, factories turn them into HTTP, gRPC and value-rpc servers, and
  the run command binds and serves these as one group until a signal or a failure stops them.
  The companion command \<^verbatim>\<open>jwttool\<close> makes keys and tokens for the authenticator of JSON web
  tokens. This development models the Go code of the framework, of its two transport modules
  and of the command, function by function, and proves what makes each part correct and what
  the parts promise together. All file names are below \<^verbatim>\<open>src/\<close>.

  \<^bold>\<open>Conventions.\<close> A struct is a record whose fields carry a prefix of the type, a
  constructor function fills in the defaults of the \<^verbatim>\<open>value:\<close> tags, a method is a
  definition on that record that returns the record updated. Strings are byte strings. Code
  that can panic returns an \<open>outcome\<close> (\<open>Ret\<close> or \<open>Panic\<close>, with the state at that
  point); an error result is \<open>go_error option\<close> or \<open>go_error + 'a\<close>. Durations and
  64-bit integers are \<open>int\<close> with the wrap-around or the saturation written out
  (\<open>wrap64\<close>, \<open>sat64\<close>). A mutex makes its critical section one step; where the code has
  no mutex, the interleaving is a step relation.

  \<^bold>\<open>The theories.\<close>

  \<^item> \<^emph>\<open>Prelude\<close>, \<^emph>\<open>Go_Strings\<close>, \<^emph>\<open>Go_Errors\<close>, \<^emph>\<open>Go_Paths\<close>, \<^emph>\<open>Sha256\<close>,
    \<^emph>\<open>Base64\<close>: the part of the language and its standard library that the sources use:
    outcomes, \<^verbatim>\<open>strings\<close>, \<^verbatim>\<open>strconv\<close> and \<^verbatim>\<open>path\<close> functions, wrapped and joined
    errors with \<^verbatim>\<open>errors.Is\<close>, \<^verbatim>\<open>path/filepath\<close> with paths of plain names proved to be
    in normal form and distinct, SHA-256 on 32-bit words, and base64 with its decoding proved to
    invert the encoding.
  \<^item> \<^emph>\<open>Http_Types\<close>, \<^emph>\<open>Response_Writer\<close>, \<^emph>\<open>Http_Handlers\<close>: headers, requests,
    contexts (\<^verbatim>\<open>api.go\<close>), the shared state \<open>world\<close> (clock, random bytes, buckets of
    the limiters, log, metrics), and response writers as a datatype of nested wrappers: the
    server's response, the counting writers of \<^verbatim>\<open>accesslog_middleware.go\<close> and
    \<^verbatim>\<open>metrics_handler.go\<close>, the adaptive writer of \<^verbatim>\<open>gzip_middleware.go\<close> and the asset
    writer of \<^verbatim>\<open>utils.go\<close>. A handler is a function on writer and world; the locale
    \<open>counting_writer\<close> is the contract of the two counting wrappers.
  \<^item> \<^emph>\<open>Rate_Limiter\<close> (\<^verbatim>\<open>ratelimit_middleware.go\<close>): histories of requests, cleaning
    passes and other readings of the clock; every client is decided by a fixed-window counter of
    its own (the inductive specification \<open>fixed_window\<close>, over the two clock reads that the code
    makes of a new client), the bound of a window, the middleware's answer, and the end of the
    cleaner goroutine.
  \<^item> \<^emph>\<open>Gzip_Middleware\<close> (\<^verbatim>\<open>gzip_middleware.go\<close>): decompressed requests and adaptively
    compressed responses, both as round trips through the codec.
  \<^item> \<^emph>\<open>Auth_Middleware\<close>, \<^emph>\<open>Token_Provider\<close>, \<^emph>\<open>Jwt_Provider\<close>
    (\<^verbatim>\<open>auth_middleware.go\<close>, \<^verbatim>\<open>auth_token_provider.go\<close>, \<^verbatim>\<open>jwt_auth_provider.go\<close>):
    the guard of the API and the two providers, each an interpretation of the locale
    \<open>authenticator\<close>.
  \<^item> \<^emph>\<open>Cors_Middleware\<close>, \<^emph>\<open>Request_Id\<close>, \<^emph>\<open>Access_Log\<close>, \<^emph>\<open>Metrics\<close>,
    \<^emph>\<open>Health_Handler\<close> (\<^verbatim>\<open>cors_middleware.go\<close>, \<^verbatim>\<open>requestid_middleware.go\<close>,
    \<^verbatim>\<open>accesslog_middleware.go\<close>, \<^verbatim>\<open>metrics_handler.go\<close> with the metric vectors and their
    registration, \<^verbatim>\<open>healthz_handler.go\<close>).
  \<^item> \<^emph>\<open>Runtime\<close> (\<^verbatim>\<open>runtime.go\<close>): the shutdown as a function and as the step relation
    \<open>rt_step\<close> of its atomic writes, with the invariant of all interleavings.
  \<^item> \<^emph>\<open>Server_Lifecycle\<close>, \<^emph>\<open>Http_Server\<close>, \<^emph>\<open>Grpc_Server\<close>, \<^emph>\<open>Vrpc\<close>
    (\<^verbatim>\<open>http_server.go\<close>, \<^verbatim>\<open>grpc/grpc_server.go\<close> and the factories of that module,
    \<^verbatim>\<open>vrpc/*.go\<close>): the contract of \<^verbatim>\<open>servion.Server\<close> for stopping, the locale
    \<open>server_lifecycle\<close>, interpreted on each of the three servers; binding, serving and
    the client factories. The listener of an HTTP server is a datatype, since the wrapper that
    TLS makes of a listener can be one of nil.
  \<^item> \<^emph>\<open>Grpc_Auth\<close> (\<^verbatim>\<open>grpc/auth_interceptor.go\<close>, \<^verbatim>\<open>grpc/token_auth.go\<close>): the
    interceptors and the credentials of the client, as a round trip.
  \<^item> \<^emph>\<open>Server_Factory\<close> (\<^verbatim>\<open>http_server_factory.go\<close>): routes, order of the
    middlewares, assets, the single-page fallback, and what the router makes of the routes.
  \<^item> \<^emph>\<open>Middleware_Beans\<close>: the seven middlewares as beans of the factory, with one chain
    for beans of different orders whatever the order of injection, and a request for a handler
    from the router through that chain.
  \<^item> \<^emph>\<open>Server_Run\<close>, \<^emph>\<open>Server_Group\<close>, \<^emph>\<open>Run_Command\<close> (\<^verbatim>\<open>utils.go\<close>,
    \<^verbatim>\<open>run_command.go\<close>): containers and partial binding; the group of servers with its
    serving loops, shutdowns, signals, the runtime and the return of \<^verbatim>\<open>Wait\<close>, which
    cancels too, as the step relation \<open>group_step\<close>, with its invariant and the bound of its runs; the command around them and what its result
    means.
  \<^item> \<^emph>\<open>Scanners\<close> (\<^verbatim>\<open>scanner.go\<close>, \<^verbatim>\<open>grpc/scan.go\<close>, \<^verbatim>\<open>vrpc/scan.go\<close>,
    \<^verbatim>\<open>zap_log_factory.go\<close>, \<^verbatim>\<open>servion.go\<close>): which beans make up a server.
  \<^item> \<^emph>\<open>Jwttool\<close> (\<^verbatim>\<open>cmd/jwttool/main.go\<close>): the whole process, from the choice of
    the command to what it prints and its exit code: keys, prompts, claims, durations, signing.
  \<^item> \<^emph>\<open>Example_Http\<close>, \<^emph>\<open>Example_Rpc\<close>, \<^emph>\<open>Example_Tunnels\<close> (\<^verbatim>\<open>examples/*\<close>,
    \<^verbatim>\<open>grpc/examples/echo\<close>, \<^verbatim>\<open>vrpc/examples/*\<close>): the demonstration programs as clients of
    the framework: their bean lists and handlers, services and clients, and the main functions
    of the transport demonstrations with their certificates and transports.
  \<^item> \<^emph>\<open>Bindata\<close>, \<^emph>\<open>Example_Assets\<close> (\<^verbatim>\<open>bindata.go\<close> of \<^verbatim>\<open>examples/embprops\<close>
    and \<^verbatim>\<open>examples/vue_server\<close>): the embedded files. The code of the two generated files is
    the same and is modelled once, over a record \<open>bindata\<close> of the two values that differ, the
    table of assets and the tree of directories; \<^emph>\<open>Example_Assets\<close> has the two instances. The
    locale \<open>http_file_system\<close> is what the file server asks of a file system, interpreted on
    them. The tree refines the flat table, opening serves nothing but the table, directories read in
    pages, restoring writes the assets and nothing else, and the application that serves them
    answers with them.
  \<^item> \<^emph>\<open>Echo_Pb\<close> (\<^verbatim>\<open>grpc/examples/echo/echopb/echo_grpc.pb.go\<close>): the stubs of the echo
    service, and a call of the example from the command line of its client to what is printed.
  \<^item> This theory: what spans components. The two transports decide alike; static tokens
    protect a route behind the whole chain; a token of the tool is admitted by the server,
    with a secret and with generated keys, and what the tool prints opens the route of the
    authentication example; a refused request can be traced; servers that bound listen and can
    be stopped. The requests go through a server that the factory built, behind the router.

  \<^bold>\<open>Parameters.\<close> Code outside the repository is an argument of the definitions that use it,
  and what is relied on is a named hypothesis: \<open>codec_ok\<close> (a gzip stream reads back; it
  holds of \<open>stored_codec\<close>), \<open>jwt_law\<close>, \<open>sign_law\<close> and \<open>key_law\<close> (what the
  JWT and x509 libraries document of parsing and signing), \<open>label_law\<close> (ASCII is a valid
  label value), \<open>cert_law\<close> and \<open>unknown_function_law\<close> (parsing a certificate that was
  made, calling a server without functions), \<open>files_law\<close> (writing a file sets its content
  and no other, in a directory without links), \<open>file_server_law\<close> (what \<^verbatim>\<open>http.FileServer\<close>
  answers to a plain GET), \<open>mux_law\<close> (how the router serves literal patterns: clean paths go
  to the first route with the pattern or to the handler for unknown paths, all other paths are
  redirected; it holds of \<open>literal_mux\<close>), \<open>dispatch_law\<close> (how gRPC calls a registered
  method behind its interceptors; it holds of \<open>table_server\<close>), the flag library, the results of \<^verbatim>\<open>net.Listen\<close>,
  of closing a server, of a serving loop, of the glue container, and the value-rpc library as
  a record of functions. Which side of a timer's \<^verbatim>\<open>select\<close> wins is an argument too. Go's
  unspecified orders (map iteration, ties of the unstable sort) are arbitrary: the statements
  hold for every choice. Every law has a concrete function of which it holds, used by the
  witnesses.

  \<^bold>\<open>Termination.\<close> All recursive definitions but two are total, by structure or by a measure.
  The exceptions are \<open>detection_loop\<close>, which polls a clock, with \<open>None\<close> for not returning,
  and is proved to return within 250 iterations; and \<open>RestoreAssets\<close>, whose recursion follows
  joined names and not the tree, with a bound of its depth as fuel: \<open>restore_assets\<close> shows
  that the depth of the tree is enough. The loops that end only by an event (the cleaner, a serving loop) take the list of
  events until then, and the theorems say that they return for every such list.

  \<^bold>\<open>What the code does not do.\<close> Some lemmas record behaviour that differs from a comment
  or an intention: the limiter counts in fixed windows, so twice the limit passes in the time of
  one (\<open>limiter_bound_reached\<close>), and its cleaner panics on an interval of zero (\<open>cleanerLoop_zero_interval_panics\<close>); an
  invalid gzip level sends plain bytes as gzip (\<open>gzip_bad_level\<close>); the recorded status is
  the last one set and not the one sent (\<open>recorded_status_can_differ\<close>); a server that
  returns without an error leaves the group running (\<open>group_survives_clean_return\<close>); a
  panic of a serving loop leaves an HTTP server alive (\<open>http_serve_end\<close>); shutting down a TLS
  server that was served before it was bound panics (\<open>http_serve_before_bind_panics\<close>); the destruction
  of an unresolved gRPC server panics (\<open>grpc_unresolved_shutdown_panics\<close>); the option
  \<^verbatim>\<open>--bind\<close> of the command changes nothing (\<open>bind_option_ignored\<close>); a path that is no
  valid label value panics in the metrics middleware (\<open>metrics_invalid_path_panics\<close>); the
  prompts of the tool are printed where the token goes (\<open>jwttool_prompts_precede_token\<close>); an
  embedded directory that is read in pages never reports its end (\<open>readdir_pages\<close>), and
  reading on with a huge count panics (\<open>readdir_huge_count_panics\<close>); and five of the value-rpc demonstrations register no service and fail (\<open>tunnel_demos_fail\<close>).

  Requests with the method OPTIONS are not authenticated and not limited, which is intended for
  preflights; the statements about refusals say so.

  \<^bold>\<open>Not modelled.\<close> A panic inside the \<^verbatim>\<open>Close\<close> of a child container, which is code of
  the container and of the beans of the application; the reflection class variables and bare interface declarations of
  \<^verbatim>\<open>api.go\<close>, \<^verbatim>\<open>grpc/api.go\<close> and \<^verbatim>\<open>vrpc/api.go\<close>, which have no behaviour; the
  descriptions of the tool's flags, which the flag library prints; what the Prometheus library
  does with its vectors and its endpoint; log fields that only print a whole Go value; the
  \<^verbatim>\<open>Singleton\<close> and \<^verbatim>\<open>ObjectType\<close> constants that are read by the container alone; the
  contents of the script, the style sheet and the icon that \<^verbatim>\<open>vue_server/bindata.go\<close>
  embeds, which are parameters; and the messages of \<^verbatim>\<open>echopb/echo.pb.go\<close>, which are tables
  for the protobuf runtime.
\<close>

section \<open>Authentication across the transports\<close>

text \<open>The status of HTTP that stands for a code of gRPC in a refusal.\<close>

definition same_refusal :: "int option \<Rightarrow> grpc_code \<Rightarrow> bool" where
  "same_refusal st code \<longleftrightarrow> (st, code) \<in> {(Some 401, Unauthenticated), (Some 503, Unavailable), (Some 500, Internal)}"

text \<open>Both transports find the token of a header by the same rule.\<close>

lemma bearer_agree:
  assumes "hdr_Get (r_Header r) ''Authorization'' = h" and "gx_md c = Some md" and "md ''authorization'' = Some [h]"
  shows "(\<exists>tok. presented r tok \<and> bearerFromContext c = Inr tok) \<or>
         (\<nexists>tok. presented r tok) \<and> (\<exists>msg. bearerFromContext c = Inl (Unauthenticated, msg))"
proof (cases "length (Fields h) = 2 \<and> EqualFold (Fields h ! 0) ''Bearer''")
  case True
  then have "presented r (Fields h ! 1)" using two_fields [of "Fields h"] assms(1) by (auto simp: presented_def)
  moreover have "bearerFromContext c = Inr (Fields h ! 1)"
    using True assms(2,3) by (simp add: bearerFromContext_def Let_def)
  ultimately show ?thesis by blast
next
  case False
  then have "\<nexists>tok. presented r tok" using assms(1) by (auto simp: presented_def)
  moreover have "bearerFromContext c = Inl (Unauthenticated, ''invalid authorization header'')"
    using False assms(2,3) by (auto simp: bearerFromContext_def Let_def)
  ultimately show ?thesis by blast
qed



section \<open>A protected route\<close>

lemma wrap_first:
  "mb_Match m p \<Longrightarrow> wrap_middlewares (Some m # ms) p h = mb_Middleware m (wrap_middlewares ms p h)"
  by (simp add: wrap_middlewares_def)


text \<open>A server with one handler below \<^verbatim>\<open>/api\<close>, and another middleware injected first.\<close>

definition token_factory :: "authenticator \<Rightarrow> implHttpServerFactory" where
  "token_factory authn = sample_factory\<lparr>
     hf_Handlers := [\<lparr>hb_Pattern = ''/api/x'', hb_ServeHTTP = (\<lambda>r. Ret ())\<rparr>],
     hf_Middlewares := [Some (access_log_bean (AccessLogMiddleware 2)), Some (auth_middleware_bean stored_codec (AuthMiddleware 1 authn))]\<rparr>"

lemma sample_options: "hf_options sample_factory = {''handlers'', ''assets''}"
proof -
  have "ParseOptions ''handlers; assets'' = {''handlers'', ''assets''}" by code_simp
  then show ?thesis by (simp add: hf_options_def sample_factory_def hf_key_def)
qed

lemma token_factory_built:
  assumes "t = (token_factory authn)\<lparr>hf_Middlewares := ms\<rparr>" and "hf_Object G (\<lambda>m. []) t = Inr (srv, lg)"
  shows "\<forall>p \<in> fst ` set (mx_routes (sv_Handler srv)). literal_pattern p"
proof
  fix p assume p: "p \<in> fst ` set (mx_routes (sv_Handler srv))"
  have "hf_options t = {''handlers'', ''assets''}"
    using sample_options by (simp add: assms(1) token_factory_def hf_options_def hf_key_def)
  then have "map_of (mx_routes (sv_Handler srv)) p =
      (if p = ''/api/x'' then Some (wrap_middlewares ms p (\<lambda>r. Ret ())) else None)"
    by (simp add: hf_Object_routes(1) [OF assms(2)] asset_phase_route handler_phase_route)
      (simp add: assms(1) token_factory_def)
  with p have "p = ''/api/x''" by (metis map_of_eq_None_iff)
  moreover have "literal_pattern ''/api/x''" by code_simp
  ultimately show "literal_pattern p" by simp
qed


section \<open>A token from the tool to the handler\<close>

text \<open>
  What the code relies on from the JWT library beyond \<open>jwt_law\<close>: a token that
  \<^verbatim>\<open>SignedString\<close> made with HS256 and a secret is parsed, with a key function that gives
  this secret for its method, back to its claims, if the claims satisfy the options of the
  parser and are valid at the time (\<open>valid_now\<close>).
\<close>

definition sign_law :: "signer \<Rightarrow> jwt_Parse \<Rightarrow> (MapClaims \<Rightarrow> bool) \<Rightarrow> bool" where
  "sign_law S parse valid_now \<longleftrightarrow> (\<forall>secret c tok kf opts. sg_HS256 S secret c = Inr tok \<longrightarrow>
     kf \<lparr>th_Method = SigningMethodHMAC, th_alg = ''HS256''\<rparr> = Inr (HMACKey secret) \<longrightarrow>
     (\<forall>x \<in> set opts. option_holds x c) \<longrightarrow> valid_now c \<longrightarrow>
     parse tok (Some kf) opts = Inr \<lparr>tk_Claims = Some c, tk_Valid = True\<rparr>)"

text \<open>The identity that the command line of the tool asks for.\<close>

definition flags_identity :: "token_flags \<Rightarrow> string \<Rightarrow> AuthInfo \<Rightarrow> bool" where
  "flags_identity f tok i \<longleftrightarrow> Subject i = fl_subject f \<and> Issuer i = fl_issuer f \<and> HashedToken i = hashToken tok \<and>
     Roles i = trimmed_parts CHR '','' (fl_roles f) \<and> Scopes i = trimmed_parts CHR '','' (fl_scopes f)"

lemma minted_identity:
  assumes "parse tok (jp_keyFunc prov) (parser_options prov) = Inr \<lparr>tk_Claims = Some (base_claims date n1 n2 f dur), tk_Valid = True\<rparr>"
    and "jp_ScopesClaim prov = ''scope''" and "jp_RolesClaim prov = ''roles''"
    and "\<forall>w \<in> set (splitTrim (fl_scopes f)). CHR '' '' \<notin> set w"
  shows "\<exists>i. jp_Authenticate parse prov tok = Inr i \<and> flags_identity f tok i"
  using assms(1-3) base_claims_sub [of date n1 n2 f dur] base_claims_lists [OF assms(4), of date n1 n2 dur]
  by (simp add: jp_Authenticate_def flags_identity_def)

lemma admitted_identity:
  assumes "jp_Authenticate parse prov tok = Inr i" and "presented r tok" and "r_Method r \<noteq> ''OPTIONS''"
  shows "auth_Middleware G (AuthMiddleware n (jp_Authenticate parse prov)) nxt r s = nxt (WithContext r (ContextWithAuth (r_Ctx r) i)) s"
  using assms(1) by (simp add: auth_presented [OF assms(3,2)] AuthMiddleware_def)

lemma token_claims_base:
  "token_claims std date n1 n2 f = Inr c \<Longrightarrow> fl_attrs f = [] \<Longrightarrow> \<exists>dur. c = base_claims date n1 n2 f dur"
  by (auto simp: token_claims_def split: if_splits sum.splits)

lemma sign_lawD:
  assumes "sign_law S parse valid_now" and "sg_HS256 S secret c = Inr tok"
    and "kf \<lparr>th_Method = SigningMethodHMAC, th_alg = ''HS256''\<rparr> = Inr (HMACKey secret)"
    and "\<forall>x \<in> set opts. option_holds x c" and "valid_now c"
  shows "parse tok (Some kf) opts = Inr \<lparr>tk_Claims = Some c, tk_Valid = True\<rparr>"
  using assms unfolding sign_law_def by blast

lemma hmac_minted:
  assumes "sign_law S parse valid_now"
    and "cmdGenerateToken S std date n1 n2 stdin f = Inr tok"
    and "\<not> fl_interactive f" and "fl_secret f \<noteq> []" and "fl_attrs f = []"
    and "\<forall>w \<in> set (splitTrim (fl_scopes f)). CHR '' '' \<notin> set w"
    and "\<And>c. token_claims std date n1 n2 f = Inr c \<Longrightarrow> valid_now c"
    and "jp_PostConstruct b64 pkix (JwtAuthProvider\<lparr>jp_Secret := fl_secret f\<rparr>) = Inr prov"
  shows "\<exists>i. jp_Authenticate parse prov tok = Inr i \<and> flags_identity f tok i"
proof -
  obtain c where c: "token_claims std date n1 n2 f = Inr c" "sg_HS256 S (fl_secret f) c = Inr tok"
    using assms(2-4) by (auto simp: cmdGenerateToken_def signHMAC_def Let_def token_claims_def
        split: sum.splits if_splits)
  from token_claims_base [OF c(1) assms(5)] obtain dur where d: "c = base_claims date n1 n2 f dur" by blast
  have prov: "prov = JwtAuthProvider\<lparr>jp_Secret := fl_secret f, jp_keyFunc := Some (hmac_keyFunc (fl_secret f))\<rparr>"
    using assms(4,8) by (simp add: jp_PostConstruct_def JwtAuthProvider_def)
  then have k: "jp_keyFunc prov = Some (hmac_keyFunc (fl_secret f))" "parser_options prov = [WithExpirationRequired]"
      "jp_ScopesClaim prov = ''scope''" "jp_RolesClaim prov = ''roles''"
    by (simp_all add: parser_options_def JwtAuthProvider_def)
  have "\<forall>x \<in> set [WithExpirationRequired]. option_holds x c" by (simp add: d)
  then have "parse tok (jp_keyFunc prov) (parser_options prov) = Inr \<lparr>tk_Claims = Some c, tk_Valid = True\<rparr>"
    using sign_lawD [OF assms(1) c(2), of "hmac_keyFunc (fl_secret f)"] assms(7) [OF c(1)]
    by (simp add: k hmac_keyFunc_def)
  from minted_identity [where parse = parse and prov = prov and tok = tok and date = date and f = f,
      OF this [unfolded d] k(3,4) assms(6)] show ?thesis .
qed

text \<open>
  A token that the tool signs is good at the server that has the same secret, and means
  there what its command line said: as long as it is not expired, a request that presents it
  reaches the handler with the subject, issuer, roles and scopes given to the tool.
\<close>

theorem minted_token_admitted:
  assumes "sign_law S parse valid_now"
    and "cmdGenerateToken S std date n1 n2 stdin f = Inr tok"
    and "\<not> fl_interactive f" and "fl_secret f \<noteq> []" and "fl_attrs f = []"
    and "\<forall>w \<in> set (splitTrim (fl_scopes f)). CHR '' '' \<notin> set w"
    and "\<And>c. token_claims std date n1 n2 f = Inr c \<Longrightarrow> valid_now c"
    and "jp_PostConstruct b64 pkix (JwtAuthProvider\<lparr>jp_Secret := fl_secret f\<rparr>) = Inr prov"
    and "presented r tok" and "r_Method r \<noteq> ''OPTIONS''"
  shows "\<exists>i. auth_Middleware G (AuthMiddleware n (jp_Authenticate parse prov)) nxt r s =
       nxt (WithContext r (ContextWithAuth (r_Ctx r) i)) s \<and>
     Subject i = fl_subject f \<and> Issuer i = fl_issuer f \<and> HashedToken i = hashToken tok \<and>
     Roles i = trimmed_parts CHR '','' (fl_roles f) \<and> Scopes i = trimmed_parts CHR '','' (fl_scopes f)"
proof -
  obtain i where i: "jp_Authenticate parse prov tok = Inr i" "flags_identity f tok i"
    using hmac_minted [OF assms(1-8)] by blast
  with admitted_identity [OF i(1) assms(9,10)] show ?thesis by (auto simp: flags_identity_def)
qed

text \<open>A library that can sign one set of claims.\<close>

definition signed_claims :: MapClaims where
  "signed_claims = base_claims (\<lambda>t. JNum (Itoa t)) 0 0 sample_flags 604800000000000"

definition one_signer :: "string \<Rightarrow> signer" where
  "one_signer key = \<lparr>sg_base64 = Inr, sg_pkcs8 = (\<lambda>d. Inr (EcdsaPriv d)), sg_ES256 = (\<lambda>k c. Inl (ErrText ''none'')),
     sg_HS256 = (\<lambda>k c. if k = key \<and> c = signed_claims then Inr ''t'' else Inl (ErrText ''none''))\<rparr>"

definition one_parser :: "string \<Rightarrow> jwt_Parse" where
  "one_parser key s kf opts =
     (case kf of
        None \<Rightarrow> Inl (ErrText ''no keyfunc'')
      | Some f \<Rightarrow>
          if s = ''t'' \<and> f \<lparr>th_Method = SigningMethodHMAC, th_alg = ''HS256''\<rparr> = Inr (HMACKey key) \<and>
             list_all (\<lambda>x. option_holds x signed_claims) opts
          then Inr \<lparr>tk_Claims = Some signed_claims, tk_Valid = True\<rparr> else Inl (ErrText ''invalid''))"

lemma one_law: "sign_law (one_signer key) (one_parser key) (\<lambda>c. True)"
  by (auto simp: sign_law_def one_signer_def one_parser_def list_all_iff split: if_splits)

theorem minted_token_admitted_witness:
  "cmdGenerateToken (one_signer ''k'') (\<lambda>s. Inl EADDRINUSE) (\<lambda>t. JNum (Itoa t)) 0 0 [] sample_flags = Inr ''t'' \<and>
   auth_Middleware stored_codec
       (AuthMiddleware 1 (jp_Authenticate (one_parser ''k'') (JwtAuthProvider\<lparr>jp_Secret := ''k'', jp_keyFunc := Some (hmac_keyFunc ''k'')\<rparr>)))
       (\<lambda>r s. Ret () (fst s, log_write LInfo (Subject (the (AuthFromContext (r_Ctx r)))) [] (snd s)))
       (bearer_request ''Bearer t'') (BaseW new_resp, initial_world) = Ret () (BaseW new_resp, log_write LInfo ''bob'' [] initial_world)"
proof -
  let ?date = "\<lambda>t. JNum (Itoa t)" and ?std = "\<lambda>s. Inl EADDRINUSE"
  have d: "parseDuration ?std ''7d'' = Inr 604800000000000" by code_simp
  have m: "cmdGenerateToken (one_signer ''k'') ?std ?date 0 0 [] sample_flags = Inr ''t''"
    using d by (simp add: cmdGenerateToken_def token_claims_def one_signer_def signed_claims_def)
      (simp add: sample_flags_def signHMAC_def)
  have f: "\<not> fl_interactive sample_flags" "fl_secret sample_flags \<noteq> []" "fl_attrs sample_flags = []"
    by (simp_all add: sample_flags_def)
  have s: "\<forall>w \<in> set (splitTrim (fl_scopes sample_flags)). CHR '' '' \<notin> set w" by code_simp
  have p: "jp_PostConstruct Inr (\<lambda>d. Inr (EcdsaPub d)) (JwtAuthProvider\<lparr>jp_Secret := fl_secret sample_flags\<rparr>) =
      Inr (JwtAuthProvider\<lparr>jp_Secret := ''k'', jp_keyFunc := Some (hmac_keyFunc ''k'')\<rparr>)"
    by (simp add: jp_PostConstruct_def JwtAuthProvider_def sample_flags_def)
  have "Fields ''Bearer t'' = [''Bearer'', ''t'']" "EqualFold ''Bearer'' ''Bearer''" by code_simp+
  then have r: "presented (bearer_request ''Bearer t'') ''t''" "r_Method (bearer_request ''Bearer t'') \<noteq> ''OPTIONS''"
    by (simp_all add: presented_def bearer_request_def hdr_Get_def)
  show ?thesis
    using m minted_token_admitted [OF one_law m f s TrueI p r, of stored_codec 1
        "\<lambda>r s. Ret () (fst s, log_write LInfo (Subject (the (AuthFromContext (r_Ctx r)))) [] (snd s))"
        "(BaseW new_resp, initial_world)"]
    by (auto simp: WithContext_def sample_flags_def)
qed

section \<open>From the tool's output to the example's answer\<close>

text \<open>
  C21. From one program to another: the tool runs with flags that have the secret of the
  authentication example, no interactive mode, no attributes (which could set a claim anew) and
  no scope with a blank in it, and exits with 0. What it printed is one line, and as long as the
  token of that line has not expired, a GET of \<^verbatim>\<open>/api/me\<close> that presents it to the example's
  server, built from its own beans and properties, is answered with 200 and the JSON text of
  the subject, issuer, roles and scopes of the flags.
\<close>

theorem tool_token_opens_example:
  assumes "sign_law (tl_signer L) parse valid_now"
    and "jwttool_main args = GenerateToken rest" and "tl_parse_token L rest = Inr f" and "pe_exit (jwttool L args stdin) = 0"
    and "fl_secret f = auth_secret" and "\<not> fl_interactive f" and "fl_attrs f = []"
    and "\<forall>w \<in> set (splitTrim (fl_scopes f)). CHR '' '' \<notin> set w"
    and "\<And>c. token_claims (tl_ParseDuration L) (tl_NumericDate L) (fst (tl_now L)) (snd (tl_now L)) f = Inr c \<Longrightarrow> valid_now c"
    and "jp_PostConstruct b64 pkix auth_provider = Inr prov"
    and "hf_PostConstruct (auth_factory G E rt dur (jp_Authenticate parse prov)) t" and "hf_Object G range_keys t = Inr (srv, lg)"
    and "mux_law G mux" and "r_Method r = ''GET''" and "r_Path r = ''/api/me''"
    and "presented r tok" and "pe_stdout (jwttool L args stdin) = tok @ newline"
  shows "\<exists>m. answered (mux (sv_Handler srv) r (BaseW new_resp, wd)) 200 (enc_me E m) \<and>
     me_subject m = fl_subject f \<and> me_issuer m = fl_issuer f \<and>
     me_roles m = trimmed_parts CHR '','' (fl_roles f) \<and> me_scopes m = trimmed_parts CHR '','' (fl_scopes f)"
proof -
  have tok: "cmdGenerateToken (tl_signer L) (tl_ParseDuration L) (tl_NumericDate L) (fst (tl_now L)) (snd (tl_now L)) stdin f = Inr tok"
    using jwttool_token_run [OF assms(2-4)] assms(6,17) by (auto simp: token_prompts_def)
  have "auth_provider = JwtAuthProvider\<lparr>jp_Secret := fl_secret f\<rparr>" "fl_secret f \<noteq> []"
    by (simp_all add: assms(5) auth_provider_def auth_main_def map_property_def) (simp add: auth_secret_def)
  then obtain i where i: "jp_Authenticate parse prov tok = Inr i" "flags_identity f tok i"
    using hmac_minted [OF assms(1) tok assms(6) _ assms(7-9)] assms(10) by metis
  have "r_Method r \<noteq> ''OPTIONS''" using assms(14) by simp
  from auth_me_answered [where mux = mux and r = r, OF assms(11-13) this assms(15,16) i(1)] i(2) show ?thesis
    by (auto simp: flags_identity_def me_of_def intro!: exI [of _ "me_of i"])
qed

text \<open>A run of the tool with the example's secret, and the request with what it prints.\<close>

definition sample_tool :: jwttool_env where
  "sample_tool = \<lparr>tl_parse_keys = (\<lambda>_. None), tl_parse_token = (\<lambda>_. Inr (sample_flags\<lparr>fl_secret := auth_secret\<rparr>)),
     tl_keygen = \<lparr>kg_GenerateKey = Inl EADDRINUSE, kg_PublicKey = id, kg_PKCS8 = Inr, kg_PKIX = Inr\<rparr>,
     tl_signer = one_signer auth_secret, tl_ParseDuration = (\<lambda>s. Inl EADDRINUSE), tl_NumericDate = (\<lambda>t. JNum (Itoa t)), tl_now = (0, 0)\<rparr>"

definition me_request :: request where
  "me_request = (bearer_request ''Bearer t'')\<lparr>r_Method := ''GET'', r_Path := ''/api/me''\<rparr>"

theorem tool_token_opens_example_witness:
  "pe_stdout (jwttool sample_tool [''jwttool'', ''generate-token''] []) = ''t'' @ newline \<and>
   (\<exists>srv lg. hf_Object stored_codec (\<lambda>c. []) (auth_factory stored_codec sample_encoders (NewRuntime ''.'') (\<lambda>k d. d)
       (jp_Authenticate (one_parser auth_secret)
         (JwtAuthProvider\<lparr>jp_Secret := auth_secret, jp_keyFunc := Some (hmac_keyFunc auth_secret)\<rparr>))) = Inr (srv, lg) \<and>
     answered (literal_mux stored_codec (sv_Handler srv) me_request (BaseW new_resp, initial_world)) 200 ''bob'')"
proof -
  let ?prov = "JwtAuthProvider\<lparr>jp_Secret := auth_secret, jp_keyFunc := Some (hmac_keyFunc auth_secret)\<rparr>"
  let ?t = "auth_factory stored_codec sample_encoders (NewRuntime ''.'') (\<lambda>k d. d) (jp_Authenticate (one_parser auth_secret) ?prov)"
  let ?f = "sample_flags\<lparr>fl_secret := auth_secret\<rparr>" and ?args = "[''jwttool'', ''generate-token'']"
  have d: "parseDuration (\<lambda>s. Inl EADDRINUSE) ''7d'' = Inr 604800000000000" by code_simp
  have c: "token_claims (\<lambda>s. Inl EADDRINUSE) (\<lambda>t. JNum (Itoa t)) 0 0 ?f = Inr signed_claims"
    using d by (simp add: token_claims_def signed_claims_def base_claims_def sample_flags_def auth_secret_def)
  have a: "jwttool_main ?args = GenerateToken []" "tl_parse_token sample_tool [] = Inr ?f"
    by (simp_all add: jwttool_main_def sample_tool_def)
  have m: "cmdGenerateToken (one_signer auth_secret) (\<lambda>s. Inl EADDRINUSE) (\<lambda>t. JNum (Itoa t)) 0 0 [] ?f = Inr ''t''"
    using c by (simp add: cmdGenerateToken_def Let_def) (simp add: sample_flags_def signHMAC_def one_signer_def)
  have run: "jwttool sample_tool ?args [] = \<lparr>pe_stdout = ''t'' @ newline, pe_stderr = [], pe_exit = 0\<rparr>"
    using m by (simp add: jwttool_def a) (simp add: sample_tool_def token_prompts_def sample_flags_def)
  have l: "sign_law (tl_signer sample_tool) (one_parser auth_secret) (\<lambda>c. True)" by (simp add: sample_tool_def one_law)
  have f: "fl_secret ?f = auth_secret" "\<not> fl_interactive ?f" "fl_attrs ?f = []" by (simp_all add: sample_flags_def)
  have s: "\<forall>w \<in> set (splitTrim (fl_scopes ?f)). CHR '' '' \<notin> set w" by code_simp
  have p: "hf_PostConstruct ?t ?t" by (auto simp: hf_PostConstruct_def hf_sorted_def auth_factory_fields)
  obtain srv lg where o: "hf_Object stored_codec (\<lambda>c. []) ?t = Inr (srv, lg)"
    by (simp add: hf_Object_def hf_key_def auth_factory_fields auth_properties Let_def case_prod_unfold)
  have "Fields ''Bearer t'' = [''Bearer'', ''t'']" "EqualFold ''Bearer'' ''Bearer''" by code_simp+
  then have r: "r_Method me_request = ''GET''" "r_Path me_request = ''/api/me''" "presented me_request ''t''"
    by (simp_all add: presented_def me_request_def bearer_request_def hdr_Get_def)
  from tool_token_opens_example [OF l a, of "[]", OF _ f s TrueI auth_provider_starts [of Inr "\<lambda>d. Inr (EcdsaPub d)"] p o
      literal_mux_law r, of initial_world]
  have "answered (literal_mux stored_codec (sv_Handler srv) me_request (BaseW new_resp, initial_world)) 200 ''bob''"
    using run by (auto simp: sample_encoders_def sample_flags_def)
  then show ?thesis using run o by auto
qed

section \<open>Generated keys\<close>

text \<open>
  What the code relies on from the cryptographic libraries for a key pair: the two DER
  encodings parse back, as an ECDSA key each, and a token signed with ES256 under the private
  key is parsed, with a key function that gives the public key for its method, back to its
  claims under the same conditions as above.
\<close>

definition key_law ::
  "keygen \<Rightarrow> signer \<Rightarrow> (string \<Rightarrow> go_error + public_key) \<Rightarrow> jwt_Parse \<Rightarrow> (MapClaims \<Rightarrow> bool) \<Rightarrow> bool" where
  "key_law K S pkix parse valid_now \<longleftrightarrow>
     (\<forall>priv der. kg_PKCS8 K priv = Inr der \<longrightarrow> sg_pkcs8 S der = Inr (EcdsaPriv priv)) \<and>
     (\<forall>pub der. kg_PKIX K pub = Inr der \<longrightarrow> pkix der = Inr (EcdsaPub pub)) \<and>
     (\<forall>priv c tok kf opts. sg_ES256 S priv c = Inr tok \<longrightarrow>
        kf \<lparr>th_Method = SigningMethodECDSA, th_alg = ''ES256''\<rparr> = Inr (ECDSAKey (kg_PublicKey K priv)) \<longrightarrow>
        (\<forall>x \<in> set opts. option_holds x c) \<longrightarrow> valid_now c \<longrightarrow>
        parse tok (Some kf) opts = Inr \<lparr>tk_Claims = Some c, tk_Valid = True\<rparr>)"

lemma key_lawD:
  assumes "key_law K S pkix parse valid_now"
  shows "kg_PKCS8 K priv = Inr der \<Longrightarrow> sg_pkcs8 S der = Inr (EcdsaPriv priv)"
    and "kg_PKIX K pub = Inr der \<Longrightarrow> pkix der = Inr (EcdsaPub pub)"
    and "sg_ES256 S priv c = Inr tok \<Longrightarrow>
        kf \<lparr>th_Method = SigningMethodECDSA, th_alg = ''ES256''\<rparr> = Inr (ECDSAKey (kg_PublicKey K priv)) \<Longrightarrow>
        \<forall>x \<in> set opts. option_holds x c \<Longrightarrow> valid_now c \<Longrightarrow>
        parse tok (Some kf) opts = Inr \<lparr>tk_Claims = Some c, tk_Valid = True\<rparr>"
  using assms unfolding key_law_def by blast+

lemma keys_printed:
  assumes "cmdGenerateKeys K = Inr out"
  shows "\<exists>priv privDER pubDER. kg_PKCS8 K priv = Inr privDER \<and> kg_PKIX K (kg_PublicKey K priv) = Inr pubDER \<and>
     out ! 3 = ''private-key='' @ EncodeToString privDER \<and> out ! 5 = ''public-key='' @ EncodeToString pubDER"
  using assms by (auto simp: cmdGenerateKeys_def split: sum.splits) blast

lemma ecdsa_minted:
  assumes "key_law K S pkix parse valid_now" and "sg_base64 S = DecodeString corrupt"
    and "kg_PKCS8 K priv = Inr privDER" and "fl_privateKey f = EncodeToString privDER" and "privDER \<noteq> []"
    and "cmdGenerateToken S std date n1 n2 stdin f = Inr tok" and "\<not> fl_interactive f"
  shows "\<exists>c. token_claims std date n1 n2 f = Inr c \<and> sg_ES256 S priv c = Inr tok"
proof -
  have "fl_privateKey f \<noteq> []" using assms(4,5) by (cases privDER rule: EncodeToString.cases) auto
  with assms show ?thesis
    by (auto simp: cmdGenerateToken_def signECDSA_def Let_def key_lawD(1) [OF assms(1,3)] split: sum.splits)
qed

text \<open>
  C35. The keys that the tool generates fit together: a token that the tool signs, not
  interactively, with the private key it printed, read from the line behind
  \<^verbatim>\<open>private-key=\<close>, for a command line without attributes and without a scope that has a
  blank in it, is admitted, as long as it has not expired, by a server that has the printed
  public key configured, base64 and all: a request of any method but OPTIONS that presents it
  reaches the handler with the subject, issuer, roles and scopes given to the tool. (An OPTIONS
  request is not authenticated, so it reaches the handler without an identity.)
\<close>

theorem generated_keys_admit:
  assumes "key_law K S pkix parse valid_now" and "sg_base64 S = DecodeString corrupt"
    and "cmdGenerateKeys K = Inr out"
    and "out ! 3 = ''private-key='' @ fl_privateKey f" and "out ! 5 = ''public-key='' @ pub64"
    and "fl_privateKey f \<noteq> []" and "pub64 \<noteq> []"
    and "cmdGenerateToken S std date n1 n2 stdin f = Inr tok" and "\<not> fl_interactive f" and "fl_attrs f = []"
    and "\<forall>w \<in> set (splitTrim (fl_scopes f)). CHR '' '' \<notin> set w"
    and "\<And>c. token_claims std date n1 n2 f = Inr c \<Longrightarrow> valid_now c"
    and "presented r tok" and "r_Method r \<noteq> ''OPTIONS''"
  shows "\<exists>prov i. jp_PostConstruct (DecodeString corrupt) pkix (JwtAuthProvider\<lparr>jp_PublicKeyB64 := pub64\<rparr>) = Inr prov \<and>
     auth_Middleware G (AuthMiddleware n (jp_Authenticate parse prov)) nxt r s =
       nxt (WithContext r (ContextWithAuth (r_Ctx r) i)) s \<and>
     Subject i = fl_subject f \<and> Issuer i = fl_issuer f \<and> HashedToken i = hashToken tok \<and>
     Roles i = trimmed_parts CHR '','' (fl_roles f) \<and> Scopes i = trimmed_parts CHR '','' (fl_scopes f)"
proof -
  from keys_printed [OF assms(3)] assms(4,5) obtain priv privDER pubDER
    where k: "kg_PKCS8 K priv = Inr privDER" "kg_PKIX K (kg_PublicKey K priv) = Inr pubDER"
      "fl_privateKey f = EncodeToString privDER" "pub64 = EncodeToString pubDER" by auto
  then have "privDER \<noteq> []" using assms(6) by auto
  from ecdsa_minted [OF assms(1,2) k(1,3) this assms(8,9)] obtain c
    where c: "token_claims std date n1 n2 f = Inr c" "sg_ES256 S priv c = Inr tok" by blast
  from token_claims_base [OF c(1) assms(10)] obtain dur where d: "c = base_claims date n1 n2 f dur" by blast
  let ?kf = "ecdsa_keyFunc (kg_PublicKey K priv)"
  let ?prov = "JwtAuthProvider\<lparr>jp_PublicKeyB64 := pub64, jp_keyFunc := Some ?kf\<rparr>"
  have p: "jp_PostConstruct (DecodeString corrupt) pkix (JwtAuthProvider\<lparr>jp_PublicKeyB64 := pub64\<rparr>) = Inr ?prov"
    using assms(7) by (simp add: jp_PostConstruct_def k(4) key_lawD(2) [OF assms(1) k(2)] JwtAuthProvider_def)
  have o: "jp_keyFunc ?prov = Some ?kf" "parser_options ?prov = [WithExpirationRequired]"
      "jp_ScopesClaim ?prov = ''scope''" "jp_RolesClaim ?prov = ''roles''"
    by (simp_all add: parser_options_def JwtAuthProvider_def)
  have "\<forall>x \<in> set [WithExpirationRequired]. option_holds x c" by (simp add: d)
  then have parsed: "parse tok (jp_keyFunc ?prov) (parser_options ?prov) = Inr \<lparr>tk_Claims = Some c, tk_Valid = True\<rparr>"
    unfolding o using assms(12) [OF c(1)] by (intro key_lawD(3) [OF assms(1) c(2)]) (simp_all add: ecdsa_keyFunc_def)
  obtain i where i: "jp_Authenticate parse ?prov tok = Inr i" "flags_identity f tok i"
    using minted_identity [where parse = parse and prov = ?prov and tok = tok and date = date and f = f,
        OF parsed [unfolded d] o(3,4) assms(11)] by blast
  with admitted_identity [OF i(1) assms(13,14)] p show ?thesis by (auto simp: flags_identity_def)
qed

text \<open>Libraries with one key, \<^verbatim>\<open>x\<close>, whose encodings are the key itself.\<close>

definition one_keygen :: keygen where
  "one_keygen = \<lparr>kg_GenerateKey = Inr ''x'', kg_PublicKey = id, kg_PKCS8 = Inr, kg_PKIX = Inr\<rparr>"

definition key_flags :: token_flags where
  "key_flags = sample_flags\<lparr>fl_secret := [], fl_privateKey := EncodeToString ''x''\<rparr>"

definition key_claims :: MapClaims where
  "key_claims = base_claims (\<lambda>t. JNum (Itoa t)) 0 0 key_flags 604800000000000"

definition key_signer :: signer where
  "key_signer = \<lparr>sg_base64 = DecodeString ErrText, sg_pkcs8 = (\<lambda>d. Inr (EcdsaPriv d)),
     sg_ES256 = (\<lambda>k c. if k = ''x'' \<and> c = key_claims then Inr ''t'' else Inl (ErrText ''none'')),
     sg_HS256 = (\<lambda>k c. Inl (ErrText ''none''))\<rparr>"

definition key_parser :: jwt_Parse where
  "key_parser s kf opts =
     (case kf of
        None \<Rightarrow> Inl (ErrText ''no keyfunc'')
      | Some f \<Rightarrow>
          if s = ''t'' \<and> f \<lparr>th_Method = SigningMethodECDSA, th_alg = ''ES256''\<rparr> = Inr (ECDSAKey ''x'') \<and>
             list_all (\<lambda>x. option_holds x key_claims) opts
          then Inr \<lparr>tk_Claims = Some key_claims, tk_Valid = True\<rparr> else Inl (ErrText ''invalid''))"

lemma one_key_law: "key_law one_keygen key_signer (\<lambda>d. Inr (EcdsaPub d)) key_parser (\<lambda>c. True)"
  unfolding key_law_def
  by (auto simp: one_keygen_def key_signer_def key_parser_def list_all_iff split: if_splits)

theorem generated_keys_admit_witness:
  "\<exists>prov. jp_PostConstruct (DecodeString ErrText) (\<lambda>d. Inr (EcdsaPub d)) (JwtAuthProvider\<lparr>jp_PublicKeyB64 := ''eA==''\<rparr>) = Inr prov \<and>
     auth_Middleware stored_codec (AuthMiddleware 1 (jp_Authenticate key_parser prov))
       (\<lambda>r s. Ret () (fst s, log_write LInfo (Subject (the (AuthFromContext (r_Ctx r)))) [] (snd s)))
       (bearer_request ''Bearer t'') (BaseW new_resp, initial_world) =
     Ret () (BaseW new_resp, log_write LInfo ''bob'' [] initial_world)"
proof -
  let ?date = "\<lambda>t. JNum (Itoa t)" and ?std = "\<lambda>s. Inl EADDRINUSE"
  have x: "EncodeToString ''x'' = ''eA==''" by code_simp
  have d: "parseDuration ?std ''7d'' = Inr 604800000000000" by code_simp
  have b: "sg_base64 key_signer = DecodeString ErrText" by (simp add: key_signer_def)
  obtain out where k: "cmdGenerateKeys one_keygen = Inr out" "out ! 3 = ''private-key='' @ fl_privateKey key_flags"
      "out ! 5 = ''public-key='' @ ''eA==''"
    using x by (simp add: cmdGenerateKeys_def one_keygen_def key_flags_def)
  have f: "fl_privateKey key_flags \<noteq> []" "''eA=='' \<noteq> []" "\<not> fl_interactive key_flags" "fl_attrs key_flags = []"
    by (simp_all add: key_flags_def sample_flags_def x)
  have "token_claims ?std ?date 0 0 key_flags = Inr key_claims"
    using d f(1) by (simp add: token_claims_def key_claims_def f(4)) (simp add: key_flags_def sample_flags_def)
  moreover have "signECDSA key_signer (fl_privateKey key_flags) key_claims = Inr ''t''"
    by (simp add: signECDSA_def key_signer_def) (simp add: key_flags_def DecodeString_def quanta_encode encode_no_breaks)
  ultimately have m: "cmdGenerateToken key_signer ?std ?date 0 0 [] key_flags = Inr ''t''"
    using f by (simp add: cmdGenerateToken_def)
  have s: "\<forall>w \<in> set (splitTrim (fl_scopes key_flags)). CHR '' '' \<notin> set w" by code_simp
  have "Fields ''Bearer t'' = [''Bearer'', ''t'']" "EqualFold ''Bearer'' ''Bearer''" by code_simp+
  then have r: "presented (bearer_request ''Bearer t'') ''t''" "r_Method (bearer_request ''Bearer t'') \<noteq> ''OPTIONS''"
    by (simp_all add: presented_def bearer_request_def hdr_Get_def)
  show ?thesis
    using generated_keys_admit [OF one_key_law b k f(1,2) m f(3,4) s TrueI r, of stored_codec 1
        "\<lambda>r s. Ret () (fst s, log_write LInfo (Subject (the (AuthFromContext (r_Ctx r)))) [] (snd s))"
        "(BaseW new_resp, initial_world)"]
    by (auto simp: WithContext_def key_flags_def sample_flags_def)
qed

section \<open>A refusal is traced\<close>

definition refusal_ops :: "string \<Rightarrow> wop list" where
  "refusal_ops msg = OpSet ''WWW-Authenticate'' ''Bearer'' # http_Error_ops msg 401"

lemma refuse_bearer_ops: "refuse_bearer G msg s = on_writer (run_ops G (refusal_ops msg)) s"
  by (simp add: refuse_bearer_def refusal_ops_def http_Error_def on_writer_def set_header_def)

lemma refusal_on_base:
  assumes "\<not> rs_wrote q"
  shows "\<exists>q1. run_ops G (refusal_ops msg) (BaseW q) = Ret () (BaseW q1) \<and> rs_wrote q1 \<and> rs_status q1 = 401 \<and>
     hdr_Get (rs_sent_header q1) ''X-Request-ID'' = hdr_Get (rs_header q) ''X-Request-ID''"
proof -
  let ?q = "q\<lparr>rs_header := hdr_Set (rs_header q) ''WWW-Authenticate'' ''Bearer''\<rparr>"
  obtain q1 where q1: "http_Error G msg 401 (BaseW ?q, undefined) = Ret () (BaseW q1, undefined)" "rs_wrote q1"
      "rs_status q1 = 401" "rs_sent_header q1 = hdr_Set (hdr_Set (hdr_Del (rs_header ?q) ''Content-Length'')
       ''Content-Type'' ''text/plain; charset=utf-8'') ''X-Content-Type-Options'' ''nosniff''"
    using http_Error_fresh [of ?q 401 G msg undefined] assms by (auto simp: bodyAllowed_def)
  then have "run_ops G (refusal_ops msg) (BaseW q) = Ret () (BaseW q1)"
    by (cases "run_ops G (http_Error_ops msg 401) (BaseW ?q)")
      (auto simp: refusal_ops_def http_Error_def on_writer_def)
  moreover have "hdr_Get (rs_sent_header q1) ''X-Request-ID'' = hdr_Get (rs_header q) ''X-Request-ID''"
    by (simp add: q1(4) hdr_simps)
  ultimately show ?thesis using q1(2,3) by blast
qed

text \<open>
  A refused request can be traced: behind the request-id and the access-log middlewares,
  a request without a bearer token gets 401 with an id in the response, never empty, and the
  log has exactly one new line for it, which says 401 and carries the same id.
\<close>

theorem refused_request_is_traced:
  assumes "length (w_rand wd (w_rands wd)) = 16" and "r_Method r \<noteq> ''OPTIONS''"
    and "\<nexists>tok. presented r tok" and "\<not> rs_wrote q"
  shows "\<exists>rid q1 wd' fs. rid_Middleware tr (al_Middleware ta (auth_Middleware G t nxt)) r (BaseW q, wd) = Ret () (BaseW q1, wd') \<and>
     rid \<noteq> [] \<and> rs_wrote q1 \<and> rs_status q1 = 401 \<and> hdr_Get (rs_sent_header q1) ''X-Request-ID'' = rid \<and>
     w_log wd' = w_log wd @ [(LInfo, ''access'', fs)] \<and> FInt ''status'' 401 \<in> set fs \<and> FStr ''requestId'' rid \<in> set fs"
proof -
  let ?id0 = "hdr_Get (r_Header r) ''X-Request-ID''"
  define rid where "rid = (if ?id0 = [] then hex_EncodeToString (w_rand wd (w_rands wd)) else ?id0)"
  define wd1 where "wd1 = (if ?id0 = [] then wd\<lparr>w_rands := Suc (w_rands wd)\<rparr> else wd)"
  define r1 where "r1 = WithContext r (WithValue (r_Ctx r) requestIDContextKey (CtxString rid))"
  define q0 where "q0 = q\<lparr>rs_header := hdr_Set (rs_header q) ''X-Request-ID'' rid\<rparr>"
  have "length (hex_EncodeToString (w_rand wd (w_rands wd))) = 32" using assms(1) by simp
  then have rid: "rid \<noteq> []" by (metis rid_def list.size(3) zero_neq_numeral)
  have run: "rid_Middleware tr nx r (BaseW q, wd) = nx r1 (BaseW q0, wd1)" for nx
    by (simp add: rid_Middleware_def generateRequestID_def rand_Read_def Let_def rid_def wd1_def r1_def q0_def set_header_def)
  have r1: "r_Method r1 \<noteq> ''OPTIONS''" "\<nexists>tok. presented r1 tok" "RequestIDFromContext (r_Ctx r1) = Some rid"
    using assms(2,3) by (auto simp: r1_def WithContext_def presented_def)
  let ?s = "(StatusW new_statusWriter (BaseW q0), snd (time_Now wd1))"
  obtain msg where msg: "auth_Middleware G t nxt r1 ?s = on_writer (run_ops G (refusal_ops msg)) ?s"
    using auth_not_presented [OF r1(1,2), of G t ?s] by (auto simp: refuse_bearer_ops)
  obtain q1 where q1: "run_ops G (refusal_ops msg) (BaseW q0) = Ret () (BaseW q1)" "rs_wrote q1" "rs_status q1 = 401"
      "hdr_Get (rs_sent_header q1) ''X-Request-ID'' = hdr_Get (rs_header q0) ''X-Request-ID''"
    using refusal_on_base [of q0 G msg] assms(4) by (auto simp: q0_def)
  have "last_code (refusal_ops msg) 200 = 401" by (simp add: refusal_ops_def http_Error_ops_def)
  then have st: "sw_status (observed G (refusal_ops msg) (BaseW q0)) = 401" by (simp add: observed_def)
  have "auth_Middleware G t nxt r1 ?s =
      Ret () (StatusW (observed G (refusal_ops msg) (BaseW q0)) (BaseW q1), snd (time_Now wd1))"
    by (simp add: msg on_writer_def run_status_writer(1) [OF q1(1)])
  then obtain d wd' where "al_Middleware ta (auth_Middleware G t nxt) r1 (BaseW q0, wd1) = Ret () (BaseW q1, wd')"
      "w_log wd' = w_log wd @ [(LInfo, ''access'', access_fields r1 (observed G (refusal_ops msg) (BaseW q0)) d)]"
    by (auto simp: al_Middleware_def time_Now_def log_write_def wd1_def)
  with q1 rid r1(3) st show ?thesis
    by (auto simp: run access_fields_def q0_def hdr_simps)
qed

theorem refused_request_is_traced_witness:
  "\<exists>q1 wd' fs. rid_Middleware (RequestIDMiddleware 1) (al_Middleware (AccessLogMiddleware 2)
       (auth_Middleware stored_codec (AuthMiddleware 3 (\<lambda>_. Inl ErrUnauthorized)) (\<lambda>r. Ret ())))
       (id_request ''q7'') (BaseW new_resp, initial_world) = Ret () (BaseW q1, wd') \<and>
     rs_status q1 = 401 \<and> w_log wd' = [(LInfo, ''access'', fs)]"
proof -
  have "\<nexists>tok. presented (id_request ''q7'') tok" by (simp add: presented_def id_request_def hdr_Get_def)
  with refused_request_is_traced [of initial_world "id_request ''q7''" new_resp "RequestIDMiddleware 1" "AccessLogMiddleware 2"
      stored_codec "AuthMiddleware 3 (\<lambda>_. Inl ErrUnauthorized)" "\<lambda>r. Ret ()"]
  show ?thesis by (auto simp: initial_world_def id_request_def new_resp_def)
qed


text \<open>A server whose beans were injected in the opposite order.\<close>

definition traced_factory :: implHttpServerFactory where
  "traced_factory = (token_factory (\<lambda>_. Inl ErrUnauthorized))\<lparr>
     hf_Middlewares := map Some [auth_middleware_bean stored_codec (AuthMiddleware 3 (\<lambda>_. Inl ErrUnauthorized)),
       access_log_bean (AccessLogMiddleware 2), request_id_bean (RequestIDMiddleware 1)]\<rparr>"


section \<open>Binding and stopping HTTP servers\<close>

text \<open>
  The servers that the run command goes on to serve are listening, and it can stop them:
  every HTTP server that binding returns has a listener, from its provider or from the
  network, is one of the given servers otherwise unchanged, and the first shutdown of it
  closes the listener.
\<close>

theorem bound_http_servers_listen:
  assumes "bindServers (hs_Bind net_Listen) ss = (Inr bound, b)" and "t \<in> set bound"
    and "\<And>s. s \<in> set ss \<Longrightarrow> hs_wf s \<and> \<not> hs_once s"
  shows "\<exists>l s e t1. hs_listener t = Some (PlainListener l) \<and> s \<in> set ss \<and> t = s\<lparr>hs_listener := Some (PlainListener l)\<rparr> \<and>
     hs_Shutdown close_err t = Ret e t1 \<and>
     hs_listener t1 = Some (PlainListener (close_listener l)) \<and> hs_shutdownCh t1"
proof -
  from bindServers_bound [OF assms(1)] assms(2)
  obtain s where s: "s \<in> set ss" "fst (hs_Bind net_Listen s) = None" "t = snd (hs_Bind net_Listen s)" by auto
  then have "hs_Bind net_Listen s = (None, t)" by (simp add: prod_eq_iff)
  then obtain l where l: "t = s\<lparr>hs_listener := Some (PlainListener l)\<rparr>"
    by (auto simp: hs_Bind_def listen_tcp_def split: option.splits sum.splits)
  with assms(3) [OF s(1)] have "\<exists>e t1. hs_Shutdown close_err t = Ret e t1 \<and>
      hs_listener t1 = Some (PlainListener (close_listener l)) \<and> hs_shutdownCh t1"
    by (simp add: hs_Shutdown_def hs_wf_def hs_inv_def hs_ListenAddress_def hs_logs_def close_chan_def Let_def)
  with l s(1) show ?thesis by auto
qed

theorem bound_http_servers_listen_witness:
  "\<exists>l e t1. hs_Shutdown (\<lambda>_. None)
       ((NewHttpServer None \<lparr>sv_Addr = '':1'', sv_TLSConfig = None\<rparr>)\<lparr>hs_listener := Some (PlainListener l)\<rparr>) = Ret e t1 \<and>
     hs_listener t1 = Some (PlainListener (close_listener l))"
proof -
  let ?s = "NewHttpServer None \<lparr>sv_Addr = '':1'', sv_TLSConfig = None\<rparr>"
  let ?net = "\<lambda>a. Inr \<lparr>l_Network = ''tcp'', l_String = a, l_tls = False, l_open = True\<rparr>"
  let ?t = "(?s)\<lparr>hs_listener := Some (PlainListener \<lparr>l_Network = ''tcp'', l_String = '':1'', l_tls = False, l_open = True\<rparr>)\<rparr>"
  have b: "\<exists>b. bindServers (hs_Bind ?net) [?s] = (Inr [?t], b)"
    by (simp add: bindServers_def hs_Bind_def listen_tcp_def NewHttpServer_def Let_def)
  have w: "hs_wf s \<and> \<not> hs_once s" if "s \<in> set [?s]" for s
    using that by (simp add: hs_wf_def hs_inv_def hs_ListenAddress_def NewHttpServer_def)
  from b obtain b where "bindServers (hs_Bind ?net) [?s] = (Inr [?t], b)" by blast
  from bound_http_servers_listen [OF this, of ?t "\<lambda>_. None"] w show ?thesis by auto
qed

end
